(* ===== verification/Prelude.thy ===== *)
theory Prelude
  imports Main "HOL-Library.Code_Target_Nat"
begin

text \<open>
  The vocabulary every component shares: computations that may raise and that thread a state
  (\<open>bindM\<close> and its companions), the contracts proved of them (\<open>hoare\<close>, \<open>keeps\<close>), tables of rows
  addressed by an integer primary key, and the contract of a first-fit allocator, which the five
  allocators of the orchestrator (names, worker identities, VM addresses, UDP ports, LAN and peer
  addresses) have in common.
\<close>

named_theorems keeps_intros \<open>rules that an invariant survives a computation\<close>
named_theorems run_simps \<open>equations that run a computation on a state\<close>

section \<open>Computations with exceptions and state\<close>

type_synonym ('s, 'e, 'a) comp = "'s \<Rightarrow> ('e + 'a) \<times> 's"

definition ret :: "'a \<Rightarrow> ('s, 'e, 'a) comp" where
  "ret x s = (Inr x, s)"

definition raise :: "'e \<Rightarrow> ('s, 'e, 'a) comp" where
  "raise e s = (Inl e, s)"

definition bindM :: "('s, 'e, 'a) comp \<Rightarrow> ('a \<Rightarrow> ('s, 'e, 'b) comp) \<Rightarrow> ('s, 'e, 'b) comp" where
  "bindM m f s = (case m s of (Inl e, s') \<Rightarrow> (Inl e, s') | (Inr x, s') \<Rightarrow> f x s')"

definition thenM :: "('s, 'e, 'a) comp \<Rightarrow> ('s, 'e, 'b) comp \<Rightarrow> ('s, 'e, 'b) comp" where
  "thenM m k s = (case m s of (Inl e, s') \<Rightarrow> (Inl e, s') | (Inr _, s') \<Rightarrow> k s')"

text \<open>A \<open>try ... except\<close> block: the handler sees the exception and the state it left behind.\<close>

definition catchM :: "('s, 'e, 'a) comp \<Rightarrow> ('e \<Rightarrow> ('s, 'e, 'a) comp) \<Rightarrow> ('s, 'e, 'a) comp" where
  "catchM m h s = (case m s of (Inl e, s') \<Rightarrow> h e s' | (Inr x, s') \<Rightarrow> (Inr x, s'))"

definition whenM :: "bool \<Rightarrow> ('s, 'e, unit) comp \<Rightarrow> ('s, 'e, unit) comp" where
  "whenM b m = (if b then m else ret ())"

definition getM :: "('s \<Rightarrow> 'a) \<Rightarrow> ('s, 'e, 'a) comp" where
  "getM f s = (Inr (f s), s)"

definition modM :: "('s \<Rightarrow> 's) \<Rightarrow> ('s, 'e, unit) comp" where
  "modM f s = (Inr (), f s)"

definition liftE :: "'e + 'a \<Rightarrow> ('s, 'e, 'a) comp" where
  "liftE r s = (r, s)"

text \<open>A \<open>for\<close> loop over a list: it stops at the first iteration that raises.\<close>

fun forM :: "'a list \<Rightarrow> ('a \<Rightarrow> ('s, 'e, unit) comp) \<Rightarrow> ('s, 'e, unit) comp" where
  "forM [] f = ret ()"
| "forM (x # xs) f = thenM (f x) (forM xs f)"

fun mapM :: "('a \<Rightarrow> ('s, 'e, 'b) comp) \<Rightarrow> 'a list \<Rightarrow> ('s, 'e, 'b list) comp" where
  "mapM f [] = ret []"
| "mapM f (x # xs) = bindM (f x) (\<lambda>y. bindM (mapM f xs) (\<lambda>ys. ret (y # ys)))"

text \<open>A \<open>for\<close> loop that carries an accumulator.\<close>

fun foldM :: "('b \<Rightarrow> 'a \<Rightarrow> ('s, 'e, 'b) comp) \<Rightarrow> 'b \<Rightarrow> 'a list \<Rightarrow> ('s, 'e, 'b) comp" where
  "foldM f b [] = ret b"
| "foldM f b (x # xs) = bindM (f b x) (\<lambda>b'. foldM f b' xs)"

lemma ret_run [simp, run_simps]: "ret x s = (Inr x, s)"
  by (simp add: ret_def)

lemma raise_run [simp, run_simps]: "raise e s = (Inl e, s)"
  by (simp add: raise_def)

lemma getM_run [simp, run_simps]: "getM f s = (Inr (f s), s)"
  by (simp add: getM_def)

lemma modM_run [simp, run_simps]: "modM f s = (Inr (), f s)"
  by (simp add: modM_def)

lemma liftE_run [simp, run_simps]: "liftE r s = (r, s)"
  by (simp add: liftE_def)

lemma whenM_run [simp, run_simps]: "whenM b m s = (if b then m s else (Inr (), s))"
  by (simp add: whenM_def)

lemmas comp_defs = bindM_def thenM_def catchM_def

lemma bindM_Inr: "m s = (Inr x, s') \<Longrightarrow> bindM m f s = f x s'"
  by (simp add: bindM_def)

lemma bindM_Inl: "m s = (Inl e, s') \<Longrightarrow> bindM m f s = (Inl e, s')"
  by (simp add: bindM_def)

lemma bindM_returns:
  "bindM m f s = (Inr y, t) \<longleftrightarrow> (\<exists>x s'. m s = (Inr x, s') \<and> f x s' = (Inr y, t))"
  by (auto simp: bindM_def split: prod.splits sum.splits)

lemma thenM_returns:
  "thenM m k s = (Inr y, t) \<longleftrightarrow> (\<exists>x s'. m s = (Inr x, s') \<and> k s' = (Inr y, t))"
  by (auto simp: thenM_def split: prod.splits sum.splits)

lemma bindM_raises:
  "bindM m f s = (Inl e, t) \<longleftrightarrow>
     m s = (Inl e, t) \<or> (\<exists>x s'. m s = (Inr x, s') \<and> f x s' = (Inl e, t))"
  by (auto simp: bindM_def split: prod.splits sum.splits)

section \<open>Contracts\<close>

text \<open>
  \<open>hoare P m Q R\<close>: from a state satisfying \<open>P\<close> the computation ends normally in \<open>Q\<close> or raises
  in \<open>R\<close>. \<open>keeps I m\<close>: the invariant \<open>I\<close> survives \<open>m\<close>, whether it returns or raises.
\<close>

definition hoare ::
  "('s \<Rightarrow> bool) \<Rightarrow> ('s, 'e, 'a) comp \<Rightarrow> ('a \<Rightarrow> 's \<Rightarrow> bool) \<Rightarrow> ('e \<Rightarrow> 's \<Rightarrow> bool) \<Rightarrow> bool" where
  "hoare P m Q R \<longleftrightarrow>
     (\<forall>s. P s \<longrightarrow> (case m s of (Inr x, s') \<Rightarrow> Q x s' | (Inl e, s') \<Rightarrow> R e s'))"

definition keeps :: "('s \<Rightarrow> bool) \<Rightarrow> ('s, 'e, 'a) comp \<Rightarrow> bool" where
  "keeps I m \<longleftrightarrow> (\<forall>s. I s \<longrightarrow> I (snd (m s)))"

lemma keepsI: "(\<And>s. I s \<Longrightarrow> I (snd (m s))) \<Longrightarrow> keeps I m"
  by (simp add: keeps_def)

lemma keepsD: "keeps I m \<Longrightarrow> I s \<Longrightarrow> m s = (r, s') \<Longrightarrow> I s'"
  by (metis keeps_def snd_conv)

lemma hoare_conseq:
  assumes "hoare P m Q R" and "\<And>s. P' s \<Longrightarrow> P s" and "\<And>x s. Q x s \<Longrightarrow> Q' x s"
    and "\<And>e s. R e s \<Longrightarrow> R' e s"
  shows "hoare P' m Q' R'"
  using assms by (fastforce simp: hoare_def split: prod.splits sum.splits)

lemma hoare_bind:
  assumes "hoare P m M R" and "\<And>x. hoare (M x) (f x) Q R"
  shows "hoare P (bindM m f) Q R"
  using assms by (fastforce simp: hoare_def bindM_def split: prod.splits sum.splits)

lemma hoare_then:
  assumes "hoare P m (\<lambda>_. M) R" and "hoare M k Q R"
  shows "hoare P (thenM m k) Q R"
  using assms by (fastforce simp: hoare_def thenM_def split: prod.splits sum.splits)

lemma hoare_returns: "hoare P m Q R \<Longrightarrow> P s \<Longrightarrow> m s = (Inr x, s') \<Longrightarrow> Q x s'"
  by (fastforce simp: hoare_def)

lemma hoare_raises: "hoare P m Q R \<Longrightarrow> P s \<Longrightarrow> m s = (Inl e, s') \<Longrightarrow> R e s'"
  by (fastforce simp: hoare_def)

lemma keeps_Pair [keeps_intros, simp]: "keeps I (Pair r)"
  by (simp add: keeps_def)

lemma keeps_ret [keeps_intros]: "keeps I (ret x)"
  by (simp add: keeps_def)

lemma keeps_raise [keeps_intros]: "keeps I (raise e)"
  by (simp add: keeps_def)

lemma keeps_getM [keeps_intros]: "keeps I (getM f)"
  by (simp add: keeps_def)

lemma keeps_liftE [keeps_intros]: "keeps I (liftE r)"
  by (simp add: keeps_def)

lemma keeps_bindM [keeps_intros]:
  assumes "keeps I m" and "\<And>x. keeps I (f x)"
  shows "keeps I (bindM m f)"
  using assms by (fastforce simp: keeps_def bindM_def split: prod.splits sum.splits)

lemma keeps_thenM [keeps_intros]:
  assumes "keeps I m" and "keeps I k"
  shows "keeps I (thenM m k)"
  using assms by (fastforce simp: keeps_def thenM_def split: prod.splits sum.splits)

lemma keeps_catchM [keeps_intros]:
  assumes "keeps I m" and "\<And>e. keeps I (h e)"
  shows "keeps I (catchM m h)"
  using assms by (fastforce simp: keeps_def catchM_def split: prod.splits sum.splits)

lemma keeps_whenM [keeps_intros]: "keeps I m \<Longrightarrow> keeps I (whenM b m)"
  by (simp add: keeps_def)

lemma keeps_if [keeps_intros]:
  "(b \<Longrightarrow> keeps I m) \<Longrightarrow> (\<not> b \<Longrightarrow> keeps I k) \<Longrightarrow> keeps I (if b then m else k)"
  by simp

lemma keeps_option [keeps_intros]:
  "(x = None \<Longrightarrow> keeps I m) \<Longrightarrow> (\<And>a. x = Some a \<Longrightarrow> keeps I (k a)) \<Longrightarrow>
   keeps I (case x of None \<Rightarrow> m | Some a \<Rightarrow> k a)"
  by (cases x) simp_all

lemma keeps_list [keeps_intros]:
  "(x = [] \<Longrightarrow> keeps I m) \<Longrightarrow> (\<And>a as. x = a # as \<Longrightarrow> keeps I (k a as)) \<Longrightarrow>
   keeps I (case x of [] \<Rightarrow> m | a # as \<Rightarrow> k a as)"
  by (cases x) simp_all

lemma keeps_prod [keeps_intros]:
  "(\<And>a b. x = (a, b) \<Longrightarrow> keeps I (k a b)) \<Longrightarrow> keeps I (case x of (a, b) \<Rightarrow> k a b)"
  by (cases x) simp

lemma keeps_forM [keeps_intros]:
  assumes "\<And>x. keeps I (f x)"
  shows "keeps I (forM xs f)"
  by (induction xs) (auto intro!: keeps_intros assms)

lemma keeps_mapM [keeps_intros]:
  assumes "\<And>x. keeps I (f x)"
  shows "keeps I (mapM f xs)"
  by (induction xs) (auto intro!: keeps_intros assms)

lemma keeps_foldM [keeps_intros]:
  assumes "\<And>b x. keeps I (f b x)"
  shows "keeps I (foldM f b xs)"
  by (induction xs arbitrary: b) (auto intro!: keeps_intros assms)

section \<open>Tables\<close>

text \<open>
  A table is the list of its rows in primary-key order. \<open>next_id\<close> is the key SQLite gives a new
  row of a table declared without \<open>AUTOINCREMENT\<close>: one more than the largest key present.
\<close>

definition tbl_get :: "('r \<Rightarrow> int) \<Rightarrow> int \<Rightarrow> 'r list \<Rightarrow> 'r option" where
  "tbl_get k i rs = find (\<lambda>r. k r = i) rs"

definition tbl_upd :: "('r \<Rightarrow> int) \<Rightarrow> int \<Rightarrow> ('r \<Rightarrow> 'r) \<Rightarrow> 'r list \<Rightarrow> 'r list" where
  "tbl_upd k i f rs = map (\<lambda>r. if k r = i then f r else r) rs"

definition tbl_del :: "('r \<Rightarrow> int) \<Rightarrow> int \<Rightarrow> 'r list \<Rightarrow> 'r list" where
  "tbl_del k i rs = filter (\<lambda>r. k r \<noteq> i) rs"

definition next_id :: "('r \<Rightarrow> int) \<Rightarrow> 'r list \<Rightarrow> int" where
  "next_id k rs = foldr (\<lambda>r m. max (k r + 1) m) rs 1"

text \<open>Keys are distinct and at least 1: what the primary key of a table guarantees.\<close>

definition keyed :: "('r \<Rightarrow> int) \<Rightarrow> 'r list \<Rightarrow> bool" where
  "keyed k rs \<longleftrightarrow> distinct (map k rs) \<and> (\<forall>r \<in> set rs. 1 \<le> k r)"

lemma next_id_gt: "r \<in> set rs \<Longrightarrow> k r < next_id k rs"
  by (induction rs) (auto simp: next_id_def)

lemma next_id_pos: "1 \<le> next_id k rs"
  by (induction rs) (auto simp: next_id_def)

lemma next_id_fresh: "next_id k rs \<notin> k ` set rs"
  using next_id_gt [of _ rs k] by force

lemma find_append:
  "find P (xs @ ys) = (case find P xs of None \<Rightarrow> find P ys | Some x \<Rightarrow> Some x)"
  by (induction xs) auto

lemma find_Some_iff_mem: "find P xs = Some x \<Longrightarrow> x \<in> set xs \<and> P x"
  by (induction xs) (auto split: if_splits)

lemma find_None_iff_all: "find P xs = None \<longleftrightarrow> (\<forall>x \<in> set xs. \<not> P x)"
  by (induction xs) auto

lemma find_Some_split:
  "find P xs = Some x \<Longrightarrow> \<exists>ys zs. xs = ys @ x # zs \<and> (\<forall>y \<in> set ys. \<not> P y) \<and> P x"
proof (induction xs)
  case Nil
  then show ?case by simp
next
  case (Cons a xs)
  show ?case
  proof (cases "P a")
    case True
    with Cons.prems have "a # xs = [] @ x # xs" and "P x" by auto
    then show ?thesis by (metis empty_iff empty_set)
  next
    case False
    with Cons obtain ys zs where "xs = ys @ x # zs" "\<forall>y \<in> set ys. \<not> P y" "P x" by auto
    then have "a # xs = (a # ys) @ x # zs" by simp
    with False \<open>\<forall>y \<in> set ys. \<not> P y\<close> \<open>P x\<close> show ?thesis by (metis set_ConsD)
  qed
qed

lemma tbl_get_SomeD: "tbl_get k i rs = Some r \<Longrightarrow> r \<in> set rs \<and> k r = i"
  unfolding tbl_get_def by (drule find_Some_iff_mem) simp

lemma tbl_get_None_iff: "tbl_get k i rs = None \<longleftrightarrow> i \<notin> k ` set rs"
  by (auto simp: tbl_get_def find_None_iff_all)

lemma tbl_get_mem: "distinct (map k rs) \<Longrightarrow> r \<in> set rs \<Longrightarrow> tbl_get k (k r) rs = Some r"
  by (induction rs) (auto simp: tbl_get_def image_iff)

lemma tbl_get_new:
  "k r = next_id k rs \<Longrightarrow> tbl_get k i (rs @ [r]) = (if i = k r then Some r else tbl_get k i rs)"
  using tbl_get_None_iff [of k "next_id k rs" rs] next_id_fresh [of k rs]
  by (auto simp: tbl_get_def find_append split: option.splits)

lemma tbl_get_upd:
  assumes "\<And>r. k (f r) = k r"
  shows "tbl_get k i (tbl_upd k j f rs) = (if i = j then map_option f (tbl_get k i rs) else tbl_get k i rs)"
  by (induction rs) (auto simp: tbl_get_def tbl_upd_def assms)

lemma tbl_get_del [simp]:
  "tbl_get k i (tbl_del k j rs) = (if i = j then None else tbl_get k i rs)"
  by (induction rs) (auto simp: tbl_get_def tbl_del_def)

lemma tbl_upd_ids [simp]:
  assumes "\<And>r. k (f r) = k r"
  shows "map k (tbl_upd k i f rs) = map k rs"
  using assms by (simp add: tbl_upd_def)

lemma keyed_Nil [simp]: "keyed k []"
  by (simp add: keyed_def)

lemma keyed_iff: "keyed k rs \<longleftrightarrow> distinct (map k rs) \<and> (\<forall>i \<in> set (map k rs). 1 \<le> i)"
  by (simp add: keyed_def)

lemma keyed_upd: "(\<And>r. k (f r) = k r) \<Longrightarrow> keyed k (tbl_upd k i f rs) \<longleftrightarrow> keyed k rs"
  unfolding keyed_iff by (simp only: tbl_upd_ids)

lemma keyed_del: "keyed k rs \<Longrightarrow> keyed k (tbl_del k i rs)"
  by (induction rs) (auto simp: keyed_def tbl_del_def)

lemma keyed_filter: "keyed k rs \<Longrightarrow> keyed k (filter P rs)"
  by (induction rs) (auto simp: keyed_def)

lemma keyed_new: "keyed k rs \<Longrightarrow> k r = next_id k rs \<Longrightarrow> keyed k (rs @ [r])"
  using next_id_fresh [of k rs] next_id_pos [of k rs] by (auto simp: keyed_def)

lemma set_tbl_del: "set (tbl_del k i rs) = {r \<in> set rs. k r \<noteq> i}"
  by (auto simp: tbl_del_def)

lemma set_tbl_upd: "set (tbl_upd k i f rs) = (\<lambda>r. if k r = i then f r else r) ` set rs"
  by (simp add: tbl_upd_def)

section \<open>First-fit allocation\<close>

text \<open>
  Every allocator of the orchestrator walks a fixed sequence of candidates and takes the first one
  that is not in use. \<open>first_fit\<close> is the contract: \<open>alloc\<close> answers with the first free candidate,
  and fails exactly when all candidates are used.
\<close>

definition first_free :: "'a list \<Rightarrow> ('a \<Rightarrow> bool) \<Rightarrow> 'a option" where
  "first_free cs used = find (\<lambda>c. \<not> used c) cs"

locale first_fit =
  fixes cands :: "'p \<Rightarrow> 'a list"
    and alloc :: "'p \<Rightarrow> ('a \<Rightarrow> bool) \<Rightarrow> 'a option"
  assumes alloc_eq: "alloc p used = first_free (cands p) used"
begin

lemma alloc_fresh: "alloc p used = Some a \<Longrightarrow> \<not> used a"
  by (auto simp: alloc_eq first_free_def dest: find_Some_iff_mem)

lemma alloc_cand: "alloc p used = Some a \<Longrightarrow> a \<in> set (cands p)"
  by (auto simp: alloc_eq first_free_def dest: find_Some_iff_mem)

lemma alloc_none_iff: "alloc p used = None \<longleftrightarrow> (\<forall>a \<in> set (cands p). used a)"
  by (auto simp: alloc_eq first_free_def find_None_iff_all)

lemma alloc_least:
  assumes "alloc p used = Some a"
  shows "\<exists>pre post. cands p = pre @ a # post \<and> (\<forall>b \<in> set pre. used b) \<and> \<not> used a"
  using assms find_Some_split [of "\<lambda>c. \<not> used c" "cands p" a]
  by (auto simp: alloc_eq first_free_def)

lemma alloc_exists:
  assumes "finite {a. used a}" and "card {a. used a} < card (set (cands p))"
  shows "\<exists>a. alloc p used = Some a"
proof (rule ccontr)
  assume "\<nexists>a. alloc p used = Some a"
  then have "set (cands p) \<subseteq> {a. used a}"
    using alloc_none_iff [of p used] by auto
  with assms(1) have "card (set (cands p)) \<le> card {a. used a}"
    by (rule card_mono)
  with assms(2) show False by simp
qed

end

text \<open>The first element of a mapped interval that is free, and the ones before it.\<close>

lemma first_free_upt:
  "first_free (map f [lo..<hi]) used = Some a \<Longrightarrow>
   \<exists>n. lo \<le> n \<and> n < hi \<and> a = f n \<and> \<not> used (f n) \<and> (\<forall>m. lo \<le> m \<and> m < n \<longrightarrow> used (f m))"
proof (induction "hi - lo" arbitrary: lo)
  case 0
  then show ?case by (simp add: first_free_def)
next
  case (Suc k)
  then have lt: "lo < hi" by simp
  show ?case
  proof (cases "used (f lo)")
    case False
    with Suc.prems lt show ?thesis by (auto simp: first_free_def upt_conv_Cons intro!: exI [of _ lo])
  next
    case True
    with Suc.prems lt have "first_free (map f [Suc lo..<hi]) used = Some a"
      by (simp add: first_free_def upt_conv_Cons)
    moreover have "k = hi - Suc lo" using Suc.hyps(2) by simp
    ultimately obtain n where n: "Suc lo \<le> n" "n < hi" "a = f n" "\<not> used (f n)"
      and below: "\<forall>m. Suc lo \<le> m \<and> m < n \<longrightarrow> used (f m)"
      using Suc.hyps(1) [of "Suc lo"] by blast
    have "used (f m)" if "lo \<le> m" "m < n" for m
      using that True below by (cases "m = lo") simp_all
    with n show ?thesis by (intro exI [of _ n]) simp
  qed
qed

section \<open>Resource pools\<close>

text \<open>
  What the owner of a pooled resource relies on: acquiring a free resource marks that one and no
  other, releasing unmarks that one and no other, and both keep the pool well-formed.
\<close>

locale pool =
  fixes ok :: "'s \<Rightarrow> bool"
    and holds :: "'s \<Rightarrow> 'a \<Rightarrow> bool"
    and acquire :: "'a \<Rightarrow> 's \<Rightarrow> 's"
    and release :: "'a \<Rightarrow> 's \<Rightarrow> 's"
  assumes ok_acquire: "ok s \<Longrightarrow> \<not> holds s a \<Longrightarrow> ok (acquire a s)"
    and holds_acquire: "ok s \<Longrightarrow> \<not> holds s a \<Longrightarrow> holds (acquire a s) b \<longleftrightarrow> b = a \<or> holds s b"
    and ok_release: "ok s \<Longrightarrow> ok (release a s)"
    and holds_release: "ok s \<Longrightarrow> holds (release a s) b \<longleftrightarrow> holds s b \<and> b \<noteq> a"
begin

lemma acquire_release:
  "ok s \<Longrightarrow> \<not> holds s a \<Longrightarrow> holds (release a (acquire a s)) b \<longleftrightarrow> holds s b"
  by (auto simp: holds_release ok_acquire holds_acquire)

lemma release_frees: "ok s \<Longrightarrow> \<not> holds (release a s) a"
  by (simp add: holds_release)

lemma ok_release_all: "ok s \<Longrightarrow> ok (fold release as s)"
  by (induction as arbitrary: s) (simp_all add: ok_release)

lemma release_all:
  "ok s \<Longrightarrow> holds (fold release as s) b \<longleftrightarrow> holds s b \<and> b \<notin> set as"
  by (induction as arbitrary: s) (auto simp: ok_release holds_release)

end

end
