(* ===== verification/PyStr.thy ===== *)
theory PyStr
  imports Prelude "HOL-Library.Sublist"
begin

text \<open>
  The part of Python's \<open>str\<close> and \<open>int\<close> that the orchestrator uses. A \<open>str\<close> is a list of
  characters with code points 0 to 255 (Latin-1): every operation below treats the whole of that
  range as Python does, and \<open>length\<close> is Python's \<open>len\<close>.
\<close>

type_synonym str = string

section \<open>Character classes\<close>

definition code :: "char \<Rightarrow> nat" where
  "code c = of_char c"

text \<open>\<open>str.isspace\<close> on code points below 256, the characters \<open>strip()\<close> and \<open>split()\<close> drop.\<close>

definition is_space :: "char \<Rightarrow> bool" where
  "is_space c \<longleftrightarrow> code c \<in> {9, 10, 11, 12, 13, 28, 29, 30, 31, 32, 133, 160}"

text \<open>\<open>\d\<close> of \<open>re\<close>: below 256 only the ASCII digits are decimal digits.\<close>

definition is_digit :: "char \<Rightarrow> bool" where
  "is_digit c \<longleftrightarrow> 48 \<le> code c \<and> code c \<le> 57"

definition is_ascii_alnum :: "char \<Rightarrow> bool" where
  "is_ascii_alnum c \<longleftrightarrow>
     (48 \<le> code c \<and> code c \<le> 57) \<or> (65 \<le> code c \<and> code c \<le> 90) \<or> (97 \<le> code c \<and> code c \<le> 122)"

definition lower_char :: "char \<Rightarrow> char" where
  "lower_char c =
     (if (65 \<le> code c \<and> code c \<le> 90) \<or> (192 \<le> code c \<and> code c \<le> 222 \<and> code c \<noteq> 215)
      then char_of (code c + 32) else c)"

section \<open>String operations\<close>

definition py_lower :: "str \<Rightarrow> str" where
  "py_lower s = map lower_char s"

definition py_lstrip :: "str \<Rightarrow> str" where
  "py_lstrip s = dropWhile is_space s"

definition py_strip :: "str \<Rightarrow> str" where
  "py_strip s = rev (dropWhile is_space (rev (py_lstrip s)))"

definition py_rstrip_char :: "char \<Rightarrow> str \<Rightarrow> str" where
  "py_rstrip_char c s = rev (dropWhile (\<lambda>d. d = c) (rev s))"

definition py_startswith :: "str \<Rightarrow> str \<Rightarrow> bool" where
  "py_startswith s p \<longleftrightarrow> take (length p) s = p"

definition py_removeprefix :: "str \<Rightarrow> str \<Rightarrow> str" where
  "py_removeprefix s p = (if py_startswith s p then drop (length p) s else s)"

text \<open>\<open>needle in haystack\<close> on strings.\<close>

fun py_contains :: "str \<Rightarrow> str \<Rightarrow> bool" where
  "py_contains [] p = (p = [])"
| "py_contains (c # s) p = (take (length p) (c # s) = p \<or> py_contains s p)"

text \<open>\<open>s.split(sep)\<close> for a one-character separator: never empty, separators dropped.\<close>

fun py_split :: "char \<Rightarrow> str \<Rightarrow> str list" where
  "py_split sep [] = [[]]"
| "py_split sep (c # s) =
     (if c = sep then [] # py_split sep s
      else (case py_split sep s of [] \<Rightarrow> [[c]] | w # ws \<Rightarrow> (c # w) # ws))"

text \<open>\<open>s.split()\<close>: words between runs of white space.\<close>

fun py_words_aux :: "str \<Rightarrow> str \<Rightarrow> str list" where
  "py_words_aux acc [] = (if acc = [] then [] else [rev acc])"
| "py_words_aux acc (c # s) =
     (if is_space c then (if acc = [] then py_words_aux [] s else rev acc # py_words_aux [] s)
      else py_words_aux (c # acc) s)"

definition py_words :: "str \<Rightarrow> str list" where
  "py_words s = py_words_aux [] s"

text \<open>\<open>s.splitlines()\<close>: line boundaries of Latin-1 text, a final one ends no empty line.\<close>

definition is_linebreak :: "char \<Rightarrow> bool" where
  "is_linebreak c \<longleftrightarrow> code c \<in> {10, 11, 12, 13, 28, 29, 30, 133}"

fun py_lines_aux :: "str \<Rightarrow> str \<Rightarrow> str list" where
  "py_lines_aux acc [] = (if acc = [] then [] else [rev acc])"
| "py_lines_aux acc [c] =
     (if is_linebreak c then [rev acc] else [rev (c # acc)])"
| "py_lines_aux acc (c # d # s) =
     (if code c = 13 \<and> code d = 10 then rev acc # py_lines_aux [] s
      else if is_linebreak c then rev acc # py_lines_aux [] (d # s)
      else py_lines_aux (c # acc) (d # s))"

definition py_splitlines :: "str \<Rightarrow> str list" where
  "py_splitlines s = py_lines_aux [] s"

fun py_join :: "str \<Rightarrow> str list \<Rightarrow> str" where
  "py_join sep [] = []"
| "py_join sep [w] = w"
| "py_join sep (w # v # ws) = w @ sep @ py_join sep (v # ws)"

text \<open>\<open>s.replace(c, new)\<close> for a one-character pattern.\<close>

definition py_replace_char :: "char \<Rightarrow> str \<Rightarrow> str \<Rightarrow> str" where
  "py_replace_char c new s = concat (map (\<lambda>d. if d = c then new else [d]) s)"

section \<open>Integers as text\<close>

definition digit_char :: "nat \<Rightarrow> char" where
  "digit_char d = char_of (48 + d)"

fun str_nat :: "nat \<Rightarrow> str" where
  "str_nat n = (if n < 10 then [digit_char n] else str_nat (n div 10) @ [digit_char (n mod 10)])"

declare str_nat.simps [simp del]

definition str_int :: "int \<Rightarrow> str" where
  "str_int i = (if i < 0 then ''-'' @ str_nat (nat (- i)) else str_nat (nat i))"

text \<open>\<open>f"{n:0{w}d}"\<close> for a natural number.\<close>

definition zero_pad :: "nat \<Rightarrow> nat \<Rightarrow> str" where
  "zero_pad w n = replicate (w - length (str_nat n)) (CHR ''0'') @ str_nat n"

definition digits_val :: "str \<Rightarrow> nat" where
  "digits_val s = foldl (\<lambda>n c. 10 * n + (code c - 48)) 0 s"

text \<open>\<open>int(s)\<close> of a text without underscores; \<open>None\<close> is the \<open>ValueError\<close>.\<close>

definition py_int :: "str \<Rightarrow> int option" where
  "py_int s =
     (let t = py_strip s;
          (neg, ds) = (case t of c # r \<Rightarrow> if c = CHR ''-'' then (True, r)
                                          else if c = CHR ''+'' then (False, r) else (False, t)
                               | [] \<Rightarrow> (False, []))
      in if ds \<noteq> [] \<and> list_all is_digit ds
         then Some (if neg then - int (digits_val ds) else int (digits_val ds)) else None)"

section \<open>Facts\<close>

lemma code_char_of [simp]: "code (char_of n) = n mod 256"
  by (simp add: code_def)

lemma code_inj: "code c = code d \<longleftrightarrow> c = d"
  by (simp add: code_def)

lemma code_less [simp]: "code c < 256"
  by (simp add: code_def)

lemma is_digit_digit_char [simp]: "d < 10 \<Longrightarrow> is_digit (digit_char d)"
  by (simp add: is_digit_def digit_char_def)

lemma code_digit_char: "d < 10 \<Longrightarrow> code (digit_char d) = 48 + d"
  by (simp add: digit_char_def)

lemma digit_not_space: "is_digit c \<Longrightarrow> \<not> is_space c"
  by (auto simp: is_digit_def is_space_def)

lemma digit_alnum: "is_digit c \<Longrightarrow> is_ascii_alnum c"
  by (simp add: is_digit_def is_ascii_alnum_def)

lemma alnum_not_space: "is_ascii_alnum c \<Longrightarrow> \<not> is_space c"
  by (auto simp: is_ascii_alnum_def is_space_def)

lemma str_nat_digits: "list_all is_digit (str_nat n)"
proof (induction n rule: str_nat.induct)
  case (1 n)
  then show ?case by (subst str_nat.simps) (auto simp: list_all_append)
qed

lemma str_nat_nonempty [simp]: "str_nat n \<noteq> []"
  by (subst str_nat.simps) simp

lemma digits_val_snoc: "digits_val (s @ [c]) = 10 * digits_val s + (code c - 48)"
  by (simp add: digits_val_def)

lemma digits_val_str_nat [simp]: "digits_val (str_nat n) = n"
proof (induction n rule: str_nat.induct)
  case (1 n)
  show ?case
  proof (cases "n < 10")
    case True
    then show ?thesis by (subst str_nat.simps) (simp add: digits_val_def code_digit_char)
  next
    case False
    with "1" show ?thesis
      by (subst str_nat.simps) (simp add: digits_val_snoc code_digit_char)
  qed
qed

lemma str_nat_inj: "str_nat m = str_nat n \<longleftrightarrow> m = n"
  by (metis digits_val_str_nat)

lemma str_int_inj: "0 \<le> a \<Longrightarrow> 0 \<le> b \<Longrightarrow> str_int a = str_int b \<longleftrightarrow> a = b"
  by (auto simp: str_int_def str_nat_inj)

lemma digits_val_pad: "digits_val (replicate k (CHR ''0'') @ s) = digits_val s"
proof -
  have "foldl (\<lambda>n c. 10 * n + (code c - 48)) 0 (replicate k (CHR ''0'')) = 0"
    by (induction k) (auto simp: code_def)
  then show ?thesis by (simp add: digits_val_def)
qed

lemma digits_val_zero_pad [simp]: "digits_val (zero_pad w n) = n"
  by (simp add: zero_pad_def digits_val_pad)

lemma zero_pad_inj: "zero_pad w m = zero_pad w n \<longleftrightarrow> m = n"
  by (metis digits_val_zero_pad)

lemma zero_pad_digits: "list_all is_digit (zero_pad w n)"
  using str_nat_digits [of n] by (auto simp: zero_pad_def list_all_iff is_digit_def code_def)

lemma length_str_nat_le: "n < 10 ^ k \<Longrightarrow> 0 < k \<Longrightarrow> length (str_nat n) \<le> k"
proof (induction n arbitrary: k rule: str_nat.induct)
  case (1 n)
  show ?case
  proof (cases "n < 10")
    case True
    with "1.prems" show ?thesis by (subst str_nat.simps) simp
  next
    case False
    with "1.prems" obtain j where k: "k = Suc j" and "0 < j"
      by (cases k; cases "k - 1") auto
    with "1.prems" have "n div 10 < 10 ^ j" by (simp add: less_mult_imp_div_less mult.commute)
    with "1.IH" False \<open>0 < j\<close> have "length (str_nat (n div 10)) \<le> j" by simp
    with False k show ?thesis by (subst str_nat.simps) simp
  qed
qed

lemma length_zero_pad: "n < 10 ^ w \<Longrightarrow> 0 < w \<Longrightarrow> length (zero_pad w n) = w"
  using length_str_nat_le [of n w] by (simp add: zero_pad_def)

lemma py_split_nonempty [simp]: "py_split c s \<noteq> []"
  by (cases s) (auto split: list.splits)

lemma py_split_sep_free: "w \<in> set (py_split c s) \<Longrightarrow> c \<notin> set w"
  by (induction s arbitrary: w) (auto split: if_splits list.splits)

lemma py_split_id: "c \<notin> set s \<Longrightarrow> py_split c s = [s]"
  by (induction s) auto

lemma py_split_append: "c \<notin> set w \<Longrightarrow> py_split c (w @ c # s) = w # py_split c s"
  by (induction w) auto

lemma py_join_Cons_char: "py_join sep ((c # w) # ws) = c # py_join sep (w # ws)"
  by (cases ws) simp_all

lemma py_join_Nil_head: "ws \<noteq> [] \<Longrightarrow> py_join sep ([] # ws) = sep @ py_join sep ws"
  by (cases ws) simp_all

lemma py_join_split: "py_join [c] (py_split c s) = s"
proof (induction s)
  case Nil
  then show ?case by simp
next
  case (Cons d s)
  then show ?case
    by (cases "py_split c s") (auto simp: py_join_Cons_char py_join_Nil_head)
qed

lemma dropWhile_id: "(s \<noteq> [] \<Longrightarrow> \<not> P (hd s)) \<Longrightarrow> dropWhile P s = s"
  by (cases s) auto

lemma py_strip_id:
  "s = [] \<or> (\<not> is_space (hd s) \<and> \<not> is_space (last s)) \<Longrightarrow> py_strip s = s"
  by (auto simp: py_strip_def py_lstrip_def dropWhile_id hd_rev)

lemma py_strip_ends:
  assumes "py_strip s \<noteq> []"
  shows "\<not> is_space (hd (py_strip s))" and "\<not> is_space (last (py_strip s))"
proof -
  let ?l = "dropWhile is_space s"
  let ?r = "dropWhile is_space (rev ?l)"
  have r: "?r \<noteq> []" using assms by (simp add: py_strip_def py_lstrip_def)
  then show "\<not> is_space (last (py_strip s))"
    using hd_dropWhile [of is_space "rev ?l"] by (simp add: py_strip_def py_lstrip_def last_rev)
  have l: "?l \<noteq> []"
  proof
    assume "?l = []"
    with r show False by simp
  qed
  have "rev ?l = takeWhile is_space (rev ?l) @ ?r" by simp
  then have "?l = rev ?r @ rev (takeWhile is_space (rev ?l))"
    by (metis rev_append rev_rev_ident)
  with r have "hd ?l = hd (rev ?r)" by (metis hd_append2 rev_is_Nil_conv)
  moreover have "\<not> is_space (hd ?l)" using l by (rule hd_dropWhile)
  ultimately show "\<not> is_space (hd (py_strip s))" by (simp add: py_strip_def py_lstrip_def)
qed

lemma py_strip_idem [simp]: "py_strip (py_strip s) = py_strip s"
  using py_strip_ends [of s] by (intro py_strip_id) auto

lemma lower_char_space [simp]: "is_space (lower_char c) \<longleftrightarrow> is_space c"
  by (auto simp: lower_char_def is_space_def)

lemma lower_char_idem [simp]: "lower_char (lower_char c) = lower_char c"
  by (auto simp: lower_char_def)

lemma py_lower_idem [simp]: "py_lower (py_lower s) = py_lower s"
  by (simp add: py_lower_def)

lemma py_strip_lower: "py_strip (py_lower s) = py_lower (py_strip s)"
  by (simp add: py_strip_def py_lstrip_def py_lower_def dropWhile_map rev_map comp_def)

lemma py_startswith_iff: "py_startswith s p \<longleftrightarrow> (\<exists>r. s = p @ r)"
  by (metis append_eq_conv_conj append_take_drop_id py_startswith_def)

lemma py_contains_iff: "py_contains s p \<longleftrightarrow> (\<exists>a b. s = a @ p @ b)"
proof (induction s)
  case Nil
  then show ?case by auto
next
  case (Cons c s)
  have "(\<exists>a b. c # s = a @ p @ b) \<longleftrightarrow> (\<exists>b. c # s = p @ b) \<or> (\<exists>a b. s = a @ p @ b)"
    by (metis append_Cons append_Nil append_eq_Cons_conv)
  moreover have "take (length p) (c # s) = p \<longleftrightarrow> (\<exists>b. c # s = p @ b)"
    using py_startswith_iff [of "c # s" p] by (simp add: py_startswith_def)
  ultimately show ?case using Cons by simp
qed

end
