(* ===== verification/Exn.thy ===== *)
theory Exn
  imports PyStr
begin

text \<open>
  The exceptions the orchestrator raises or handles. The constructor is the class, the argument
  what \<open>str(exc)\<close> shows; \<open>HTTPException\<close> and \<open>HTTPStatusError\<close> carry the status code as well.
  The class tests follow the hierarchy: \<open>HeadscaleError\<close> and \<open>IncusRemoteError\<close> are
  \<open>RuntimeError\<close>s, \<open>JSONDecodeError\<close> and the errors of \<open>ipaddress\<close> are \<open>ValueError\<close>s. \<open>Diverged\<close> is
  not an exception of the program: it stands for a polling loop that did not end within the fuel
  of the model, and no handler catches it.
\<close>

datatype exn =
    ValueError str
  | JSONDecodeError str
  | RuntimeError str
  | HeadscaleError str
  | IncusRemoteError str
  | IntegrityError str
  | OperationalError str
  | KeyError str
  | TypeError str
  | AttributeError str
  | IndexError str
  | HTTPStatusError nat str
  | TransportError str
  | TimeoutExpired str
  | CalledProcessError str
  | OSError str
  | InvalidToken
  | HTTPException nat str
  | Diverged

fun is_ValueError :: "exn \<Rightarrow> bool" where
  "is_ValueError (ValueError m) = True"
| "is_ValueError (JSONDecodeError m) = True"
| "is_ValueError _ = False"

fun is_RuntimeError :: "exn \<Rightarrow> bool" where
  "is_RuntimeError (RuntimeError m) = True"
| "is_RuntimeError (HeadscaleError m) = True"
| "is_RuntimeError (IncusRemoteError m) = True"
| "is_RuntimeError _ = False"

fun is_HeadscaleError :: "exn \<Rightarrow> bool" where
  "is_HeadscaleError (HeadscaleError m) = True"
| "is_HeadscaleError _ = False"

fun is_OperationalError :: "exn \<Rightarrow> bool" where
  "is_OperationalError (OperationalError m) = True"
| "is_OperationalError _ = False"

fun exn_str :: "exn \<Rightarrow> str" where
  "exn_str (ValueError m) = m"
| "exn_str (JSONDecodeError m) = m"
| "exn_str (RuntimeError m) = m"
| "exn_str (HeadscaleError m) = m"
| "exn_str (IncusRemoteError m) = m"
| "exn_str (IntegrityError m) = m"
| "exn_str (OperationalError m) = m"
| "exn_str (KeyError m) = m"
| "exn_str (TypeError m) = m"
| "exn_str (AttributeError m) = m"
| "exn_str (IndexError m) = m"
| "exn_str (HTTPStatusError n m) = m"
| "exn_str (TransportError m) = m"
| "exn_str (TimeoutExpired m) = m"
| "exn_str (CalledProcessError m) = m"
| "exn_str (OSError m) = m"
| "exn_str InvalidToken = []"
| "exn_str (HTTPException n m) = str_nat n @ '': '' @ m"
| "exn_str Diverged = []"

section \<open>Pure fallible computations\<close>

type_synonym 'a result = "exn + 'a"

definition bindR :: "'a result \<Rightarrow> ('a \<Rightarrow> 'b result) \<Rightarrow> 'b result" where
  "bindR r f = (case r of Inl e \<Rightarrow> Inl e | Inr x \<Rightarrow> f x)"

lemma bindR_simps [simp]: "bindR (Inl e) f = Inl e" "bindR (Inr x) f = f x"
  by (simp_all add: bindR_def)

lemma bindR_Inr_iff: "bindR r f = Inr y \<longleftrightarrow> (\<exists>x. r = Inr x \<and> f x = Inr y)"
  by (cases r) auto

section \<open>\<open>repr\<close> of strings\<close>

definition hex_digit :: "nat \<Rightarrow> char" where
  "hex_digit d = (if d < 10 then char_of (48 + d) else char_of (87 + d))"

definition printable :: "char \<Rightarrow> bool" where
  "printable c \<longleftrightarrow> 32 \<le> code c \<and> code c \<noteq> 127 \<and> \<not> (128 \<le> code c \<and> code c \<le> 160) \<and> code c \<noteq> 173"

definition repr_char :: "char \<Rightarrow> char \<Rightarrow> str" where
  "repr_char q c =
     (if c = q \<or> code c = 92 then [CHR 0x5C, c]
      else if code c = 9 then [CHR 0x5C, CHR ''t'']
      else if code c = 10 then [CHR 0x5C, CHR ''n'']
      else if code c = 13 then [CHR 0x5C, CHR ''r'']
      else if printable c then [c]
      else [CHR 0x5C, CHR ''x'', hex_digit (code c div 16), hex_digit (code c mod 16)])"

definition py_repr :: "str \<Rightarrow> str" where
  "py_repr s =
     (let q = (if CHR 0x27 \<in> set s \<and> CHR 0x22 \<notin> set s then CHR 0x22 else CHR 0x27)
      in [q] @ concat (map (repr_char q) s) @ [q])"

end
