(* ===== verification/Store.thy ===== *)
theory Store
  imports Complex_Main Exn
begin

text \<open>
  The rows of the orchestrator's database (\<open>orchestrator/models/\<close>), one record per table with the
  source's columns, and the database itself: its tables in primary-key order. Timestamps are
  microseconds since the epoch in UTC. Columns that no code reads (\<open>updated_at\<close> of all tables but
  \<open>jobs\<close>, \<open>allocated_at\<close>) are left out.
\<close>

section \<open>Gateways\<close>

datatype gateway_status = GPending | GProvisioning | GReady | GError | GDeleting

fun gateway_status_value :: "gateway_status \<Rightarrow> str" where
  "gateway_status_value GPending = ''pending''"
| "gateway_status_value GProvisioning = ''provisioning''"
| "gateway_status_value GReady = ''ready''"
| "gateway_status_value GError = ''error''"
| "gateway_status_value GDeleting = ''deleting''"

record gateway =
  gw_id :: int
  gw_worker_id :: int
  gw_peer_group_id :: "int option"
  gw_lan_ip :: "str option"
  gw_macvlan_slot :: "int option"
  gw_name :: str
  gw_incus_instance :: str
  gw_vm_ip :: str
  gw_udp_port :: int
  gw_wg_subnet :: str
  gw_wg_server_pubkey :: str
  gw_wg_server_privkey_enc :: str
  gw_exit_node_id :: str
  gw_tailscale_auth_key_enc :: str
  gw_tailscale_hostname :: str
  gw_agent_token_hash :: str
  gw_agent_token_enc :: str
  gw_status :: gateway_status
  gw_error_message :: "str option"
  gw_created_at :: int

section \<open>Jobs\<close>

datatype job_type = CreateGateway | DeleteGateway

datatype job_status = JPending | JRunning | JCompleted | JFailed

fun job_status_value :: "job_status \<Rightarrow> str" where
  "job_status_value JPending = ''pending''"
| "job_status_value JRunning = ''running''"
| "job_status_value JCompleted = ''completed''"
| "job_status_value JFailed = ''failed''"

record job =
  job_id :: int
  job_type :: job_type
  job_gateway_id :: "int option"
  job_status :: job_status
  job_error :: "str option"
  job_stage :: "str option"
  job_stage_updated_at :: "int option"
  job_created_at :: int
  job_updated_at :: int

section \<open>Peers, peer groups and metrics\<close>

record peer =
  peer_id :: int
  peer_gateway_id :: int
  peer_name :: str
  peer_public_key :: str
  peer_private_key_enc :: str
  peer_allowed_ip :: str
  peer_suspended :: bool
  peer_created_at :: int

record peer_group =
  pg_id :: int
  pg_name :: str
  pg_worker_id :: int
  pg_lan_subnet :: str
  pg_lan_start_ip :: str
  pg_lan_gateway :: "str option"
  pg_parent_iface :: "str option"
  pg_created_at :: int

record gateway_metric =
  gm_id :: int
  gm_gateway_id :: int
  gm_vm_status :: "str option"
  gm_tailscale_online :: "bool option"
  gm_wg_online :: "bool option"
  gm_exit_node_reachable :: "bool option"
  gm_egress_public_ip :: "str option"
  gm_egress_country_code :: "str option"
  gm_egress_updated_at :: "int option"
  gm_polled_at :: int

record peer_metric =
  pm_id :: int
  pm_peer_id :: int
  pm_last_handshake :: "int option"
  pm_rx_bytes :: "int option"
  pm_tx_bytes :: "int option"
  pm_polled_at :: int

section \<open>Workers and enrollments\<close>

datatype worker_status = WOnline | WOffline | WDisabled

fun worker_status_value :: "worker_status \<Rightarrow> str" where
  "worker_status_value WOnline = ''online''"
| "worker_status_value WOffline = ''offline''"
| "worker_status_value WDisabled = ''disabled''"

text \<open>The load figures of a heartbeat are floats the orchestrator only stores and shows.\<close>

type_synonym pyfloat = rat

record worker =
  wk_id :: int
  wk_name :: str
  wk_display_name :: str
  wk_public_ip :: str
  wk_tailscale_hostname :: "str option"
  wk_incus_remote :: "str option"
  wk_incus_url :: "str option"
  wk_incus_cert_path :: "str option"
  wk_incus_key_path :: "str option"
  wk_incus_server_cert_path :: "str option"
  wk_worker_token_hash :: str
  wk_port_pool_start :: int
  wk_port_pool_end :: int
  wk_ip_pool_network :: str
  wk_ip_pool_start :: str
  wk_enabled :: bool
  wk_status :: worker_status
  wk_cpu_percent :: "pyfloat option"
  wk_memory_total_mb :: "int option"
  wk_memory_used_mb :: "int option"
  wk_memory_percent :: "pyfloat option"
  wk_network_rx_bps :: "pyfloat option"
  wk_network_tx_bps :: "pyfloat option"
  wk_last_seen_at :: "int option"
  wk_created_at :: int

text \<open>The truth value of an optional string: \<open>None\<close> and the empty string are false.\<close>

definition str_true :: "str option \<Rightarrow> bool" where
  "str_true x \<longleftrightarrow> (case x of None \<Rightarrow> False | Some s \<Rightarrow> s \<noteq> [])"

text \<open>\<open>a or b\<close> on an optional string.\<close>

definition str_or :: "str option \<Rightarrow> str \<Rightarrow> str" where
  "str_or x d = (case x of None \<Rightarrow> d | Some s \<Rightarrow> if s = [] then d else s)"

definition wk_is_local :: "worker \<Rightarrow> bool" where
  "wk_is_local w \<longleftrightarrow> \<not> str_true (wk_incus_url w)"

record enrollment =
  en_id :: int
  en_token_hash :: str
  en_name :: str
  en_display_name :: str
  en_public_ip :: str
  en_tailscale_hostname :: str
  en_expires_at :: int
  en_enroll_token_enc :: "str option"
  en_headscale_auth_key_enc :: "str option"
  en_used_at :: "int option"
  en_worker_id :: "int option"
  en_created_at :: int

section \<open>Registration requests\<close>

datatype reg_status = RPending | RApproved | RRejected

fun reg_status_value :: "reg_status \<Rightarrow> str" where
  "reg_status_value RPending = ''pending''"
| "reg_status_value RApproved = ''approved''"
| "reg_status_value RRejected = ''rejected''"

record reg_request =
  rr_id :: int
  rr_registration_key :: str
  rr_display_code :: str
  rr_status :: reg_status
  rr_headscale_node_id :: "int option"
  rr_tailscale_ip :: "str option"
  rr_created_at :: int
  rr_resolved_at :: "int option"

section \<open>Allocations\<close>

record port_alloc =
  pa_id :: int
  pa_worker_id :: int
  pa_udp_port :: int
  pa_gateway_id :: "int option"

record ip_alloc =
  ia_id :: int
  ia_worker_id :: int
  ia_address :: str
  ia_gateway_id :: "int option"
  ia_peer_id :: "int option"

section \<open>The database\<close>

record db =
  gateways :: "gateway list"
  jobs :: "job list"
  peers :: "peer list"
  peer_groups :: "peer_group list"
  gateway_metrics :: "gateway_metric list"
  peer_metrics :: "peer_metric list"
  workers :: "worker list"
  enrollments :: "enrollment list"
  reg_requests :: "reg_request list"
  port_allocs :: "port_alloc list"
  ip_allocs :: "ip_alloc list"

definition empty_db :: db where
  "empty_db = \<lparr>gateways = [], jobs = [], peers = [], peer_groups = [], gateway_metrics = [],
     peer_metrics = [], workers = [], enrollments = [], reg_requests = [], port_allocs = [],
     ip_allocs = []\<rparr>"

text \<open>The unique constraints of the schema.\<close>

definition unique_ok :: "db \<Rightarrow> bool" where
  "unique_ok d \<longleftrightarrow>
     distinct (map gw_name (gateways d)) \<and>
     distinct (map (\<lambda>g. (gw_worker_id g, gw_udp_port g)) (gateways d)) \<and>
     distinct (map peer_public_key (peers d)) \<and>
     distinct (map pg_name (peer_groups d)) \<and>
     distinct (map wk_name (workers d)) \<and>
     distinct (map en_token_hash (enrollments d)) \<and>
     distinct (map rr_registration_key (reg_requests d)) \<and>
     distinct (map (\<lambda>p. (pa_worker_id p, pa_udp_port p)) (port_allocs d)) \<and>
     distinct (map (\<lambda>a. (ia_worker_id a, ia_address a)) (ip_allocs d))"

text \<open>The primary keys of all tables.\<close>

definition keys_ok :: "db \<Rightarrow> bool" where
  "keys_ok d \<longleftrightarrow>
     keyed gw_id (gateways d) \<and> keyed job_id (jobs d) \<and> keyed peer_id (peers d) \<and>
     keyed pg_id (peer_groups d) \<and> keyed gm_id (gateway_metrics d) \<and>
     keyed pm_id (peer_metrics d) \<and> keyed wk_id (workers d) \<and> keyed en_id (enrollments d) \<and>
     keyed rr_id (reg_requests d) \<and> keyed pa_id (port_allocs d) \<and> keyed ia_id (ip_allocs d)"

lemma unique_ok_empty [simp]: "unique_ok empty_db"
  by (simp add: unique_ok_def empty_db_def)

lemma keys_ok_empty [simp]: "keys_ok empty_db"
  by (simp add: keys_ok_def empty_db_def)

lemma str_true_Some [simp]: "str_true (Some s) \<longleftrightarrow> s \<noteq> []" "\<not> str_true None"
  by (simp_all add: str_true_def)

lemma str_or_simps [simp]: "str_or None d = d" "str_or (Some s) d = (if s = [] then d else s)"
  by (simp_all add: str_or_def)

end
