(* ===== verification/Json.thy ===== *)
theory Json
  imports Exn "HOL-Library.AList"
begin

text \<open>
  JSON values as \<open>json.loads\<close> returns them, Python's accessors on them (\<open>dict.get\<close>, truth value,
  \<open>str\<close>), and the two converters \<open>json.dumps\<close> and \<open>json.loads\<close>. An object is the list of its
  items in insertion order; a number with a fraction or an exponent keeps its text (no component
  computes with one). Code points above 255 are outside the string model, so a \<open>\uXXXX\<close> escape of
  one is not accepted.
\<close>

datatype json =
    JNull
  | JBool bool
  | JInt int
  | JFloat str
  | JStr str
  | JArr "json list"
  | JObj "(str \<times> json) list"

type_synonym jdict = "(str \<times> json) list"

section \<open>Accessors\<close>

text \<open>\<open>d.get(k)\<close>: \<open>None\<close> for a missing key and for a JSON null alike.\<close>

definition dget :: "jdict \<Rightarrow> str \<Rightarrow> json" where
  "dget d k = (case map_of d k of None \<Rightarrow> JNull | Some v \<Rightarrow> v)"

definition dhas :: "jdict \<Rightarrow> str \<Rightarrow> bool" where
  "dhas d k \<longleftrightarrow> map_of d k \<noteq> None"

fun truthy :: "json \<Rightarrow> bool" where
  "truthy JNull = False"
| "truthy (JBool b) = b"
| "truthy (JInt i) = (i \<noteq> 0)"
| "truthy (JFloat s) = list_ex (\<lambda>c. is_digit c \<and> c \<noteq> CHR ''0'') (takeWhile (\<lambda>c. c \<noteq> CHR ''e'' \<and> c \<noteq> CHR ''E'') s)"
| "truthy (JStr s) = (s \<noteq> [])"
| "truthy (JArr xs) = (xs \<noteq> [])"
| "truthy (JObj d) = (d \<noteq> [])"

text \<open>\<open>repr(v)\<close> and \<open>str(v)\<close>: they differ on strings only.\<close>

fun json_repr :: "json \<Rightarrow> str" where
  "json_repr JNull = ''None''"
| "json_repr (JBool b) = (if b then ''True'' else ''False'')"
| "json_repr (JInt i) = str_int i"
| "json_repr (JFloat s) = s"
| "json_repr (JStr s) = py_repr s"
| "json_repr (JArr xs) = ''['' @ py_join '', '' (map json_repr xs) @ '']''"
| "json_repr (JObj d) =
     ''{'' @ py_join '', '' (map (\<lambda>kv. py_repr (fst kv) @ '': '' @ json_repr (snd kv)) d) @ ''}''"

definition json_str :: "json \<Rightarrow> str" where
  "json_str v = (case v of JStr s \<Rightarrow> s | _ \<Rightarrow> json_repr v)"

text \<open>\<open>int(v)\<close> for the values a node id can have.\<close>

definition json_int :: "json \<Rightarrow> int result" where
  "json_int v =
     (case v of
        JInt i \<Rightarrow> Inr i
      | JBool b \<Rightarrow> Inr (if b then 1 else 0)
      | JStr s \<Rightarrow> (case py_int s of
                     Some i \<Rightarrow> Inr i
                   | None \<Rightarrow> Inl (ValueError (''invalid literal for int() with base 10: '' @ py_repr s)))
      | _ \<Rightarrow> Inl (TypeError ''int() argument must be a string, a bytes-like object or a real number''))"

section \<open>\<open>json.dumps\<close>\<close>

definition dumps_char :: "char \<Rightarrow> str" where
  "dumps_char c =
     (let n = code c in
      if n = 34 then [CHR 0x5C, CHR 0x22]
      else if n = 92 then [CHR 0x5C, CHR 0x5C]
      else if n = 10 then [CHR 0x5C, CHR ''n'']
      else if n = 13 then [CHR 0x5C, CHR ''r'']
      else if n = 9 then [CHR 0x5C, CHR ''t'']
      else if n = 12 then [CHR 0x5C, CHR ''f'']
      else if n = 8 then [CHR 0x5C, CHR ''b'']
      else if 32 \<le> n \<and> n \<le> 126 then [c]
      else [CHR 0x5C, CHR ''u'', CHR ''0'', CHR ''0'', hex_digit (n div 16), hex_digit (n mod 16)])"

definition dumps_str :: "str \<Rightarrow> str" where
  "dumps_str s = [CHR 0x22] @ concat (map dumps_char s) @ [CHR 0x22]"

fun json_dumps :: "json \<Rightarrow> str" where
  "json_dumps JNull = ''null''"
| "json_dumps (JBool b) = (if b then ''true'' else ''false'')"
| "json_dumps (JInt i) = str_int i"
| "json_dumps (JFloat s) = s"
| "json_dumps (JStr s) = dumps_str s"
| "json_dumps (JArr xs) = ''['' @ py_join '', '' (map json_dumps xs) @ '']''"
| "json_dumps (JObj d) =
     ''{'' @ py_join '', '' (map (\<lambda>kv. dumps_str (fst kv) @ '': '' @ json_dumps (snd kv)) d) @ ''}''"

section \<open>\<open>json.loads\<close>\<close>

definition json_ws :: "char \<Rightarrow> bool" where
  "json_ws c \<longleftrightarrow> code c \<in> {9, 10, 13, 32}"

definition skip_ws :: "str \<Rightarrow> str" where
  "skip_ws s = dropWhile json_ws s"

definition hex_val :: "char \<Rightarrow> nat option" where
  "hex_val c =
     (if 48 \<le> code c \<and> code c \<le> 57 then Some (code c - 48)
      else if 97 \<le> code c \<and> code c \<le> 102 then Some (code c - 87)
      else if 65 \<le> code c \<and> code c \<le> 70 then Some (code c - 55) else None)"

definition unesc :: "char \<Rightarrow> char option" where
  "unesc c =
     (if code c = 34 \<or> code c = 92 \<or> code c = 47 then Some c
      else if c = CHR ''n'' then Some (char_of (10 :: nat))
      else if c = CHR ''r'' then Some (char_of (13 :: nat))
      else if c = CHR ''t'' then Some (char_of (9 :: nat))
      else if c = CHR ''f'' then Some (char_of (12 :: nat))
      else if c = CHR ''b'' then Some (char_of (8 :: nat)) else None)"

definition push :: "char \<Rightarrow> (str \<times> str) option \<Rightarrow> (str \<times> str) option" where
  "push c r = map_option (\<lambda>(w, t). (c # w, t)) r"

text \<open>The rest of a string literal after its opening quote.\<close>

fun parse_str :: "str \<Rightarrow> (str \<times> str) option" where
  "parse_str [] = None"
| "parse_str (c # s) =
     (if code c = 34 then Some ([], s)
      else if code c = 92 then
        (case s of
           [] \<Rightarrow> None
         | e # t \<Rightarrow>
             if e = CHR ''u'' then
               (case t of
                  h1 # h2 # h3 # h4 # t' \<Rightarrow>
                    (case (hex_val h1, hex_val h2, hex_val h3, hex_val h4) of
                       (Some 0, Some 0, Some a, Some b) \<Rightarrow> push (char_of (16 * a + b)) (parse_str t')
                     | _ \<Rightarrow> None)
                | _ \<Rightarrow> None)
             else (case unesc e of Some d \<Rightarrow> push d (parse_str t) | None \<Rightarrow> None))
      else if code c < 32 then None
      else push c (parse_str s))"

text \<open>A number: an integer, or the text of a float.\<close>

definition frac_part :: "str \<Rightarrow> str \<times> str" where
  "frac_part s =
     (case s of
        c # r \<Rightarrow> (let ds = takeWhile is_digit r in
                  if c = CHR ''.'' \<and> ds \<noteq> [] then (c # ds, dropWhile is_digit r) else ([], s))
      | [] \<Rightarrow> ([], []))"

definition exp_part :: "str \<Rightarrow> str \<times> str" where
  "exp_part s =
     (case s of
        c # r \<Rightarrow>
          (let sg = (case r of d # _ \<Rightarrow> if d = CHR ''-'' \<or> d = CHR ''+'' then [d] else [] | [] \<Rightarrow> []);
               q = drop (length sg) r; ds = takeWhile is_digit q
           in if (c = CHR ''e'' \<or> c = CHR ''E'') \<and> ds \<noteq> [] then (c # sg @ ds, dropWhile is_digit q)
              else ([], s))
      | [] \<Rightarrow> ([], []))"

definition parse_num :: "str \<Rightarrow> (json \<times> str) option" where
  "parse_num s =
     (let neg = (case s of c # _ \<Rightarrow> c = CHR ''-'' | [] \<Rightarrow> False);
          r = (if neg then tl s else s);
          ds = (case r of c # _ \<Rightarrow> if c = CHR ''0'' then [c] else takeWhile is_digit r | [] \<Rightarrow> []);
          t = drop (length ds) r;
          (fr, t1) = frac_part t; (ex, t2) = exp_part t1
      in if ds = [] then None
         else if fr = [] \<and> ex = []
         then Some (JInt (if neg then - int (digits_val ds) else int (digits_val ds)), t)
         else Some (JFloat ((if neg then ''-'' else []) @ ds @ fr @ ex), t2))"

definition lit :: "str \<Rightarrow> json \<Rightarrow> str \<Rightarrow> (json \<times> str) option" where
  "lit w v s = (if take (length w) s = w then Some (v, drop (length w) s) else None)"

text \<open>
  The recursive descent. \<open>fuel\<close> bounds the number of nested calls; every call consumes a
  character or returns to one that does, and \<open>json_loads\<close> starts with twice the text's length.
\<close>

fun parse_val :: "nat \<Rightarrow> str \<Rightarrow> (json \<times> str) option"
and parse_elems :: "nat \<Rightarrow> str \<Rightarrow> (json list \<times> str) option"
and parse_items :: "nat \<Rightarrow> str \<Rightarrow> (jdict \<times> str) option" where
  "parse_val 0 s = None"
| "parse_val (Suc f) u =
     (case u of [] \<Rightarrow> None | c # s \<Rightarrow>
      if code c = 34 then (case parse_str s of Some (w, t) \<Rightarrow> Some (JStr w, t) | None \<Rightarrow> None)
      else if c = CHR ''['' then
        (case skip_ws s of
           [] \<Rightarrow> None
         | d # t \<Rightarrow> if d = CHR '']'' then Some (JArr [], t)
                   else (case parse_elems f (d # t) of
                           Some (xs, u) \<Rightarrow> Some (JArr xs, u) | None \<Rightarrow> None))
      else if c = CHR ''{'' then
        (case skip_ws s of
           [] \<Rightarrow> None
         | d # t \<Rightarrow> if d = CHR ''}'' then Some (JObj [], t)
                   else (case parse_items f (d # t) of
                           Some (kvs, u) \<Rightarrow>
                             Some (JObj (fold (\<lambda>(k, v) m. AList.update k v m) kvs []), u)
                         | None \<Rightarrow> None))
      else if c = CHR ''n'' then lit ''null'' JNull (c # s)
      else if c = CHR ''t'' then lit ''true'' (JBool True) (c # s)
      else if c = CHR ''f'' then lit ''false'' (JBool False) (c # s)
      else if c = CHR ''N'' then lit ''NaN'' (JFloat ''nan'') (c # s)
      else if c = CHR ''I'' then lit ''Infinity'' (JFloat ''inf'') (c # s)
      else (case lit ''-Infinity'' (JFloat ''-inf'') (c # s) of
              Some r \<Rightarrow> Some r
            | None \<Rightarrow> parse_num (c # s)))"
| "parse_elems 0 s = None"
| "parse_elems (Suc f) s =
     (case parse_val f s of
        None \<Rightarrow> None
      | Some (v, t) \<Rightarrow>
          (case skip_ws t of
             [] \<Rightarrow> None
           | d # u \<Rightarrow>
               if d = CHR '']'' then Some ([v], u)
               else if d = CHR '','' then
                 (case parse_elems f (skip_ws u) of
                    Some (vs, w) \<Rightarrow> Some (v # vs, w) | None \<Rightarrow> None)
               else None))"
| "parse_items 0 s = None"
| "parse_items (Suc f) s =
     (case s of
        [] \<Rightarrow> None
      | q # r \<Rightarrow>
          if code q \<noteq> 34 then None
          else (case parse_str r of
                  None \<Rightarrow> None
                | Some (k, t) \<Rightarrow>
                    (case skip_ws t of
                       [] \<Rightarrow> None
                     | d # u \<Rightarrow>
                         if d \<noteq> CHR '':'' then None
                         else (case parse_val f (skip_ws u) of
                                 None \<Rightarrow> None
                               | Some (v, x) \<Rightarrow>
                                   (case skip_ws x of
                                      [] \<Rightarrow> None
                                    | e # y \<Rightarrow>
                                        if e = CHR ''}'' then Some ([(k, v)], y)
                                        else if e = CHR '','' then
                                          (case parse_items f (skip_ws y) of
                                             Some (kvs, z) \<Rightarrow> Some ((k, v) # kvs, z)
                                           | None \<Rightarrow> None)
                                        else None)))))"

definition json_loads :: "str \<Rightarrow> json result" where
  "json_loads s =
     (case parse_val (2 * length s + 1) (skip_ws s) of
        Some (v, t) \<Rightarrow> if skip_ws t = [] then Inr v else Inl (JSONDecodeError ''Extra data'')
      | None \<Rightarrow> Inl (JSONDecodeError ''Expecting value''))"

section \<open>Attribute and item access on decoded values\<close>

fun json_type :: "json \<Rightarrow> str" where
  "json_type JNull = ''NoneType''"
| "json_type (JBool b) = ''bool''"
| "json_type (JInt i) = ''int''"
| "json_type (JFloat s) = ''float''"
| "json_type (JStr s) = ''str''"
| "json_type (JArr xs) = ''list''"
| "json_type (JObj d) = ''dict''"

text \<open>\<open>v.get(...)\<close>, \<open>v[k]\<close> and \<open>for x in v\<close> on a decoded value, with the errors of the other types.\<close>

definition as_dict :: "json \<Rightarrow> jdict result" where
  "as_dict v =
     (case v of JObj d \<Rightarrow> Inr d
      | _ \<Rightarrow> Inl (AttributeError (py_repr (json_type v) @ '' object has no attribute 'get'')))"

definition json_get :: "json \<Rightarrow> str \<Rightarrow> json result" where
  "json_get v k = bindR (as_dict v) (\<lambda>d. Inr (dget d k))"

definition json_item :: "json \<Rightarrow> str \<Rightarrow> json result" where
  "json_item v k =
     (case v of
        JObj d \<Rightarrow> (case map_of d k of Some x \<Rightarrow> Inr x | None \<Rightarrow> Inl (KeyError (py_repr k)))
      | _ \<Rightarrow> Inl (TypeError (py_repr (json_type v) @ '' object is not subscriptable by a string'')))"

definition json_iter :: "json \<Rightarrow> json list result" where
  "json_iter v =
     (case v of
        JArr xs \<Rightarrow> Inr xs
      | JObj d \<Rightarrow> Inr (map (JStr \<circ> fst) d)
      | JStr s \<Rightarrow> Inr (map (\<lambda>c. JStr [c]) s)
      | _ \<Rightarrow> Inl (TypeError (py_repr (json_type v) @ '' object is not iterable'')))"

text \<open>\<open>v == i\<close> for an integer \<open>i\<close>.\<close>

definition json_eq_int :: "json \<Rightarrow> int \<Rightarrow> bool" where
  "json_eq_int v i = (case v of JInt j \<Rightarrow> j = i | JBool b \<Rightarrow> (if b then 1 else 0) = i | _ \<Rightarrow> False)"

end
