(* ===== verification/World.thy ===== *)
theory World
  imports Store Json "HOL-Library.Sublist"
begin

text \<open>
  What an operation of the orchestrator runs in. The \<open>world\<close> holds one SQLAlchemy session (the
  database as committed and the session's view of it with the flushed changes), the trace of the
  effects so far, and the module globals of the background workers. Everything outside the
  repository (the clock, other processes, HTTP servers, random numbers, the \<open>cryptography\<close> and
  \<open>jinja2\<close> packages) is a field of the environment \<open>env\<close>: a function of the trace, so it may
  answer differently each time, and universally quantified in every theorem. The environment also
  holds the settings (\<open>orchestrator/config.py\<close>).
\<close>

section \<open>Effects\<close>

datatype event =
    Clock
  | Flush
  | Commit
  | Sleep int
  | Run "str list"
  | Http str str "json option"
  | GenToken
  | GenKeypair
  | Rand nat
  | TempFile str
  | Fs str "str list"
  | Spawn str int "int option"

record proc =
  returncode :: int
  stdout :: str
  stderr :: str

record env =
  s_api_key :: str
  s_host_public_ip :: str
  s_wg_public_host :: str
  s_orch_host_ip :: str
  s_incus_network :: str
  s_incus_image :: str
  s_incus_vm_memory :: str
  s_incus_vm_cpu :: str
  s_incus_net_interface :: str
  s_incus_instance_type :: str
  s_incus_provisioner :: str
  s_ip_pool_network :: str
  s_ip_pool_start :: str
  s_port_pool_start :: int
  s_port_pool_end :: int
  s_wg_subnet_base :: str
  s_headscale_url :: str
  s_headscale_gateway_url :: str
  s_headscale_cli :: str
  s_headscale_config :: str
  s_headscale_user :: str
  s_headscale_preauth_expiration :: str
  s_headscale_exit_node_tag :: str
  s_headscale_mobile_user :: str
  s_headscale_worker_tag :: str
  s_headscale_worker_user :: str
  s_wg_dns :: str
  s_api_root :: str
  s_provisioning_timeout_seconds :: int
  s_agent_port :: int
  s_gateway_agent_wheel_url :: str
  s_data_dir :: str
  s_home :: str
  s_repo_root :: str
  poll_fuel :: nat
  o_now :: "event list \<Rightarrow> int"
  o_locked :: "event list \<Rightarrow> bool"
  o_run :: "event list \<Rightarrow> str list \<Rightarrow> exn + proc"
  o_http :: "event list \<Rightarrow> str \<Rightarrow> str \<Rightarrow> json option \<Rightarrow> exn + (nat \<times> str)"
  o_token :: "event list \<Rightarrow> str"
  o_keypair :: "event list \<Rightarrow> str \<times> str"
  o_rand :: "event list \<Rightarrow> nat \<Rightarrow> nat"
  o_tempname :: "event list \<Rightarrow> str"
  o_file :: "event list \<Rightarrow> str \<Rightarrow> str option"
  o_fs :: "event list \<Rightarrow> str \<Rightarrow> str list \<Rightarrow> exn + unit"
  o_glob :: "event list \<Rightarrow> str \<Rightarrow> (str \<times> int) list"
  o_encrypt :: "event list \<Rightarrow> str \<Rightarrow> str"
  o_decrypt :: "str \<Rightarrow> exn + str"
  o_hash :: "str \<Rightarrow> str"
  o_render :: "str \<Rightarrow> (str \<times> str) list \<Rightarrow> str"

record world =
  db :: db
  stored :: db
  trace :: "event list"
  prov_active :: "int list"
  del_active :: "int list"
  prov_queue :: "(int \<times> int) list"
  geo_cache :: "(str \<times> (str \<times> str) \<times> int) list"

type_synonym 'a io = "(world, exn, 'a) comp"

definition emit :: "event \<Rightarrow> world \<Rightarrow> world" where
  "emit e w = w\<lparr>trace := trace w @ [e]\<rparr>"

definition fresh_world :: "db \<Rightarrow> world" where
  "fresh_world d = \<lparr>db = d, stored = d, trace = [], prov_active = [], del_active = [],
     prov_queue = [], geo_cache = []\<rparr>"

definition second :: int where
  "second = 1000000"

section \<open>The outside world\<close>

definition now :: "env \<Rightarrow> int io" where
  "now E w = (Inr (o_now E (trace w)), emit Clock w)"

definition sleep :: "int \<Rightarrow> unit io" where
  "sleep t w = (Inr (), emit (Sleep t) w)"

definition run_process :: "env \<Rightarrow> str list \<Rightarrow> proc io" where
  "run_process E cmd w = (o_run E (trace w) cmd, emit (Run cmd) w)"

definition http_request :: "env \<Rightarrow> str \<Rightarrow> str \<Rightarrow> json option \<Rightarrow> (nat \<times> str) io" where
  "http_request E method url body w = (o_http E (trace w) method url body, emit (Http method url body) w)"

definition generate_token :: "env \<Rightarrow> str io" where
  "generate_token E w = (Inr (o_token E (trace w)), emit GenToken w)"

definition generate_keypair :: "env \<Rightarrow> (str \<times> str) io" where
  "generate_keypair E w = (Inr (o_keypair E (trace w)), emit GenKeypair w)"

definition randbelow :: "env \<Rightarrow> nat \<Rightarrow> nat io" where
  "randbelow E n w = (Inr (o_rand E (trace w) n mod n), emit (Rand n) w)"

definition encrypt_value :: "env \<Rightarrow> str \<Rightarrow> str io" where
  "encrypt_value E x w = (Inr (o_encrypt E (trace w) x), w)"

definition decrypt_value :: "env \<Rightarrow> str \<Rightarrow> str io" where
  "decrypt_value E x w = (o_decrypt E x, w)"

definition hash_token :: "env \<Rightarrow> str \<Rightarrow> str" where
  "hash_token E t = o_hash E t"

definition verify_token :: "env \<Rightarrow> str \<Rightarrow> str \<Rightarrow> bool" where
  "verify_token E t h \<longleftrightarrow> hash_token E t = h"

text \<open>
  Files: \<open>is_file\<close> and \<open>read_text\<close> look at them, \<open>fs_op\<close> changes them (copying, permissions,
  directories, removal), \<open>glob\<close> lists paths with their modification times.
\<close>

definition is_file :: "env \<Rightarrow> str \<Rightarrow> bool io" where
  "is_file E p = getM (\<lambda>w. o_file E (trace w) p \<noteq> None)"

definition read_text :: "env \<Rightarrow> str \<Rightarrow> str io" where
  "read_text E p w =
     (case o_file E (trace w) p of
        Some s \<Rightarrow> (Inr s, w)
      | None \<Rightarrow> (Inl (OSError (''[Errno 2] No such file or directory: '' @ py_repr p)), w))"

definition fs_op :: "env \<Rightarrow> str \<Rightarrow> str list \<Rightarrow> unit io" where
  "fs_op E op args w = (o_fs E (trace w) op args, emit (Fs op args) w)"

definition glob :: "env \<Rightarrow> str \<Rightarrow> (str \<times> int) list io" where
  "glob E p = getM (\<lambda>w. o_glob E (trace w) p)"

definition temp_file :: "env \<Rightarrow> str \<Rightarrow> str io" where
  "temp_file E content w = (Inr (o_tempname E (trace w)), emit (TempFile content) w)"

text \<open>\<open>subprocess.run(..., check=True)\<close>.\<close>

definition run_check :: "env \<Rightarrow> str list \<Rightarrow> proc io" where
  "run_check E cmd =
     bindM (run_process E cmd) (\<lambda>p.
     if returncode p \<noteq> 0
     then raise (CalledProcessError (''Command '' @ json_repr (JArr (map JStr cmd)) @
                   '' returned non-zero exit status '' @ str_int (returncode p) @ ''.''))
     else ret p)"

text \<open>\<open>try ... finally\<close>.\<close>

definition finallyM :: "'a io \<Rightarrow> unit io \<Rightarrow> 'a io" where
  "finallyM m f w =
     (case m w of
        (r, w1) \<Rightarrow> (case f w1 of (Inl e, w2) \<Rightarrow> (Inl e, w2) | (Inr _, w2) \<Rightarrow> (r, w2)))"

text \<open>\<open>try ... except Exception\<close>: the handler sees every exception of the program.\<close>

definition try_except :: "'a io \<Rightarrow> (exn \<Rightarrow> 'a io) \<Rightarrow> 'a io" where
  "try_except m h = catchM m (\<lambda>e. if e = Diverged then raise e else h e)"

text \<open>
  A loop \<open>while time.time() < deadline\<close> whose body either ends it with a value or lets it sleep for
  \<open>pause\<close>. Every round sleeps at least \<open>pause\<close>, so \<open>timeout div pause + 2\<close> rounds reach the deadline
  of any clock that \<open>sleep\<close> advances (\<open>poll_ends\<close> below).
\<close>

fun poll_until :: "env \<Rightarrow> int \<Rightarrow> int \<Rightarrow> nat \<Rightarrow> 'a option io \<Rightarrow> 'a option io" where
  "poll_until E deadline pause 0 body = raise Diverged"
| "poll_until E deadline pause (Suc n) body =
     bindM (now E) (\<lambda>t.
     if t < deadline then
       bindM body (\<lambda>r.
       case r of
         Some x \<Rightarrow> ret (Some x)
       | None \<Rightarrow> thenM (sleep pause) (poll_until E deadline pause n body))
     else ret None)"

definition poll :: "env \<Rightarrow> int \<Rightarrow> int \<Rightarrow> 'a option io \<Rightarrow> 'a option io" where
  "poll E timeout pause body =
     bindM (now E) (\<lambda>t. poll_until E (t + timeout) pause (nat (timeout div pause) + 2) body)"

section \<open>The session\<close>

text \<open>
  \<open>flush\<close> sends the pending changes: SQLite may answer that the database is locked, or that a
  unique constraint is violated; either way the session's transaction is rolled back. \<open>commit\<close>
  flushes and makes the session's view the committed database.
\<close>

definition rollback_w :: "world \<Rightarrow> world" where
  "rollback_w w = w\<lparr>db := stored w\<rparr>"

definition locked_exn :: exn where
  "locked_exn = OperationalError ''(sqlite3.OperationalError) database is locked''"

definition unique_exn :: exn where
  "unique_exn = IntegrityError ''(sqlite3.IntegrityError) UNIQUE constraint failed''"

definition flush :: "env \<Rightarrow> unit io" where
  "flush E w =
     (if o_locked E (trace w) then (Inl locked_exn, rollback_w (emit Flush w))
      else if \<not> unique_ok (db w) then (Inl unique_exn, rollback_w (emit Flush w))
      else (Inr (), emit Flush w))"

definition commit :: "env \<Rightarrow> unit io" where
  "commit E w =
     (if o_locked E (trace w) then (Inl locked_exn, rollback_w (emit Commit w))
      else if \<not> unique_ok (db w) then (Inl unique_exn, rollback_w (emit Commit w))
      else (Inr (), (emit Commit w)\<lparr>stored := db w\<rparr>))"

definition rollback :: "unit io" where
  "rollback w = (Inr (), rollback_w w)"

definition mod_db :: "(db \<Rightarrow> db) \<Rightarrow> unit io" where
  "mod_db f = modM (\<lambda>w. w\<lparr>db := f (db w)\<rparr>)"

definition get_db :: "(db \<Rightarrow> 'a) \<Rightarrow> 'a io" where
  "get_db f = getM (\<lambda>w. f (db w))"

text \<open>\<open>func.now()\<close> on SQLite: \<open>CURRENT_TIMESTAMP\<close>, whole seconds.\<close>

definition db_now :: "env \<Rightarrow> world \<Rightarrow> int" where
  "db_now E w = o_now E (trace w) div second * second"

text \<open>
  The FastAPI dependency \<open>get_db\<close>: the session is committed when the handler returns and rolled
  back when it raises.
\<close>

definition with_session :: "env \<Rightarrow> 'a io \<Rightarrow> 'a io" where
  "with_session E m =
     catchM (bindM m (\<lambda>x. thenM (commit E) (ret x))) (\<lambda>e. thenM rollback (raise e))"

section \<open>Facts\<close>

lemma emit_simps [simp]:
  "db (emit e w) = db w" "stored (emit e w) = stored w" "trace (emit e w) = trace w @ [e]"
  "prov_active (emit e w) = prov_active w" "del_active (emit e w) = del_active w"
  "prov_queue (emit e w) = prov_queue w" "geo_cache (emit e w) = geo_cache w"
  by (simp_all add: emit_def)

lemma emit_upd [simp]:
  "(emit e w)\<lparr>db := d\<rparr> = emit e (w\<lparr>db := d\<rparr>)"
  "(emit e w)\<lparr>stored := d\<rparr> = emit e (w\<lparr>stored := d\<rparr>)"
  by (simp_all add: emit_def)

lemma get_db_run [simp, run_simps]: "get_db f w = (Inr (f (db w)), w)"
  by (simp add: get_db_def)

lemma mod_db_run [simp, run_simps]: "mod_db f w = (Inr (), w\<lparr>db := f (db w)\<rparr>)"
  by (simp add: mod_db_def)

lemmas io_defs = now_def sleep_def run_process_def http_request_def generate_token_def
  generate_keypair_def randbelow_def encrypt_value_def decrypt_value_def

text \<open>An environment whose database is never locked by another writer.\<close>

definition unlocked :: "env \<Rightarrow> bool" where
  "unlocked E \<longleftrightarrow> (\<forall>h. \<not> o_locked E h)"

lemma flush_run: "unlocked E \<Longrightarrow> unique_ok (db w) \<Longrightarrow> flush E w = (Inr (), emit Flush w)"
  by (simp add: flush_def unlocked_def)

lemma commit_run:
  "unlocked E \<Longrightarrow> unique_ok (db w) \<Longrightarrow> commit E w = (Inr (), emit Commit (w\<lparr>stored := db w\<rparr>))"
  by (simp add: commit_def unlocked_def)

lemma flush_returns: "flush E w = (Inr x, w') \<Longrightarrow> w' = emit Flush w \<and> unique_ok (db w)"
  by (auto simp: flush_def split: if_splits)

lemma commit_returns:
  "commit E w = (Inr x, w') \<Longrightarrow> w' = emit Commit (w\<lparr>stored := db w\<rparr>) \<and> unique_ok (db w)"
  by (auto simp: commit_def split: if_splits)

text \<open>
  Invariants of the database alone: they survive every effect of the outside world, and a flush,
  commit or rollback of a world in which both views satisfy them.
\<close>

definition db_inv :: "(db \<Rightarrow> bool) \<Rightarrow> world \<Rightarrow> bool" where
  "db_inv I w \<longleftrightarrow> I (db w) \<and> I (stored w)"

lemma db_inv_emit [simp]: "db_inv I (emit e w) = db_inv I w"
  by (simp add: db_inv_def)

text \<open>
  \<open>stable J\<close>: the effects of the outside world do not disturb \<open>J\<close>. The invariants of the database
  are stable, and so is the history: what has happened stays a prefix of the trace.
\<close>

fun is_spawn :: "event \<Rightarrow> bool" where
  "is_spawn (Spawn n g j) = True"
| "is_spawn _ = False"

definition stable :: "(world \<Rightarrow> bool) \<Rightarrow> bool" where
  "stable J \<longleftrightarrow> (\<forall>w e. \<not> is_spawn e \<longrightarrow> J w \<longrightarrow> J (emit e w))"

lemma stable_db_inv [keeps_intros]: "stable (db_inv I)"
  by (simp add: stable_def)

lemma stable_history [keeps_intros]: "stable (\<lambda>w. prefix h (trace w))"
  by (simp add: stable_def)

lemma stable_db [keeps_intros]: "stable (\<lambda>w. P (db w) (stored w))"
  by (simp add: stable_def)

lemma keeps_outside [keeps_intros]:
  assumes "stable J"
  shows "keeps J (now E)" "keeps J (sleep t)" "keeps J (run_process E cmd)"
    "keeps J (http_request E me u b)" "keeps J (generate_token E)"
    "keeps J (generate_keypair E)" "keeps J (randbelow E n)"
    "keeps J (encrypt_value E x)" "keeps J (decrypt_value E x)"
  using assms by (simp_all add: keeps_def io_defs stable_def)

lemma keeps_files [keeps_intros]:
  assumes "stable J"
  shows "keeps J (is_file E p)" "keeps J (read_text E p)" "keeps J (fs_op E op args)"
    "keeps J (glob E p)" "keeps J (temp_file E s)" "keeps J (run_check E cmd)"
  using assms
  by (simp_all add: keeps_def stable_def is_file_def read_text_def fs_op_def glob_def temp_file_def
      run_check_def bindM_def run_process_def split: option.splits sum.splits)

lemma keeps_finallyM [keeps_intros]: "keeps J m \<Longrightarrow> keeps J f \<Longrightarrow> keeps J (finallyM m f)"
  unfolding keeps_def finallyM_def by (auto split: prod.splits sum.splits)

lemma keeps_try_except [keeps_intros]:
  assumes "keeps J m" and "\<And>e. keeps J (h e)"
  shows "keeps J (try_except m h)"
  unfolding try_except_def by (intro keeps_intros assms)

lemma keeps_poll [keeps_intros]:
  assumes "stable J" and "keeps J body"
  shows "keeps J (poll E t p body)"
proof -
  have "keeps J (poll_until E d p n body)" for d n
    by (induction n arbitrary: d) (auto intro!: keeps_intros assms simp del: keeps_Pair)
  then show ?thesis unfolding poll_def by (intro keeps_intros assms)
qed

lemma keeps_session [keeps_intros]:
  "keeps (db_inv I) (flush E)" "keeps (db_inv I) (commit E)" "keeps (db_inv I) rollback"
  by (auto simp: keeps_def flush_def commit_def rollback_def rollback_w_def db_inv_def)

lemma keeps_get_db [keeps_intros]: "keeps J (get_db f)"
  by (simp add: keeps_def get_db_def)

lemma keeps_mod_db: "(\<And>d. I d \<Longrightarrow> I (f d)) \<Longrightarrow> keeps (db_inv I) (mod_db f)"
  by (simp add: keeps_def mod_db_def db_inv_def)

lemma keeps_with_session [keeps_intros]:
  "keeps (db_inv I) m \<Longrightarrow> keeps (db_inv I) (with_session E m)"
  unfolding with_session_def by (intro keeps_intros)

text \<open>
  Predicates that do not look at the database either: what every operation keeps that neither starts
  a thread nor touches the module globals.
\<close>

named_theorems detached_intros \<open>operations keep the predicates that ignore the database\<close>

definition detached :: "(world \<Rightarrow> bool) \<Rightarrow> bool" where
  "detached J \<longleftrightarrow> stable J \<and> (\<forall>w d. J w \<longrightarrow> J (w\<lparr>db := d\<rparr>)) \<and> (\<forall>w d. J w \<longrightarrow> J (w\<lparr>stored := d\<rparr>))"

lemma detached_stable [detached_intros]: "detached J \<Longrightarrow> stable J"
  by (simp add: detached_def)

lemma detached_session [detached_intros]:
  assumes "detached J"
  shows "keeps J (flush E)" "keeps J (commit E)" "keeps J rollback" "keeps J (mod_db f)"
    "keeps J (modM (\<lambda>w. w\<lparr>db := g w\<rparr>))"
  using assms unfolding detached_def stable_def
  by (auto simp: keeps_def flush_def commit_def rollback_def rollback_w_def mod_db_def)

section \<open>Polling ends\<close>

text \<open>A clock that never runs backwards and that \<open>sleep\<close> advances by the time slept.\<close>

definition clock_ok :: "env \<Rightarrow> bool" where
  "clock_ok E \<longleftrightarrow> (\<forall>h e. o_now E h \<le> o_now E (h @ [e])) \<and>
                 (\<forall>h t. o_now E h + t \<le> o_now E (h @ [Sleep t]))"

lemma clock_mono:
  assumes "clock_ok E" and "prefix h h'"
  shows "o_now E h \<le> o_now E h'"
proof -
  obtain k where "h' = h @ k" using assms(2) by (auto simp: prefix_def)
  moreover have "o_now E h \<le> o_now E (h @ k)"
  proof (induction k rule: rev_induct)
    case Nil
    then show ?case by simp
  next
    case (snoc e k)
    then show ?case using assms(1) unfolding clock_ok_def by (metis append_assoc order_trans)
  qed
  ultimately show ?thesis by simp
qed

definition ends :: "'a io \<Rightarrow> bool" where
  "ends m \<longleftrightarrow> (\<forall>w. fst (m w) \<noteq> Inl Diverged)"

lemma poll_until_ends:
  assumes clock: "clock_ok E" and "0 < pause" and body: "ends body"
    and history: "\<And>h. keeps (\<lambda>w. prefix h (trace w)) body"
    and "d - o_now E (trace w) \<le> (int n - 1) * pause" and "0 < n"
  shows "fst (poll_until E d pause n body w) \<noteq> Inl Diverged"
  using assms(5,6)
proof (induction n arbitrary: w)
  case 0
  then show ?case by simp
next
  case (Suc n)
  let ?t = "o_now E (trace w)" and ?w = "emit Clock w"
  show ?case
  proof (cases "?t < d")
    case False
    then show ?thesis by (simp add: bindM_def now_def)
  next
    case True
    obtain r w1 where run: "body ?w = (r, w1)" by (cases "body ?w")
    show ?thesis
    proof (cases "r = Inr None")
      case False
      with True run body show ?thesis
        unfolding ends_def
        by (cases r) (auto simp: bindM_def now_def split: option.splits dest: spec [of _ ?w])
    next
      case none: True
      have "prefix (trace w) (trace w1)"
        using keepsD [OF history [of "trace ?w"] _ run] by (auto simp: prefix_def)
      then have "?t \<le> o_now E (trace w1)" by (rule clock_mono [OF clock])
      also have "o_now E (trace w1) + pause \<le> o_now E (trace w1 @ [Sleep pause])"
        using clock unfolding clock_ok_def by blast
      finally have "?t + pause \<le> o_now E (trace w1 @ [Sleep pause])" by simp
      with Suc.prems(1) have left: "d - o_now E (trace (emit (Sleep pause) w1)) \<le> (int n - 1) * pause"
        by (simp add: algebra_simps)
      have "0 < n" using Suc.prems(1) True by (cases n) simp_all
      from Suc.IH [OF left this] show ?thesis
        using True run none by (simp add: bindM_def thenM_def now_def sleep_def)
    qed
  qed
qed

text \<open>The fuel of \<open>poll\<close> is enough.\<close>

lemma poll_ends:
  assumes "clock_ok E" and "0 < pause" and "ends body"
    and "\<And>h. keeps (\<lambda>w. prefix h (trace w)) body"
  shows "fst (poll E timeout pause body w) \<noteq> Inl Diverged"
proof -
  let ?t = "o_now E (trace w)" and ?n = "nat (timeout div pause) + 2"
  have "?t \<le> o_now E (trace (emit Clock w))"
    using assms(1) by (simp add: clock_ok_def)
  moreover have "timeout \<le> (int ?n - 1) * pause"
  proof -
    have "timeout = timeout div pause * pause + timeout mod pause" by simp
    moreover have "timeout mod pause < pause" using assms(2) by (rule pos_mod_bound)
    moreover have "(timeout div pause + 1) * pause = timeout div pause * pause + pause"
      by (simp add: distrib_right)
    moreover have "(timeout div pause + 1) * pause \<le> (int ?n - 1) * pause"
      using assms(2) by (intro mult_right_mono) simp_all
    ultimately show ?thesis by linarith
  qed
  ultimately have "(?t + timeout) - o_now E (trace (emit Clock w)) \<le> (int ?n - 1) * pause" by linarith
  then show ?thesis
    using poll_until_ends [OF assms(1-4), where d = "?t + timeout" and n = ?n and w = "emit Clock w"]
    by (simp add: poll_def bindM_def now_def)
qed

text \<open>Processes and servers answer or fail; they are not the model's \<open>Diverged\<close>.\<close>

definition outside_ends :: "env \<Rightarrow> bool" where
  "outside_ends E \<longleftrightarrow> (\<forall>h c. o_run E h c \<noteq> Inl Diverged) \<and> (\<forall>h me u b. o_http E h me u b \<noteq> Inl Diverged) \<and>
     (\<forall>x. o_decrypt E x \<noteq> Inl Diverged)"

named_theorems ends_intros \<open>rules that a computation does not diverge\<close>

lemma ends_outside [ends_intros]:
  "ends (now E)" "ends (sleep t)" "ends (ret x)" "ends (getM f)" "ends (get_db f2)" "ends (modM g)"
  "ends (mod_db h)" "ends (generate_token E)" "ends (generate_keypair E)" "ends (randbelow E n)"
  "ends (encrypt_value E y)" "ends (flush E)" "ends (commit E)" "ends rollback"
  by (simp_all add: ends_def io_defs flush_def commit_def rollback_def locked_exn_def unique_exn_def)

lemma ends_calls [ends_intros]:
  assumes "outside_ends E"
  shows "ends (run_process E cmd)" "ends (http_request E me u b)" "ends (decrypt_value E y)"
  using assms by (simp_all add: ends_def io_defs outside_ends_def)

lemma ends_raise [ends_intros]: "e \<noteq> Diverged \<Longrightarrow> ends (raise e)"
  by (simp add: ends_def)

lemma ends_liftE [ends_intros]: "r \<noteq> Inl Diverged \<Longrightarrow> ends (liftE r)"
  by (simp add: ends_def)

lemma ends_bindM [ends_intros]: "ends m \<Longrightarrow> (\<And>x. ends (f x)) \<Longrightarrow> ends (bindM m f)"
  unfolding ends_def bindM_def by (auto split: prod.splits sum.splits) (metis fst_conv)

lemma ends_thenM [ends_intros]: "ends m \<Longrightarrow> ends k \<Longrightarrow> ends (thenM m k)"
  unfolding ends_def thenM_def by (auto split: prod.splits sum.splits) (metis fst_conv)

lemma ends_if [ends_intros]: "ends m \<Longrightarrow> ends k \<Longrightarrow> ends (if b then m else k)"
  by simp

lemma ends_option [ends_intros]:
  "ends m \<Longrightarrow> (\<And>a. x = Some a \<Longrightarrow> ends (k a)) \<Longrightarrow> ends (case x of None \<Rightarrow> m | Some a \<Rightarrow> k a)"
  by (cases x) simp_all

lemma ends_try_except [ends_intros]:
  "ends m \<Longrightarrow> (\<And>e. e \<noteq> Diverged \<Longrightarrow> ends (h e)) \<Longrightarrow> ends (try_except m h)"
  unfolding ends_def try_except_def catchM_def by (auto split: prod.splits sum.splits) (metis fst_conv)

text \<open>A handler that never raises makes the whole statement return.\<close>

lemma try_except_returns:
  assumes "ends m" and "\<And>e w. \<exists>x w'. h e w = (Inr x, w')"
  shows "\<exists>x w'. try_except m h w = (Inr x, w')"
  using assms unfolding ends_def try_except_def catchM_def
  by (auto split: prod.splits sum.splits) (metis fst_conv)

text \<open>A computation that always returns, and the loops built from such bodies.\<close>

definition returns :: "'a io \<Rightarrow> bool" where
  "returns m \<longleftrightarrow> (\<forall>w. \<exists>x w'. m w = (Inr x, w'))"

lemma returns_ends: "returns m \<Longrightarrow> ends m"
  unfolding returns_def ends_def by (metis Inr_Inl_False fst_conv)

lemma returns_try_except: "ends m \<Longrightarrow> (\<And>e. returns (h e)) \<Longrightarrow> returns (try_except m h)"
  using try_except_returns [of m h] unfolding returns_def by blast

lemma returns_ret [simp]: "returns (ret x)"
  by (simp add: returns_def)

lemma returns_thenM: "returns m \<Longrightarrow> returns k \<Longrightarrow> returns (thenM m k)"
  unfolding returns_def thenM_def by (metis (no_types, lifting) case_prod_conv old.sum.simps(6))

lemma returns_bindM: "returns m \<Longrightarrow> (\<And>x. returns (f x)) \<Longrightarrow> returns (bindM m f)"
  unfolding returns_def bindM_def by (metis (no_types, lifting) case_prod_conv old.sum.simps(6))

lemma poll_until_returns:
  assumes "returns body"
  shows "fst (poll_until E d p n body v) \<in> insert (Inl Diverged) (range Inr)"
proof (induction n arbitrary: v)
  case 0
  then show ?case by simp
next
  case (Suc n)
  obtain x v1 where "body (emit Clock v) = (Inr x, v1)" using assms unfolding returns_def by blast
  then show ?case
    using Suc [of "emit (Sleep p) v1"]
    by (auto simp: bindM_def thenM_def now_def sleep_def split: option.splits)
qed

declare poll_until.simps [simp del]

lemma poll_returns:
  assumes "clock_ok E" and "0 < pause" and "returns body"
    and "\<And>h. keeps (\<lambda>w. prefix h (trace w)) body"
  shows "returns (poll E timeout pause body)"
  unfolding returns_def
proof
  fix w
  have "fst (poll E timeout pause body w) \<in> insert (Inl Diverged) (range Inr)"
    unfolding poll_def bindM_def now_def using poll_until_returns [OF assms(3)]
    by (simp del: poll_until.simps)
  moreover have "fst (poll E timeout pause body w) \<noteq> Inl Diverged"
    using poll_ends [OF assms(1,2) returns_ends [OF assms(3)] assms(4)] .
  ultimately obtain r where "fst (poll E timeout pause body w) = Inr r" by blast
  then show "\<exists>x w'. poll E timeout pause body w = (Inr x, w')"
    by (metis prod.collapse)
qed

section \<open>A concrete environment\<close>

text \<open>
  An environment in which nothing fails, for evaluating the model on concrete inputs: the clock
  shows one second per event so far, every process succeeds silently, every request gets an empty
  object, encryption appends a mark.
\<close>

definition sample_env :: env where
  "sample_env = \<lparr>s_api_key = ''key'', s_host_public_ip = ''203.0.113.1'', s_wg_public_host = [],
     s_orch_host_ip = ''10.0.0.1'', s_incus_network = ''incusbr0'', s_incus_image = ''image'',
     s_incus_vm_memory = ''512MiB'', s_incus_vm_cpu = ''1'', s_incus_net_interface = ''eth0'',
     s_incus_instance_type = ''vm'', s_incus_provisioner = ''cloudinit'',
     s_ip_pool_network = ''10.0.0.0/24'', s_ip_pool_start = ''10.0.0.10'',
     s_port_pool_start = 51820, s_port_pool_end = 51830, s_wg_subnet_base = ''10.8'',
     s_headscale_url = ''http://hs'', s_headscale_gateway_url = [], s_headscale_cli = ''headscale'',
     s_headscale_config = [], s_headscale_user = ''gateways'', s_headscale_preauth_expiration = ''24h'',
     s_headscale_exit_node_tag = ''tag:exit'', s_headscale_mobile_user = ''mobile'',
     s_headscale_worker_tag = ''tag:worker'', s_headscale_worker_user = ''workers'',
     s_wg_dns = ''1.1.1.1'', s_api_root = ''http://orch'', s_provisioning_timeout_seconds = 300,
     s_agent_port = 8080, s_gateway_agent_wheel_url = [], s_data_dir = ''data'',
     s_home = ''/root'', s_repo_root = ''/srv'', poll_fuel = 100,
     o_now = (\<lambda>h. int (length h) * second), o_locked = (\<lambda>h. False),
     o_run = (\<lambda>h cmd. Inr \<lparr>returncode = 0, stdout = [], stderr = []\<rparr>),
     o_http = (\<lambda>h m u b. Inr (200, ''{}'')), o_token = (\<lambda>h. ''tok'' @ str_nat (length h)),
     o_keypair = (\<lambda>h. (''priv'' @ str_nat (length h), ''pub'' @ str_nat (length h))),
     o_rand = (\<lambda>h n. length h), o_tempname = (\<lambda>h. ''/tmp/t'' @ str_nat (length h)),
     o_file = (\<lambda>h p. None), o_fs = (\<lambda>h op args. Inr ()), o_glob = (\<lambda>h d. []), o_encrypt = (\<lambda>h x. x @ ''#''),
     o_decrypt = (\<lambda>x. if x \<noteq> [] \<and> last x = CHR ''#'' then Inr (butlast x) else Inl InvalidToken),
     o_hash = rev, o_render = (\<lambda>n vs. n @ concat (map (\<lambda>(k, v). k @ ''='' @ v) vs))\<rparr>"

lemma sample_env_unlocked [simp]: "unlocked sample_env"
  by (simp add: unlocked_def sample_env_def)

end
