(* ===== verification/Repos.thy ===== *)
theory Repos
  imports World
begin

text \<open>
  The repositories (\<open>orchestrator/repositories/\<close>). A query is a function of the session's view of
  the database; a command changes the view and flushes it. A query without \<open>ORDER BY\<close> answers in
  row order. An assignment to an attribute of a row object is an update of that row in the view.
\<close>

section \<open>Row updates\<close>

definition upd_gateway :: "int \<Rightarrow> (gateway \<Rightarrow> gateway) \<Rightarrow> db \<Rightarrow> db" where
  "upd_gateway i f d = d\<lparr>gateways := tbl_upd gw_id i f (gateways d)\<rparr>"

definition upd_peer :: "int \<Rightarrow> (peer \<Rightarrow> peer) \<Rightarrow> db \<Rightarrow> db" where
  "upd_peer i f d = d\<lparr>peers := tbl_upd peer_id i f (peers d)\<rparr>"

definition upd_group :: "int \<Rightarrow> (peer_group \<Rightarrow> peer_group) \<Rightarrow> db \<Rightarrow> db" where
  "upd_group i f d = d\<lparr>peer_groups := tbl_upd pg_id i f (peer_groups d)\<rparr>"

definition upd_worker :: "int \<Rightarrow> (worker \<Rightarrow> worker) \<Rightarrow> db \<Rightarrow> db" where
  "upd_worker i f d = d\<lparr>workers := tbl_upd wk_id i f (workers d)\<rparr>"

definition upd_enrollment :: "int \<Rightarrow> (enrollment \<Rightarrow> enrollment) \<Rightarrow> db \<Rightarrow> db" where
  "upd_enrollment i f d = d\<lparr>enrollments := tbl_upd en_id i f (enrollments d)\<rparr>"

definition upd_reg :: "int \<Rightarrow> (reg_request \<Rightarrow> reg_request) \<Rightarrow> db \<Rightarrow> db" where
  "upd_reg i f d = d\<lparr>reg_requests := tbl_upd rr_id i f (reg_requests d)\<rparr>"

text \<open>
  \<open>jobs.updated_at\<close> is set by \<open>onupdate\<close> when an \<open>UPDATE\<close> is emitted, that is when some column
  of the row has changed.
\<close>

definition upd_job :: "int \<Rightarrow> int \<Rightarrow> (job \<Rightarrow> job) \<Rightarrow> db \<Rightarrow> db" where
  "upd_job t i f d =
     d\<lparr>jobs := tbl_upd job_id i (\<lambda>j. if f j = j then j else (f j)\<lparr>job_updated_at := t\<rparr>) (jobs d)\<rparr>"

definition mod_job :: "env \<Rightarrow> int \<Rightarrow> (job \<Rightarrow> job) \<Rightarrow> unit io" where
  "mod_job E i f = modM (\<lambda>w. w\<lparr>db := upd_job (db_now E w) i f (db w)\<rparr>)"

section \<open>Gateways\<close>

definition gateways_get_by_id :: "int \<Rightarrow> db \<Rightarrow> gateway option" where
  "gateways_get_by_id i d = tbl_get gw_id i (gateways d)"

definition gateways_get_by_name :: "str \<Rightarrow> db \<Rightarrow> gateway option" where
  "gateways_get_by_name n d = find (\<lambda>g. gw_name g = n) (gateways d)"

definition gateways_get_by_tailscale_hostname :: "str \<Rightarrow> db \<Rightarrow> gateway option" where
  "gateways_get_by_tailscale_hostname h d = find (\<lambda>g. gw_tailscale_hostname g = h) (gateways d)"

definition gateways_list_all :: "db \<Rightarrow> gateway list" where
  "gateways_list_all d = gateways d"

definition gateways_create :: "env \<Rightarrow> gateway \<Rightarrow> int io" where
  "gateways_create E g =
     bindM (get_db (\<lambda>d. next_id gw_id (gateways d))) (\<lambda>i.
     thenM (modM (\<lambda>w. w\<lparr>db := (db w)\<lparr>gateways := gateways (db w) @
                           [g\<lparr>gw_id := i, gw_created_at := db_now E w\<rparr>]\<rparr>\<rparr>))
     (thenM (flush E) (ret i)))"

definition gateways_update_status :: "env \<Rightarrow> int \<Rightarrow> gateway_status \<Rightarrow> str option \<Rightarrow> unit io" where
  "gateways_update_status E i st msg =
     thenM (mod_db (upd_gateway i (\<lambda>g. g\<lparr>gw_status := st, gw_error_message := msg\<rparr>))) (flush E)"

text \<open>
  \<open>session.delete(gateway)\<close>: the relationships of \<open>Gateway\<close> cascade the deletion to its peers
  (and their metrics), its jobs and its metrics. The rows go at the next flush; no query runs
  before it.
\<close>

definition delete_gateway_rows :: "int \<Rightarrow> db \<Rightarrow> db" where
  "delete_gateway_rows i d =
     d\<lparr>gateways := tbl_del gw_id i (gateways d),
       jobs := filter (\<lambda>j. job_gateway_id j \<noteq> Some i) (jobs d),
       peer_metrics := filter (\<lambda>m. pm_peer_id m \<notin> peer_id ` set (filter (\<lambda>p. peer_gateway_id p = i) (peers d)))
                         (peer_metrics d),
       peers := filter (\<lambda>p. peer_gateway_id p \<noteq> i) (peers d),
       gateway_metrics := filter (\<lambda>m. gm_gateway_id m \<noteq> i) (gateway_metrics d)\<rparr>"

definition gateways_delete :: "int \<Rightarrow> unit io" where
  "gateways_delete i = mod_db (delete_gateway_rows i)"

section \<open>Jobs\<close>

definition jobs_get_by_id :: "int \<Rightarrow> db \<Rightarrow> job option" where
  "jobs_get_by_id i d = tbl_get job_id i (jobs d)"

text \<open>\<open>Job(type=..., gateway_id=..., status=PENDING)\<close>.\<close>

definition new_job :: "job_type \<Rightarrow> int \<Rightarrow> job" where
  "new_job ty gid = \<lparr>job_id = 0, job_type = ty, job_gateway_id = Some gid, job_status = JPending,
     job_error = None, job_stage = None, job_stage_updated_at = None, job_created_at = 0,
     job_updated_at = 0\<rparr>"

definition jobs_create :: "env \<Rightarrow> job \<Rightarrow> int io" where
  "jobs_create E j =
     bindM (get_db (\<lambda>d. next_id job_id (jobs d))) (\<lambda>i.
     thenM (modM (\<lambda>w. w\<lparr>db := (db w)\<lparr>jobs := jobs (db w) @
              [j\<lparr>job_id := i, job_created_at := db_now E w, job_updated_at := db_now E w\<rparr>]\<rparr>\<rparr>))
     (thenM (flush E) (ret i)))"

definition jobs_update_status :: "env \<Rightarrow> int \<Rightarrow> job_status \<Rightarrow> str option \<Rightarrow> unit io" where
  "jobs_update_status E i st err =
     thenM (mod_job E i (\<lambda>j. j\<lparr>job_status := st,
              job_error := (case err of None \<Rightarrow> job_error j | Some e \<Rightarrow> Some e)\<rparr>))
     (flush E)"

definition jobs_update_stage :: "env \<Rightarrow> int \<Rightarrow> str \<Rightarrow> bool \<Rightarrow> unit io" where
  "jobs_update_stage E i stage touch =
     bindM (get_db (jobs_get_by_id i)) (\<lambda>r.
     case r of
       None \<Rightarrow> ret ()
     | Some j \<Rightarrow>
         thenM (if job_stage j \<noteq> Some stage \<or> touch
                then bindM (now E) (\<lambda>t.
                       mod_job E i (\<lambda>j. j\<lparr>job_stage := Some stage, job_stage_updated_at := Some t\<rparr>))
                else ret ())
         (flush E))"

definition jobs_list_recent :: "nat \<Rightarrow> db \<Rightarrow> job list" where
  "jobs_list_recent limit d = take limit (rev (jobs d))"

definition jobs_get_pending_for_gateway :: "int \<Rightarrow> db \<Rightarrow> job option" where
  "jobs_get_pending_for_gateway gid d =
     find (\<lambda>j. job_gateway_id j = Some gid \<and> job_status j = JPending) (jobs d)"

definition jobs_get_latest_create_job :: "int \<Rightarrow> db \<Rightarrow> job option" where
  "jobs_get_latest_create_job gid d =
     find (\<lambda>j. job_gateway_id j = Some gid \<and> job_type j = CreateGateway) (rev (jobs d))"

definition jobs_get_latest_delete_job :: "int \<Rightarrow> db \<Rightarrow> job option" where
  "jobs_get_latest_delete_job gid d =
     find (\<lambda>j. job_gateway_id j = Some gid \<and> job_type j = DeleteGateway) (rev (jobs d))"

definition jobs_reset_failed_job :: "env \<Rightarrow> int \<Rightarrow> job option io" where
  "jobs_reset_failed_job E gid =
     bindM (get_db (jobs_get_latest_create_job gid)) (\<lambda>r.
     case r of
       None \<Rightarrow> ret None
     | Some j \<Rightarrow>
         thenM (if job_status j \<in> {JFailed, JCompleted, JRunning}
                then thenM (mod_job E (job_id j) (\<lambda>j. j\<lparr>job_status := JPending, job_error := None\<rparr>))
                     (flush E)
                else ret ())
         (get_db (\<lambda>d. case jobs_get_by_id (job_id j) d of
                        Some j' \<Rightarrow> if job_status j' = JPending then Some j' else None
                      | None \<Rightarrow> None)))"

section \<open>Peers\<close>

definition peers_get_by_id :: "int \<Rightarrow> db \<Rightarrow> peer option" where
  "peers_get_by_id i d = tbl_get peer_id i (peers d)"

definition peers_get_by_public_key :: "str \<Rightarrow> db \<Rightarrow> peer option" where
  "peers_get_by_public_key k d = find (\<lambda>p. peer_public_key p = k) (peers d)"

definition peers_list_by_gateway :: "int \<Rightarrow> db \<Rightarrow> peer list" where
  "peers_list_by_gateway gid d = filter (\<lambda>p. peer_gateway_id p = gid) (peers d)"

definition peers_create :: "env \<Rightarrow> peer \<Rightarrow> int io" where
  "peers_create E p =
     bindM (get_db (\<lambda>d. next_id peer_id (peers d))) (\<lambda>i.
     thenM (modM (\<lambda>w. w\<lparr>db := (db w)\<lparr>peers := peers (db w) @
              [p\<lparr>peer_id := i, peer_created_at := db_now E w\<rparr>]\<rparr>\<rparr>))
     (thenM (flush E) (ret i)))"

text \<open>\<open>session.delete(peer)\<close> cascades to the peer's metrics.\<close>

definition peers_delete :: "int \<Rightarrow> unit io" where
  "peers_delete i =
     mod_db (\<lambda>d. d\<lparr>peers := tbl_del peer_id i (peers d),
                    peer_metrics := filter (\<lambda>m. pm_peer_id m \<noteq> i) (peer_metrics d)\<rparr>)"

definition peers_set_suspended :: "env \<Rightarrow> int \<Rightarrow> bool \<Rightarrow> unit io" where
  "peers_set_suspended E i b =
     thenM (mod_db (upd_peer i (\<lambda>p. p\<lparr>peer_suspended := b\<rparr>))) (flush E)"

section \<open>Peer groups\<close>

definition groups_get_by_id :: "int \<Rightarrow> db \<Rightarrow> peer_group option" where
  "groups_get_by_id i d = tbl_get pg_id i (peer_groups d)"

definition groups_get_by_name :: "str \<Rightarrow> db \<Rightarrow> peer_group option" where
  "groups_get_by_name n d = find (\<lambda>g. pg_name g = n) (peer_groups d)"

definition groups_list_all :: "db \<Rightarrow> peer_group list" where
  "groups_list_all d = peer_groups d"

definition groups_create :: "env \<Rightarrow> peer_group \<Rightarrow> int io" where
  "groups_create E g =
     bindM (get_db (\<lambda>d. next_id pg_id (peer_groups d))) (\<lambda>i.
     thenM (modM (\<lambda>w. w\<lparr>db := (db w)\<lparr>peer_groups := peer_groups (db w) @
              [g\<lparr>pg_id := i, pg_created_at := db_now E w\<rparr>]\<rparr>\<rparr>))
     (thenM (flush E) (ret i)))"

text \<open>
  \<open>session.delete(group)\<close>: the \<open>gateways\<close> relationship has no delete cascade, so the ORM clears
  the foreign key of the gateways still in the group.
\<close>

definition groups_delete :: "int \<Rightarrow> unit io" where
  "groups_delete i =
     mod_db (\<lambda>d. d\<lparr>peer_groups := tbl_del pg_id i (peer_groups d),
                    gateways := map (\<lambda>g. if gw_peer_group_id g = Some i
                                         then g\<lparr>gw_peer_group_id := None\<rparr> else g) (gateways d)\<rparr>)"

definition group_gateways :: "int \<Rightarrow> db \<Rightarrow> gateway list" where
  "group_gateways i d = filter (\<lambda>g. gw_peer_group_id g = Some i) (gateways d)"

section \<open>Metrics\<close>

text \<open>\<open>ORDER BY ... DESC LIMIT 1\<close>: the first row that no other row is newer than.\<close>

fun first_newest :: "('r \<Rightarrow> 'r \<Rightarrow> bool) \<Rightarrow> 'r list \<Rightarrow> 'r option" where
  "first_newest newer [] = None"
| "first_newest newer (r # rs) =
     (case first_newest newer rs of
        None \<Rightarrow> Some r
      | Some q \<Rightarrow> if newer q r then Some q else Some r)"

text \<open>SQLite sorts NULL before every value.\<close>

fun null_less :: "int option \<Rightarrow> int option \<Rightarrow> bool" where
  "null_less None None = False"
| "null_less None (Some _) = True"
| "null_less (Some _) None = False"
| "null_less (Some a) (Some b) = (a < b)"

definition metrics_add_gateway :: "env \<Rightarrow> gateway_metric \<Rightarrow> unit io" where
  "metrics_add_gateway E m =
     bindM (now E) (\<lambda>t.
     thenM (mod_db (\<lambda>d. d\<lparr>gateway_metrics := gateway_metrics d @
              [m\<lparr>gm_id := next_id gm_id (gateway_metrics d), gm_polled_at := t\<rparr>]\<rparr>))
     (flush E))"

definition metrics_add_peer :: "env \<Rightarrow> int \<Rightarrow> int option \<Rightarrow> int option \<Rightarrow> int option \<Rightarrow> unit io" where
  "metrics_add_peer E pid hs rx tx =
     bindM (now E) (\<lambda>t.
     thenM (mod_db (\<lambda>d. d\<lparr>peer_metrics := peer_metrics d @
              [\<lparr>pm_id = next_id pm_id (peer_metrics d), pm_peer_id = pid, pm_last_handshake = hs,
                pm_rx_bytes = rx, pm_tx_bytes = tx, pm_polled_at = t\<rparr>]\<rparr>))
     (flush E))"

definition latest_gateway_metric :: "int \<Rightarrow> db \<Rightarrow> gateway_metric option" where
  "latest_gateway_metric gid d =
     first_newest (\<lambda>a b. gm_polled_at b < gm_polled_at a)
       (filter (\<lambda>m. gm_gateway_id m = gid) (gateway_metrics d))"

definition latest_gateway_metric_with_egress :: "int \<Rightarrow> db \<Rightarrow> gateway_metric option" where
  "latest_gateway_metric_with_egress gid d =
     first_newest
       (\<lambda>a b. null_less (gm_egress_updated_at b) (gm_egress_updated_at a) \<or>
              gm_egress_updated_at a = gm_egress_updated_at b \<and> gm_polled_at b < gm_polled_at a)
       (filter (\<lambda>m. gm_gateway_id m = gid \<and> gm_egress_public_ip m \<noteq> None) (gateway_metrics d))"

definition latest_peer_metric :: "int \<Rightarrow> db \<Rightarrow> peer_metric option" where
  "latest_peer_metric pid d =
     first_newest (\<lambda>a b. pm_polled_at b < pm_polled_at a)
       (filter (\<lambda>m. pm_peer_id m = pid) (peer_metrics d))"

section \<open>Workers\<close>

definition workers_get_by_id :: "int \<Rightarrow> db \<Rightarrow> worker option" where
  "workers_get_by_id i d = tbl_get wk_id i (workers d)"

definition workers_get_by_name :: "str \<Rightarrow> db \<Rightarrow> worker option" where
  "workers_get_by_name n d = find (\<lambda>w. wk_name w = n) (workers d)"

definition workers_list_all :: "db \<Rightarrow> worker list" where
  "workers_list_all d = workers d"

definition workers_list_enabled :: "db \<Rightarrow> worker list" where
  "workers_list_enabled d = filter wk_enabled (workers d)"

definition workers_create :: "env \<Rightarrow> worker \<Rightarrow> int io" where
  "workers_create E r =
     bindM (get_db (\<lambda>d. next_id wk_id (workers d))) (\<lambda>i.
     thenM (modM (\<lambda>w. w\<lparr>db := (db w)\<lparr>workers := workers (db w) @
              [r\<lparr>wk_id := i, wk_created_at := db_now E w\<rparr>]\<rparr>\<rparr>))
     (thenM (flush E) (ret i)))"

text \<open>\<open>SELECT worker_id, COUNT(id) ... GROUP BY worker_id\<close>: a worker without gateways has no entry.\<close>

definition gateway_counts :: "db \<Rightarrow> int \<Rightarrow> nat option" where
  "gateway_counts d wid =
     (let n = length (filter (\<lambda>g. gw_worker_id g = wid) (gateways d)) in if n = 0 then None else Some n)"

record host_stats =
  hs_cpu_percent :: pyfloat
  hs_memory_total_mb :: int
  hs_memory_used_mb :: int
  hs_memory_percent :: pyfloat
  hs_network_interface :: str
  hs_network_rx_bytes_per_sec :: pyfloat
  hs_network_tx_bytes_per_sec :: pyfloat
  hs_load_avg :: "pyfloat list"

definition workers_update_stats :: "env \<Rightarrow> int \<Rightarrow> host_stats \<Rightarrow> unit io" where
  "workers_update_stats E i s =
     bindM (now E) (\<lambda>t.
     mod_db (upd_worker i (\<lambda>r. r\<lparr>wk_cpu_percent := Some (hs_cpu_percent s),
       wk_memory_total_mb := Some (hs_memory_total_mb s),
       wk_memory_used_mb := Some (hs_memory_used_mb s),
       wk_memory_percent := Some (hs_memory_percent s),
       wk_network_rx_bps := Some (hs_network_rx_bytes_per_sec s),
       wk_network_tx_bps := Some (hs_network_tx_bytes_per_sec s),
       wk_status := WOnline, wk_last_seen_at := Some t\<rparr>)))"

section \<open>Worker enrollments\<close>

definition enrollments_create :: "env \<Rightarrow> enrollment \<Rightarrow> int io" where
  "enrollments_create E e =
     bindM (get_db (\<lambda>d. next_id en_id (enrollments d))) (\<lambda>i.
     thenM (modM (\<lambda>w. w\<lparr>db := (db w)\<lparr>enrollments := enrollments (db w) @
              [e\<lparr>en_id := i, en_created_at := db_now E w\<rparr>]\<rparr>\<rparr>))
     (thenM (flush E) (ret i)))"

definition enrollments_get_by_token_hash :: "str \<Rightarrow> db \<Rightarrow> enrollment option" where
  "enrollments_get_by_token_hash h d = find (\<lambda>e. en_token_hash e = h) (enrollments d)"

definition en_active :: "int \<Rightarrow> enrollment \<Rightarrow> bool" where
  "en_active t e \<longleftrightarrow> en_used_at e = None \<and> t < en_expires_at e"

definition enrollments_get_active_by_name :: "int \<Rightarrow> str \<Rightarrow> db \<Rightarrow> enrollment option" where
  "enrollments_get_active_by_name t n d = find (\<lambda>e. en_name e = n \<and> en_active t e) (enrollments d)"

definition enrollments_list_active_names :: "int \<Rightarrow> db \<Rightarrow> str list" where
  "enrollments_list_active_names t d = map en_name (filter (en_active t) (enrollments d))"

definition enrollments_get_latest_active :: "int \<Rightarrow> db \<Rightarrow> enrollment option" where
  "enrollments_get_latest_active t d =
     first_newest (\<lambda>a b. en_created_at b < en_created_at a) (filter (en_active t) (enrollments d))"

section \<open>Registration requests\<close>

definition reg_get_by_key :: "str \<Rightarrow> db \<Rightarrow> reg_request option" where
  "reg_get_by_key k d = find (\<lambda>r. rr_registration_key r = k) (reg_requests d)"

definition reg_get_by_display_code :: "str \<Rightarrow> db \<Rightarrow> reg_request option" where
  "reg_get_by_display_code c d =
     find (\<lambda>r. rr_display_code r = c \<and> rr_status r = RPending) (reg_requests d)"

definition reg_list_pending :: "db \<Rightarrow> reg_request list" where
  "reg_list_pending d =
     sort_key (\<lambda>r. - rr_created_at r) (filter (\<lambda>r. rr_status r = RPending) (reg_requests d))"

definition display_code_length :: nat where
  "display_code_length = 6"

fun allocate_display_code :: "env \<Rightarrow> nat \<Rightarrow> str io" where
  "allocate_display_code E 0 = raise (RuntimeError ''Unable to allocate a unique display code'')"
| "allocate_display_code E (Suc tries) =
     bindM (randbelow E 1000000) (\<lambda>n.
     bindM (get_db (reg_get_by_display_code (zero_pad display_code_length n))) (\<lambda>taken.
     case taken of
       None \<Rightarrow> ret (zero_pad display_code_length n)
     | Some _ \<Rightarrow> allocate_display_code E tries))"

definition reg_touch_pending :: "env \<Rightarrow> str \<Rightarrow> reg_request io" where
  "reg_touch_pending E key =
     bindM (get_db (reg_get_by_key key)) (\<lambda>existing.
     case existing of
       Some r \<Rightarrow>
         if rr_status r \<noteq> RPending then ret r
         else bindM (now E) (\<lambda>t.
              thenM (mod_db (upd_reg (rr_id r) (\<lambda>r. r\<lparr>rr_created_at := t\<rparr>)))
              (thenM (flush E) (ret (r\<lparr>rr_created_at := t\<rparr>))))
     | None \<Rightarrow>
         bindM (allocate_display_code E 50) (\<lambda>code.
         bindM (getM (\<lambda>w. \<lparr>rr_id = next_id rr_id (reg_requests (db w)), rr_registration_key = key,
                 rr_display_code = code, rr_status = RPending, rr_headscale_node_id = None,
                 rr_tailscale_ip = None, rr_created_at = db_now E w, rr_resolved_at = None\<rparr>)) (\<lambda>row.
         thenM (mod_db (\<lambda>d. d\<lparr>reg_requests := reg_requests d @ [row]\<rparr>))
         (thenM (flush E) (ret row)))))"

definition reg_mark_approved :: "env \<Rightarrow> str \<Rightarrow> int \<Rightarrow> str \<Rightarrow> unit io" where
  "reg_mark_approved E key node_id ip =
     bindM (get_db (reg_get_by_key key)) (\<lambda>row.
     case row of
       None \<Rightarrow> ret ()
     | Some r \<Rightarrow>
         bindM (now E) (\<lambda>t.
         thenM (mod_db (upd_reg (rr_id r) (\<lambda>r. r\<lparr>rr_status := RApproved,
                  rr_headscale_node_id := Some node_id, rr_tailscale_ip := Some ip,
                  rr_resolved_at := Some t\<rparr>)))
         (flush E)))"

definition reg_mark_rejected :: "env \<Rightarrow> str \<Rightarrow> unit io" where
  "reg_mark_rejected E key =
     bindM (get_db (reg_get_by_key key)) (\<lambda>row.
     case row of
       None \<Rightarrow> ret ()
     | Some r \<Rightarrow>
         bindM (now E) (\<lambda>t.
         thenM (mod_db (upd_reg (rr_id r) (\<lambda>r. r\<lparr>rr_status := RRejected, rr_resolved_at := Some t\<rparr>)))
         (flush E)))"

section \<open>Facts\<close>

lemmas upd_defs [simp] = upd_gateway_def upd_peer_def upd_group_def upd_worker_def
  upd_enrollment_def upd_reg_def upd_job_def

lemma mod_job_run [simp, run_simps]:
  "mod_job E i f w = (Inr (), w\<lparr>db := upd_job (db_now E w) i f (db w)\<rparr>)"
  by (simp add: mod_job_def)

lemma gateways_get_by_id_upd:
  "(\<And>g. gw_id (f g) = gw_id g) \<Longrightarrow>
   gateways_get_by_id i (upd_gateway j f d) =
     (if i = j then map_option f (gateways_get_by_id i d) else gateways_get_by_id i d)"
  by (simp add: gateways_get_by_id_def tbl_get_upd)

lemma find_Some_in: "find P xs = Some x \<Longrightarrow> x \<in> set xs" "find P xs = Some x \<Longrightarrow> P x"
  using find_Some_iff_mem by fast+

lemma gateways_get_by_id_SomeD: "gateways_get_by_id i d = Some g \<Longrightarrow> g \<in> set (gateways d) \<and> gw_id g = i"
  by (auto simp: gateways_get_by_id_def dest: tbl_get_SomeD)

lemma jobs_get_by_id_SomeD: "jobs_get_by_id i d = Some j \<Longrightarrow> j \<in> set (jobs d) \<and> job_id j = i"
  by (auto simp: jobs_get_by_id_def dest: tbl_get_SomeD)

lemma peers_get_by_id_SomeD: "peers_get_by_id i d = Some p \<Longrightarrow> p \<in> set (peers d) \<and> peer_id p = i"
  by (auto simp: peers_get_by_id_def dest: tbl_get_SomeD)

lemma workers_get_by_id_SomeD: "workers_get_by_id i d = Some r \<Longrightarrow> r \<in> set (workers d) \<and> wk_id r = i"
  by (auto simp: workers_get_by_id_def dest: tbl_get_SomeD)

lemma latest_create_job_SomeD:
  "jobs_get_latest_create_job gid d = Some j \<Longrightarrow>
   j \<in> set (jobs d) \<and> job_gateway_id j = Some gid \<and> job_type j = CreateGateway"
  by (auto simp: jobs_get_latest_create_job_def dest: find_Some_in)

lemma latest_delete_job_SomeD:
  "jobs_get_latest_delete_job gid d = Some j \<Longrightarrow>
   j \<in> set (jobs d) \<and> job_gateway_id j = Some gid \<and> job_type j = DeleteGateway"
  by (auto simp: jobs_get_latest_delete_job_def dest: find_Some_in)

lemma pending_for_gateway_SomeD:
  "jobs_get_pending_for_gateway gid d = Some j \<Longrightarrow>
   j \<in> set (jobs d) \<and> job_gateway_id j = Some gid \<and> job_status j = JPending"
  by (auto simp: jobs_get_pending_for_gateway_def dest: find_Some_in)

text \<open>Primary keys stay keys under every command of the repositories.\<close>

lemma keys_ok_mod:
  "keys_ok d \<Longrightarrow> (\<And>g. gw_id (f g) = gw_id g) \<Longrightarrow> keys_ok (upd_gateway i f d)"
  "keys_ok d \<Longrightarrow> (\<And>p. peer_id (f2 p) = peer_id p) \<Longrightarrow> keys_ok (upd_peer i f2 d)"
  "keys_ok d \<Longrightarrow> (\<And>p. pg_id (f3 p) = pg_id p) \<Longrightarrow> keys_ok (upd_group i f3 d)"
  "keys_ok d \<Longrightarrow> (\<And>p. wk_id (f4 p) = wk_id p) \<Longrightarrow> keys_ok (upd_worker i f4 d)"
  "keys_ok d \<Longrightarrow> (\<And>p. en_id (f5 p) = en_id p) \<Longrightarrow> keys_ok (upd_enrollment i f5 d)"
  "keys_ok d \<Longrightarrow> (\<And>p. rr_id (f6 p) = rr_id p) \<Longrightarrow> keys_ok (upd_reg i f6 d)"
  "keys_ok d \<Longrightarrow> (\<And>j. job_id (f7 j) = job_id j) \<Longrightarrow> keys_ok (upd_job t i f7 d)"
  by (simp_all add: keys_ok_def keyed_upd)

lemma keys_ok_delete_gateway_rows: "keys_ok d \<Longrightarrow> keys_ok (delete_gateway_rows i d)"
  by (simp add: keys_ok_def delete_gateway_rows_def keyed_del keyed_filter)

lemma keeps_modM_db: "(\<And>w. db_inv I w \<Longrightarrow> I (f w)) \<Longrightarrow> keeps (db_inv I) (modM (\<lambda>w. w\<lparr>db := f w\<rparr>))"
  by (simp add: keeps_def db_inv_def)

lemma keeps_mod_job [keeps_intros]:
  "(\<And>j. job_id (f j) = job_id j) \<Longrightarrow> keeps (db_inv keys_ok) (mod_job E i f)"
  unfolding mod_job_def by (rule keeps_modM_db) (simp add: keys_ok_mod(7) db_inv_def del: upd_defs)

lemma keyed_snoc_upd: "keyed k rs \<Longrightarrow> k r = next_id k rs \<Longrightarrow> keyed k (rs @ [r])"
  by (rule keyed_new)

lemma keeps_append:
  fixes add :: "world \<Rightarrow> db \<Rightarrow> db"
  assumes "\<And>w d. keys_ok d \<Longrightarrow> db w = d \<Longrightarrow> keys_ok (add w d)"
  shows "keeps (db_inv keys_ok) (modM (\<lambda>w. w\<lparr>db := add w (db w)\<rparr>))"
  using assms by (simp add: keeps_def db_inv_def)

end
