(* ===== verification/IpAddr.thy ===== *)
theory IpAddr
  imports Exn
begin

text \<open>
  The part of the standard library's \<open>ipaddress\<close> the allocators use, for IPv4: an address is its
  integer value, a network its first address and prefix length. Texts that only \<open>IPv6Address\<close> or
  \<open>IPv6Network\<close> accept are outside the model; it rejects them.
\<close>

section \<open>Addresses\<close>

definition ip_limit :: nat where
  "ip_limit = 2 ^ 32"

definition parse_octet :: "str \<Rightarrow> nat option" where
  "parse_octet s =
     (if s \<noteq> [] \<and> list_all is_digit s \<and> length s \<le> 3 \<and> (length s = 1 \<or> hd s \<noteq> CHR ''0'')
         \<and> digits_val s \<le> 255
      then Some (digits_val s) else None)"

definition parse_ipv4 :: "str \<Rightarrow> nat option" where
  "parse_ipv4 s =
     (case map parse_octet (py_split (CHR ''.'') s) of
        [Some a, Some b, Some c, Some d] \<Rightarrow> Some (((a * 256 + b) * 256 + c) * 256 + d)
      | _ \<Rightarrow> None)"

definition format_ipv4 :: "nat \<Rightarrow> str" where
  "format_ipv4 n =
     str_nat (n div 16777216) @ ''.'' @ str_nat (n div 65536 mod 256) @ ''.'' @
     str_nat (n div 256 mod 256) @ ''.'' @ str_nat (n mod 256)"

definition ip_address :: "str \<Rightarrow> nat result" where
  "ip_address s =
     (case parse_ipv4 s of
        Some n \<Rightarrow> Inr n
      | None \<Rightarrow> Inl (ValueError (py_repr s @ '' does not appear to be an IPv4 or IPv6 address'')))"

text \<open>\<open>address + k\<close>: an address beyond the last one raises \<open>AddressValueError\<close>.\<close>

definition ip_of_int :: "nat \<Rightarrow> nat result" where
  "ip_of_int n =
     (if n < ip_limit then Inr n
      else Inl (ValueError (str_nat n @ '' (>= 2**32) is not permitted as an IPv4 address'')))"

section \<open>Networks\<close>

record network =
  net_addr :: nat
  net_plen :: nat

definition net_size :: "network \<Rightarrow> nat" where
  "net_size n = 2 ^ (32 - net_plen n)"

definition broadcast :: "network \<Rightarrow> nat" where
  "broadcast n = net_addr n + net_size n - 1"

definition in_net :: "nat \<Rightarrow> network \<Rightarrow> bool" where
  "in_net a n \<longleftrightarrow> net_addr n \<le> a \<and> a \<le> broadcast n"

text \<open>\<open>network.hosts()\<close>: all but the first and last address, except for /31 and /32.\<close>

definition hosts :: "network \<Rightarrow> nat list" where
  "hosts n =
     (if net_plen n = 32 then [net_addr n]
      else if net_plen n = 31 then [net_addr n, broadcast n]
      else [net_addr n + 1 ..< broadcast n])"

definition netmask :: "nat \<Rightarrow> nat" where
  "netmask p = ip_limit - 2 ^ (32 - p)"

text \<open>The part after the slash: a prefix length, or a net mask, or a host mask.\<close>

definition parse_prefix :: "str \<Rightarrow> nat option" where
  "parse_prefix m =
     (if m \<noteq> [] \<and> list_all is_digit m \<and> digits_val m \<le> 32 then Some (digits_val m)
      else (case parse_ipv4 m of
              None \<Rightarrow> None
            | Some v \<Rightarrow>
                (case find (\<lambda>p. netmask p = v) [0..<33] of
                   Some p \<Rightarrow> Some p
                 | None \<Rightarrow> find (\<lambda>p. netmask p = ip_limit - 1 - v) [0..<33])))"

definition split_network :: "str \<Rightarrow> (nat \<times> nat) option" where
  "split_network s =
     (case py_split (CHR ''/'') s of
        [a] \<Rightarrow> (case parse_ipv4 a of Some n \<Rightarrow> Some (n, 32) | None \<Rightarrow> None)
      | [a, m] \<Rightarrow> (case (parse_ipv4 a, parse_prefix m) of
                     (Some n, Some p) \<Rightarrow> Some (n, p) | _ \<Rightarrow> None)
      | _ \<Rightarrow> None)"

definition ip_network :: "bool \<Rightarrow> str \<Rightarrow> network result" where
  "ip_network strict s =
     (case split_network s of
        None \<Rightarrow> Inl (ValueError (py_repr s @ '' does not appear to be an IPv4 or IPv6 network''))
      | Some (n, p) \<Rightarrow>
          let size = 2 ^ (32 - p); base = n div size * size
          in if strict \<and> n \<noteq> base then Inl (ValueError (s @ '' has host bits set''))
             else Inr \<lparr>net_addr = base, net_plen = p\<rparr>)"

definition format_network :: "network \<Rightarrow> str" where
  "format_network n = format_ipv4 (net_addr n) @ ''/'' @ str_nat (net_plen n)"

section \<open>Facts\<close>

definition wf_network :: "network \<Rightarrow> bool" where
  "wf_network n \<longleftrightarrow> net_plen n \<le> 32 \<and> net_size n dvd net_addr n \<and> net_addr n + net_size n \<le> ip_limit"

lemma net_size_pos [simp]: "0 < net_size n"
  by (simp add: net_size_def)

lemma str_nat_byte_nonzero:
  assumes "n \<noteq> 0"
  shows "hd (str_nat n) \<noteq> CHR ''0''"
  using assms
proof (induction n rule: str_nat.induct)
  case (1 n)
  show ?case
  proof (cases "n < 10")
    case True
    with "1.prems" have "code (digit_char n) \<noteq> 48" by (simp add: code_digit_char)
    then have "digit_char n \<noteq> CHR ''0''" by (auto simp: code_def)
    with True show ?thesis by (subst str_nat.simps) simp
  next
    case False
    with "1" show ?thesis by (subst str_nat.simps) simp
  qed
qed

lemma str_nat_small: "n < 10 \<Longrightarrow> length (str_nat n) = 1"
  by (subst str_nat.simps) simp

lemma parse_octet_str_nat: "n \<le> 255 \<Longrightarrow> parse_octet (str_nat n) = Some n"
  using str_nat_digits [of n] length_str_nat_le [of n 3] str_nat_byte_nonzero [of n] str_nat_small [of n]
  by (cases "n = 0") (auto simp: parse_octet_def)

lemma dot_not_digit: "list_all is_digit s \<Longrightarrow> CHR ''.'' \<notin> set s"
  by (auto simp: list_all_iff is_digit_def code_def)

lemma slash_not_digit: "list_all is_digit s \<Longrightarrow> CHR ''/'' \<notin> set s"
  by (auto simp: list_all_iff is_digit_def code_def)

lemma split_dotted:
  "list_all is_digit a \<Longrightarrow> list_all is_digit b \<Longrightarrow> list_all is_digit c \<Longrightarrow> list_all is_digit d \<Longrightarrow>
   py_split (CHR ''.'') (a @ ''.'' @ b @ ''.'' @ c @ ''.'' @ d) = [a, b, c, d]"
  using py_split_append [of "CHR ''.''"] py_split_id [of "CHR ''.''" d] by (simp add: dot_not_digit)

lemma octets_value:
  "((n div 16777216 * 256 + n div 65536 mod 256) * 256 + n div 256 mod 256) * 256 + n mod 256 = (n::nat)"
proof -
  have "n div 16777216 = n div 65536 div 256" and "n div 65536 = n div 256 div 256"
    by (simp_all add: div_mult2_eq [symmetric])
  then show ?thesis by (metis div_mult_mod_eq)
qed

lemma parse_format_ipv4:
  assumes "n < ip_limit"
  shows "parse_ipv4 (format_ipv4 n) = Some n"
proof -
  have "n div 16777216 \<le> 255" using assms by (simp add: ip_limit_def)
  moreover have "n div 65536 mod 256 \<le> 255" "n div 256 mod 256 \<le> 255" "n mod 256 \<le> 255"
    by (simp_all add: less_Suc_eq_le [symmetric])
  moreover have
    "((n div 16777216 * 256 + n div 65536 mod 256) * 256 + n div 256 mod 256) * 256 + n mod 256 = n"
    by (simp only: octets_value)
  ultimately show ?thesis
    unfolding parse_ipv4_def format_ipv4_def
    by (simp only: split_dotted str_nat_digits list.map parse_octet_str_nat) simp
qed

lemma parse_ipv4_limit: "parse_ipv4 s = Some n \<Longrightarrow> n < ip_limit"
proof -
  assume "parse_ipv4 s = Some n"
  then obtain a b c d where o: "map parse_octet (py_split (CHR ''.'') s) = [Some a, Some b, Some c, Some d]"
    and n: "n = ((a * 256 + b) * 256 + c) * 256 + d"
    by (auto simp: parse_ipv4_def split: list.splits option.splits)
  have "\<And>w v. parse_octet w = Some v \<Longrightarrow> v \<le> 255"
    by (auto simp: parse_octet_def split: if_splits)
  with o have "a \<le> 255" "b \<le> 255" "c \<le> 255" "d \<le> 255"
    by (auto simp: map_eq_Cons_conv)
  with n show ?thesis by (simp add: ip_limit_def)
qed

lemma format_ipv4_inj: "m < ip_limit \<Longrightarrow> n < ip_limit \<Longrightarrow> format_ipv4 m = format_ipv4 n \<longleftrightarrow> m = n"
  by (metis option.inject parse_format_ipv4)

lemma ip_address_Inr: "ip_address s = Inr n \<longleftrightarrow> parse_ipv4 s = Some n"
  by (auto simp: ip_address_def split: option.splits)

lemma ip_address_limit: "ip_address s = Inr n \<Longrightarrow> n < ip_limit"
  by (simp add: ip_address_Inr parse_ipv4_limit)

lemma format_ipv4_chars: "c \<in> set (format_ipv4 n) \<Longrightarrow> is_digit c \<or> c = CHR ''.''"
  using str_nat_digits by (auto simp: format_ipv4_def list_all_iff)

lemma slash_notin_format: "CHR ''/'' \<notin> set (format_ipv4 n)"
  by (auto dest!: format_ipv4_chars simp: is_digit_def code_def)

lemma split_network_format:
  assumes "n < ip_limit" and "p \<le> 32"
  shows "split_network (format_ipv4 n @ ''/'' @ str_nat p) = Some (n, p)"
proof -
  have "py_split (CHR ''/'') (format_ipv4 n @ ''/'' @ str_nat p) = [format_ipv4 n, str_nat p]"
    using py_split_append [OF slash_notin_format, of n "str_nat p"] str_nat_digits [of p]
    by (simp add: py_split_id slash_not_digit)
  then show ?thesis
    using assms by (simp add: split_network_def parse_format_ipv4 parse_prefix_def str_nat_digits)
qed

lemma parse_prefix_le: "parse_prefix m = Some p \<Longrightarrow> p \<le> 32"
  by (auto simp: parse_prefix_def split: if_splits option.splits dest!: find_Some_iff_mem)

lemma net_base_fits:
  assumes "n < ip_limit" and "p \<le> 32"
  shows "n div 2 ^ (32 - p) * 2 ^ (32 - p) + 2 ^ (32 - p) \<le> ip_limit"
proof -
  let ?s = "2 ^ (32 - p) :: nat"
  have lim: "ip_limit = 2 ^ p * ?s"
    using assms(2) by (simp add: ip_limit_def flip: power_add)
  have "n div ?s < 2 ^ p" using assms(1) unfolding lim by (rule less_mult_imp_div_less)
  then have "(n div ?s + 1) * ?s \<le> 2 ^ p * ?s" by (intro mult_le_mono1) simp
  then show ?thesis unfolding lim by simp
qed

lemma split_network_bounds:
  "split_network s = Some (n, p) \<Longrightarrow> n < ip_limit \<and> p \<le> 32"
  by (auto simp: split_network_def split: list.splits option.splits
      dest: parse_ipv4_limit parse_prefix_le)

lemma ip_network_Inr:
  "ip_network strict s = Inr n \<Longrightarrow>
   \<exists>a p. split_network s = Some (a, p) \<and>
     n = \<lparr>net_addr = a div 2 ^ (32 - p) * 2 ^ (32 - p), net_plen = p\<rparr>"
  by (auto simp: ip_network_def Let_def split: option.splits if_splits)

lemma ip_network_wf:
  assumes "ip_network strict s = Inr n"
  shows "wf_network n"
proof -
  obtain a p where ap: "split_network s = Some (a, p)"
    and n: "n = \<lparr>net_addr = a div 2 ^ (32 - p) * 2 ^ (32 - p), net_plen = p\<rparr>"
    using ip_network_Inr [OF assms] by blast
  from split_network_bounds [OF ap] have "a < ip_limit" "p \<le> 32" by simp_all
  then show ?thesis
    using net_base_fits [of a p] by (simp add: n wf_network_def net_size_def)
qed

lemma ip_network_format:
  assumes "wf_network n"
  shows "ip_network strict (format_network n) = Inr n"
proof -
  have "net_addr n < ip_limit"
    using assms net_size_pos [of n] unfolding wf_network_def by linarith
  with assms have "split_network (format_network n) = Some (net_addr n, net_plen n)"
    unfolding format_network_def by (intro split_network_format) (auto simp: wf_network_def)
  with assms show ?thesis
    by (simp add: ip_network_def wf_network_def net_size_def)
qed

lemma wf_network_broadcast: "wf_network n \<Longrightarrow> broadcast n < ip_limit"
  unfolding wf_network_def broadcast_def using net_size_pos [of n] by linarith

lemma hosts_in_net: "wf_network n \<Longrightarrow> a \<in> set (hosts n) \<Longrightarrow> in_net a n"
  by (auto simp: hosts_def in_net_def broadcast_def net_size_def wf_network_def split: if_splits)

lemma distinct_hosts: "wf_network n \<Longrightarrow> distinct (hosts n)"
  by (auto simp: hosts_def broadcast_def net_size_def)

end
