(* ===== verification/Alloc.thy ===== *)
theory Alloc
  imports Repos IpAddr
begin

text \<open>
  The allocators: VM addresses and UDP ports of a worker (\<open>orchestrator/incus/network.py\<close>), WireGuard
  subnets and peer addresses of a gateway (\<open>orchestrator/wg/ipam.py\<close>), LAN addresses of a peer group
  (\<open>orchestrator/lan/ipam.py\<close>). Each \<open>while\<close> or \<open>for\<close> loop is a recursive function; every loop is
  an instance of the \<open>first_fit\<close> contract, and the two pools of a worker of the contract \<open>pool\<close>.
\<close>

section \<open>VM addresses\<close>

definition used_vm_ips :: "int \<Rightarrow> db \<Rightarrow> str list" where
  "used_vm_ips wid d =
     map gw_vm_ip (filter (\<lambda>g. gw_worker_id g = wid) (gateways d)) @
     map ia_address (filter (\<lambda>a. ia_worker_id a = wid) (ip_allocs d))"

definition add_ip_alloc :: "int \<Rightarrow> str \<Rightarrow> int option \<Rightarrow> db \<Rightarrow> db" where
  "add_ip_alloc wid a gid d =
     d\<lparr>ip_allocs := ip_allocs d @ [\<lparr>ia_id = next_id ia_id (ip_allocs d), ia_worker_id = wid,
        ia_address = a, ia_gateway_id = gid, ia_peer_id = None\<rparr>]\<rparr>"

text \<open>\<open>while host <= end\<close>, where \<open>end\<close> is one below the broadcast address \<open>bc\<close>.\<close>

function vm_ip_loop :: "(str \<Rightarrow> bool) \<Rightarrow> nat \<Rightarrow> nat \<Rightarrow> str option" where
  "vm_ip_loop used bc host =
     (if host < bc then
        (let candidate = format_ipv4 host in
         if \<not> used candidate then Some candidate else vm_ip_loop used bc (host + 1))
      else None)"
  by pat_completeness auto
termination
  by (relation "measure (\<lambda>(used, bc, host). bc - host)") auto

declare vm_ip_loop.simps [simp del]

definition allocate_vm_ip :: "env \<Rightarrow> worker \<Rightarrow> str io" where
  "allocate_vm_ip E wk =
     bindM (liftE (ip_network True (wk_ip_pool_network wk))) (\<lambda>net.
     bindM (liftE (ip_address (wk_ip_pool_start wk))) (\<lambda>start.
     bindM (get_db (used_vm_ips (wk_id wk))) (\<lambda>used.
     case vm_ip_loop (\<lambda>a. a \<in> set used) (broadcast net) start of
       Some candidate \<Rightarrow>
         thenM (mod_db (add_ip_alloc (wk_id wk) candidate None))
         (thenM (flush E) (ret candidate))
     | None \<Rightarrow> raise (ValueError (''No available VM IPs in pool for worker '' @ wk_name wk)))))"

text \<open>\<open>.first()\<close> on the select, then \<open>session.delete\<close>: the first matching row goes.\<close>

fun delete_first :: "('r \<Rightarrow> bool) \<Rightarrow> 'r list \<Rightarrow> 'r list" where
  "delete_first P [] = []"
| "delete_first P (r # rs) = (if P r then rs else r # delete_first P rs)"

definition release_vm_ip :: "int \<Rightarrow> str \<Rightarrow> unit io" where
  "release_vm_ip wid ip =
     mod_db (\<lambda>d. d\<lparr>ip_allocs := delete_first (\<lambda>a. ia_worker_id a = wid \<and> ia_address a = ip) (ip_allocs d)\<rparr>)"

section \<open>UDP ports\<close>

definition used_udp_ports :: "int \<Rightarrow> db \<Rightarrow> int list" where
  "used_udp_ports wid d =
     map gw_udp_port (filter (\<lambda>g. gw_worker_id g = wid) (gateways d)) @
     map pa_udp_port (filter (\<lambda>p. pa_worker_id p = wid) (port_allocs d))"

definition add_port_alloc :: "int \<Rightarrow> int \<Rightarrow> int option \<Rightarrow> db \<Rightarrow> db" where
  "add_port_alloc wid p gid d =
     d\<lparr>port_allocs := port_allocs d @ [\<lparr>pa_id = next_id pa_id (port_allocs d), pa_worker_id = wid,
        pa_udp_port = p, pa_gateway_id = gid\<rparr>]\<rparr>"

fun port_loop :: "(int \<Rightarrow> bool) \<Rightarrow> int list \<Rightarrow> int option" where
  "port_loop used [] = None"
| "port_loop used (p # ps) = (if \<not> used p then Some p else port_loop used ps)"

definition allocate_udp_port :: "env \<Rightarrow> worker \<Rightarrow> int option \<Rightarrow> int io" where
  "allocate_udp_port E wk gid =
     bindM (get_db (used_udp_ports (wk_id wk))) (\<lambda>used.
     case port_loop (\<lambda>p. p \<in> set used) [wk_port_pool_start wk..wk_port_pool_end wk] of
       Some p \<Rightarrow>
         thenM (mod_db (add_port_alloc (wk_id wk) p gid)) (thenM (flush E) (ret p))
     | None \<Rightarrow> raise (ValueError (''No available UDP ports in pool for worker '' @ wk_name wk)))"

definition release_udp_port :: "int \<Rightarrow> int \<Rightarrow> unit io" where
  "release_udp_port wid p =
     mod_db (\<lambda>d. d\<lparr>port_allocs :=
       delete_first (\<lambda>a. pa_worker_id a = wid \<and> pa_udp_port a = p) (port_allocs d)\<rparr>)"

section \<open>WireGuard subnets and peer addresses\<close>

record subnet_allocation =
  sa_subnet :: str
  sa_gateway_ip :: str

definition allocate_wg_subnet :: "env \<Rightarrow> int \<Rightarrow> subnet_allocation result" where
  "allocate_wg_subnet E gateway_id =
     (let octet = gateway_id mod 253 + 1 in
      bindR (ip_network True (s_wg_subnet_base E @ ''.'' @ str_int octet @ ''.0/24'')) (\<lambda>subnet.
      bindR (ip_of_int (net_addr subnet + 1)) (\<lambda>gw.
      Inr \<lparr>sa_subnet = format_network subnet, sa_gateway_ip = format_ipv4 gw\<rparr>)))"

definition strip_mask :: "str \<Rightarrow> str" where
  "strip_mask s = hd (py_split (CHR ''/'') s)"

definition gateway_peer_ips :: "int \<Rightarrow> db \<Rightarrow> str list" where
  "gateway_peer_ips gid d =
     map (\<lambda>p. strip_mask (peer_allowed_ip p)) (filter (\<lambda>p. peer_gateway_id p = gid) (peers d))"

definition spare_peer_alloc :: "int \<Rightarrow> db \<Rightarrow> ip_alloc option" where
  "spare_peer_alloc gid d =
     find (\<lambda>a. ia_gateway_id a = Some gid \<and> ia_peer_id a = None \<and>
               ia_address a \<notin> set (gateway_peer_ips gid d)) (ip_allocs d)"

fun peer_ip_loop :: "network \<Rightarrow> (str \<Rightarrow> bool) \<Rightarrow> nat list \<Rightarrow> str option result" where
  "peer_ip_loop subnet used [] = Inr None"
| "peer_ip_loop subnet used (h # hs) =
     bindR (ip_of_int (net_addr subnet + 1)) (\<lambda>gw.
     if format_ipv4 h = format_ipv4 gw then peer_ip_loop subnet used hs
     else if \<not> used (format_ipv4 h) then Inr (Some (format_ipv4 h))
     else peer_ip_loop subnet used hs)"

definition allocate_peer_ip :: "env \<Rightarrow> gateway \<Rightarrow> str io" where
  "allocate_peer_ip E g =
     bindM (liftE (ip_network True (gw_wg_subnet g))) (\<lambda>subnet.
     bindM (get_db (spare_peer_alloc (gw_id g))) (\<lambda>spare.
     case spare of
       Some a \<Rightarrow> ret (ia_address a)
     | None \<Rightarrow>
         bindM (get_db (\<lambda>d. gateway_peer_ips (gw_id g) d @ map ia_address (ip_allocs d))) (\<lambda>used.
         bindM (liftE (peer_ip_loop subnet (\<lambda>a. a \<in> set used) (hosts subnet))) (\<lambda>found.
         case found of
           Some ip \<Rightarrow>
             thenM (mod_db (add_ip_alloc (gw_worker_id g) ip (Some (gw_id g))))
             (thenM (flush E) (ret ip))
         | None \<Rightarrow> raise (ValueError (''No available peer IPs in subnet '' @ gw_wg_subnet g))))))"

definition release_peer_ip :: "int \<Rightarrow> str \<Rightarrow> unit io" where
  "release_peer_ip gid ip =
     mod_db (\<lambda>d. d\<lparr>ip_allocs :=
       delete_first (\<lambda>a. ia_gateway_id a = Some gid \<and> ia_address a = ip) (ip_allocs d)\<rparr>)"

section \<open>LAN addresses\<close>

definition infer_lan_subnet :: "str \<Rightarrow> nat \<Rightarrow> str result" where
  "infer_lan_subnet start_ip pfx =
     bindR (ip_address start_ip) (\<lambda>host.
     bindR (ip_network False (format_ipv4 host @ ''/'' @ str_nat pfx)) (\<lambda>net.
     Inr (format_network net)))"

definition default_lan_gateway :: "str \<Rightarrow> str result" where
  "default_lan_gateway subnet =
     bindR (ip_network True subnet) (\<lambda>net.
     bindR (ip_of_int (net_addr net + 254)) (\<lambda>candidate.
     if in_net candidate net then Inr (format_ipv4 candidate)
     else if hosts net = [] then Inl (ValueError (''No host addresses in subnet '' @ subnet))
     else Inr (format_ipv4 (last (hosts net)))))"

definition validate_lan_start_ip :: "str \<Rightarrow> str \<Rightarrow> unit result" where
  "validate_lan_start_ip subnet start_ip =
     bindR (ip_network True subnet) (\<lambda>net.
     bindR (ip_address start_ip) (\<lambda>host.
     if \<not> in_net host net then
       Inl (ValueError (''Start IP '' @ start_ip @ '' is not inside subnet '' @ subnet))
     else Inr ()))"

definition macvlan_slot_from_ip :: "str \<Rightarrow> int result" where
  "macvlan_slot_from_ip lan_ip =
     bindR (ip_address lan_ip) (\<lambda>n.
     case py_int (last (py_split (CHR ''.'') (format_ipv4 n))) of
       Some i \<Rightarrow> Inr i
     | None \<Rightarrow> Inl (ValueError ''invalid literal for int()''))"

text \<open>\<open>while current in network\<close>.\<close>

function lan_ip_loop :: "network \<Rightarrow> (str \<Rightarrow> bool) \<Rightarrow> nat \<Rightarrow> str option result" where
  "lan_ip_loop net used current =
     (if in_net current net then
        (if \<not> used (format_ipv4 current) then Inr (Some (format_ipv4 current))
         else bindR (ip_of_int (current + 1)) (\<lambda>c. lan_ip_loop net used (current + 1)))
      else Inr None)"
  by pat_completeness auto
termination
  by (relation "measure (\<lambda>(net, used, current). Suc (broadcast net) - current)")
     (auto simp: in_net_def)

declare lan_ip_loop.simps [simp del]

definition used_lan_ips :: "int \<Rightarrow> db \<Rightarrow> str list" where
  "used_lan_ips group_id d = List.map_filter gw_lan_ip (group_gateways group_id d)"

definition allocate_lan_ip :: "peer_group \<Rightarrow> str io" where
  "allocate_lan_ip g =
     bindM (liftE (ip_network True (pg_lan_subnet g))) (\<lambda>net.
     bindM (liftE (validate_lan_start_ip (pg_lan_subnet g) (pg_lan_start_ip g))) (\<lambda>_.
     bindM (get_db (used_lan_ips (pg_id g))) (\<lambda>used.
     bindM (liftE (ip_address (pg_lan_start_ip g))) (\<lambda>start.
     bindM (liftE (lan_ip_loop net (\<lambda>a. a \<in> set used) start)) (\<lambda>found.
     case found of
       Some ip \<Rightarrow> ret ip
     | None \<Rightarrow> raise (ValueError (''No free LAN addresses left in group '' @ pg_name g @ '' ('' @
                                  pg_lan_subnet g @ '')'')))))))"

definition remaining_lan_capacity :: "peer_group \<Rightarrow> int io" where
  "remaining_lan_capacity g =
     bindM (liftE (ip_network True (pg_lan_subnet g))) (\<lambda>net.
     bindM (liftE (validate_lan_start_ip (pg_lan_subnet g) (pg_lan_start_ip g))) (\<lambda>_.
     bindM (get_db (\<lambda>d. length (group_gateways (pg_id g) d))) (\<lambda>used.
     bindM (liftE (ip_address (pg_lan_start_ip g))) (\<lambda>start.
     ret (max 0 (int (length (filter (\<lambda>h. start \<le> h) (hosts net))) - int used))))))"

section \<open>Facts: the loops are first-fit searches\<close>

lemma vm_ip_loop_eq: "vm_ip_loop used bc host = first_free (map format_ipv4 [host..<bc]) used"
proof (induction used bc host rule: vm_ip_loop.induct)
  case (1 used bc host)
  then show ?case
    by (subst vm_ip_loop.simps) (simp add: first_free_def upt_conv_Cons Let_def)
qed

lemma port_loop_eq: "port_loop used ps = first_free ps used"
  by (induction ps) (auto simp: first_free_def)

definition peer_cands :: "network \<Rightarrow> str list" where
  "peer_cands n =
     (if net_addr n + 1 < ip_limit
      then map format_ipv4 (filter (\<lambda>h. h \<noteq> net_addr n + 1) (hosts n)) else [])"

lemma peer_ip_loop_eq:
  assumes "net_addr n + 1 < ip_limit" and "\<forall>h \<in> set hs. h < ip_limit"
  shows "peer_ip_loop n used hs =
         Inr (first_free (map format_ipv4 (filter (\<lambda>h. h \<noteq> net_addr n + 1) hs)) used)"
  using assms(2)
  by (induction hs) (use assms(1) in \<open>auto simp: first_free_def ip_of_int_def format_ipv4_inj\<close>)

lemma lan_ip_loop_eq:
  assumes "broadcast net < ip_limit" and "net_addr net \<le> c"
  shows "lan_ip_loop net used c =
    (case first_free (map format_ipv4 [c..<Suc (broadcast net)]) used of
       Some a \<Rightarrow> Inr (Some a)
     | None \<Rightarrow> if in_net c net \<and> broadcast net + 1 = ip_limit
               then bindR (ip_of_int ip_limit) (\<lambda>_. Inr None) else Inr None)"
  using assms
proof (induction net used c rule: lan_ip_loop.induct)
  case (1 net used c)
  then show ?case
    by (subst lan_ip_loop.simps)
       (auto simp: first_free_def upt_conv_Cons in_net_def ip_of_int_def not_less_eq_eq
             simp del: upt_Suc split: option.splits)
qed

interpretation vm_ips: first_fit
  "\<lambda>(start, net). map format_ipv4 [start..<broadcast net]"
  "\<lambda>(start, net) used. vm_ip_loop used (broadcast net) start"
  by unfold_locales (auto simp: vm_ip_loop_eq)

interpretation udp_ports: first_fit
  "\<lambda>(lo, hi). [lo..hi]" "\<lambda>(lo, hi) used. port_loop used [lo..hi]"
  by unfold_locales (auto simp: port_loop_eq)

interpretation lan_ips: first_fit
  "\<lambda>(net, c). if net_addr net \<le> c \<and> broadcast net < ip_limit
              then map format_ipv4 [c..<Suc (broadcast net)] else []"
  "\<lambda>(net, c) used. if net_addr net \<le> c \<and> broadcast net < ip_limit
                   then (case lan_ip_loop net used c of Inr r \<Rightarrow> r | Inl _ \<Rightarrow> None) else None"
proof (unfold_locales, goal_cases)
  case (1 p used)
  obtain net c where p: "p = (net, c)" by (cases p)
  show ?case
    by (simp add: p lan_ip_loop_eq ip_of_int_def first_free_def split: option.splits del: upt_Suc)
qed

interpretation peer_ips: first_fit
  "\<lambda>net. if wf_network net then peer_cands net else []"
  "\<lambda>net used. if wf_network net then
                 (case peer_ip_loop net used (hosts net) of Inr r \<Rightarrow> r | Inl _ \<Rightarrow> None) else None"
proof (unfold_locales, goal_cases)
  case (1 net used)
  show ?case
  proof (cases "wf_network net")
    case True
    then have "\<forall>h \<in> set (hosts net). h < ip_limit"
      using hosts_in_net [of net] wf_network_broadcast [of net] by (fastforce simp: in_net_def)
    moreover have "hosts net \<noteq> [] \<Longrightarrow> \<not> net_addr net + 1 < ip_limit \<Longrightarrow> \<exists>e. peer_ip_loop net used (hosts net) = Inl e"
      by (cases "hosts net") (auto simp: ip_of_int_def)
    ultimately show ?thesis
      using True by (cases "hosts net = []") (auto simp: peer_cands_def peer_ip_loop_eq first_free_def)
  next
    case False
    then show ?thesis by (simp add: first_free_def)
  qed
qed

section \<open>Facts: the pools of a worker\<close>

lemma delete_first_subset: "set (delete_first P rs) \<subseteq> set rs"
  by (induction rs) auto

lemma delete_first_distinct: "distinct (map f rs) \<Longrightarrow> distinct (map f (delete_first P rs))"
  using delete_first_subset [of P] by (induction rs) fastforce+

definition held_ip :: "int \<Rightarrow> db \<Rightarrow> str \<Rightarrow> bool" where
  "held_ip wid d a \<longleftrightarrow> (wid, a) \<in> (\<lambda>r. (ia_worker_id r, ia_address r)) ` set (ip_allocs d)"

definition held_port :: "int \<Rightarrow> db \<Rightarrow> int \<Rightarrow> bool" where
  "held_port wid d p \<longleftrightarrow> (wid, p) \<in> (\<lambda>r. (pa_worker_id r, pa_udp_port r)) ` set (port_allocs d)"

definition free_ip_row :: "int \<Rightarrow> str \<Rightarrow> db \<Rightarrow> db" where
  "free_ip_row wid ip d =
     d\<lparr>ip_allocs := delete_first (\<lambda>a. ia_worker_id a = wid \<and> ia_address a = ip) (ip_allocs d)\<rparr>"

definition free_port_row :: "int \<Rightarrow> int \<Rightarrow> db \<Rightarrow> db" where
  "free_port_row wid p d =
     d\<lparr>port_allocs := delete_first (\<lambda>a. pa_worker_id a = wid \<and> pa_udp_port a = p) (port_allocs d)\<rparr>"

lemma release_vm_ip_run: "release_vm_ip wid ip w = (Inr (), w\<lparr>db := free_ip_row wid ip (db w)\<rparr>)"
  by (simp add: release_vm_ip_def free_ip_row_def)

lemma release_udp_port_run: "release_udp_port wid p w = (Inr (), w\<lparr>db := free_port_row wid p (db w)\<rparr>)"
  by (simp add: release_udp_port_def free_port_row_def)

lemma delete_first_key:
  "distinct (map f rs) \<Longrightarrow> f ` set (delete_first (\<lambda>r. f r = x) rs) = f ` set rs - {x}"
proof (induction rs)
  case Nil
  then show ?case by simp
next
  case (Cons a rs)
  then have "f a \<notin> f ` set rs" by simp
  with Cons show ?case by (cases "f a = x") auto
qed

interpretation vm_ip_pool: pool unique_ok "held_ip wid" "\<lambda>a. add_ip_alloc wid a gid" "free_ip_row wid"
  for wid gid
proof (unfold_locales, goal_cases)
  case (1 s a)
  then show ?case by (auto simp: unique_ok_def add_ip_alloc_def held_ip_def)
next
  case (2 s a b)
  then show ?case by (auto simp: add_ip_alloc_def held_ip_def)
next
  case (3 s a)
  then show ?case by (auto simp: unique_ok_def free_ip_row_def delete_first_distinct)
next
  case (4 s a b)
  then show ?case
    using delete_first_key [of "\<lambda>r. (ia_worker_id r, ia_address r)" "ip_allocs s" "(wid, a)"]
    by (auto simp: unique_ok_def free_ip_row_def held_ip_def)
qed

interpretation udp_port_pool: pool unique_ok "held_port wid" "\<lambda>p. add_port_alloc wid p gid" "free_port_row wid"
  for wid gid
proof (unfold_locales, goal_cases)
  case (1 s a)
  then show ?case by (auto simp: unique_ok_def add_port_alloc_def held_port_def)
next
  case (2 s a b)
  then show ?case by (auto simp: add_port_alloc_def held_port_def)
next
  case (3 s a)
  then show ?case by (auto simp: unique_ok_def free_port_row_def delete_first_distinct)
next
  case (4 s a b)
  then show ?case
    using delete_first_key [of "\<lambda>r. (pa_worker_id r, pa_udp_port r)" "port_allocs s" "(wid, a)"]
    by (auto simp: unique_ok_def free_port_row_def held_port_def)
qed

section \<open>Properties\<close>

lemma unique_ok_add_ip:
  "unique_ok d \<Longrightarrow> a \<notin> set (used_vm_ips wid d) \<Longrightarrow> unique_ok (add_ip_alloc wid a gid d)"
  by (rule vm_ip_pool.ok_acquire) (auto simp: used_vm_ips_def held_ip_def image_iff)

lemma unique_ok_add_port:
  "unique_ok d \<Longrightarrow> p \<notin> set (used_udp_ports wid d) \<Longrightarrow> unique_ok (add_port_alloc wid p gid d)"
  by (rule udp_port_pool.ok_acquire) (auto simp: used_udp_ports_def held_port_def image_iff)

text \<open>
  C12: Allocating a VM address on a worker whose pool parses: the lowest address of the pool that no
  gateway and no allocation of the worker uses is recorded as an allocation, flushed and returned;
  when the whole pool is used the call raises and changes nothing. No unique constraint can fail.
\<close>

theorem allocate_vm_ip_correct:
  assumes "ip_network True (wk_ip_pool_network wk) = Inr net"
    and "ip_address (wk_ip_pool_start wk) = Inr start"
    and "unlocked E" and "unique_ok (db w)"
  shows "(\<exists>n. start \<le> n \<and> n < broadcast net \<and>
             format_ipv4 n \<notin> set (used_vm_ips (wk_id wk) (db w)) \<and>
             (\<forall>m. start \<le> m \<and> m < n \<longrightarrow> format_ipv4 m \<in> set (used_vm_ips (wk_id wk) (db w))) \<and>
             allocate_vm_ip E wk w =
               (Inr (format_ipv4 n), emit Flush (w\<lparr>db := add_ip_alloc (wk_id wk) (format_ipv4 n) None (db w)\<rparr>))) \<or>
         ((\<forall>m. start \<le> m \<and> m < broadcast net \<longrightarrow> format_ipv4 m \<in> set (used_vm_ips (wk_id wk) (db w))) \<and>
          allocate_vm_ip E wk w =
            (Inl (ValueError (''No available VM IPs in pool for worker '' @ wk_name wk)), w))"
proof (cases "vm_ip_loop (\<lambda>a. a \<in> set (used_vm_ips (wk_id wk) (db w))) (broadcast net) start")
  case None
  then have "\<forall>m. start \<le> m \<and> m < broadcast net \<longrightarrow> format_ipv4 m \<in> set (used_vm_ips (wk_id wk) (db w))"
    using vm_ips.alloc_none_iff [of "(start, net)"] by fastforce
  moreover have "allocate_vm_ip E wk w =
      (Inl (ValueError (''No available VM IPs in pool for worker '' @ wk_name wk)), w)"
    unfolding allocate_vm_ip_def comp_defs by (simp add: None assms del: append_Cons)
  ultimately show ?thesis by blast
next
  case (Some a)
  then obtain n where n: "start \<le> n" "n < broadcast net" "a = format_ipv4 n"
    "format_ipv4 n \<notin> set (used_vm_ips (wk_id wk) (db w))"
    "\<forall>m. start \<le> m \<and> m < n \<longrightarrow> format_ipv4 m \<in> set (used_vm_ips (wk_id wk) (db w))"
    unfolding vm_ip_loop_eq by (blast dest: first_free_upt)
  have "unique_ok (add_ip_alloc (wk_id wk) a None (db w))"
    using assms(4) n by (simp add: unique_ok_add_ip)
  then have "allocate_vm_ip E wk w =
      (Inr a, emit Flush (w\<lparr>db := add_ip_alloc (wk_id wk) a None (db w)\<rparr>))"
    unfolding allocate_vm_ip_def comp_defs by (simp add: Some assms flush_run n(3) del: append_Cons)
  with n show ?thesis by blast
qed

text \<open>
  Allocating a UDP port: the lowest port of the worker's range that no gateway and no allocation
  of the worker uses is recorded and returned; when the range is exhausted the call raises and
  changes nothing.
\<close>

theorem allocate_udp_port_correct:
  assumes "unlocked E" and "unique_ok (db w)"
  shows "(\<exists>p. wk_port_pool_start wk \<le> p \<and> p \<le> wk_port_pool_end wk \<and>
             p \<notin> set (used_udp_ports (wk_id wk) (db w)) \<and>
             allocate_udp_port E wk gid w =
               (Inr p, emit Flush (w\<lparr>db := add_port_alloc (wk_id wk) p gid (db w)\<rparr>))) \<or>
         ({wk_port_pool_start wk..wk_port_pool_end wk} \<subseteq> set (used_udp_ports (wk_id wk) (db w)) \<and>
          allocate_udp_port E wk gid w =
            (Inl (ValueError (''No available UDP ports in pool for worker '' @ wk_name wk)), w))"
proof (cases "port_loop (\<lambda>p. p \<in> set (used_udp_ports (wk_id wk) (db w)))
                [wk_port_pool_start wk..wk_port_pool_end wk]")
  case None
  then have "{wk_port_pool_start wk..wk_port_pool_end wk} \<subseteq> set (used_udp_ports (wk_id wk) (db w))"
    using udp_ports.alloc_none_iff [of "(wk_port_pool_start wk, wk_port_pool_end wk)"] by fastforce
  moreover have "allocate_udp_port E wk gid w =
      (Inl (ValueError (''No available UDP ports in pool for worker '' @ wk_name wk)), w)"
    unfolding allocate_udp_port_def comp_defs by (simp add: None del: append_Cons)
  ultimately show ?thesis by blast
next
  case (Some p)
  then have p: "wk_port_pool_start wk \<le> p" "p \<le> wk_port_pool_end wk"
      "p \<notin> set (used_udp_ports (wk_id wk) (db w))"
    using udp_ports.alloc_cand [of "(wk_port_pool_start wk, wk_port_pool_end wk)" _ p]
      udp_ports.alloc_fresh [of "(wk_port_pool_start wk, wk_port_pool_end wk)" _ p]
    by fastforce+
  then have "unique_ok (add_port_alloc (wk_id wk) p gid (db w))"
    using assms(2) by (simp add: unique_ok_add_port)
  with Some assms have "allocate_udp_port E wk gid w =
      (Inr p, emit Flush (w\<lparr>db := add_port_alloc (wk_id wk) p gid (db w)\<rparr>))"
    unfolding allocate_udp_port_def comp_defs by (simp add: flush_run del: append_Cons)
  with p show ?thesis by blast
qed

lemma allocate_vm_ip_returns:
  assumes "allocate_vm_ip E wk w = (Inr ip, w')"
  shows "ip \<notin> set (used_vm_ips (wk_id wk) (db w)) \<and>
         w' = emit Flush (w\<lparr>db := add_ip_alloc (wk_id wk) ip None (db w)\<rparr>)"
proof -
  let ?used = "\<lambda>a. a \<in> set (used_vm_ips (wk_id wk) (db w))"
  from assms obtain net start where
    run: "(case vm_ip_loop ?used (broadcast net) start of
             Some candidate \<Rightarrow> thenM (mod_db (add_ip_alloc (wk_id wk) candidate None))
                                 (thenM (flush E) (ret candidate))
           | None \<Rightarrow> raise (ValueError (''No available VM IPs in pool for worker '' @ wk_name wk))) w =
          (Inr ip, w')"
    unfolding allocate_vm_ip_def bindM_returns get_db_run liftE_run by blast
  then obtain a where a: "vm_ip_loop ?used (broadcast net) start = Some a"
    by (cases "vm_ip_loop ?used (broadcast net) start") (simp_all del: append_Cons)
  with run have "a = ip" "w' = emit Flush (w\<lparr>db := add_ip_alloc (wk_id wk) ip None (db w)\<rparr>)"
    by (auto simp: thenM_returns dest!: flush_returns)
  with a show ?thesis using vm_ips.alloc_fresh [of "(start, net)" ?used ip] by simp
qed

lemma allocate_udp_port_returns:
  assumes "allocate_udp_port E wk gid w = (Inr p, w')"
  shows "p \<notin> set (used_udp_ports (wk_id wk) (db w)) \<and>
         wk_port_pool_start wk \<le> p \<and> p \<le> wk_port_pool_end wk \<and>
         w' = emit Flush (w\<lparr>db := add_port_alloc (wk_id wk) p gid (db w)\<rparr>)"
proof -
  let ?used = "\<lambda>p. p \<in> set (used_udp_ports (wk_id wk) (db w))"
    and ?range = "(wk_port_pool_start wk, wk_port_pool_end wk)"
  from assms obtain q where q: "port_loop ?used [wk_port_pool_start wk..wk_port_pool_end wk] = Some q"
    unfolding allocate_udp_port_def bindM_returns get_db_run
    by (cases "port_loop ?used [wk_port_pool_start wk..wk_port_pool_end wk]") (simp_all del: append_Cons)
  with assms have "q = p" "w' = emit Flush (w\<lparr>db := add_port_alloc (wk_id wk) p gid (db w)\<rparr>)"
    by (auto simp: allocate_udp_port_def bindM_returns thenM_returns dest!: flush_returns)
  with q show ?thesis
    using udp_ports.alloc_fresh [of ?range ?used p] udp_ports.alloc_cand [of ?range ?used p] by simp
qed

text \<open>
  C31: Releasing a VM address undoes its allocation: after \<open>allocate_vm_ip\<close> returned an address and
  \<open>release_vm_ip\<close> ran on it, the worker holds exactly the addresses it held before.
\<close>

theorem allocate_release_vm_ip:
  assumes "allocate_vm_ip E wk w = (Inr ip, w')" and "unique_ok (db w)"
    and "release_vm_ip (wk_id wk) ip w' = (r, w'')"
  shows "held_ip (wk_id wk) (db w'') a \<longleftrightarrow> held_ip (wk_id wk) (db w) a"
proof -
  from assms(1) have w': "db w' = add_ip_alloc (wk_id wk) ip None (db w)"
      and fresh: "ip \<notin> set (used_vm_ips (wk_id wk) (db w))"
    by (auto dest!: allocate_vm_ip_returns)
  then have "\<not> held_ip (wk_id wk) (db w) ip" by (auto simp: used_vm_ips_def held_ip_def)
  moreover have "db w'' = free_ip_row (wk_id wk) ip (add_ip_alloc (wk_id wk) ip None (db w))"
    using assms(3) w' by (auto simp: release_vm_ip_run)
  ultimately show ?thesis using assms(2) by (simp add: vm_ip_pool.acquire_release)
qed

lemma lan_loop_finds:
  assumes wf: "wf_network net" and c: "in_net c net"
    and n: "c \<le> n" "n \<le> broadcast net" and free: "\<not> used (format_ipv4 n)"
  shows "\<exists>m. c \<le> m \<and> in_net m net \<and> \<not> used (format_ipv4 m) \<and>
             lan_ip_loop net used c = Inr (Some (format_ipv4 m))"
proof -
  let ?cs = "map format_ipv4 [c..<Suc (broadcast net)]"
  have "n \<in> set [c..<Suc (broadcast net)]" using n by (simp del: upt_Suc)
  then have "format_ipv4 n \<in> set ?cs" unfolding set_map by (rule imageI)
  with free have "first_free ?cs used \<noteq> None"
    by (auto simp: first_free_def find_None_iff_all simp del: upt_Suc)
  then obtain a where a: "first_free ?cs used = Some a" by blast
  then obtain m where "c \<le> m" "m < Suc (broadcast net)" "a = format_ipv4 m" "\<not> used (format_ipv4 m)"
    by (blast dest: first_free_upt)
  moreover have "lan_ip_loop net used c = Inr (Some a)"
    using a c wf_network_broadcast [OF wf] by (simp add: lan_ip_loop_eq in_net_def del: upt_Suc)
  ultimately show ?thesis using c by (auto simp: in_net_def)
qed

lemma used_lan_ips_card: "card (set (used_lan_ips gid d)) \<le> length (group_gateways gid d)"
proof -
  have "length (List.map_filter f xs) \<le> length xs" for f :: "gateway \<Rightarrow> str option" and xs
    by (induction xs) (auto simp: map_filter_simps split: option.splits)
  then show ?thesis unfolding used_lan_ips_def by (meson card_length order_trans)
qed

text \<open>
  C28: The capacity a peer group reports is sound: when \<open>remaining_lan_capacity\<close> is positive,
  \<open>allocate_lan_ip\<close> returns an address of the group's subnet, at or above its start address, that
  no gateway of the group has, and changes nothing.
\<close>

theorem lan_capacity_sound:
  assumes "remaining_lan_capacity g w = (Inr c, w)" and "0 < c"
  shows "\<exists>net start n. ip_network True (pg_lan_subnet g) = Inr net \<and>
           ip_address (pg_lan_start_ip g) = Inr start \<and> start \<le> n \<and> in_net n net \<and>
           format_ipv4 n \<notin> set (used_lan_ips (pg_id g) (db w)) \<and>
           allocate_lan_ip g w = (Inr (format_ipv4 n), w)"
proof -
  from assms(1) obtain net start where net: "ip_network True (pg_lan_subnet g) = Inr net"
      and start: "ip_address (pg_lan_start_ip g) = Inr start"
      and valid: "validate_lan_start_ip (pg_lan_subnet g) (pg_lan_start_ip g) = Inr ()"
      and c: "c = max 0 (int (length (filter (\<lambda>h. start \<le> h) (hosts net))) -
                         int (length (group_gateways (pg_id g) (db w))))"
    by (auto simp: remaining_lan_capacity_def bindM_returns)
  have inn: "in_net start net"
    using valid net start by (simp add: validate_lan_start_ip_def split: if_splits)
  have wf: "wf_network net" using net by (rule ip_network_wf)
  let ?hs = "filter (\<lambda>h. start \<le> h) (hosts net)" and ?used = "set (used_lan_ips (pg_id g) (db w))"
  have lim: "h < ip_limit" if "h \<in> set ?hs" for h
    using that hosts_in_net [OF wf] wf_network_broadcast [OF wf] by (fastforce simp: in_net_def)
  have "card (format_ipv4 ` set ?hs) = length ?hs"
  proof (subst card_image)
    show "inj_on format_ipv4 (set ?hs)" using lim unfolding inj_on_def by (simp add: format_ipv4_inj)
    show "card (set ?hs) = length ?hs" 
      using distinct_card [OF distinct_filter [OF distinct_hosts [OF wf]]] by simp
  qed
  moreover have "card ?used < length ?hs"
    using assms(2) c used_lan_ips_card [of "pg_id g" "db w"] by simp
  ultimately have "\<not> format_ipv4 ` set ?hs \<subseteq> ?used"
    by (metis List.finite_set card_mono not_less)
  then obtain h where h: "h \<in> set ?hs" "format_ipv4 h \<notin> ?used" by blast
  then have "h \<le> broadcast net" using hosts_in_net [OF wf] by (auto simp: in_net_def)
  with h wf inn obtain m where m: "start \<le> m" "in_net m net" "format_ipv4 m \<notin> ?used"
      "lan_ip_loop net (\<lambda>a. a \<in> ?used) start = Inr (Some (format_ipv4 m))"
    using lan_loop_finds [of net start h "\<lambda>a. a \<in> ?used"] by auto
  then have "allocate_lan_ip g w = (Inr (format_ipv4 m), w)"
    unfolding allocate_lan_ip_def comp_defs by (simp add: net start valid del: append_Cons)
  with net start m show ?thesis by blast
qed

text \<open>
  The subnet inferred from a start address is one that \<open>validate_lan_start_ip\<close> accepts for it:
  inference never produces a group whose first allocation is rejected.
\<close>

theorem infer_lan_subnet_valid:
  assumes "infer_lan_subnet start_ip pfx = Inr subnet"
  shows "validate_lan_start_ip subnet start_ip = Inr ()"
proof -
  from assms obtain host net where h: "ip_address start_ip = Inr host"
      and net: "ip_network False (format_ipv4 host @ ''/'' @ str_nat pfx) = Inr net"
      and sub: "subnet = format_network net"
    by (auto simp: infer_lan_subnet_def bindR_Inr_iff)
  obtain a p where ap: "split_network (format_ipv4 host @ ''/'' @ str_nat pfx) = Some (a, p)"
      and n: "net = \<lparr>net_addr = a div 2 ^ (32 - p) * 2 ^ (32 - p), net_plen = p\<rparr>"
    using ip_network_Inr [OF net] by blast
  have wf: "wf_network net" using net by (rule ip_network_wf)
  have "parse_ipv4 (format_ipv4 host) = Some host"
    using h ip_address_limit parse_format_ipv4 by blast
  then have "a = host"
    using ap py_split_append [OF slash_notin_format, of host "str_nat pfx"] str_nat_digits [of pfx]
    by (auto simp: split_network_def py_split_id slash_not_digit split: option.splits)
  then have "in_net host net"
    using dividend_less_div_times [of "2 ^ (32 - p)" host]
    by (simp add: n in_net_def broadcast_def net_size_def)
  with h wf show ?thesis by (simp add: sub validate_lan_start_ip_def ip_network_format)
qed

definition wg_net :: "nat \<Rightarrow> nat \<Rightarrow> int \<Rightarrow> network" where
  "wg_net a b i = \<lparr>net_addr = ((a * 256 + b) * 256 + (nat (i mod 253) + 1)) * 256, net_plen = 24\<rparr>"

lemma wg_octet: "nat (i mod 253) + 1 \<le> 253"
  using pos_mod_bound [of 253 i] by linarith

lemma wg_net_wf: "a \<le> 255 \<Longrightarrow> b \<le> 255 \<Longrightarrow> wf_network (wg_net a b i)"
  using wg_octet [of i] by (simp add: wf_network_def wg_net_def net_size_def ip_limit_def)

lemma dotted_octets:
  assumes "b \<le> 255" and "c \<le> (255::nat)"
  shows "((a * 256 + b) * 256 + c) * 256 div 16777216 = a"
    and "((a * 256 + b) * 256 + c) * 256 div 65536 mod 256 = b"
    and "((a * 256 + b) * 256 + c) * 256 div 256 mod 256 = c"
proof -
  let ?n = "((a * 256 + b) * 256 + c) * 256"
  have d1: "?n div 256 = (a * 256 + b) * 256 + c" by simp
  have d2: "?n div 65536 = a * 256 + b"
    using assms div_mult2_eq [of ?n 256 256] d1 by simp
  have "?n div 16777216 = ?n div 65536 div 256" using div_mult2_eq [of ?n 65536 256] by simp
  then show "?n div 16777216 = a" using d2 assms by simp
  show "?n div 65536 mod 256 = b" using assms by (simp only: d2 mod_mult_self3) simp
  show "?n div 256 mod 256 = c" using assms by (simp only: d1 mod_mult_self3) simp
qed

lemma wg_net_text:
  assumes "a \<le> 255" and "b \<le> 255"
  shows "format_network (wg_net a b i) =
         str_nat a @ ''.'' @ str_nat b @ ''.'' @ str_int (i mod 253 + 1) @ ''.0/24''"
proof -
  let ?o = "nat (i mod 253) + 1"
  have o: "?o \<le> 253" by (rule wg_octet)
  have "str_int (i mod 253 + 1) = str_nat ?o"
  proof -
    have "0 \<le> i mod 253" by simp
    then have "\<not> i mod 253 + 1 < 0" "nat (i mod 253 + 1) = ?o" by linarith+
    then show ?thesis by (simp only: str_int_def if_False)
  qed
  moreover have "((a * 256 + b) * 256 + ?o) * 256 div 16777216 = a"
      "((a * 256 + b) * 256 + ?o) * 256 div 65536 mod 256 = b"
      "((a * 256 + b) * 256 + ?o) * 256 div 256 mod 256 = ?o"
    using dotted_octets [of b ?o a] assms(2) o by simp_all
  moreover have "str_nat 0 = ''0''" "str_nat 24 = ''24''"
    by code_simp+
  ultimately show ?thesis
    unfolding format_network_def format_ipv4_def wg_net_def by simp
qed

lemma allocate_wg_subnet_eq:
  assumes "s_wg_subnet_base E = str_nat a @ ''.'' @ str_nat b" and "a \<le> 255" and "b \<le> 255"
  shows "allocate_wg_subnet E i =
         Inr \<lparr>sa_subnet = format_network (wg_net a b i),
              sa_gateway_ip = format_ipv4 (net_addr (wg_net a b i) + 1)\<rparr>"
proof -
  have wf: "wf_network (wg_net a b i)" using assms by (simp add: wg_net_wf)
  then have "net_addr (wg_net a b i) + 1 < ip_limit"
    by (simp add: wf_network_def wg_net_def net_size_def)
  moreover have "ip_network True (s_wg_subnet_base E @ ''.'' @ str_int (i mod 253 + 1) @ ''.0/24'') =
      Inr (wg_net a b i)"
    using ip_network_format [OF wf, of True] by (simp only: wg_net_text assms append_assoc)
  ultimately show ?thesis
    unfolding allocate_wg_subnet_def Let_def by (simp add: ip_of_int_def del: append_Cons)
qed

lemma wf_network_addr: "wf_network n \<Longrightarrow> net_addr n < ip_limit"
  using net_size_pos [of n] unfolding wf_network_def by linarith

text \<open>
  C32: WireGuard subnets: with the configured base \<open>a.b\<close> every gateway id yields a subnet, and the
  subnets of two gateways coincide exactly when their ids agree modulo 253. Ids within 253 of each
  other never collide; ids 253 apart always do.
\<close>

theorem allocate_wg_subnet_collision:
  assumes "s_wg_subnet_base E = str_nat a @ ''.'' @ str_nat b" and "a \<le> 255" and "b \<le> 255"
  shows "\<exists>x y. allocate_wg_subnet E i = Inr x \<and> allocate_wg_subnet E j = Inr y \<and>
           (sa_subnet x = sa_subnet y \<longleftrightarrow> i mod 253 = j mod 253)"
proof -
  have "format_network (wg_net a b i) = format_network (wg_net a b j) \<longleftrightarrow> i mod 253 = j mod 253"
  proof
    assume "format_network (wg_net a b i) = format_network (wg_net a b j)"
    then have "(Inr (wg_net a b i) :: network result) = Inr (wg_net a b j)"
      using ip_network_format [of _ True] wg_net_wf assms(2,3) by metis
    then show "i mod 253 = j mod 253" by (simp add: wg_net_def)
  next
    assume "i mod 253 = j mod 253"
    then show "format_network (wg_net a b i) = format_network (wg_net a b j)"
      by (simp add: wg_net_def)
  qed
  then show ?thesis by (simp add: allocate_wg_subnet_eq [OF assms])
qed

lemma peer_ip_loop_found:
  "peer_ip_loop net used hs = Inr (Some ip) \<Longrightarrow>
   \<exists>h \<in> set hs. ip = format_ipv4 h \<and> ip \<noteq> format_ipv4 (net_addr net + 1) \<and> \<not> used ip"
  by (induction hs) (auto simp: bindR_Inr_iff ip_of_int_def split: if_splits)

text \<open>
  A peer address that \<open>allocate_peer_ip\<close> hands out is used by no peer of the gateway, and
  afterwards an allocation records it for the gateway. Unless it reuses a spare allocation of the
  gateway, it is a host of the gateway's subnet other than the gateway's own \<open>.1\<close>, and no
  allocation of any gateway held it before.
\<close>

theorem allocate_peer_ip_correct:
  assumes "allocate_peer_ip E g w = (Inr ip, w')"
  shows "ip \<notin> set (gateway_peer_ips (gw_id g) (db w)) \<and>
         (\<exists>a \<in> set (ip_allocs (db w')). ia_gateway_id a = Some (gw_id g) \<and> ia_address a = ip) \<and>
         (spare_peer_alloc (gw_id g) (db w) \<noteq> None \<or>
          (\<exists>net h. ip_network True (gw_wg_subnet g) = Inr net \<and> h \<in> set (hosts net) \<and>
              ip = format_ipv4 h \<and> ip \<noteq> format_ipv4 (net_addr net + 1) \<and>
              ip \<notin> ia_address ` set (ip_allocs (db w))))"
proof (cases "spare_peer_alloc (gw_id g) (db w)")
  case (Some a)
  with assms have "ip = ia_address a" "w' = w"
    unfolding allocate_peer_ip_def bindM_returns by auto
  with Some show ?thesis by (auto simp: spare_peer_alloc_def dest!: find_Some_iff_mem)
next
  case None
  from assms None obtain net found where net: "ip_network True (gw_wg_subnet g) = Inr net"
    and loop: "peer_ip_loop net (\<lambda>a. a \<in> set (gateway_peer_ips (gw_id g) (db w) @
                 map ia_address (ip_allocs (db w)))) (hosts net) = Inr found"
    and run: "(case found of Some ip \<Rightarrow> thenM (mod_db (add_ip_alloc (gw_worker_id g) ip (Some (gw_id g))))
                                            (thenM (flush E) (ret ip))
               | None \<Rightarrow> raise (ValueError (''No available peer IPs in subnet '' @ gw_wg_subnet g))) w =
              (Inr ip, w')"
    unfolding allocate_peer_ip_def bindM_returns get_db_run liftE_run
    by (auto simp: bindM_returns simp del: append_Cons)
  then have "found = Some ip" "db w' = add_ip_alloc (gw_worker_id g) ip (Some (gw_id g)) (db w)"
    by (cases found; auto simp: thenM_returns simp del: append_Cons dest!: flush_returns)+
  with loop net show ?thesis
    by (auto simp: None add_ip_alloc_def dest!: peer_ip_loop_found)
qed

section \<open>Witnesses\<close>

definition sample_worker :: worker where
  "sample_worker = \<lparr>wk_id = 1, wk_name = ''worker1'', wk_display_name = ''Worker 1'',
     wk_public_ip = ''203.0.113.7'', wk_tailscale_hostname = Some ''worker1'', wk_incus_remote = Some ''worker1'',
     wk_incus_url = Some ''https://worker1:8443'', wk_incus_cert_path = None, wk_incus_key_path = None,
     wk_incus_server_cert_path = None, wk_worker_token_hash = ''hash'', wk_port_pool_start = 51820,
     wk_port_pool_end = 51830, wk_ip_pool_network = ''10.0.0.0/24'', wk_ip_pool_start = ''10.0.0.10'',
     wk_enabled = True, wk_status = WOnline, wk_cpu_percent = None, wk_memory_total_mb = None,
     wk_memory_used_mb = None, wk_memory_percent = None, wk_network_rx_bps = None,
     wk_network_tx_bps = None, wk_last_seen_at = Some 0, wk_created_at = 0\<rparr>"

definition sample_gateway :: gateway where
  "sample_gateway = \<lparr>gw_id = 1, gw_worker_id = 1, gw_peer_group_id = None, gw_lan_ip = None,
     gw_macvlan_slot = None, gw_name = ''gw-000'', gw_incus_instance = ''gw-000'', gw_vm_ip = ''10.0.0.10'',
     gw_udp_port = 51820, gw_wg_subnet = ''10.8.2.0/24'', gw_wg_server_pubkey = ''spub'',
     gw_wg_server_privkey_enc = ''spriv#'', gw_exit_node_id = ''100.64.0.9'',
     gw_tailscale_auth_key_enc = ''auth#'', gw_tailscale_hostname = ''gw-000'',
     gw_agent_token_hash = ''kot'', gw_agent_token_enc = ''tok#'', gw_status = GReady,
     gw_error_message = None, gw_created_at = 0\<rparr>"

definition sample_group :: peer_group where
  "sample_group = \<lparr>pg_id = 1, pg_name = ''group'', pg_worker_id = 1, pg_lan_subnet = ''192.168.13.0/24'',
     pg_lan_start_ip = ''192.168.13.100'', pg_lan_gateway = None, pg_parent_iface = None, pg_created_at = 0\<rparr>"

definition sample_db :: db where
  "sample_db = empty_db\<lparr>gateways := [sample_gateway], workers := [sample_worker],
     peer_groups := [sample_group]\<rparr>"

lemma sample_parse:
  "ip_network True ''10.0.0.0/24'' = Inr \<lparr>net_addr = 167772160, net_plen = 24\<rparr>"
  "ip_network True ''10.8.2.0/24'' = Inr \<lparr>net_addr = 168296960, net_plen = 24\<rparr>"
  "ip_address ''10.0.0.10'' = Inr 167772170"
  by code_simp+

lemma sample_less: "167772170 \<le> (167772171::nat)"
  by simp

lemma sample_unique: "unique_ok sample_db"
  by code_simp

theorem allocate_vm_ip_witness:
  "\<exists>n. 167772170 \<le> n \<and> n < broadcast \<lparr>net_addr = 167772160, net_plen = 24\<rparr> \<and>
       fst (allocate_vm_ip sample_env sample_worker (fresh_world sample_db)) = Inr (format_ipv4 n)"
proof -
  have "ip_network True (wk_ip_pool_network sample_worker) = Inr \<lparr>net_addr = 167772160, net_plen = 24\<rparr>"
      "ip_address (wk_ip_pool_start sample_worker) = Inr 167772170"
      "unique_ok (db (fresh_world sample_db))"
    using sample_parse sample_unique by (simp_all add: sample_worker_def fresh_world_def)
  note correct = allocate_vm_ip_correct [OF this(1,2) sample_env_unlocked this(3)]
  have "format_ipv4 167772171 \<notin> set (used_vm_ips (wk_id sample_worker) (db (fresh_world sample_db)))"
      and "167772171 < broadcast \<lparr>net_addr = 167772160, net_plen = 24\<rparr>"
    by code_simp+
  then have "\<not> (\<forall>m. 167772170 \<le> m \<and> m < broadcast \<lparr>net_addr = 167772160, net_plen = 24\<rparr> \<longrightarrow>
      format_ipv4 m \<in> set (used_vm_ips (wk_id sample_worker) (db (fresh_world sample_db))))"
    by (metis (no_types, lifting) sample_less(1))
  with correct show ?thesis by (metis fst_conv)
qed

lemma run_pair: "fst p = r \<Longrightarrow> p = (r, snd p)"
  by (cases p) simp

lemma sample_worker_range:
  "wk_port_pool_start sample_worker = 51820" "wk_port_pool_end sample_worker = 51830"
  by (simp_all add: sample_worker_def)

theorem allocate_udp_port_witness:
  "\<exists>p. 51820 \<le> p \<and> p \<le> 51830 \<and>
       fst (allocate_udp_port sample_env sample_worker None (fresh_world sample_db)) = Inr p"
proof -
  have "unique_ok (db (fresh_world sample_db))" using sample_unique by (simp add: fresh_world_def)
  note correct = allocate_udp_port_correct [OF sample_env_unlocked this, of sample_worker None]
  have "51821 \<notin> set (used_udp_ports (wk_id sample_worker) (db (fresh_world sample_db)))"
    by code_simp
  then have "\<not> {wk_port_pool_start sample_worker..wk_port_pool_end sample_worker}
      \<subseteq> set (used_udp_ports (wk_id sample_worker) (db (fresh_world sample_db)))"
    by (auto simp: sample_worker_def subset_iff intro!: exI [of _ 51821])
  with correct show ?thesis
    by (metis (no_types, lifting) fst_conv sample_worker_range)
qed

theorem allocate_release_vm_ip_witness:
  "\<not> held_ip 1 (db (snd (release_vm_ip 1 ''10.0.0.11''
        (snd (allocate_vm_ip sample_env sample_worker (fresh_world sample_db)))))) ''10.0.0.11''"
proof -
  have run: "allocate_vm_ip sample_env sample_worker (fresh_world sample_db) =
      (Inr ''10.0.0.11'', snd (allocate_vm_ip sample_env sample_worker (fresh_world sample_db)))"
    by (rule run_pair) code_simp
  have "unique_ok (db (fresh_world sample_db))" using sample_unique by (simp add: fresh_world_def)
  note restored = allocate_release_vm_ip [OF run this surjective_pairing, of "''10.0.0.11''"]
  have "\<not> held_ip (wk_id sample_worker) (db (fresh_world sample_db)) ''10.0.0.11''"
    by code_simp
  with restored show ?thesis by (simp add: sample_worker_def)
qed

lemma remaining_lan_capacity_state: "snd (remaining_lan_capacity g w) = w"
  by (simp add: remaining_lan_capacity_def bindM_def split: sum.splits)

definition small_group :: peer_group where
  "small_group = sample_group\<lparr>pg_lan_subnet := ''192.168.13.96/29'', pg_lan_start_ip := ''192.168.13.100''\<rparr>"

theorem lan_capacity_sound_witness:
  "\<exists>n. fst (allocate_lan_ip small_group (fresh_world sample_db)) = Inr (format_ipv4 n)"
proof -
  have "fst (remaining_lan_capacity small_group (fresh_world sample_db)) = Inr 3"
    by code_simp
  moreover have "snd (remaining_lan_capacity small_group (fresh_world sample_db)) = fresh_world sample_db"
    by (rule remaining_lan_capacity_state)
  ultimately have "remaining_lan_capacity small_group (fresh_world sample_db) = (Inr 3, fresh_world sample_db)"
    by (simp add: prod_eq_iff)
  from lan_capacity_sound [OF this] show ?thesis by auto
qed

theorem infer_lan_subnet_witness:
  "validate_lan_start_ip ''192.168.13.0/24'' ''192.168.13.100'' = Inr ()"
  by (rule infer_lan_subnet_valid [of _ 24]) code_simp

theorem allocate_wg_subnet_witness:
  "\<exists>x y. allocate_wg_subnet sample_env 2 = Inr x \<and> allocate_wg_subnet sample_env 255 = Inr y \<and>
         sa_subnet x = sa_subnet y"
proof -
  have "s_wg_subnet_base sample_env = str_nat 10 @ ''.'' @ str_nat 8" by code_simp
  from allocate_wg_subnet_collision [OF this, of 2 255] show ?thesis by auto
qed

theorem allocate_peer_ip_witness:
  "\<exists>a \<in> set (ip_allocs (db (snd (allocate_peer_ip sample_env sample_gateway (fresh_world sample_db))))).
     ia_address a = ''10.8.2.2''"
proof -
  have "allocate_peer_ip sample_env sample_gateway (fresh_world sample_db) =
      (Inr ''10.8.2.2'', snd (allocate_peer_ip sample_env sample_gateway (fresh_world sample_db)))"
    by (rule run_pair) code_simp
  from allocate_peer_ip_correct [OF this] show ?thesis by blast
qed

end
