(* ===== verification/Naming.thy ===== *)
theory Naming
  imports Json
begin

text \<open>
  Resource names (\<open>orchestrator/naming.py\<close>): sequential names \<open>gw-NNN\<close> and \<open>ex-NNN\<close>, their
  recognition by regular expressions, and the validation of user-chosen Headscale names.
\<close>

section \<open>Sequential names\<close>

definition GATEWAY_PREFIX :: str where
  "GATEWAY_PREFIX = ''gw-''"

definition EXIT_NODE_PREFIX :: str where
  "EXIT_NODE_PREFIX = ''ex-''"

definition SEQUENTIAL_WIDTH :: nat where
  "SEQUENTIAL_WIDTH = 3"

definition format_sequential_name :: "str \<Rightarrow> nat \<Rightarrow> nat \<Rightarrow> str" where
  "format_sequential_name pfx index width = pfx @ zero_pad width index"

text \<open>The \<open>for index in range(limit)\<close> loop from \<open>index\<close> on, with \<open>n\<close> iterations left.\<close>

fun seq_name_loop :: "str \<Rightarrow> nat \<Rightarrow> (str \<Rightarrow> bool) \<Rightarrow> nat \<Rightarrow> nat \<Rightarrow> str option" where
  "seq_name_loop pfx width taken index 0 = None"
| "seq_name_loop pfx width taken index (Suc n) =
     (let name = format_sequential_name pfx index width in
      if \<not> taken name then Some name else seq_name_loop pfx width taken (Suc index) n)"

definition next_sequential_name :: "str \<Rightarrow> str set \<Rightarrow> nat \<Rightarrow> str result" where
  "next_sequential_name pfx taken width =
     (case seq_name_loop pfx width (\<lambda>n. n \<in> taken) 0 (10 ^ width) of
        Some name \<Rightarrow> Inr name
      | None \<Rightarrow> Inl (ValueError (''No available names for prefix '' @ pfx @ '' (width '' @
                                  str_nat width @ '')'')))"

section \<open>Recognition\<close>

text \<open>
  \<open>re.match(^PREFIX\d{3}$)\<close>. \<open>$\<close> matches at the end of the text and before a newline that ends it.
\<close>

definition newline :: char where
  "newline = CHR 0x0A"

definition match_sequential :: "str \<Rightarrow> str \<Rightarrow> bool" where
  "match_sequential pfx name \<longleftrightarrow>
     py_startswith name pfx \<and>
     (let r = drop (length pfx) name in
      3 \<le> length r \<and> list_all is_digit (take 3 r) \<and> (drop 3 r = [] \<or> drop 3 r = [newline]))"

definition is_gateway_name :: "str \<Rightarrow> bool" where
  "is_gateway_name name \<longleftrightarrow> match_sequential GATEWAY_PREFIX name"

definition is_exit_node_name :: "str \<Rightarrow> bool" where
  "is_exit_node_name name \<longleftrightarrow> match_sequential EXIT_NODE_PREFIX name"

section \<open>User-chosen names\<close>

definition normalize_tailscale_display_name :: "str \<Rightarrow> str" where
  "normalize_tailscale_display_name name = py_lower (py_strip name)"

text \<open>\<open>^[a-zA-Z0-9](?:[a-zA-Z0-9-]{0,61}[a-zA-Z0-9])?$\<close> on a text without its final newline.\<close>

definition display_label :: "str \<Rightarrow> bool" where
  "display_label v \<longleftrightarrow>
     v \<noteq> [] \<and> length v \<le> 63 \<and> is_ascii_alnum (hd v) \<and> is_ascii_alnum (last v) \<and>
     list_all (\<lambda>c. is_ascii_alnum c \<or> c = CHR ''-'') v"

definition match_display_name :: "str \<Rightarrow> bool" where
  "match_display_name v \<longleftrightarrow>
     display_label v \<or> (v \<noteq> [] \<and> last v = newline \<and> display_label (butlast v))"

definition validate_tailscale_display_name :: "str \<Rightarrow> str result" where
  "validate_tailscale_display_name name =
     (let value = normalize_tailscale_display_name name in
      if value = [] then Inl (ValueError ''Headscale name cannot be empty'')
      else if 63 < length value then Inl (ValueError ''Headscale name must be at most 63 characters'')
      else if \<not> match_display_name value then
        Inl (ValueError (''Headscale name must start and end with a letter or digit and contain '' @
                         ''only letters, digits, and hyphens''))
      else Inr value)"

section \<open>Names of Headscale nodes\<close>

fun first_truthy :: "jdict \<Rightarrow> str list \<Rightarrow> json option" where
  "first_truthy node [] = None"
| "first_truthy node (k # ks) = (if truthy (dget node k) then Some (dget node k) else first_truthy node ks)"

definition headscale_node_name :: "jdict \<Rightarrow> str" where
  "headscale_node_name node =
     (case first_truthy node [''given_name'', ''givenName'', ''name'', ''hostname''] of
        Some v \<Rightarrow> json_str v
      | None \<Rightarrow> [])"

definition collect_exit_node_names :: "jdict list \<Rightarrow> str set" where
  "collect_exit_node_names nodes = set (filter is_exit_node_name (map headscale_node_name nodes))"

definition collect_gateway_names :: "jdict list \<Rightarrow> str set option \<Rightarrow> str set" where
  "collect_gateway_names nodes extra =
     set (filter is_gateway_name (map headscale_node_name nodes)) \<union>
     (case extra of None \<Rightarrow> {} | Some xs \<Rightarrow> xs)"

section \<open>Facts\<close>

definition seq_names :: "str \<Rightarrow> nat \<Rightarrow> str list" where
  "seq_names pfx width = map (\<lambda>i. format_sequential_name pfx i width) [0..<10 ^ width]"

lemma seq_name_loop_eq:
  "seq_name_loop pfx width taken i n =
     first_free (map (\<lambda>j. format_sequential_name pfx j width) [i..<i + n]) taken"
proof (induction n arbitrary: i)
  case 0
  then show ?case by (simp add: first_free_def)
next
  case (Suc n)
  have "[i..<i + Suc n] = i # [Suc i..<Suc i + n]" by (simp add: upt_rec)
  with Suc show ?case by (simp add: first_free_def Let_def del: upt_Suc)
qed

interpretation seq_name: first_fit
  "\<lambda>(pfx, width). seq_names pfx width"
  "\<lambda>(pfx, width) used. seq_name_loop pfx width used 0 (10 ^ width)"
  by unfold_locales (auto simp: seq_name_loop_eq seq_names_def)

lemma format_sequential_name_inj:
  "format_sequential_name p i w = format_sequential_name p j w \<longleftrightarrow> i = j"
  by (simp add: format_sequential_name_def zero_pad_inj)

lemma length_seq_names [simp]: "length (seq_names p w) = 10 ^ w"
  by (simp add: seq_names_def)

lemma distinct_seq_names: "distinct (seq_names p w)"
  by (auto simp: seq_names_def distinct_map inj_on_def format_sequential_name_inj)

lemma next_sequential_name_Inr:
  "next_sequential_name p taken w = Inr n \<longleftrightarrow> seq_name_loop p w (\<lambda>n. n \<in> taken) 0 (10 ^ w) = Some n"
  by (auto simp: next_sequential_name_def split: option.splits)

lemma next_sequential_name_Inl:
  "(\<exists>e. next_sequential_name p taken w = Inl e) \<longleftrightarrow>
   seq_name_loop p w (\<lambda>n. n \<in> taken) 0 (10 ^ w) = None"
  by (auto simp: next_sequential_name_def split: option.splits)

lemma match_sequential_format:
  assumes "i < 1000"
  shows "match_sequential p (format_sequential_name p i 3)"
  using assms length_zero_pad [of i 3] zero_pad_digits [of 3 i]
  by (simp add: match_sequential_def format_sequential_name_def py_startswith_def)

lemma newline_is_space: "is_space newline"
  by (simp add: newline_def is_space_def code_def)

lemma lower_alnum: "is_ascii_alnum c \<Longrightarrow> is_ascii_alnum (lower_char c)"
  by (auto simp: is_ascii_alnum_def lower_char_def)

lemma normalize_idem:
  "normalize_tailscale_display_name (normalize_tailscale_display_name s) = normalize_tailscale_display_name s"
  by (simp add: normalize_tailscale_display_name_def py_strip_lower)

lemma normalize_last:
  "normalize_tailscale_display_name s \<noteq> [] \<Longrightarrow> \<not> is_space (last (normalize_tailscale_display_name s))"
  using py_strip_ends(2) [of s]
  by (auto simp: normalize_tailscale_display_name_def py_lower_def last_map)

lemma validate_Inr:
  "validate_tailscale_display_name s = Inr v \<longleftrightarrow>
   v = normalize_tailscale_display_name s \<and> display_label v"
  using normalize_last [of s] newline_is_space
  by (auto simp: validate_tailscale_display_name_def match_display_name_def display_label_def Let_def)

section \<open>Properties\<close>

text \<open>
  \<open>next_sequential_name\<close> answers with the lowest-numbered name that is not taken, and raises
  exactly when all of the \<open>10 ^ width\<close> names are taken.
\<close>

theorem next_sequential_name_correct:
  "(\<forall>i < 10 ^ width. format_sequential_name pfx i width \<in> taken) \<and>
     (\<exists>m. next_sequential_name pfx taken width = Inl (ValueError m)) \<or>
   (\<exists>i < 10 ^ width. next_sequential_name pfx taken width = Inr (format_sequential_name pfx i width) \<and>
      format_sequential_name pfx i width \<notin> taken \<and>
      (\<forall>j < i. format_sequential_name pfx j width \<in> taken))"
proof (cases "seq_name_loop pfx width (\<lambda>n. n \<in> taken) 0 (10 ^ width)")
  case None
  then have "\<forall>i < 10 ^ width. format_sequential_name pfx i width \<in> taken"
    using seq_name.alloc_none_iff [of "(pfx, width)" "\<lambda>n. n \<in> taken"] by (simp add: seq_names_def)
  moreover have "\<exists>m. next_sequential_name pfx taken width = Inl (ValueError m)"
    unfolding next_sequential_name_def None by simp
  ultimately show ?thesis by blast
next
  case (Some n)
  then have "first_free (map (\<lambda>i. format_sequential_name pfx i width) [0..<10 ^ width]) (\<lambda>n. n \<in> taken) = Some n"
    by (simp add: seq_name_loop_eq)
  then obtain i where "i < 10 ^ width" "n = format_sequential_name pfx i width"
      "n \<notin> taken" "\<forall>j < i. format_sequential_name pfx j width \<in> taken"
    by (blast dest: first_free_upt)
  with Some show ?thesis by (auto simp: next_sequential_name_Inr)
qed

theorem next_sequential_name_witness:
  "\<exists>i < 10 ^ 1. next_sequential_name ''gw-'' {''gw-0''} 1 = Inr (format_sequential_name ''gw-'' i 1) \<and> i = 1"
proof -
  have free: "format_sequential_name ''gw-'' 1 1 \<notin> {''gw-0''}" by code_simp
  have used: "format_sequential_name ''gw-'' 0 1 = ''gw-0''" by code_simp
  have "\<not> (\<forall>i < 10 ^ 1. format_sequential_name ''gw-'' i 1 \<in> {''gw-0''})"
    using free by (metis one_less_numeral_iff power_one_right semiring_norm(76))
  then obtain i where i: "i < 10 ^ 1" "next_sequential_name ''gw-'' {''gw-0''} 1 = Inr (format_sequential_name ''gw-'' i 1)"
      "format_sequential_name ''gw-'' i 1 \<notin> {''gw-0''}" "\<forall>j < i. format_sequential_name ''gw-'' j 1 \<in> {''gw-0''}"
    using next_sequential_name_correct [of 1 "''gw-''" "{''gw-0''}"] by blast
  have "\<not> 1 < i" using i(4) free by blast
  moreover have "i \<noteq> 0" using i(3) used by (metis singletonI)
  ultimately have "i = 1" by linarith
  with i show ?thesis by blast
qed

text \<open>
  A validated Headscale name is the normalised input, it is a DNS label of letters, digits and
  inner hyphens with at most 63 characters, and validating it again changes nothing.
\<close>

theorem validate_display_name_label:
  assumes "validate_tailscale_display_name s = Inr v"
  shows "v = normalize_tailscale_display_name s \<and> v \<noteq> [] \<and> length v \<le> 63 \<and>
         (\<forall>c \<in> set v. is_ascii_alnum c \<or> c = CHR ''-'') \<and> hd v \<noteq> CHR ''-'' \<and> last v \<noteq> CHR ''-'' \<and>
         validate_tailscale_display_name v = Inr v"
proof -
  have "\<not> is_ascii_alnum (CHR ''-'')" by (simp add: is_ascii_alnum_def code_def)
  then show ?thesis
    using assms normalize_idem [of s]
    by (auto simp: validate_Inr display_label_def list_all_iff)
qed

theorem validate_display_name_witness:
  "length ''my-phone'' \<le> 63 \<and> validate_tailscale_display_name ''my-phone'' = Inr ''my-phone''"
proof -
  have "validate_tailscale_display_name ''  My-Phone '' = Inr ''my-phone''" by code_simp
  from validate_display_name_label [OF this] show ?thesis by blast
qed

end
