(* ===== verification/WgConfig.thy ===== *)
theory WgConfig
  imports Exn
begin

text \<open>
  WireGuard configuration texts (\<open>orchestrator/wg/config.py\<close>) and the client's routes
  (\<open>orchestrator/wg/routes.py\<close>). \<open>conf_value\<close> reads a setting of a section back from such a text,
  the way \<open>wg-quick\<close> does.
\<close>

section \<open>Rendering\<close>

definition nl :: char where
  "nl = CHR 0x0A"

definition unlines :: "str list \<Rightarrow> str" where
  "unlines ls = concat (map (\<lambda>l. l @ [nl]) ls)"

definition BACKHAUL_WG_MTU :: int where
  "BACKHAUL_WG_MTU = 1380"

definition GATEWAY_EXIT_MTU :: int where
  "GATEWAY_EXIT_MTU = 1420"

record server_config_params =
  sc_private_key :: str
  sc_listen_port :: int
  sc_address :: str
  sc_subnet :: str

record client_config_params =
  cc_private_key :: str
  cc_address :: str
  cc_dns :: str
  cc_server_public_key :: str
  cc_endpoint :: str
  cc_allowed_ips :: str
  cc_persistent_keepalive :: int

definition render_server_config :: "server_config_params \<Rightarrow> str" where
  "render_server_config p = unlines
     [''[Interface]'',
      ''PrivateKey = '' @ sc_private_key p,
      ''Address = '' @ sc_address p @ ''/24'',
      ''ListenPort = '' @ str_int (sc_listen_port p),
      [],
      ''# Peers added dynamically via gateway agent'']"

definition render_client_config :: "client_config_params \<Rightarrow> str" where
  "render_client_config p = unlines
     [''[Interface]'',
      ''PrivateKey = '' @ cc_private_key p,
      ''Address = '' @ cc_address p @ ''/32'',
      ''DNS = '' @ cc_dns p,
      ''MTU = '' @ str_int BACKHAUL_WG_MTU,
      [],
      ''[Peer]'',
      ''PublicKey = '' @ cc_server_public_key p,
      ''Endpoint = '' @ cc_endpoint p,
      ''AllowedIPs = '' @ cc_allowed_ips p,
      ''PersistentKeepalive = '' @ str_int (cc_persistent_keepalive p)]"

section \<open>Routes\<close>

definition TAILSCALE_CIDR :: str where
  "TAILSCALE_CIDR = ''100.64.0.0/10''"

definition BACKHAUL_GATEWAY_PEER_ALLOWED_IPS :: str where
  "BACKHAUL_GATEWAY_PEER_ALLOWED_IPS = ''0.0.0.0/0, ::/0''"

definition ipv4_allowed_ips_backhaul_uplink :: "str \<Rightarrow> str" where
  "ipv4_allowed_ips_backhaul_uplink wg_subnet = wg_subnet"

definition ipv4_allowed_ips_backhaul :: "str option \<Rightarrow> str" where
  "ipv4_allowed_ips_backhaul wg_subnet =
     (case wg_subnet of Some s \<Rightarrow> if s \<noteq> [] then s else ''10.64.0.0/24'' | None \<Rightarrow> ''10.64.0.0/24'')"

definition ipv4_allowed_ips_full_tunnel :: "str \<Rightarrow> str option \<Rightarrow> str" where
  "ipv4_allowed_ips_full_tunnel endpoint wg_subnet =
     (case wg_subnet of
        Some s \<Rightarrow> if s \<noteq> [] then s @ '', 0.0.0.0/0, ::/0'' else ''0.0.0.0/0, ::/0''
      | None \<Rightarrow> ''0.0.0.0/0, ::/0'')"

section \<open>Reading a configuration back\<close>

definition conf_lines :: "str \<Rightarrow> str list" where
  "conf_lines s = py_split nl s"

text \<open>The value of the first \<open>key = value\<close> line of the section \<open>sect\<close>; \<open>cur\<close> is the section so far.\<close>

fun conf_lookup :: "str \<Rightarrow> str \<Rightarrow> str \<Rightarrow> str list \<Rightarrow> str option" where
  "conf_lookup sect key cur [] = None"
| "conf_lookup sect key cur (l # ls) =
     (if l \<noteq> [] \<and> hd l = CHR ''['' then conf_lookup sect key l ls
      else if cur = ''['' @ sect @ '']'' \<and> py_startswith l (key @ '' = '')
      then Some (drop (length key + 3) l)
      else conf_lookup sect key cur ls)"

definition conf_value :: "str \<Rightarrow> str \<Rightarrow> str \<Rightarrow> str option" where
  "conf_value sect key s = conf_lookup sect key [] (conf_lines s)"

lemma conf_lines_unlines:
  "\<forall>l \<in> set ls. nl \<notin> set l \<Longrightarrow> conf_lines (unlines ls) = ls @ [[]]"
proof (induction ls)
  case Nil
  then show ?case by (simp add: conf_lines_def unlines_def)
next
  case (Cons l ls)
  then show ?case
    using py_split_append [of nl l "unlines ls"] by (simp add: conf_lines_def unlines_def)
qed

lemma nl_not_digit: "list_all is_digit s \<Longrightarrow> nl \<notin> set s"
  by (auto simp: list_all_iff nl_def is_digit_def code_def)

lemma nl_str_int [simp]: "nl \<notin> set (str_int i)"
  using nl_not_digit [OF str_nat_digits] by (auto simp: str_int_def nl_def)

definition one_line :: "str \<Rightarrow> bool" where
  "one_line s \<longleftrightarrow> nl \<notin> set s"

text \<open>
  C35: A rendered client configuration reads back: for values without line breaks, every setting of
  the \<open>Interface\<close> and \<open>Peer\<close> sections has the value the parameters gave it, so no value can be
  taken for another setting.
\<close>

theorem client_config_reads_back:
  assumes "one_line (cc_private_key p)" and "one_line (cc_address p)" and "one_line (cc_dns p)"
    and "one_line (cc_server_public_key p)" and "one_line (cc_endpoint p)"
    and "one_line (cc_allowed_ips p)"
  shows "conf_value ''Interface'' ''PrivateKey'' (render_client_config p) = Some (cc_private_key p) \<and>
         conf_value ''Interface'' ''Address'' (render_client_config p) = Some (cc_address p @ ''/32'') \<and>
         conf_value ''Interface'' ''DNS'' (render_client_config p) = Some (cc_dns p) \<and>
         conf_value ''Interface'' ''MTU'' (render_client_config p) = Some (str_int BACKHAUL_WG_MTU) \<and>
         conf_value ''Peer'' ''PublicKey'' (render_client_config p) = Some (cc_server_public_key p) \<and>
         conf_value ''Peer'' ''Endpoint'' (render_client_config p) = Some (cc_endpoint p) \<and>
         conf_value ''Peer'' ''AllowedIPs'' (render_client_config p) = Some (cc_allowed_ips p) \<and>
         conf_value ''Peer'' ''PersistentKeepalive'' (render_client_config p) =
           Some (str_int (cc_persistent_keepalive p))"
proof -
  have "conf_lines (render_client_config p) =
     [''[Interface]'', ''PrivateKey = '' @ cc_private_key p, ''Address = '' @ cc_address p @ ''/32'',
      ''DNS = '' @ cc_dns p, ''MTU = '' @ str_int BACKHAUL_WG_MTU, [], ''[Peer]'',
      ''PublicKey = '' @ cc_server_public_key p, ''Endpoint = '' @ cc_endpoint p,
      ''AllowedIPs = '' @ cc_allowed_ips p,
      ''PersistentKeepalive = '' @ str_int (cc_persistent_keepalive p), []]"
    unfolding render_client_config_def
    by (subst conf_lines_unlines)
       (use assms nl_str_int in \<open>simp_all add: one_line_def nl_def\<close>)
  then show ?thesis by (simp add: conf_value_def py_startswith_def)
qed

definition sample_client :: client_config_params where
  "sample_client = \<lparr>cc_private_key = ''priv'', cc_address = ''10.8.2.2'', cc_dns = ''1.1.1.1'',
     cc_server_public_key = ''pub'', cc_endpoint = ''203.0.113.7:51820'',
     cc_allowed_ips = ''10.8.2.0/24'', cc_persistent_keepalive = 25\<rparr>"

theorem client_config_witness:
  "conf_value ''Peer'' ''Endpoint'' (render_client_config sample_client) = Some ''203.0.113.7:51820''"
proof -
  have "one_line (cc_private_key sample_client)" "one_line (cc_address sample_client)"
    "one_line (cc_dns sample_client)" "one_line (cc_server_public_key sample_client)"
    "one_line (cc_endpoint sample_client)" "one_line (cc_allowed_ips sample_client)"
    by code_simp+
  from client_config_reads_back [OF this] show ?thesis by (simp add: sample_client_def)
qed

end
