(* ===== verification/Egress.thy ===== *)
theory Egress
  imports Repos
begin

text \<open>
  The refresh policy of the egress address (\<open>orchestrator/workers/egress_metrics.py\<close>), the
  geolocation cache (\<open>orchestrator/services/ip_geo.py\<close>) and the progress texts of provisioning
  (\<open>orchestrator/workers/provisioning_stages.py\<close>). A \<open>datetime\<close> is its UTC instant in
  microseconds: \<open>_utc\<close> reads a naive one as UTC and converts an aware one, so it is the identity
  on instants.
\<close>

section \<open>Egress refresh\<close>

definition EGRESS_REFRESH_SECONDS :: int where
  "EGRESS_REFRESH_SECONDS = 300"

record interface_state =
  is_tailscale_online :: "bool option"
  is_wg_online :: "bool option"
  is_exit_node_reachable :: "bool option"

record egress_snapshot =
  eg_public_ip :: "str option"
  eg_country_code :: "str option"
  eg_updated_at :: "int option"

definition interface_state_of :: "bool option \<Rightarrow> bool option \<Rightarrow> bool option \<Rightarrow> interface_state" where
  "interface_state_of ts wg ex = \<lparr>is_tailscale_online = ts, is_wg_online = wg, is_exit_node_reachable = ex\<rparr>"

definition egress_snapshot_from_metric :: "gateway_metric option \<Rightarrow> egress_snapshot" where
  "egress_snapshot_from_metric m =
     (case m of
        None \<Rightarrow> \<lparr>eg_public_ip = None, eg_country_code = None, eg_updated_at = None\<rparr>
      | Some r \<Rightarrow>
          if \<not> str_true (gm_egress_public_ip r)
          then \<lparr>eg_public_ip = None, eg_country_code = None, eg_updated_at = None\<rparr>
          else \<lparr>eg_public_ip = gm_egress_public_ip r, eg_country_code = gm_egress_country_code r,
                eg_updated_at = (case gm_egress_updated_at r of
                                   Some t \<Rightarrow> Some t | None \<Rightarrow> Some (gm_polled_at r))\<rparr>)"

definition interface_state_changed :: "interface_state option \<Rightarrow> interface_state \<Rightarrow> bool" where
  "interface_state_changed previous current =
     (case previous of None \<Rightarrow> True | Some p \<Rightarrow> p \<noteq> current)"

definition pathways_ready :: "interface_state \<Rightarrow> bool" where
  "pathways_ready s \<longleftrightarrow> is_tailscale_online s = Some True \<and> is_wg_online s = Some True"

definition should_refresh_egress ::
  "interface_state option \<Rightarrow> interface_state \<Rightarrow> egress_snapshot \<Rightarrow> int \<Rightarrow> bool" where
  "should_refresh_egress previous_state current_state snapshot t =
     (if \<not> pathways_ready current_state then False
      else (case eg_updated_at snapshot of
              None \<Rightarrow> True
            | Some u \<Rightarrow>
                if t - u < EGRESS_REFRESH_SECONDS * second then False
                else if \<not> str_true (eg_public_ip snapshot) then True
                else interface_state_changed previous_state current_state))"

definition merge_egress :: "egress_snapshot \<Rightarrow> egress_snapshot option \<Rightarrow> bool \<Rightarrow> int \<Rightarrow> egress_snapshot" where
  "merge_egress snapshot refreshed attempted t =
     (case refreshed of
        Some r \<Rightarrow>
          if str_true (eg_public_ip r)
          then \<lparr>eg_public_ip = eg_public_ip r,
                eg_country_code = (if str_true (eg_country_code r) then eg_country_code r
                                   else eg_country_code snapshot),
                eg_updated_at = Some t\<rparr>
          else if attempted then snapshot\<lparr>eg_updated_at := Some t\<rparr> else snapshot
      | None \<Rightarrow> if attempted then snapshot\<lparr>eg_updated_at := Some t\<rparr> else snapshot)"

section \<open>Geolocation\<close>

record geo_result =
  geo_ip :: str
  geo_country_code :: str

definition GEO_CACHE_TTL :: int where
  "GEO_CACHE_TTL = 86400 * second"

text \<open>\<open>str.upper\<close> as code points: three letters of Latin-1 have an upper case outside it.\<close>

definition upper_codes :: "char \<Rightarrow> nat list" where
  "upper_codes c =
     (let n = code c in
      if (97 \<le> n \<and> n \<le> 122) \<or> (224 \<le> n \<and> n \<le> 254 \<and> n \<noteq> 247) then [n - 32]
      else if n = 223 then [83, 83] else if n = 181 then [924] else if n = 255 then [376] else [n])"

text \<open>The flag is a text of regional indicator symbols, given by its code points.\<close>

definition country_flag :: "str option \<Rightarrow> int list" where
  "country_flag country_code =
     (case country_code of
        None \<Rightarrow> []
      | Some cc \<Rightarrow> if cc = [] \<or> length cc \<noteq> 2 then []
                  else map (\<lambda>n. 127462 + int n - 65) (concat (map upper_codes cc)))"

text \<open>
  \<open>raise_for_status\<close> and \<open>json()\<close> on a response. The services answer with texts in the fields
  read here; \<open>json_str\<close> is their value.
\<close>

definition raise_for_status :: "nat \<times> str \<Rightarrow> unit result" where
  "raise_for_status r =
     (if 200 \<le> fst r \<and> fst r < 300 then Inr ()
      else Inl (HTTPStatusError (fst r) (''HTTP status '' @ str_nat (fst r))))"

definition ip_api_answer :: "nat \<times> str \<Rightarrow> geo_result option result" where
  "ip_api_answer r =
     bindR (raise_for_status r) (\<lambda>_.
     bindR (json_loads (snd r)) (\<lambda>v.
     bindR (as_dict v) (\<lambda>d.
     if dget d ''status'' = JStr ''success'' \<and> truthy (dget d ''countryCode'')
     then bindR (json_item v ''query'') (\<lambda>q.
          Inr (Some \<lparr>geo_ip = json_str q, geo_country_code = json_str (dget d ''countryCode'')\<rparr>))
     else Inr None)))"

definition ipinfo_answer :: "str \<Rightarrow> nat \<times> str \<Rightarrow> geo_result option result" where
  "ipinfo_answer ip r =
     bindR (raise_for_status r) (\<lambda>_.
     bindR (json_loads (snd r)) (\<lambda>v.
     bindR (as_dict v) (\<lambda>d.
     if truthy (dget d ''country'') \<and> \<not> truthy (dget d ''bogon'')
     then Inr (Some \<lparr>geo_ip = (if dhas d ''ip'' then json_str (dget d ''ip'') else ip),
                     geo_country_code = json_str (dget d ''country'')\<rparr>)
     else Inr None)))"

text \<open>\<open>except Exception\<close>: every failure of a service is logged and counts as no answer.\<close>

definition try_geo :: "geo_result option io \<Rightarrow> geo_result option io" where
  "try_geo m = catchM m (\<lambda>_. ret None)"

definition lookup_geo_uncached :: "env \<Rightarrow> str \<Rightarrow> geo_result option io" where
  "lookup_geo_uncached E ip =
     bindM (try_geo (bindM (http_request E ''GET'' (''http://ip-api.com/json/'' @ ip @
              ''?fields=status%2Cmessage%2Cquery%2CcountryCode'') None)
              (\<lambda>r. liftE (ip_api_answer r)))) (\<lambda>first.
     case first of
       Some g \<Rightarrow> ret (Some g)
     | None \<Rightarrow>
         try_geo (bindM (http_request E ''GET'' (''https://ipinfo.io/'' @ ip @ ''/json'') None)
           (\<lambda>r. liftE (ipinfo_answer ip r))))"

definition cache_get :: "str \<Rightarrow> world \<Rightarrow> (geo_result \<times> int) option" where
  "cache_get ip w =
     map_option (\<lambda>((i, cc), t). (\<lparr>geo_ip = i, geo_country_code = cc\<rparr>, t)) (map_of (geo_cache w) ip)"

definition cache_put :: "str \<Rightarrow> geo_result \<Rightarrow> int \<Rightarrow> unit io" where
  "cache_put ip g t =
     modM (\<lambda>w. w\<lparr>geo_cache := AList.update ip ((geo_ip g, geo_country_code g), t) (geo_cache w)\<rparr>)"

definition lookup_geo :: "env \<Rightarrow> str \<Rightarrow> geo_result option io" where
  "lookup_geo E ip0 =
     (let ip = py_strip ip0 in
      if ip = [] then ret None
      else bindM (getM (cache_get ip)) (\<lambda>cached.
           bindM (now E) (\<lambda>t.
           case cached of
             Some (g, stored_at) \<Rightarrow>
               if t - stored_at < GEO_CACHE_TTL then ret (Some g)
               else bindM (lookup_geo_uncached E ip) (\<lambda>r.
                    thenM (case r of Some g \<Rightarrow> cache_put ip g t | None \<Rightarrow> ret ()) (ret r))
           | None \<Rightarrow>
               bindM (lookup_geo_uncached E ip) (\<lambda>r.
               thenM (case r of Some g \<Rightarrow> cache_put ip g t | None \<Rightarrow> ret ()) (ret r)))))"

definition clear_geo_cache :: "unit io" where
  "clear_geo_cache = modM (\<lambda>w. w\<lparr>geo_cache := []\<rparr>)"

section \<open>Provisioning stages\<close>

definition STAGE_QUEUED :: str where "STAGE_QUEUED = ''queued''"
definition STAGE_PREPARING :: str where "STAGE_PREPARING = ''preparing''"
definition STAGE_VM_LAUNCH :: str where "STAGE_VM_LAUNCH = ''vm_launch''"
definition STAGE_CLOUD_INIT :: str where "STAGE_CLOUD_INIT = ''cloud_init''"
definition STAGE_AGENT_WAIT :: str where "STAGE_AGENT_WAIT = ''agent_wait''"
definition STAGE_REGISTER :: str where "STAGE_REGISTER = ''register''"
definition STAGE_PEER_SETUP :: str where "STAGE_PEER_SETUP = ''peer_setup''"
definition STAGE_DONE :: str where "STAGE_DONE = ''done''"

definition STAGE_LABELS :: "(str \<times> str) list" where
  "STAGE_LABELS =
     [(STAGE_QUEUED, ''Queued''), (STAGE_PREPARING, ''Preparing''), (STAGE_VM_LAUNCH, ''Launching VM''),
      (STAGE_CLOUD_INIT, ''Configuring VM''),
      (STAGE_AGENT_WAIT, ''Waiting for WireGuard and Tailscale''),
      (STAGE_REGISTER, ''Registering agent''), (STAGE_PEER_SETUP, ''Creating backhaul peer''),
      (STAGE_DONE, ''Complete'')]"

definition set_provision_stage :: "env \<Rightarrow> int \<Rightarrow> str \<Rightarrow> bool \<Rightarrow> unit io" where
  "set_provision_stage E jid stage touch = thenM (jobs_update_stage E jid stage touch) (commit E)"

text \<open>\<open>int(delta.total_seconds())\<close> truncates towards zero; negative values become 0 next anyway.\<close>

definition whole_seconds :: "int \<Rightarrow> int" where
  "whole_seconds d = (if d < 0 then - (- d div second) else d div second)"

definition time_ago :: "int \<Rightarrow> int \<Rightarrow> str" where
  "time_ago t w =
     (let seconds0 = whole_seconds (t - w); seconds = (if seconds0 < 0 then 0 else seconds0);
          minutes = seconds div 60; hours = minutes div 60; days = hours div 24
      in if seconds < 10 then ''just now''
         else if seconds < 60 then str_int seconds @ ''s ago''
         else if minutes < 60 then str_int minutes @ ''m ago''
         else if hours < 24 then str_int hours @ ''h ago''
         else str_int days @ ''d ago'')"

definition format_time_ago :: "env \<Rightarrow> int option \<Rightarrow> str option io" where
  "format_time_ago E w =
     (case w of None \<Rightarrow> ret None | Some i \<Rightarrow> bindM (now E) (\<lambda>t. ret (Some (time_ago t i))))"

definition format_provision_progress :: "env \<Rightarrow> job option \<Rightarrow> (str \<times> str) option io" where
  "format_provision_progress E j =
     (case j of
        None \<Rightarrow> ret None
      | Some r \<Rightarrow>
          if \<not> str_true (job_stage r) then ret None
          else (let stage = the (job_stage r);
                    label = (case map_of STAGE_LABELS stage of Some l \<Rightarrow> l | None \<Rightarrow> stage)
                in bindM (format_time_ago E (job_stage_updated_at r)) (\<lambda>ago.
                   ret (Some (label, str_or ago [])))))"

section \<open>Properties\<close>

text \<open>
  Egress lookups are throttled: after any attempt at time \<open>t\<close>, successful or not, no refresh is
  due before five minutes have passed, whatever the interfaces do; and no refresh is ever due while
  Tailscale or WireGuard is not known to be up.
\<close>

theorem egress_refresh_throttled:
  assumes "t' < t + EGRESS_REFRESH_SECONDS * second"
  shows "\<not> should_refresh_egress prev cur (merge_egress s r True t) t' \<and>
         (\<not> pathways_ready cur' \<longrightarrow> \<not> should_refresh_egress prev' cur' s' t'')"
  using assms by (auto simp: should_refresh_egress_def merge_egress_def split: option.splits)

theorem egress_refresh_throttled_witness:
  "\<not> should_refresh_egress None (interface_state_of (Some True) (Some True) None)
        (merge_egress \<lparr>eg_public_ip = None, eg_country_code = None, eg_updated_at = None\<rparr> None True 0)
        (299 * second)"
  using egress_refresh_throttled [of "299 * second" 0] by (simp add: EGRESS_REFRESH_SECONDS_def second_def)

text \<open>
  A refresh never loses what is known: merging keeps a known public address unless the refresh
  brought a new one, and keeps a known country unless the refresh brought one.
\<close>

theorem merge_egress_keeps:
  "(str_true (eg_public_ip s) \<longrightarrow> str_true (eg_public_ip (merge_egress s r attempted t))) \<and>
   (str_true (eg_country_code s) \<longrightarrow> str_true (eg_country_code (merge_egress s r attempted t))) \<and>
   (eg_public_ip (merge_egress s r attempted t) \<noteq> eg_public_ip s \<longrightarrow>
      (\<exists>x. r = Some x \<and> str_true (eg_public_ip x) \<and>
           eg_public_ip (merge_egress s r attempted t) = eg_public_ip x))"
  by (auto simp: merge_egress_def split: option.splits)

theorem merge_egress_keeps_witness:
  "str_true (eg_public_ip (merge_egress
     \<lparr>eg_public_ip = Some ''203.0.113.7'', eg_country_code = None, eg_updated_at = None\<rparr> None True 5))"
  using merge_egress_keeps [of "\<lparr>eg_public_ip = Some ''203.0.113.7'', eg_country_code = None, eg_updated_at = None\<rparr>"
      None True 5]
  by simp

lemma cache_get_put [simp]:
  "cache_get ip (snd (cache_put ip g t w)) = Some (g, t)"
  by (simp add: cache_get_def cache_put_def update_conv')

text \<open>
  The geolocation cache: an answer cached less than a day ago is returned without any request,
  and a looked-up answer is the one cached from then on.
\<close>

theorem lookup_geo_cached:
  assumes "lookup_geo E ip w = (Inr (Some g), w')" and "o_now E (trace w') < o_now E (trace w) + GEO_CACHE_TTL"
    and "cache_get (py_strip ip) w = None"
  shows "lookup_geo E ip w' = (Inr (Some g), emit Clock w')"
proof -
  from assms(1,3) have ne: "py_strip ip \<noteq> []"
    by (auto simp: lookup_geo_def Let_def)
  from assms(1,3) ne obtain v where
    look: "lookup_geo_uncached E (py_strip ip) (emit Clock w) = (Inr (Some g), v)" and
    w': "w' = snd (cache_put (py_strip ip) g (o_now E (trace w)) v)"
    by (auto simp: lookup_geo_def Let_def bindM_returns thenM_returns now_def cache_put_def
        split: option.splits)
  have "cache_get (py_strip ip) w' = Some (g, o_now E (trace w))"
    unfolding w' by simp
  with ne assms(2) show ?thesis by (simp add: lookup_geo_def Let_def comp_defs now_def)
qed

definition geo_env :: env where
  "geo_env = sample_env\<lparr>o_http := (\<lambda>h m u b. Inr (200, json_dumps (JObj [(''status'', JStr ''success''),
     (''countryCode'', JStr ''DE''), (''query'', JStr ''203.0.113.7'')])))\<rparr>"

theorem lookup_geo_cached_witness:
  "fst (lookup_geo geo_env ''203.0.113.7'' (snd (lookup_geo geo_env ''203.0.113.7'' (fresh_world empty_db)))) =
     Inr (Some \<lparr>geo_ip = ''203.0.113.7'', geo_country_code = ''DE''\<rparr>)"
proof -
  let ?w' = "snd (lookup_geo geo_env ''203.0.113.7'' (fresh_world empty_db))"
  have "fst (lookup_geo geo_env ''203.0.113.7'' (fresh_world empty_db)) =
      Inr (Some \<lparr>geo_ip = ''203.0.113.7'', geo_country_code = ''DE''\<rparr>)"
    by code_simp
  then have run: "lookup_geo geo_env ''203.0.113.7'' (fresh_world empty_db) =
      (Inr (Some \<lparr>geo_ip = ''203.0.113.7'', geo_country_code = ''DE''\<rparr>), ?w')"
    by (simp add: prod_eq_iff)
  have "o_now geo_env (trace ?w') < o_now geo_env (trace (fresh_world empty_db)) + GEO_CACHE_TTL"
    and "cache_get (py_strip ''203.0.113.7'') (fresh_world empty_db) = None"
    by code_simp+
  from lookup_geo_cached [OF run this] show ?thesis by simp
qed

end
