(* ===== verification/Headscale.thy ===== *)
theory Headscale
  imports World Naming
begin

text \<open>
  The Headscale client (\<open>orchestrator/headscale/client.py\<close>): the CLI is run as a process, its JSON
  output parsed, exit nodes listed, approved, named and deleted, users and preauth keys created,
  registrations approved. The environment variables given to the CLI are not modelled.
\<close>

declare append_Cons [simp del]

section \<open>Registration keys\<close>

definition EXIT_NODE_ROUTES :: "str list" where
  "EXIT_NODE_ROUTES = [''0.0.0.0/0'', ''::/0'']"

definition PEER_ONLINE_HANDSHAKE_SECONDS :: int where
  "PEER_ONLINE_HANDSHAKE_SECONDS = 180"

definition REGISTRATION_KEY_LENGTH :: nat where
  "REGISTRATION_KEY_LENGTH = 24"

definition REGISTRATION_KEY_MAX_LENGTH :: nat where
  "REGISTRATION_KEY_MAX_LENGTH = 128"

definition HEADSCALE_AUTH_ID_PREFIX :: str where
  "HEADSCALE_AUTH_ID_PREFIX = ''hskey-authreq-''"

definition normalize_registration_key :: "str \<Rightarrow> str" where
  "normalize_registration_key key = py_strip key"

definition is_valid_registration_key :: "str \<Rightarrow> bool" where
  "is_valid_registration_key key =
     (let normalized = normalize_registration_key key in
      if normalized = [] \<or> REGISTRATION_KEY_MAX_LENGTH < length normalized then False
      else if length normalized = REGISTRATION_KEY_LENGTH then True
      else py_startswith normalized HEADSCALE_AUTH_ID_PREFIX \<and>
           length HEADSCALE_AUTH_ID_PREFIX < length normalized)"

record preauth_key =
  pak_key :: str
  pak_user_id :: int

record headscale_node =
  hn_node_id :: int
  hn_hostname :: str
  hn_tailscale_ip :: str
  hn_online :: bool
  hn_exit_approved :: bool
  hn_exit_tagged :: bool
  hn_exit_advertised :: bool

record registered_node =
  rn_node_id :: int
  rn_hostname :: str
  rn_tailscale_ip :: str

section \<open>The command line\<close>

definition headscale_error_detail :: "proc \<Rightarrow> str" where
  "headscale_error_detail p =
     (let detail = py_strip (stderr p) in
      if py_strip (stdout p) \<noteq> [] then
        (case json_loads (stdout p) of
           Inr (JObj d) \<Rightarrow> if truthy (dget d ''error'') then json_str (dget d ''error'') else detail
         | _ \<Rightarrow> detail)
      else detail)"

definition headscale_cmd :: "env \<Rightarrow> str list \<Rightarrow> str list" where
  "headscale_cmd E args =
     [s_headscale_cli E] @ (if s_headscale_config E \<noteq> [] then [''-c'', s_headscale_config E] else []) @ args"

definition run_headscale :: "env \<Rightarrow> str list \<Rightarrow> str io" where
  "run_headscale E args =
     bindM (run_process E (headscale_cmd E args)) (\<lambda>p.
     if returncode p \<noteq> 0
     then raise (HeadscaleError (let d = headscale_error_detail p in
                                 if d \<noteq> [] then d else ''headscale command failed''))
     else ret (py_strip (stdout p)))"

text \<open>The dictionaries of a list.\<close>

fun only_dicts :: "json list \<Rightarrow> jdict list" where
  "only_dicts [] = []"
| "only_dicts (v # vs) = (case v of JObj d \<Rightarrow> d # only_dicts vs | _ \<Rightarrow> only_dicts vs)"

definition parse_nodes_json :: "str \<Rightarrow> jdict list result" where
  "parse_nodes_json raw =
     (if raw = [] \<or> raw = ''null'' then Inr []
      else bindR (json_loads raw) (\<lambda>data.
           case data of
             JArr vs \<Rightarrow> Inr (only_dicts vs)
           | JObj d \<Rightarrow> (case dget d ''nodes'' of JArr vs \<Rightarrow> Inr (only_dicts vs) | _ \<Rightarrow> Inr [])
           | _ \<Rightarrow> Inr []))"

section \<open>Node fields\<close>

fun route_list :: "jdict \<Rightarrow> str list \<Rightarrow> str list" where
  "route_list node [] = []"
| "route_list node (k # ks) =
     (case dget node k of JArr vs \<Rightarrow> map json_str vs | _ \<Rightarrow> route_list node ks)"

definition approved_routes :: "jdict \<Rightarrow> str list" where
  "approved_routes node = route_list node [''approvedRoutes'', ''approved_routes'']"

definition available_routes :: "jdict \<Rightarrow> str list" where
  "available_routes node = route_list node [''availableRoutes'', ''available_routes'']"

definition has_exit_route :: "str list \<Rightarrow> bool" where
  "has_exit_route routes = list_ex (\<lambda>r. r \<in> set EXIT_NODE_ROUTES) routes"

fun first_ipv4 :: "json list \<Rightarrow> str option" where
  "first_ipv4 [] = None"
| "first_ipv4 (a # as) =
     (let ip = hd (py_split (CHR ''/'') (json_str a)) in
      if CHR '':'' \<notin> set ip then Some ip else first_ipv4 as)"

fun node_ipv4_keys :: "jdict \<Rightarrow> str list \<Rightarrow> str option" where
  "node_ipv4_keys node [] = None"
| "node_ipv4_keys node (k # ks) =
     (case dget node k of
        JArr vs \<Rightarrow> (case first_ipv4 vs of Some ip \<Rightarrow> Some ip | None \<Rightarrow> node_ipv4_keys node ks)
      | _ \<Rightarrow> node_ipv4_keys node ks)"

definition node_ipv4 :: "jdict \<Rightarrow> str option" where
  "node_ipv4 node = node_ipv4_keys node [''ipAddresses'', ''ip_addresses'']"

definition node_online :: "jdict \<Rightarrow> bool" where
  "node_online node =
     (case map_of node ''connected'' of
        Some v \<Rightarrow> truthy v
      | None \<Rightarrow> (case map_of node ''online'' of Some v \<Rightarrow> truthy v | None \<Rightarrow> False))"

definition node_tags :: "jdict \<Rightarrow> str list" where
  "node_tags node = route_list node [''tags'', ''Tags'', ''validTags'', ''valid_tags'']"

definition node_has_exit_tag :: "env \<Rightarrow> jdict \<Rightarrow> str option \<Rightarrow> bool" where
  "node_has_exit_tag E node tag = (str_or tag (s_headscale_exit_node_tag E) \<in> set (node_tags node))"

definition list_headscale_nodes_raw :: "env \<Rightarrow> jdict list io" where
  "list_headscale_nodes_raw E =
     bindM (run_headscale E [''nodes'', ''list'', ''-o'', ''json'']) (\<lambda>output. liftE (parse_nodes_json output))"

definition parse_headscale_node :: "env \<Rightarrow> jdict \<Rightarrow> str option \<Rightarrow> headscale_node option result" where
  "parse_headscale_node E node exit_tag =
     (case node_ipv4 node of
        None \<Rightarrow> Inr None
      | Some ipv4 \<Rightarrow>
          if ipv4 = [] then Inr None
          else
            (let tag = str_or exit_tag (s_headscale_exit_node_tag E);
                 approved = approved_routes node; available = available_routes node;
                 exit_tagged = node_has_exit_tag E node (Some tag);
                 exit_advertised = (has_exit_route approved \<or> has_exit_route available)
             in if \<not> (exit_tagged \<or> exit_advertised) then Inr None
                else (let name = headscale_node_name node;
                          hostname = (if name \<noteq> [] then name else ipv4)
                      in bindR (if dget node ''id'' \<noteq> JNull then json_int (dget node ''id'') else Inr 0) (\<lambda>nid.
                         Inr (Some \<lparr>hn_node_id = nid, hn_hostname = hostname, hn_tailscale_ip = ipv4,
                                    hn_online = node_online node,
                                    hn_exit_approved = has_exit_route approved,
                                    hn_exit_tagged = exit_tagged,
                                    hn_exit_advertised = exit_advertised\<rparr>)))))"

section \<open>Looking nodes up\<close>

definition get_node_tailscale_ip_by_hostname :: "env \<Rightarrow> str \<Rightarrow> str option io" where
  "get_node_tailscale_ip_by_hostname E hostname =
     bindM (list_headscale_nodes_raw E) (\<lambda>nodes.
     ret (case find (\<lambda>n. headscale_node_name n = hostname) nodes of
            Some n \<Rightarrow> node_ipv4 n | None \<Rightarrow> None))"

definition gateway_node_match :: "str option \<Rightarrow> str list \<Rightarrow> jdict \<Rightarrow> bool" where
  "gateway_node_match tip wanted node \<longleftrightarrow>
     (str_true tip \<and> node_ipv4 node = tip) \<or> (wanted \<noteq> [] \<and> headscale_node_name node \<in> set wanted)"

definition find_gateway_headscale_node :: "env \<Rightarrow> str option \<Rightarrow> str list \<Rightarrow> jdict option io" where
  "find_gateway_headscale_node E tip hostnames =
     (let wanted = filter (\<lambda>n. n \<noteq> []) hostnames in
      bindM (list_headscale_nodes_raw E) (\<lambda>nodes. ret (find (gateway_node_match tip wanted) nodes)))"

fun collect_parsed ::
  "env \<Rightarrow> jdict list \<Rightarrow> str list \<Rightarrow> headscale_node list \<Rightarrow> (headscale_node list \<times> str list) result" where
  "collect_parsed E [] seen res = Inr (res, seen)"
| "collect_parsed E (node # nodes) seen res =
     bindR (parse_headscale_node E node None) (\<lambda>parsed.
     case parsed of
       Some p \<Rightarrow>
         if hn_tailscale_ip p \<notin> set seen
         then collect_parsed E nodes (hn_tailscale_ip p # seen) (res @ [p])
         else collect_parsed E nodes seen res
     | None \<Rightarrow> collect_parsed E nodes seen res)"

definition list_exit_nodes :: "env \<Rightarrow> headscale_node list io" where
  "list_exit_nodes E =
     bindM (list_headscale_nodes_raw E) (\<lambda>nodes.
     bindM (liftE (collect_parsed E nodes [] [])) (\<lambda>(res, seen).
     if res \<noteq> [] then ret res
     else bindM (run_headscale E [''nodes'', ''list-routes'', ''-o'', ''json'']) (\<lambda>output.
          bindM (liftE (parse_nodes_json output)) (\<lambda>nodes2.
          bindM (liftE (collect_parsed E nodes2 seen res)) (\<lambda>(res2, _). ret res2)))))"

section \<open>Approving exit routes\<close>

definition approve_exit_route_if_needed :: "env \<Rightarrow> jdict \<Rightarrow> bool io" where
  "approve_exit_route_if_needed E node =
     (if has_exit_route (approved_routes node) then ret False
      else if \<not> has_exit_route (available_routes node) then ret False
      else if dget node ''id'' = JNull then ret False
      else thenM (bindM (run_headscale E [''nodes'', ''approve-routes'', ''-i'', json_str (dget node ''id''),
                                         ''-r'', ''0.0.0.0/0'']) (\<lambda>_. ret ()))
           (ret True))"

definition approve_node_exit_route :: "env \<Rightarrow> int \<Rightarrow> bool io" where
  "approve_node_exit_route E node_id =
     bindM (list_headscale_nodes_raw E) (\<lambda>nodes.
     case find (\<lambda>n. json_eq_int (dget n ''id'') node_id) nodes of
       Some n \<Rightarrow> approve_exit_route_if_needed E n
     | None \<Rightarrow> ret False)"

definition approve_exit_routes_for_tagged_nodes :: "env \<Rightarrow> nat io" where
  "approve_exit_routes_for_tagged_nodes E =
     bindM (list_headscale_nodes_raw E) (\<lambda>nodes.
     foldM (\<lambda>count node.
       if \<not> node_has_exit_tag E node (Some (s_headscale_exit_node_tag E)) then ret count
       else bindM (approve_exit_route_if_needed E node) (\<lambda>b. ret (if b then count + 1 else count)))
       0 nodes)"

section \<open>Renaming and deleting nodes\<close>

definition rename_headscale_node :: "env \<Rightarrow> int \<Rightarrow> str \<Rightarrow> unit io" where
  "rename_headscale_node E node_id new_name =
     bindM (run_headscale E [''nodes'', ''rename'', new_name, ''-i'', str_int node_id]) (\<lambda>_. ret ())"

definition rename_gateway_headscale_display_name :: "env \<Rightarrow> int \<Rightarrow> str \<Rightarrow> unit io" where
  "rename_gateway_headscale_display_name E node_id display_name = rename_headscale_node E node_id display_name"

definition delete_headscale_node :: "env \<Rightarrow> int \<Rightarrow> unit io" where
  "delete_headscale_node E node_id =
     bindM (run_headscale E [''nodes'', ''delete'', ''-i'', str_int node_id, ''--force'']) (\<lambda>_. ret ())"

definition delete_gateway_headscale_node :: "env \<Rightarrow> str option \<Rightarrow> str list \<Rightarrow> bool io" where
  "delete_gateway_headscale_node E tip hostnames =
     bindM (find_gateway_headscale_node E tip hostnames) (\<lambda>found.
     case found of
       None \<Rightarrow> ret False
     | Some node \<Rightarrow>
         if node = [] \<or> dget node ''id'' = JNull then ret False
         else bindM (liftE (json_int (dget node ''id''))) (\<lambda>i.
              thenM (delete_headscale_node E i) (ret True)))"

definition assign_exit_node_name :: "env \<Rightarrow> int \<Rightarrow> str set \<Rightarrow> str io" where
  "assign_exit_node_name E node_id reserved =
     bindM (list_headscale_nodes_raw E) (\<lambda>nodes.
     bindM (liftE (next_sequential_name EXIT_NODE_PREFIX (collect_exit_node_names nodes \<union> reserved)
                     SEQUENTIAL_WIDTH)) (\<lambda>name.
     thenM (rename_headscale_node E node_id name) (ret name)))"

definition node_sort_key :: "jdict \<Rightarrow> int result" where
  "node_sort_key node = (if truthy (dget node ''id'') then json_int (dget node ''id'') else Inr 0)"

fun with_keys :: "jdict list \<Rightarrow> (int \<times> jdict) list result" where
  "with_keys [] = Inr []"
| "with_keys (n # ns) = bindR (node_sort_key n) (\<lambda>k. bindR (with_keys ns) (\<lambda>ks. Inr ((k, n) # ks)))"

text \<open>The conditions under which the loop of \<open>sync_exit_node_names\<close> renames a node.\<close>

definition needs_exit_name :: "env \<Rightarrow> str set \<Rightarrow> jdict \<Rightarrow> bool" where
  "needs_exit_name E gateway_names node \<longleftrightarrow>
     (let current = headscale_node_name node in
      dget node ''id'' \<noteq> JNull \<and> \<not> is_exit_node_name current \<and>
      \<not> (is_gateway_name current \<or> current \<in> gateway_names) \<and>
      (node_has_exit_tag E node (Some (s_headscale_exit_node_tag E)) \<or>
       has_exit_route (approved_routes node) \<or> has_exit_route (available_routes node)))"

fun sync_loop :: "env \<Rightarrow> str set \<Rightarrow> jdict list \<Rightarrow> str set \<Rightarrow> nat \<Rightarrow> nat io" where
  "sync_loop E gateway_names [] taken renamed = ret renamed"
| "sync_loop E gateway_names (node # nodes) taken renamed =
     (if \<not> needs_exit_name E gateway_names node then sync_loop E gateway_names nodes taken renamed
      else bindM (liftE (next_sequential_name EXIT_NODE_PREFIX taken SEQUENTIAL_WIDTH)) (\<lambda>name.
           bindM (liftE (json_int (dget node ''id''))) (\<lambda>i.
           thenM (rename_headscale_node E i name)
           (sync_loop E gateway_names nodes (insert name taken) (renamed + 1)))))"

definition sync_exit_node_names :: "env \<Rightarrow> str set \<Rightarrow> nat io" where
  "sync_exit_node_names E gateway_names =
     bindM (list_headscale_nodes_raw E) (\<lambda>nodes.
     bindM (liftE (with_keys nodes)) (\<lambda>keyed_nodes.
     sync_loop E gateway_names (map snd (sort_key fst keyed_nodes))
       (collect_exit_node_names nodes \<union> {n \<in> gateway_names. n \<noteq> []}) 0))"

section \<open>Users and preauth keys\<close>

text \<open>The search of a user by name: \<open>None\<close> when no user has it.\<close>

fun find_user :: "str \<Rightarrow> json list \<Rightarrow> int option result" where
  "find_user name [] = Inr None"
| "find_user name (u # us) =
     bindR (json_get u ''name'') (\<lambda>n.
     if n = JStr name then bindR (json_item u ''id'') (\<lambda>v. bindR (json_int v) (\<lambda>i. Inr (Some i)))
     else find_user name us)"

definition list_users :: "env \<Rightarrow> json list io" where
  "list_users E =
     bindM (run_headscale E [''users'', ''list'', ''-o'', ''json'']) (\<lambda>output.
     liftE (bindR (json_loads output) json_iter))"

definition get_user_id :: "env \<Rightarrow> str option \<Rightarrow> int io" where
  "get_user_id E username =
     (let name = str_or username (s_headscale_user E) in
      bindM (list_users E) (\<lambda>users.
      bindM (liftE (find_user name users)) (\<lambda>found.
      case found of
        Some i \<Rightarrow> ret i
      | None \<Rightarrow> raise (HeadscaleError (''Headscale user '' @ [CHR 0x27] @ name @ [CHR 0x27] @ '' not found'')))))"

definition ensure_headscale_user :: "env \<Rightarrow> str \<Rightarrow> int io" where
  "ensure_headscale_user E name =
     bindM (list_users E) (\<lambda>users.
     bindM (liftE (find_user name users)) (\<lambda>found.
     case found of
       Some i \<Rightarrow> ret i
     | None \<Rightarrow>
         bindM (run_headscale E [''users'', ''create'', name]) (\<lambda>_.
         get_user_id E (Some name))))"

text \<open>
  \<open>data.get("key") or data.get("preAuthKey", {}).get("key")\<close>. A key is a text: encrypting or
  rendering another value is the \<open>AttributeError\<close> raised here.
\<close>

definition preauth_key_of :: "str \<Rightarrow> json \<Rightarrow> str result" where
  "preauth_key_of msg data =
     bindR (as_dict data) (\<lambda>d.
     bindR (if truthy (dget d ''key'') then Inr (dget d ''key'')
            else (case map_of d ''preAuthKey'' of
                    None \<Rightarrow> Inr JNull
                  | Some v \<Rightarrow> json_get v ''key'')) (\<lambda>key.
     if \<not> truthy key then Inl (HeadscaleError msg)
     else (case key of JStr s \<Rightarrow> Inr s
           | _ \<Rightarrow> Inl (AttributeError (py_repr (json_type key) @ '' object has no attribute 'encode'')))))"

definition create_gateway_preauth_key :: "env \<Rightarrow> preauth_key io" where
  "create_gateway_preauth_key E =
     bindM (get_user_id E None) (\<lambda>user_id.
     bindM (run_headscale E [''preauthkeys'', ''create'', ''-u'', str_int user_id, ''-e'',
              s_headscale_preauth_expiration E, ''--tags'', s_headscale_exit_node_tag E,
              ''-o'', ''json'']) (\<lambda>output.
     bindM (liftE (bindR (json_loads output) (preauth_key_of ''Headscale did not return a preauth key''))) (\<lambda>key.
     ret \<lparr>pak_key = key, pak_user_id = user_id\<rparr>)))"

definition create_exit_node_preauth_key :: "env \<Rightarrow> preauth_key io" where
  "create_exit_node_preauth_key E =
     bindM (ensure_headscale_user E (s_headscale_mobile_user E)) (\<lambda>user_id.
     bindM (run_headscale E [''preauthkeys'', ''create'', ''-u'', str_int user_id, ''--reusable'', ''-e'',
              s_headscale_preauth_expiration E, ''-o'', ''json'']) (\<lambda>output.
     bindM (liftE (bindR (json_loads output) (preauth_key_of ''Headscale did not return a preauth key''))) (\<lambda>key.
     ret \<lparr>pak_key = key, pak_user_id = user_id\<rparr>)))"

definition create_worker_preauth_key :: "env \<Rightarrow> preauth_key io" where
  "create_worker_preauth_key E =
     bindM (ensure_headscale_user E (s_headscale_worker_user E)) (\<lambda>user_id.
     bindM (run_headscale E [''preauthkeys'', ''create'', ''-u'', str_int user_id, ''--reusable'', ''-e'',
              s_headscale_preauth_expiration E, ''--tags'', s_headscale_worker_tag E,
              ''-o'', ''json'']) (\<lambda>output.
     bindM (liftE (bindR (json_loads output)
              (preauth_key_of ''Headscale did not return a worker preauth key''))) (\<lambda>key.
     ret \<lparr>pak_key = key, pak_user_id = user_id\<rparr>)))"

definition exit_node_registration_command :: "env \<Rightarrow> str \<Rightarrow> str" where
  "exit_node_registration_command E auth_key =
     ''tailscale up --login-server='' @ s_headscale_url E @ '' --authkey='' @ auth_key"

section \<open>Registrations\<close>

definition parse_registered_node :: "json \<Rightarrow> registered_node result" where
  "parse_registered_node v =
     bindR (as_dict v) (\<lambda>data.
     if dget data ''id'' = JNull then Inl (HeadscaleError ''Headscale did not return a node id'')
     else (let name = headscale_node_name data;
               hostname = (if name \<noteq> [] then name else json_str (dget data ''id''))
           in case node_ipv4 data of
                None \<Rightarrow> Inl (HeadscaleError ''Headscale did not return a node IP'')
              | Some ip \<Rightarrow>
                  if ip = [] then Inl (HeadscaleError ''Headscale did not return a node IP'')
                  else bindR (json_int (dget data ''id'')) (\<lambda>i.
                       Inr \<lparr>rn_node_id = i, rn_hostname = hostname, rn_tailscale_ip = ip\<rparr>)))"

definition register_node_with_headscale :: "env \<Rightarrow> str \<Rightarrow> json io" where
  "register_node_with_headscale E key =
     catchM
       (bindM (run_headscale E [''auth'', ''register'', ''--auth-id'', key, ''--user'',
                 s_headscale_user E, ''-o'', ''json'']) (\<lambda>output. liftE (json_loads output)))
       (\<lambda>e. if is_HeadscaleError e
            then bindM (run_headscale E [''nodes'', ''register'', ''-u'', s_headscale_user E, ''-k'', key,
                   ''-o'', ''json'']) (\<lambda>output. liftE (json_loads output))
            else raise e)"

definition approve_registration_request :: "env \<Rightarrow> str \<Rightarrow> registered_node io" where
  "approve_registration_request E registration_key =
     (let key = normalize_registration_key registration_key in
      if \<not> is_valid_registration_key key
      then raise (HeadscaleError ''Registration ID must be a 24-character key or hskey-authreq-* auth id'')
      else bindM (register_node_with_headscale E key) (\<lambda>v.
           bindM (liftE (parse_registered_node v)) (\<lambda>node.
           bindM (run_headscale E [''nodes'', ''approve-routes'', ''-i'', str_int (rn_node_id node), ''-r'', []]) (\<lambda>_.
           bindM (assign_exit_node_name E (rn_node_id node) {}) (\<lambda>name.
           ret (node\<lparr>rn_hostname := name\<rparr>))))))"

section \<open>Facts\<close>

lemma run_headscale_world: "snd (run_headscale E args w) = emit (Run (headscale_cmd E args)) w"
  by (simp add: run_headscale_def bindM_def run_process_def split: sum.splits)

lemma run_headscale_returns:
  "run_headscale E args w = (r, w') \<Longrightarrow> w' = emit (Run (headscale_cmd E args)) w"
  using run_headscale_world [of E args w] by simp

lemma rename_headscale_node_returns:
  "rename_headscale_node E i n w = (Inr x, w') \<Longrightarrow>
   w' = emit (Run (headscale_cmd E [''nodes'', ''rename'', n, ''-i'', str_int i])) w"
  by (auto simp: rename_headscale_node_def bindM_returns dest!: run_headscale_returns)

lemma keeps_run_headscale [keeps_intros]:
  assumes "stable J"
  shows "keeps J (run_headscale E args)"
  using assms by (simp add: keeps_def stable_def run_headscale_world)

lemma keeps_list_nodes [keeps_intros]:
  assumes "stable J"
  shows "keeps J (list_headscale_nodes_raw E)"
  unfolding list_headscale_nodes_raw_def by (intro keeps_intros assms)

lemma keeps_headscale_lookups [keeps_intros]:
  assumes "stable J"
  shows "keeps J (get_node_tailscale_ip_by_hostname E h)"
  "keeps J (find_gateway_headscale_node E tip hs)"
  unfolding get_node_tailscale_ip_by_hostname_def find_gateway_headscale_node_def Let_def
  by (intro keeps_intros assms)+

lemma keeps_list_exit_nodes [keeps_intros]:
  assumes "stable J"
  shows "keeps J (list_exit_nodes E)"
  unfolding list_exit_nodes_def by (intro keeps_intros assms)

lemma keeps_approve_if_needed [keeps_intros]:
  assumes "stable J"
  shows "keeps J (approve_exit_route_if_needed E n)"
  unfolding approve_exit_route_if_needed_def by (intro keeps_intros assms)

lemma keeps_approve_routes [keeps_intros]:
  assumes "stable J"
  shows "keeps J (approve_node_exit_route E i)"
  "keeps J (approve_exit_routes_for_tagged_nodes E)"
  unfolding approve_node_exit_route_def approve_exit_routes_for_tagged_nodes_def
  by (intro keeps_intros assms)+

lemma keeps_rename_node [keeps_intros]:
  assumes "stable J"
  shows "keeps J (rename_headscale_node E i n)"
  "keeps J (rename_gateway_headscale_display_name E i n)"
  "keeps J (delete_headscale_node E i)"
  unfolding rename_gateway_headscale_display_name_def rename_headscale_node_def delete_headscale_node_def
  by (intro keeps_intros assms)+

lemma keeps_delete_gateway_node [keeps_intros]:
  assumes "stable J"
  shows "keeps J (delete_gateway_headscale_node E tip hs)"
  unfolding delete_gateway_headscale_node_def by (intro keeps_intros assms)

lemma keeps_assign_name [keeps_intros]:
  assumes "stable J"
  shows "keeps J (assign_exit_node_name E i r)"
  unfolding assign_exit_node_name_def by (intro keeps_intros assms)

lemma keeps_sync_loop [keeps_intros]:
  assumes "stable J"
  shows "keeps J (sync_loop E gs ns taken r)"
  by (induction ns arbitrary: taken r) (auto intro!: keeps_intros assms simp del: keeps_Pair)

lemma keeps_sync_names [keeps_intros]:
  assumes "stable J"
  shows "keeps J (sync_exit_node_names E gs)"
  unfolding sync_exit_node_names_def by (intro keeps_intros assms)

lemma keeps_users [keeps_intros]:
  assumes "stable J"
  shows "keeps J (get_user_id E u)" "keeps J (ensure_headscale_user E n)"
  unfolding ensure_headscale_user_def get_user_id_def list_users_def Let_def
  by (intro keeps_intros assms)+

lemma keeps_preauth_keys [keeps_intros]:
  assumes "stable J"
  shows "keeps J (create_gateway_preauth_key E)"
  "keeps J (create_exit_node_preauth_key E)"
  "keeps J (create_worker_preauth_key E)"
  unfolding create_gateway_preauth_key_def create_exit_node_preauth_key_def create_worker_preauth_key_def
  by (intro keeps_intros assms)+

lemma keeps_registration [keeps_intros]:
  assumes "stable J"
  shows "keeps J (register_node_with_headscale E k)"
  "keeps J (approve_registration_request E k)"
  unfolding approve_registration_request_def register_node_with_headscale_def Let_def
  by (intro keeps_intros assms)+

section \<open>Properties\<close>

definition offers_exit :: "headscale_node \<Rightarrow> bool" where
  "offers_exit n \<longleftrightarrow> hn_exit_tagged n \<or> hn_exit_advertised n"

lemma parse_headscale_node_exit:
  "parse_headscale_node E node t = Inr (Some n) \<Longrightarrow>
   offers_exit n \<and> hn_tailscale_ip n \<noteq> [] \<and> node_ipv4 node = Some (hn_tailscale_ip n) \<and>
   (hn_exit_approved n \<longrightarrow> hn_exit_advertised n)"
proof -
  assume parse: "parse_headscale_node E node t = Inr (Some n)"
  then obtain ip where ip: "node_ipv4 node = Some ip" "ip \<noteq> []"
    by (cases "node_ipv4 node") (auto simp: parse_headscale_node_def split: if_splits)
  let ?tagged = "node_has_exit_tag E node (Some (str_or t (s_headscale_exit_node_tag E)))"
  let ?adv = "has_exit_route (approved_routes node) \<or> has_exit_route (available_routes node)"
  let ?nid = "if dget node ''id'' \<noteq> JNull then json_int (dget node ''id'') else Inr 0"
  let ?name = "headscale_node_name node"
  define row where "row nid = \<lparr>hn_node_id = nid, hn_hostname = (if ?name \<noteq> [] then ?name else ip),
    hn_tailscale_ip = ip, hn_online = node_online node,
    hn_exit_approved = has_exit_route (approved_routes node), hn_exit_tagged = ?tagged,
    hn_exit_advertised = ?adv\<rparr>" for nid
  have "parse_headscale_node E node t =
      (if \<not> (?tagged \<or> ?adv) then Inr None else bindR ?nid (\<lambda>nid. Inr (Some (row nid))))"
    by (simp only: parse_headscale_node_def ip row_def Let_def option.case if_False refl)
  with parse obtain nid where "n = row nid" and exit: "?tagged \<or> ?adv"
    by (auto simp only: bindR_Inr_iff sum.inject option.inject split: if_splits)
  then show ?thesis using ip by (simp add: row_def offers_exit_def)
qed

lemma collect_parsed_sound:
  assumes "collect_parsed E nodes seen res = Inr (res', seen')"
    and "distinct (map hn_tailscale_ip res)" and "hn_tailscale_ip ` set res \<subseteq> set seen"
    and "\<forall>n \<in> set res. offers_exit n \<and> hn_tailscale_ip n \<noteq> []"
  shows "distinct (map hn_tailscale_ip res') \<and> hn_tailscale_ip ` set res' \<subseteq> set seen' \<and>
         (\<forall>n \<in> set res'. offers_exit n \<and> hn_tailscale_ip n \<noteq> [])"
  using assms
proof (induction nodes arbitrary: seen res)
  case Nil
  then show ?case by simp
next
  case (Cons node nodes)
  then obtain parsed where p: "parse_headscale_node E node None = Inr parsed"
    by (cases "parse_headscale_node E node None") auto
  show ?case
  proof (cases "\<exists>n. parsed = Some n \<and> hn_tailscale_ip n \<notin> set seen")
    case False
    with Cons.prems(1) p have "collect_parsed E nodes seen res = Inr (res', seen')"
      by (cases parsed) auto
    from Cons.IH [OF this] Cons.prems(2-) show ?thesis by simp
  next
    case True
    then obtain n where n: "parsed = Some n" "hn_tailscale_ip n \<notin> set seen" by blast
    with Cons.prems(1) p have
      "collect_parsed E nodes (hn_tailscale_ip n # seen) (res @ [n]) = Inr (res', seen')" by simp
    from Cons.IH [OF this] Cons.prems(2-) n parse_headscale_node_exit [OF p [unfolded n(1)]]
    show ?thesis by auto
  qed
qed

text \<open>
  \<open>list_exit_nodes\<close> offers each node once: the addresses of the listed nodes are distinct and
  not empty, and every listed node carries the exit tag or advertises an exit route.
\<close>

theorem list_exit_nodes_sound:
  assumes "list_exit_nodes E w = (Inr ns, w')"
  shows "distinct (map hn_tailscale_ip ns) \<and> (\<forall>n \<in> set ns. offers_exit n \<and> hn_tailscale_ip n \<noteq> [])"
proof -
  from assms obtain nodes res seen where first: "collect_parsed E nodes [] [] = Inr (res, seen)"
    and rest: "ns = res \<or> (res = [] \<and> (\<exists>nodes2 s. collect_parsed E nodes2 seen res = Inr (ns, s)))"
    by (auto simp: list_exit_nodes_def bindM_returns split: if_splits; blast)
  have sound: "distinct (map hn_tailscale_ip res) \<and> hn_tailscale_ip ` set res \<subseteq> set seen \<and>
      (\<forall>n \<in> set res. offers_exit n \<and> hn_tailscale_ip n \<noteq> [])"
    using collect_parsed_sound [OF first] by simp
  from rest show ?thesis
  proof
    assume "ns = res"
    with sound show ?thesis by simp
  next
    assume "res = [] \<and> (\<exists>nodes2 s. collect_parsed E nodes2 seen res = Inr (ns, s))"
    then obtain nodes2 s where "collect_parsed E nodes2 seen res = Inr (ns, s)" by blast
    from collect_parsed_sound [OF this] sound show ?thesis by simp
  qed
qed

definition rename_event :: "env \<Rightarrow> int \<times> str \<Rightarrow> event" where
  "rename_event E r = Run (headscale_cmd E [''nodes'', ''rename'', snd r, ''-i'', str_int (fst r)])"

lemma sync_loop_returns:
  assumes "sync_loop E gs nodes taken r w = (Inr k, w')"
  shows "\<exists>rs. trace w' = trace w @ map (rename_event E) rs \<and> distinct (map snd rs) \<and>
              snd ` set rs \<inter> taken = {} \<and> (\<forall>n \<in> snd ` set rs. is_exit_node_name n) \<and>
              k = r + length rs \<and> db w' = db w \<and> stored w' = stored w"
  using assms
proof (induction nodes arbitrary: taken r w)
  case Nil
  then show ?case by (intro exI [of _ "[]"]) auto
next
  case (Cons node nodes)
  show ?case
  proof (cases "needs_exit_name E gs node")
    case False
    with Cons show ?thesis by simp
  next
    case True
    with Cons.prems obtain name i where
      name: "next_sequential_name EXIT_NODE_PREFIX taken SEQUENTIAL_WIDTH = Inr name" and
      rest: "sync_loop E gs nodes (insert name taken) (r + 1) (emit (rename_event E (i, name)) w) = (Inr k, w')"
      by (auto simp: bindM_returns thenM_returns rename_event_def dest!: rename_headscale_node_returns)
    from name have fresh: "name \<notin> taken" and ex: "is_exit_node_name name"
      using seq_name.alloc_fresh [of "(EXIT_NODE_PREFIX, SEQUENTIAL_WIDTH)" "\<lambda>n. n \<in> taken" name]
        seq_name.alloc_cand [of "(EXIT_NODE_PREFIX, SEQUENTIAL_WIDTH)" "\<lambda>n. n \<in> taken" name]
      by (auto simp: next_sequential_name_Inr seq_names_def is_exit_node_name_def SEQUENTIAL_WIDTH_def
          intro!: match_sequential_format)
    from Cons.IH [OF rest] obtain rs where
      "trace w' = trace (emit (rename_event E (i, name)) w) @ map (rename_event E) rs"
      "distinct (map snd rs)" "snd ` set rs \<inter> insert name taken = {}"
      "\<forall>n \<in> snd ` set rs. is_exit_node_name n"
      "k = r + 1 + length rs" "db w' = db w" "stored w' = stored w"
      by auto
    with fresh ex show ?thesis
      by (intro exI [of _ "(i, name) # rs"]) (auto simp: append_Cons)
  qed
qed

text \<open>
  C30: Naming exit nodes: a completed \<open>sync_exit_node_names\<close> did nothing but list the nodes and
  rename some of them; the new names are distinct \<open>ex-NNN\<close> names, none of them carried by a listed
  node or a gateway before, and the result is the number of renamed nodes.
\<close>

theorem sync_exit_node_names_distinct:
  assumes "sync_exit_node_names E gateway_names w = (Inr k, w')"
  shows "\<exists>nodes rs. trace w' = trace w @ Run (headscale_cmd E [''nodes'', ''list'', ''-o'', ''json'']) #
                      map (rename_event E) rs \<and>
           fst (list_headscale_nodes_raw E w) = Inr nodes \<and>
           distinct (map snd rs) \<and> (\<forall>n \<in> snd ` set rs. is_exit_node_name n) \<and>
           snd ` set rs \<inter> (collect_exit_node_names nodes \<union> {n \<in> gateway_names. n \<noteq> []}) = {} \<and>
           k = length rs \<and> db w' = db w"
proof -
  from assms obtain nodes w1 where
    list: "list_headscale_nodes_raw E w = (Inr nodes, w1)" and
    rest: "bindM (liftE (with_keys nodes)) (\<lambda>ks. sync_loop E gateway_names (map snd (sort_key fst ks))
             (collect_exit_node_names nodes \<union> {n \<in> gateway_names. n \<noteq> []}) 0) w1 = (Inr k, w')"
    by (auto simp: sync_exit_node_names_def bindM_returns [of "list_headscale_nodes_raw E"])
  from rest obtain ks :: "(int \<times> jdict) list" where
    loop: "sync_loop E gateway_names (map snd (sort_key fst ks))
             (collect_exit_node_names nodes \<union> {n \<in> gateway_names. n \<noteq> []}) 0 w1 = (Inr k, w')"
    by (cases "with_keys nodes") (auto simp: bindM_def)
  from list have w1: "w1 = emit (Run (headscale_cmd E [''nodes'', ''list'', ''-o'', ''json''])) w"
    by (auto simp: list_headscale_nodes_raw_def bindM_returns dest!: run_headscale_returns)
  from sync_loop_returns [OF loop] obtain rs where
    "trace w' = trace w1 @ map (rename_event E) rs" "distinct (map snd rs)"
    "snd ` set rs \<inter> (collect_exit_node_names nodes \<union> {n \<in> gateway_names. n \<noteq> []}) = {}"
    "\<forall>n \<in> snd ` set rs. is_exit_node_name n" "k = length rs" "db w' = db w1"
    by auto
  with list w1 show ?thesis
    by (intro exI [of _ nodes] exI [of _ rs]) (simp add: append_Cons)
qed

text \<open>An environment with two Headscale nodes: a tagged one without a name yet, and \<open>ex-000\<close>.\<close>

definition sample_nodes :: str where
  "sample_nodes = json_dumps (JArr
     [JObj [(''id'', JInt 7), (''name'', JStr ''phone''), (''ip_addresses'', JArr [JStr ''100.64.0.7'']),
            (''tags'', JArr [JStr ''tag:exit''])],
      JObj [(''id'', JInt 3), (''name'', JStr ''ex-000''), (''ip_addresses'', JArr [JStr ''100.64.0.3'']),
            (''approved_routes'', JArr [JStr ''0.0.0.0/0''])]])"

definition headscale_env :: env where
  "headscale_env = sample_env\<lparr>o_run := (\<lambda>h cmd. Inr \<lparr>returncode = 0,
     stdout = (if ''list'' \<in> set cmd then sample_nodes else []), stderr = []\<rparr>)\<rparr>"

lemma sample_listing: "\<not> isl (fst (list_exit_nodes headscale_env (fresh_world empty_db)))"
  by code_simp

theorem list_exit_nodes_witness:
  "\<exists>ns. fst (list_exit_nodes headscale_env (fresh_world empty_db)) = Inr ns \<and>
        distinct (map hn_tailscale_ip ns)"
proof -
  have "\<exists>ns. fst (list_exit_nodes headscale_env (fresh_world empty_db)) = Inr ns"
    by (cases "fst (list_exit_nodes headscale_env (fresh_world empty_db))")
       (auto dest: arg_cong [of _ _ isl] simp: sample_listing)
  then obtain ns where "list_exit_nodes headscale_env (fresh_world empty_db) =
      (Inr ns, snd (list_exit_nodes headscale_env (fresh_world empty_db)))"
    by (auto simp: prod_eq_iff)
  from list_exit_nodes_sound [OF this] this show ?thesis by (metis fst_conv)
qed

theorem sync_exit_node_names_witness:
  "\<exists>rs. trace (snd (sync_exit_node_names headscale_env {} (fresh_world empty_db))) =
        Run (headscale_cmd headscale_env [''nodes'', ''list'', ''-o'', ''json'']) # map (rename_event headscale_env) rs \<and>
        length rs = 1"
proof -
  have "fst (sync_exit_node_names headscale_env {} (fresh_world empty_db)) = Inr 1" by code_simp
  then have "sync_exit_node_names headscale_env {} (fresh_world empty_db) =
      (Inr 1, snd (sync_exit_node_names headscale_env {} (fresh_world empty_db)))"
    by (simp add: prod_eq_iff)
  from sync_exit_node_names_distinct [OF this] show ?thesis
    by (auto simp: fresh_world_def)
qed

end
