(* ===== verification/AgentClient.thy ===== *)
theory AgentClient
  imports Headscale Egress
begin

text \<open>
  The client of the agent in a gateway VM (\<open>orchestrator/services/gateway_agent_client.py\<close>), what
  counts as connected (\<open>orchestrator/services/gateway_connectivity.py\<close>), and the naming of Incus
  instances (\<open>orchestrator/incus/target.py\<close>). A request is an HTTP request, or a shell script run
  inside the VM; the section on shell words reads such a script back the way \<open>sh\<close> does.
\<close>

declare append_Cons [simp del]

section \<open>Timestamps\<close>

text \<open>
  \<open>datetime.fromisoformat\<close> on \<open>YYYY-MM-DD?HH:MM:SS[.f...][+HH:MM|-HH:MM]\<close>, the format
  \<open>isoformat\<close> produces. The other ISO 8601 forms the library reads are rejected by the model. The
  result is the UTC instant in microseconds; without an offset the time is read as UTC, as every
  caller does.
\<close>

definition is_leap :: "nat \<Rightarrow> bool" where
  "is_leap y \<longleftrightarrow> y mod 4 = 0 \<and> (y mod 100 \<noteq> 0 \<or> y mod 400 = 0)"

definition days_before_year :: "nat \<Rightarrow> nat" where
  "days_before_year y = (let z = y - 1 in z * 365 + z div 4 - z div 100 + z div 400)"

definition month_days :: "nat \<Rightarrow> nat list" where
  "month_days y = [31, if is_leap y then 29 else 28, 31, 30, 31, 30, 31, 31, 30, 31, 30, 31]"

definition ymd_ordinal :: "nat \<Rightarrow> nat \<Rightarrow> nat \<Rightarrow> nat" where
  "ymd_ordinal y m d = days_before_year y + sum_list (take (m - 1) (month_days y)) + d"

definition two_digits :: "str \<Rightarrow> nat option" where
  "two_digits s = (if length s = 2 \<and> list_all is_digit s then Some (digits_val s) else None)"

definition iso_date :: "str \<Rightarrow> int option" where
  "iso_date s =
     (if length s = 10 \<and> s ! 4 = CHR ''-'' \<and> s ! 7 = CHR ''-'' \<and> list_all is_digit (take 4 s) then
        (case (two_digits (take 2 (drop 5 s)), two_digits (drop 8 s)) of
           (Some m, Some d) \<Rightarrow>
             (let y = digits_val (take 4 s) in
              if 1 \<le> y \<and> 1 \<le> m \<and> m \<le> 12 \<and> 1 \<le> d \<and> d \<le> month_days y ! (m - 1)
              then Some (int (ymd_ordinal y m d) - 719163) else None)
         | _ \<Rightarrow> None)
      else None)"

text \<open>Hours, minutes and seconds, as seconds.\<close>

definition iso_hms :: "str \<Rightarrow> int option" where
  "iso_hms s =
     (if length s = 8 \<and> s ! 2 = CHR '':'' \<and> s ! 5 = CHR '':'' then
        (case (two_digits (take 2 s), two_digits (take 2 (drop 3 s)), two_digits (drop 6 s)) of
           (Some h, Some m, Some x) \<Rightarrow>
             if h < 24 \<and> m < 60 \<and> x < 60 then Some (int (h * 3600 + m * 60 + x)) else None
         | _ \<Rightarrow> None)
      else None)"

text \<open>A fraction: its first six digits count.\<close>

definition iso_fraction :: "str \<Rightarrow> (int \<times> str) option" where
  "iso_fraction s =
     (case s of
        c # r \<Rightarrow>
          if c = CHR ''.'' then
            (let ds = takeWhile is_digit r; k = take 6 ds in
             if ds = [] then None
             else Some (int (digits_val k) * 10 ^ (6 - length k), dropWhile is_digit r))
          else Some (0, s)
      | [] \<Rightarrow> Some (0, []))"

definition iso_offset :: "str \<Rightarrow> int option" where
  "iso_offset s =
     (case s of
        [] \<Rightarrow> Some 0
      | c # r \<Rightarrow>
          if (c = CHR ''+'' \<or> c = CHR ''-'') \<and> length r = 5 \<and> r ! 2 = CHR '':'' then
            (case (two_digits (take 2 r), two_digits (drop 3 r)) of
               (Some h, Some m) \<Rightarrow>
                 if h < 24 \<and> m < 60
                 then Some ((if c = CHR ''-'' then -1 else 1) * int (h * 3600 + m * 60)) else None
             | _ \<Rightarrow> None)
          else None)"

definition fromisoformat :: "str \<Rightarrow> int result" where
  "fromisoformat s =
     (let bad = Inl (ValueError (''Invalid isoformat string: '' @ py_repr s)) in
      case (iso_date (take 10 s), iso_hms (take 8 (drop 11 s)), iso_fraction (drop 19 s)) of
        (Some d, Some t, Some (us, rest)) \<Rightarrow>
          (case iso_offset rest of
             Some off \<Rightarrow> Inr ((d * 86400 + t - off) * second + us)
           | None \<Rightarrow> bad)
      | _ \<Rightarrow> bad)"

section \<open>Connectivity\<close>

definition tailscale_connected_from_status_json :: "str \<Rightarrow> bool result" where
  "tailscale_connected_from_status_json raw =
     (case json_loads raw of
        Inl e \<Rightarrow> Inr False
      | Inr v \<Rightarrow>
          bindR (as_dict v) (\<lambda>data.
          if dget data ''BackendState'' \<noteq> JStr ''Running'' then Inr False
          else bindR (if truthy (dget data ''Self'') then json_get (dget data ''Self'') ''TailscaleIPs''
                      else Inr JNull) (\<lambda>ips.
               bindR (if truthy ips then json_iter ips else Inr []) (\<lambda>xs.
               Inr (list_ex (\<lambda>ip. CHR ''.'' \<in> set (json_str ip)) xs)))))"

definition parse_handshake :: "json \<Rightarrow> int result" where
  "parse_handshake v = fromisoformat (py_replace_char (CHR ''Z'') ''+00:00'' (json_str v))"

fun any_recent_handshake :: "int \<Rightarrow> json list \<Rightarrow> bool result" where
  "any_recent_handshake t [] = Inr False"
| "any_recent_handshake t (stats # rest) =
     bindR (json_get stats ''last_handshake'') (\<lambda>hs.
     if \<not> truthy hs then any_recent_handshake t rest
     else bindR (parse_handshake hs) (\<lambda>last.
          if t - last < PEER_ONLINE_HANDSHAKE_SECONDS * second then Inr True
          else any_recent_handshake t rest))"

definition wg_uplink_connected :: "env \<Rightarrow> (str \<times> json) list \<Rightarrow> bool io" where
  "wg_uplink_connected E peer_stats =
     (if peer_stats = [] then ret False
      else bindM (now E) (\<lambda>t. liftE (any_recent_handshake t (map snd peer_stats))))"

section \<open>Requests\<close>

definition incus_target :: "worker \<Rightarrow> str \<Rightarrow> str" where
  "incus_target wk instance_name =
     (if str_true (wk_incus_remote wk) then the (wk_incus_remote wk) @ '':'' @ instance_name else instance_name)"

record agent_client =
  ac_vm_ip :: str
  ac_token :: str
  ac_port :: int
  ac_incus_instance :: "str option"

definition make_agent_client :: "env \<Rightarrow> str \<Rightarrow> str \<Rightarrow> str option \<Rightarrow> agent_client" where
  "make_agent_client E vm_ip token target =
     \<lparr>ac_vm_ip = vm_ip, ac_token = token, ac_port = s_agent_port E, ac_incus_instance = target\<rparr>"

definition via_incus :: "agent_client \<Rightarrow> bool" where
  "via_incus c \<longleftrightarrow> str_true (ac_incus_instance c)"

definition instance_of :: "agent_client \<Rightarrow> str" where
  "instance_of c = (case ac_incus_instance c of Some i \<Rightarrow> i | None \<Rightarrow> [])"

text \<open>\<open>text.replace("'", "'\\''")\<close>: a text made safe between single quotes.\<close>

definition sh_quote :: "str \<Rightarrow> str" where
  "sh_quote s = py_replace_char (CHR 0x27) [CHR 0x27, CHR 0x5C, CHR 0x27, CHR 0x27] s"

definition quoted :: "str \<Rightarrow> str" where
  "quoted s = [CHR 0x27] @ sh_quote s @ [CHR 0x27]"

definition incus_http_script :: "agent_client \<Rightarrow> str \<Rightarrow> str \<Rightarrow> json option \<Rightarrow> str" where
  "incus_http_script c method url body =
     (let auth = ''Authorization: Bearer '' @ ac_token c;
          payload = (case body of Some b \<Rightarrow> json_dumps b | None \<Rightarrow> [])
      in if method = ''GET'' then
           ''wget -qO- -T 30 --header='' @ quoted auth @ '' '' @ quoted url
         else if method = ''POST'' then
           ''wget -qO- -T 30 --header='' @ quoted auth @ '' --header='' @
           quoted ''Content-Type: application/json'' @ '' --post-data='' @ quoted payload @ '' '' @ quoted url
         else if body \<noteq> None then
           ''if command -v curl >/dev/null 2>&1; then curl -sf -X '' @ method @ '' -H '' @ quoted auth @
           '' -H '' @ quoted ''Content-Type: application/json'' @ '' -d '' @ quoted payload @ '' '' @
           quoted url @ ''; else exit 127; fi''
         else
           ''if command -v curl >/dev/null 2>&1; then curl -sf -X '' @ method @ '' -H '' @ quoted auth @
           '' '' @ quoted url @ ''; else exit 127; fi'')"

text \<open>\<open>urllib.parse.urlencode\<close> of one parameter: \<open>quote_plus\<close> of the UTF-8 bytes of the value.\<close>

definition percent :: "nat \<Rightarrow> str" where
  "percent b = (let up = (\<lambda>d. if d < 10 then char_of (48 + d) else char_of (55 + d))
                in [CHR ''%'', up (b div 16), up (b mod 16)])"

definition quote_plus_char :: "char \<Rightarrow> str" where
  "quote_plus_char c =
     (if is_ascii_alnum c \<or> c \<in> {CHR ''_'', CHR ''.'', CHR ''-'', CHR ''~''} then [c]
      else if c = CHR '' '' then ''+''
      else if code c < 128 then percent (code c)
      else percent (192 + code c div 64) @ percent (128 + code c mod 64))"

definition urlencode :: "(str \<times> str) list \<Rightarrow> str" where
  "urlencode ps =
     py_join ''&'' (map (\<lambda>(k, v). concat (map quote_plus_char k) @ ''='' @ concat (map quote_plus_char v)) ps)"

definition with_params :: "str \<Rightarrow> (str \<times> str) list \<Rightarrow> str" where
  "with_params url ps = (if ps \<noteq> [] then url @ ''?'' @ urlencode ps else url)"

definition or_else :: "str \<Rightarrow> str \<Rightarrow> str" where
  "or_else a b = (if a \<noteq> [] then a else b)"

definition agent_request_via_incus ::
  "env \<Rightarrow> agent_client \<Rightarrow> str \<Rightarrow> str \<Rightarrow> json option \<Rightarrow> (str \<times> str) list \<Rightarrow> json io" where
  "agent_request_via_incus E c method path body params =
     (let url = with_params (''http://127.0.0.1:'' @ str_int (ac_port c) @ path) params in
      bindM (run_process E [''incus'', ''exec'', instance_of c, ''--'', ''sh'', ''-c'',
                            incus_http_script c method url body]) (\<lambda>p.
      if returncode p \<noteq> 0
      then raise (RuntimeError (py_strip (or_else (stderr p) (or_else (stdout p) ''incus agent request failed''))))
      else if py_strip (stdout p) \<noteq> [] then liftE (json_loads (stdout p))
      else ret (JObj [])))"

definition agent_request ::
  "env \<Rightarrow> agent_client \<Rightarrow> str \<Rightarrow> str \<Rightarrow> json option \<Rightarrow> (str \<times> str) list \<Rightarrow> json io" where
  "agent_request E c method path body params =
     (if via_incus c then agent_request_via_incus E c method path body params
      else bindM (http_request E method
                    (with_params (''http://'' @ ac_vm_ip c @ '':'' @ str_int (ac_port c) @ path) params) body) (\<lambda>r.
           bindM (liftE (raise_for_status r)) (\<lambda>_.
           if snd r \<noteq> [] then liftE (json_loads (snd r)) else ret (JObj []))))"

section \<open>Operations\<close>

definition agent_register :: "env \<Rightarrow> agent_client \<Rightarrow> str \<Rightarrow> json io" where
  "agent_register E c gateway_name =
     agent_request E c ''POST'' ''/v1/register'' (Some (JObj [(''gateway_name'', JStr gateway_name)])) []"

definition agent_health :: "env \<Rightarrow> agent_client \<Rightarrow> json io" where
  "agent_health E c = agent_request E c ''GET'' ''/v1/health'' None []"

definition tailscale_connected_via_incus :: "env \<Rightarrow> agent_client \<Rightarrow> bool io" where
  "tailscale_connected_via_incus E c =
     (if \<not> via_incus c then ret False
      else bindM (run_process E [''incus'', ''exec'', instance_of c, ''--'', ''/usr/sbin/tailscale'',
                                 ''status'', ''--json'']) (\<lambda>p.
           if returncode p \<noteq> 0 then ret False
           else liftE (tailscale_connected_from_status_json (stdout p))))"

definition agent_tailscale_connected :: "env \<Rightarrow> agent_client \<Rightarrow> bool io" where
  "agent_tailscale_connected E c =
     (if via_incus c then tailscale_connected_via_incus E c
      else try_except
             (bindM (agent_health E c) (\<lambda>h.
              bindM (liftE (json_get h ''tailscale_online'')) (\<lambda>v. ret (truthy v))))
             (\<lambda>_. ret False))"

text \<open>
  The three operations that fall back to \<open>incus exec\<close>: the HTTP errors of \<open>pass\<close> and every other
  exception lead to the fallback when there is an instance; otherwise the error is raised again.
\<close>

definition with_fallback :: "agent_client \<Rightarrow> nat list \<Rightarrow> json io \<Rightarrow> json io \<Rightarrow> json io" where
  "with_fallback c pass req fallback =
     try_except req (\<lambda>e.
       case e of
         HTTPStatusError sc m \<Rightarrow>
           if sc \<notin> set pass \<or> \<not> via_incus c then raise e else fallback
       | _ \<Rightarrow> if via_incus c then fallback else raise e)"

definition incus_output :: "env \<Rightarrow> str list \<Rightarrow> str \<Rightarrow> str io" where
  "incus_output E cmd failed =
     bindM (run_process E cmd) (\<lambda>p.
     if returncode p \<noteq> 0
     then raise (RuntimeError (or_else (py_strip (stderr p)) (or_else (py_strip (stdout p)) failed)))
     else ret (stdout p))"

definition tailscale_status_via_incus :: "env \<Rightarrow> agent_client \<Rightarrow> json io" where
  "tailscale_status_via_incus E c =
     (if \<not> via_incus c then raise (RuntimeError ''incus instance required for direct tailscale status'')
      else bindM (incus_output E [''incus'', ''exec'', instance_of c, ''--'', ''/usr/sbin/tailscale'', ''status'']
                    ''tailscale status failed'') (\<lambda>out.
           ret (JObj [(''status'', JStr (py_strip out))])))"

definition agent_tailscale_status :: "env \<Rightarrow> agent_client \<Rightarrow> json io" where
  "agent_tailscale_status E c =
     with_fallback c [404, 503] (agent_request E c ''GET'' ''/v1/tailscale/status'' None [])
       (tailscale_status_via_incus E c)"

definition egress_script :: str where
  "egress_script =
     ''for u in https://api.ipify.org https://ifconfig.me/ip; do '' @
     ''ip=$(wget -qO- -T 10 '' @ [CHR 0x22] @ ''$u'' @ [CHR 0x22] @ '' 2>/dev/null | head -1); '' @
     ''case '' @ [CHR 0x22] @ ''$ip'' @ [CHR 0x22] @ '' in *.*.*.*) echo '' @ [CHR 0x22] @ ''$ip'' @ [CHR 0x22] @
     ''; exit 0 ;; esac; '' @ ''done; exit 1''"

definition egress_public_ip_via_incus :: "env \<Rightarrow> agent_client \<Rightarrow> json io" where
  "egress_public_ip_via_incus E c =
     (if \<not> via_incus c then raise (RuntimeError ''incus instance required for direct egress ip lookup'')
      else bindM (incus_output E [''incus'', ''exec'', instance_of c, ''--'', ''sh'', ''-c'', egress_script]
                    ''egress ip lookup failed'') (\<lambda>out.
           case py_splitlines (py_strip out) of
             [] \<Rightarrow> raise (IndexError ''list index out of range'')
           | l # _ \<Rightarrow> ret (JObj [(''ip'', JStr (py_strip l))])))"

definition agent_egress_public_ip :: "env \<Rightarrow> agent_client \<Rightarrow> json io" where
  "agent_egress_public_ip E c =
     with_fallback c [404, 503] (agent_request E c ''GET'' ''/v1/egress/public-ip'' None [])
       (egress_public_ip_via_incus E c)"

definition agent_add_peer :: "env \<Rightarrow> agent_client \<Rightarrow> str \<Rightarrow> str \<Rightarrow> json io" where
  "agent_add_peer E c public_key allowed_ips =
     agent_request E c ''POST'' ''/v1/peers''
       (Some (JObj [(''public_key'', JStr public_key), (''allowed_ips'', JStr allowed_ips)])) []"

definition agent_remove_peer :: "env \<Rightarrow> agent_client \<Rightarrow> str \<Rightarrow> json io" where
  "agent_remove_peer E c public_key = agent_request E c ''DELETE'' (''/v1/peers/'' @ public_key) None []"

definition agent_suspend_peer :: "env \<Rightarrow> agent_client \<Rightarrow> str \<Rightarrow> str \<Rightarrow> json io" where
  "agent_suspend_peer E c public_key allowed_ip =
     agent_request E c ''POST'' (''/v1/peers/'' @ public_key @ ''/suspend'') None [(''allowed_ip'', allowed_ip)]"

definition agent_resume_peer :: "env \<Rightarrow> agent_client \<Rightarrow> str \<Rightarrow> str \<Rightarrow> json io" where
  "agent_resume_peer E c public_key allowed_ip =
     agent_request E c ''POST'' (''/v1/peers/'' @ public_key @ ''/resume'') None [(''allowed_ip'', allowed_ip)]"

definition agent_list_peers :: "env \<Rightarrow> agent_client \<Rightarrow> json io" where
  "agent_list_peers E c = agent_request E c ''GET'' ''/v1/peers'' None []"

definition advertise_exit_node_via_incus :: "env \<Rightarrow> agent_client \<Rightarrow> json io" where
  "advertise_exit_node_via_incus E c =
     (if \<not> via_incus c then raise (RuntimeError ''incus instance required for direct tailscale config'')
      else bindM (incus_output E [''incus'', ''exec'', instance_of c, ''--'', ''sh'', ''-c'',
                    ''/usr/sbin/tailscale set --advertise-exit-node --accept-dns --netfilter-mode=off'']
                    ''advertise-exit failed'') (\<lambda>_.
           ret (JObj [(''status'', JStr ''advertised'')])))"

definition agent_advertise_exit_node :: "env \<Rightarrow> agent_client \<Rightarrow> json io" where
  "agent_advertise_exit_node E c =
     with_fallback c [404] (agent_request E c ''POST'' ''/v1/tailscale/advertise-exit'' None [])
       (advertise_exit_node_via_incus E c)"

definition agent_set_tailscale_hostname :: "env \<Rightarrow> agent_client \<Rightarrow> str \<Rightarrow> json io" where
  "agent_set_tailscale_hostname E c hostname =
     with_fallback c [404]
       (agent_request E c ''POST'' ''/v1/tailscale/hostname'' (Some (JObj [(''hostname'', JStr hostname)])) [])
       (bindM (incus_output E [''incus'', ''exec'', instance_of c, ''--'', ''sh'', ''-c'',
                 ''/usr/sbin/tailscale set --hostname='' @ quoted hostname] ''set hostname failed'') (\<lambda>_.
        ret (JObj [(''status'', JStr ''updated''), (''hostname'', JStr hostname)])))"

definition agent_set_exit_node :: "env \<Rightarrow> agent_client \<Rightarrow> str \<Rightarrow> json io" where
  "agent_set_exit_node E c exit_node_id = agent_advertise_exit_node E c"

definition agent_clear_exit_node :: "agent_client \<Rightarrow> json io" where
  "agent_clear_exit_node c = ret (JObj [(''status'', JStr ''noop'')])"

definition agent_run_exit_via_wg :: "env \<Rightarrow> agent_client \<Rightarrow> unit io" where
  "agent_run_exit_via_wg E c =
     (if \<not> via_incus c then ret ()
      else bindM (run_process E [''incus'', ''exec'', instance_of c, ''--'', ''/opt/gateway-agent/exit-via-wg.sh'']) (\<lambda>p.
           if returncode p \<noteq> 0
           then raise (RuntimeError (py_strip (or_else (stderr p) (or_else (stdout p) ''exit-via-wg failed''))))
           else ret ()))"

definition health_ok :: "json \<Rightarrow> bool result" where
  "health_ok h =
     bindR (json_get h ''wg_online'') (\<lambda>wg.
     if \<not> truthy wg then Inr False
     else bindR (json_get h ''tailscale_online'') (\<lambda>ts. Inr (truthy ts)))"

definition agent_wait_until_healthy ::
  "env \<Rightarrow> agent_client \<Rightarrow> int \<Rightarrow> int \<Rightarrow> unit io \<Rightarrow> bool io" where
  "agent_wait_until_healthy E c timeout interval on_poll =
     bindM (poll E (timeout * second) (interval * second)
       (thenM (try_except on_poll (\<lambda>_. ret ()))
        (try_except
           (bindM (agent_health E c) (\<lambda>h.
            bindM (liftE (health_ok h)) (\<lambda>ok. ret (if ok then Some () else None))))
           (\<lambda>_. ret None)))) (\<lambda>r.
     ret (r \<noteq> None))"

section \<open>Shell words\<close>

text \<open>
  The words of a simple command as \<open>sh\<close> splits it: \<open>q\<close> says whether a single quote is open, \<open>cur\<close>
  is the word so far. Every character with a meaning to the shell outside quotes makes the result
  \<open>None\<close>, so \<open>Some ws\<close> means that the command is exactly the words \<open>ws\<close>, with no expansion,
  redirection or second command.
\<close>

definition sh_special :: "char \<Rightarrow> bool" where
  "sh_special c \<longleftrightarrow> c \<in> set ''|&;<>()$`*?[#~%{}!'' \<or> c = CHR 0x22 \<or> code c = 9 \<or> code c = 10"

fun sh_scan :: "bool \<Rightarrow> str option \<Rightarrow> str \<Rightarrow> str list option" where
  "sh_scan q cur [] = (if q then None else Some (case cur of None \<Rightarrow> [] | Some w \<Rightarrow> [w]))"
| "sh_scan True cur (c # s) =
     (if c = CHR 0x27 then sh_scan False cur s
      else sh_scan True (Some ((case cur of None \<Rightarrow> [] | Some w \<Rightarrow> w) @ [c])) s)"
| "sh_scan False cur (c # s) =
     (if c = CHR 0x27 then sh_scan True (Some (case cur of None \<Rightarrow> [] | Some w \<Rightarrow> w)) s
      else if c = CHR '' '' then
        (case cur of None \<Rightarrow> sh_scan False None s | Some w \<Rightarrow> map_option (\<lambda>ws. w # ws) (sh_scan False None s))
      else if c = CHR 0x5C then
        (case s of
           [] \<Rightarrow> None
         | d # t \<Rightarrow> if code d = 10 then None
                   else sh_scan False (Some ((case cur of None \<Rightarrow> [] | Some w \<Rightarrow> w) @ [d])) t)
      else if sh_special c then None
      else sh_scan False (Some ((case cur of None \<Rightarrow> [] | Some w \<Rightarrow> w) @ [c])) s)"

definition sh_words :: "str \<Rightarrow> str list option" where
  "sh_words s = sh_scan False None s"

lemma sh_scan_quote: "sh_scan True (Some w) (sh_quote s @ CHR 0x27 # r) = sh_scan False (Some (w @ s)) r"
proof (induction s arbitrary: w)
  case Nil
  then show ?case by (simp add: sh_quote_def py_replace_char_def)
next
  case (Cons c s)
  show ?case
  proof (cases "c = CHR 0x27")
    case True
    have "sh_scan True (Some w) (sh_quote (c # s) @ CHR 0x27 # r) =
          sh_scan True (Some (w @ [c])) (sh_quote s @ CHR 0x27 # r)"
      using True by (simp add: sh_quote_def py_replace_char_def append_Cons sh_special_def code_def)
    with Cons show ?thesis by (simp add: append_Cons)
  next
    case False
    have "sh_scan True (Some w) (sh_quote (c # s) @ CHR 0x27 # r) =
          sh_scan True (Some (w @ [c])) (sh_quote s @ CHR 0x27 # r)"
      using False by (simp add: sh_quote_def py_replace_char_def append_Cons)
    with Cons show ?thesis by (simp add: append_Cons)
  qed
qed

text \<open>A quoted text adds exactly itself to the current word.\<close>

lemma sh_scan_quoted:
  "sh_scan False cur (quoted s @ r) = sh_scan False (Some ((case cur of None \<Rightarrow> [] | Some w \<Rightarrow> w) @ s)) r"
  using sh_scan_quote [of "case cur of None \<Rightarrow> [] | Some w \<Rightarrow> w" s r]
  by (simp add: quoted_def append_Cons)

text \<open>Characters that stand for themselves outside quotes.\<close>

definition sh_plain :: "char \<Rightarrow> bool" where
  "sh_plain c \<longleftrightarrow> c \<noteq> CHR 0x27 \<and> c \<noteq> CHR '' '' \<and> c \<noteq> CHR 0x5C \<and> \<not> sh_special c"

lemma sh_scan_plain:
  "list_all sh_plain s \<Longrightarrow> s \<noteq> [] \<Longrightarrow>
   sh_scan False cur (s @ r) = sh_scan False (Some ((case cur of None \<Rightarrow> [] | Some w \<Rightarrow> w) @ s)) r"
proof (induction s arbitrary: cur)
  case Nil
  then show ?case by simp
next
  case (Cons c s)
  then show ?case by (cases "s = []") (auto simp: sh_plain_def append_Cons)
qed

lemma sh_scan_space: "sh_scan False (Some w) (CHR '' '' # r) = map_option (\<lambda>ws. w # ws) (sh_scan False None r)"
  by simp

lemma sh_words_plain: "list_all sh_plain s \<Longrightarrow> s \<noteq> [] \<Longrightarrow> sh_scan False None (s @ CHR '' '' # r) =
   map_option (\<lambda>ws. s # ws) (sh_scan False None r)"
  by (simp add: sh_scan_plain)

text \<open>
  C34: The scripts for \<open>GET\<close> and \<open>POST\<close> are one \<open>wget\<close> command: whatever the token, the URL and the
  body contain, the shell splits the script into exactly the intended arguments, so no value of a
  request can run another command.
\<close>

theorem agent_script_words:
  "sh_words (incus_http_script c ''GET'' url body) =
     Some [''wget'', ''-qO-'', ''-T'', ''30'', ''--header=Authorization: Bearer '' @ ac_token c, url] \<and>
   sh_words (incus_http_script c ''POST'' url body) =
     Some [''wget'', ''-qO-'', ''-T'', ''30'', ''--header=Authorization: Bearer '' @ ac_token c,
           ''--header=Content-Type: application/json'',
           ''--post-data='' @ (case body of Some b \<Rightarrow> json_dumps b | None \<Rightarrow> []), url]"
  (is "sh_words ?get = Some ?gw \<and> sh_words ?post = Some ?pw")
proof -
  have plain: "list_all sh_plain ''wget''" "list_all sh_plain ''-qO-''" "list_all sh_plain ''-T''"
    "list_all sh_plain ''30''" "list_all sh_plain ''--header=''" "list_all sh_plain ''--post-data=''"
    by code_simp+
  let ?auth = "''Authorization: Bearer '' @ ac_token c"
  let ?payload = "case body of Some b \<Rightarrow> json_dumps b | None \<Rightarrow> []"
  have get: "?get = ''wget'' @ '' '' @ ''-qO-'' @ '' '' @ ''-T'' @ '' '' @ ''30'' @ '' '' @ ''--header='' @
      quoted ?auth @ '' '' @ quoted url @ []"
    by (simp add: incus_http_script_def append_Cons)
  have post: "?post = ''wget'' @ '' '' @ ''-qO-'' @ '' '' @ ''-T'' @ '' '' @ ''30'' @ '' '' @ ''--header='' @
      quoted ?auth @ '' '' @ ''--header='' @ quoted ''Content-Type: application/json'' @ '' '' @
      ''--post-data='' @ quoted ?payload @ '' '' @ quoted url @ []"
    by (simp add: incus_http_script_def Let_def append_Cons)
  have space: "'' '' @ r = CHR '' '' # r" for r by (simp add: append_Cons)
  have word1: "sh_scan False None (''wget'' @ CHR '' '' # r) = map_option (\<lambda>ws. ''wget'' # ws) (sh_scan False None r)" for r
    by (rule sh_words_plain [OF plain(1)]) simp
  have word2: "sh_scan False None (''-qO-'' @ CHR '' '' # r) = map_option (\<lambda>ws. ''-qO-'' # ws) (sh_scan False None r)" for r
    by (rule sh_words_plain [OF plain(2)]) simp
  have word3: "sh_scan False None (''-T'' @ CHR '' '' # r) = map_option (\<lambda>ws. ''-T'' # ws) (sh_scan False None r)" for r
    by (rule sh_words_plain [OF plain(3)]) simp
  have word4: "sh_scan False None (''30'' @ CHR '' '' # r) = map_option (\<lambda>ws. ''30'' # ws) (sh_scan False None r)" for r
    by (rule sh_words_plain [OF plain(4)]) simp
  have word5: "sh_scan False None (''--header='' @ r) = sh_scan False (Some ''--header='') r" for r
    by (subst sh_scan_plain [OF plain(5)]) simp_all
  have word6: "sh_scan False None (''--post-data='' @ r) = sh_scan False (Some ''--post-data='') r" for r
    by (subst sh_scan_plain [OF plain(6)]) simp_all
  note run = word1 word2 word3 word4 word5 word6 sh_scan_quoted sh_scan_space sh_scan.simps(1) option.case option.map if_False append_Nil
  have "sh_words ?get = Some ?gw"
    unfolding get sh_words_def space run by (simp add: append_Cons)
  moreover have "sh_words ?post = Some ?pw"
    unfolding post sh_words_def space run by (simp add: append_Cons)
  ultimately show ?thesis by blast
qed

section \<open>Facts\<close>

lemma keeps_agent_request [keeps_intros]:
  assumes "stable J"
  shows "keeps J (agent_request E c me p b ps)"
  unfolding agent_request_def agent_request_via_incus_def Let_def by (intro keeps_intros assms)

lemma keeps_with_fallback [keeps_intros]:
  "keeps J m \<Longrightarrow> keeps J k \<Longrightarrow> keeps J (with_fallback c ps m k)"
  unfolding with_fallback_def by (intro keeps_intros) (auto split: exn.splits intro!: keeps_intros simp del: keeps_Pair)

lemma keeps_incus_output [keeps_intros]: "stable J \<Longrightarrow> keeps J (incus_output E cmd msg)"
  unfolding incus_output_def by (intro keeps_intros)

lemma keeps_agent_ops [keeps_intros]:
  assumes "stable J"
  shows "keeps J (agent_register E c n)" "keeps J (agent_health E c)" "keeps J (agent_add_peer E c k a)"
    "keeps J (agent_remove_peer E c k)" "keeps J (agent_suspend_peer E c k a)"
    "keeps J (agent_resume_peer E c k a)" "keeps J (agent_list_peers E c)"
    "keeps J (agent_run_exit_via_wg E c)" "keeps J (agent_clear_exit_node c)"
  unfolding agent_register_def agent_health_def agent_add_peer_def agent_remove_peer_def
    agent_suspend_peer_def agent_resume_peer_def agent_list_peers_def agent_run_exit_via_wg_def
    agent_clear_exit_node_def
  by (intro keeps_intros assms)+

lemma keeps_agent_fallbacks [keeps_intros]:
  assumes "stable J"
  shows "keeps J (agent_tailscale_status E c)" "keeps J (agent_egress_public_ip E c)"
    "keeps J (agent_advertise_exit_node E c)" "keeps J (agent_set_tailscale_hostname E c h)"
    "keeps J (agent_set_exit_node E c x)" "keeps J (agent_tailscale_connected E c)"
  unfolding agent_tailscale_status_def agent_egress_public_ip_def agent_advertise_exit_node_def
    agent_set_tailscale_hostname_def agent_set_exit_node_def tailscale_status_via_incus_def
    egress_public_ip_via_incus_def advertise_exit_node_via_incus_def agent_tailscale_connected_def
    tailscale_connected_via_incus_def
  by (intro keeps_intros assms)+

lemma keeps_agent_wait [keeps_intros]:
  assumes "stable J" and "keeps J on_poll"
  shows "keeps J (agent_wait_until_healthy E c t i on_poll)"
  unfolding agent_wait_until_healthy_def by (intro keeps_intros assms)

lemma json_loads_ends: "json_loads s \<noteq> Inl Diverged"
  by (auto simp: json_loads_def split: option.splits)

lemma health_ok_ends: "health_ok h \<noteq> Inl Diverged"
  by (cases h) (auto simp: health_ok_def json_get_def as_dict_def)

lemma ends_agent_health: "outside_ends E \<Longrightarrow> ends (agent_health E c)"
  unfolding agent_health_def agent_request_def agent_request_via_incus_def Let_def
  by (intro ends_intros) (auto simp: json_loads_ends raise_for_status_def)


text \<open>A clock that runs: the number of events so far, plus all the time slept.\<close>

definition running_clock :: "event list \<Rightarrow> int" where
  "running_clock h = sum_list (map (\<lambda>e. case e of Sleep t \<Rightarrow> max 0 t | _ \<Rightarrow> 1) h)"

lemma running_clock_ok: "clock_ok (E\<lparr>o_now := running_clock\<rparr>)"
  by (auto simp: clock_ok_def running_clock_def split: event.splits)


end
