(* ===== verification/Incus.thy ===== *)
theory Incus
  imports AgentClient
begin

text \<open>
  Incus: the REST client (\<open>orchestrator/incus/client.py\<close>), the devices of an instance
  (\<open>proxy.py\<close>), its lifecycle (\<open>vm.py\<close>), files and scripts inside it (\<open>setup.py\<close>), the remotes of
  workers (\<open>remote_setup.py\<close>) and the recovery after a reboot (\<open>gateway_post_reboot.py\<close>).
\<close>

declare append_Cons [simp del]

section \<open>Remotes\<close>

record incus_remote_paths =
  rp_cert_path :: str
  rp_key_path :: str
  rp_server_cert_path :: "str option"

definition incus_conf_dir :: "env \<Rightarrow> str" where
  "incus_conf_dir E = s_home E @ ''/.config/incus''"

definition copy_remote_certs :: "env \<Rightarrow> str \<Rightarrow> str \<Rightarrow> incus_remote_paths io" where
  "copy_remote_certs E remote_name data_dir =
     (let cert_dir = data_dir @ ''/incus/'' @ remote_name; conf = incus_conf_dir E;
          client_cert = conf @ ''/client.crt''; client_key = conf @ ''/client.key'';
          dest_cert = cert_dir @ ''/client.crt''; dest_key = cert_dir @ ''/client.key'';
          dest_server = cert_dir @ ''/server.crt''; server_dir = conf @ ''/servercerts'';
          named_server = server_dir @ ''/'' @ remote_name @ ''.crt''
      in thenM (fs_op E ''mkdir'' [cert_dir])
        (bindM (is_file E client_cert) (\<lambda>c.
         bindM (is_file E client_key) (\<lambda>k.
         if \<not> c \<or> \<not> k then raise (IncusRemoteError (''Missing Incus client certs in '' @ conf))
         else
           thenM (fs_op E ''copy'' [client_cert, dest_cert])
          (thenM (fs_op E ''copy'' [client_key, dest_key])
          (thenM (fs_op E ''chmod'' [dest_cert, ''600''])
          (thenM (fs_op E ''chmod'' [dest_key, ''600''])
          (bindM (is_file E named_server) (\<lambda>named.
           bindM (if named then
                    thenM (fs_op E ''copy'' [named_server, dest_server])
                   (thenM (fs_op E ''chmod'' [dest_server, ''644'']) (ret (Some dest_server)))
                  else
                    bindM (glob E (server_dir @ ''/*.crt'')) (\<lambda>found.
                    case sort_key (\<lambda>pm. - snd pm) found of
                      [] \<Rightarrow> ret None
                    | pm # _ \<Rightarrow>
                        thenM (fs_op E ''copy'' [fst pm, dest_server])
                       (thenM (fs_op E ''chmod'' [dest_server, ''644'']) (ret (Some dest_server))))) (\<lambda>server.
           ret \<lparr>rp_cert_path = dest_cert, rp_key_path = dest_key, rp_server_cert_path = server\<rparr>))))))))))"

definition ensure_worker_remote_certs :: "env \<Rightarrow> str \<Rightarrow> str \<Rightarrow> incus_remote_paths io" where
  "ensure_worker_remote_certs E remote_name data_dir =
     (let cert_dir = data_dir @ ''/incus/'' @ remote_name;
          dest_cert = cert_dir @ ''/client.crt''; dest_key = cert_dir @ ''/client.key'';
          dest_server = cert_dir @ ''/server.crt''
      in bindM (is_file E dest_cert) (\<lambda>c.
         bindM (is_file E dest_key) (\<lambda>k.
         if c \<and> k then
           bindM (is_file E dest_server) (\<lambda>s.
           ret \<lparr>rp_cert_path = dest_cert, rp_key_path = dest_key,
                rp_server_cert_path = (if s then Some dest_server else None)\<rparr>)
         else copy_remote_certs E remote_name data_dir)))"

definition add_worker_remote :: "env \<Rightarrow> str \<Rightarrow> str \<Rightarrow> str \<Rightarrow> str \<Rightarrow> incus_remote_paths io" where
  "add_worker_remote E remote_name incus_url trust_token data_dir =
     thenM (fs_op E ''mkdir'' [data_dir @ ''/incus/'' @ remote_name])
    (bindM (run_process E [''incus'', ''remote'', ''remove'', remote_name]) (\<lambda>_.
     bindM (run_process E [''incus'', ''remote'', ''add'', remote_name, incus_url,
                           ''--token='' @ trust_token, ''--accept-certificate'']) (\<lambda>p.
     if returncode p \<noteq> 0
     then raise (IncusRemoteError (or_else (py_strip (stderr p))
                   (or_else (py_strip (stdout p)) ''incus remote add failed'')))
     else copy_remote_certs E remote_name data_dir)))"

section \<open>The REST client\<close>

record incus_client =
  ic_base :: str
  ic_cert :: "(str \<times> str) option"

definition opt_file :: "env \<Rightarrow> str option \<Rightarrow> bool io" where
  "opt_file E p = (if str_true p then is_file E (the p) else ret False)"

definition make_incus_client :: "env \<Rightarrow> worker option \<Rightarrow> incus_client io" where
  "make_incus_client E wk =
     (case wk of
        None \<Rightarrow> ret \<lparr>ic_base = ''http://localhost'', ic_cert = None\<rparr>
      | Some r \<Rightarrow>
          if wk_is_local r then ret \<lparr>ic_base = ''http://localhost'', ic_cert = None\<rparr>
          else
            bindM (opt_file E (wk_incus_cert_path r)) (\<lambda>c.
            bindM (opt_file E (wk_incus_key_path r)) (\<lambda>k.
            bindM (if str_true (wk_incus_remote r) \<and> (\<not> c \<or> \<not> k) then
                     bindM (ensure_worker_remote_certs E (the (wk_incus_remote r)) (s_data_dir E)) (\<lambda>ps.
                     ret (Some (rp_cert_path ps), Some (rp_key_path ps)))
                   else ret (wk_incus_cert_path r, wk_incus_key_path r)) (\<lambda>(cert, key).
            if \<not> str_true cert \<or> \<not> str_true key
            then raise (ValueError (''Worker '' @ wk_name r @ '' missing Incus client certificate paths''))
            else ret \<lparr>ic_base = py_rstrip_char (CHR ''/'') (the (wk_incus_url r)),
                      ic_cert = Some (the cert, the key)\<rparr>))))"

text \<open>
  The loop of \<open>_wait_operation\<close> has no end of its own: it follows the operation as long as the
  server says it runs. The model follows it for \<open>poll_fuel\<close> rounds.
\<close>

fun wait_operation_loop :: "env \<Rightarrow> incus_client \<Rightarrow> str \<Rightarrow> nat \<Rightarrow> json io" where
  "wait_operation_loop E c op_id 0 = raise Diverged"
| "wait_operation_loop E c op_id (Suc n) =
     bindM (http_request E ''GET'' (ic_base c @ ''/1.0/operations/'' @ op_id) None) (\<lambda>r.
     bindM (liftE (raise_for_status r)) (\<lambda>_.
     bindM (liftE (bindR (json_loads (snd r)) as_dict)) (\<lambda>d.
     bindM (liftE (case map_of d ''metadata'' of None \<Rightarrow> Inr [] | Some m \<Rightarrow> as_dict m)) (\<lambda>meta.
     if dget meta ''status'' = JStr ''Success'' then ret (dget meta ''metadata'')
     else if dget meta ''status'' = JStr ''Failure''
     then raise (RuntimeError (''Incus operation failed: '' @
            (case map_of meta ''err'' of None \<Rightarrow> ''unknown error'' | Some e \<Rightarrow> json_str e)))
     else thenM (sleep second) (wait_operation_loop E c op_id n)))))"

definition wait_operation :: "env \<Rightarrow> incus_client \<Rightarrow> json \<Rightarrow> json io" where
  "wait_operation E c operation_url =
     (case operation_url of
        JStr u \<Rightarrow> wait_operation_loop E c (last (py_split (CHR ''/'') u)) (poll_fuel E)
      | v \<Rightarrow> raise (AttributeError (py_repr (json_type v) @ '' object has no attribute 'rsplit'')))"

definition incus_request :: "env \<Rightarrow> incus_client \<Rightarrow> str \<Rightarrow> str \<Rightarrow> json option \<Rightarrow> json io" where
  "incus_request E c method path body =
     bindM (http_request E method (ic_base c @ ''/1.0'' @ path) body) (\<lambda>r.
     bindM (liftE (raise_for_status r)) (\<lambda>_.
     bindM (liftE (bindR (json_loads (snd r)) as_dict)) (\<lambda>d.
     if dget d ''type'' = JStr ''async''
     then bindM (liftE (json_item (JObj d) ''operation'')) (wait_operation E c)
     else ret (case map_of d ''metadata'' of Some m \<Rightarrow> m | None \<Rightarrow> JObj d))))"

definition get_instance_state :: "env \<Rightarrow> incus_client \<Rightarrow> str \<Rightarrow> json io" where
  "get_instance_state E c name = incus_request E c ''GET'' (''/instances/'' @ name @ ''/state'') None"

definition create_instance :: "env \<Rightarrow> incus_client \<Rightarrow> str \<Rightarrow> json \<Rightarrow> json \<Rightarrow> json io" where
  "create_instance E c name source config =
     incus_request E c ''POST'' ''/instances''
       (Some (JObj [(''name'', JStr name), (''source'', source), (''config'', config),
                    (''type'', JStr (s_incus_instance_type E)), (''profiles'', JArr [JStr ''default''])]))"

definition state_action :: "str \<Rightarrow> json option" where
  "state_action a = Some (JObj [(''action'', JStr a), (''timeout'', JInt 60)])"

definition start_instance :: "env \<Rightarrow> incus_client \<Rightarrow> str \<Rightarrow> json io" where
  "start_instance E c name =
     incus_request E c ''PUT'' (''/instances/'' @ name @ ''/state'') (state_action ''start'')"

definition stop_instance :: "env \<Rightarrow> incus_client \<Rightarrow> str \<Rightarrow> json io" where
  "stop_instance E c name =
     incus_request E c ''PUT'' (''/instances/'' @ name @ ''/state'') (state_action ''stop'')"

definition delete_instance :: "env \<Rightarrow> incus_client \<Rightarrow> str \<Rightarrow> json io" where
  "delete_instance E c name = incus_request E c ''DELETE'' (''/instances/'' @ name) None"

text \<open>\<open>{"type": device_type, **properties}\<close>.\<close>

definition add_device :: "env \<Rightarrow> incus_client \<Rightarrow> str \<Rightarrow> str \<Rightarrow> str \<Rightarrow> (str \<times> str) list \<Rightarrow> json io" where
  "add_device E c name device_name device_type properties =
     incus_request E c ''PATCH'' (''/instances/'' @ name)
       (Some (JObj [(''devices'', JObj [(device_name,
          JObj (fold (\<lambda>(k, v) d. AList.update k (JStr v) d) properties [(''type'', JStr device_type)]))])]))"

definition set_instance_config :: "env \<Rightarrow> incus_client \<Rightarrow> str \<Rightarrow> (str \<times> str) list \<Rightarrow> json io" where
  "set_instance_config E c name config =
     incus_request E c ''PATCH'' (''/instances/'' @ name)
       (Some (JObj [(''config'', JObj (map (\<lambda>(k, v). (k, JStr v)) config))]))"

definition get_instance :: "env \<Rightarrow> incus_client \<Rightarrow> str \<Rightarrow> json io" where
  "get_instance E c name = incus_request E c ''GET'' (''/instances/'' @ name) None"

section \<open>Devices\<close>

definition snat_rule :: "env \<Rightarrow> str \<Rightarrow> int \<Rightarrow> str \<Rightarrow> str list" where
  "snat_rule E vm_ip udp_port public_ip =
     [''-s'', vm_ip, ''-o'', ''eth0'', ''-p'', ''udp'', ''--sport'', str_int udp_port, ''!'', ''-d'',
      s_ip_pool_network E, ''-j'', ''SNAT'', ''--to-source'', public_ip @ '':'' @ str_int udp_port]"

definition ensure_wg_snat_rule :: "env \<Rightarrow> str \<Rightarrow> int \<Rightarrow> str option \<Rightarrow> unit io" where
  "ensure_wg_snat_rule E vm_ip udp_port public_ip =
     (let ip = py_strip (str_or public_ip (s_host_public_ip E));
          rule = snat_rule E vm_ip udp_port ip
      in bindM (run_process E ([''iptables'', ''-t'', ''nat'', ''-C'', ''POSTROUTING''] @ rule)) (\<lambda>p.
         if returncode p \<noteq> 0
         then bindM (run_check E ([''iptables'', ''-t'', ''nat'', ''-I'', ''POSTROUTING'', ''1''] @ rule)) (\<lambda>_. ret ())
         else ret ()))"

definition add_wg_proxy :: "env \<Rightarrow> incus_client \<Rightarrow> str \<Rightarrow> str \<Rightarrow> int \<Rightarrow> str option \<Rightarrow> bool \<Rightarrow> unit io" where
  "add_wg_proxy E c instance_name vm_ip udp_port listen_host apply_snat =
     (let host = py_strip (str_or listen_host (s_host_public_ip E)) in
      bindM (add_device E c instance_name ''wg-proxy'' ''proxy''
               [(''listen'', ''udp:'' @ host @ '':'' @ str_int udp_port),
                (''connect'', ''udp:'' @ vm_ip @ '':'' @ str_int udp_port), (''nat'', ''true'')]) (\<lambda>_.
      if apply_snat then ensure_wg_snat_rule E vm_ip udp_port (Some host) else ret ()))"

definition set_static_ip :: "env \<Rightarrow> incus_client \<Rightarrow> str \<Rightarrow> str \<Rightarrow> str option \<Rightarrow> unit io" where
  "set_static_ip E c instance_name vm_ip network =
     bindM (add_device E c instance_name ''eth0'' ''nic''
              [(''name'', ''eth0''), (''network'', str_or network (s_incus_network E)),
               (''ipv4.address'', vm_ip)]) (\<lambda>_. ret ())"

section \<open>Files and scripts\<close>

definition push_file :: "env \<Rightarrow> str \<Rightarrow> str \<Rightarrow> str \<Rightarrow> str \<Rightarrow> unit io" where
  "push_file E ins remote_path content mode =
     bindM (temp_file E content) (\<lambda>local_path.
     finallyM
       (bindM (run_check E [''incus'', ''file'', ''push'', local_path, ins @ remote_path]) (\<lambda>_.
        bindM (run_check E [''incus'', ''exec'', ins, ''--'', ''chmod'', mode, remote_path]) (\<lambda>_. ret ())))
       (fs_op E ''unlink'' [local_path]))"

definition push_binary :: "env \<Rightarrow> str \<Rightarrow> str \<Rightarrow> str \<Rightarrow> str \<Rightarrow> unit io" where
  "push_binary E ins remote_path local_path mode =
     bindM (run_check E [''incus'', ''file'', ''push'', local_path, ins @ remote_path]) (\<lambda>_.
     bindM (run_check E [''incus'', ''exec'', ins, ''--'', ''chmod'', mode, remote_path]) (\<lambda>_. ret ()))"

definition wait_for_instance :: "env \<Rightarrow> str \<Rightarrow> int \<Rightarrow> unit io" where
  "wait_for_instance E ins timeout =
     bindM (poll E (timeout * second) (2 * second)
       (bindM (run_process E [''incus'', ''exec'', ins, ''--'', ''ubus'', ''list'']) (\<lambda>p.
        ret (if returncode p = 0 \<and> py_strip (stdout p) \<noteq> [] then Some () else None)))) (\<lambda>r.
     case r of
       Some _ \<Rightarrow> ret ()
     | None \<Rightarrow> raise (RuntimeError (''Incus instance '' @ ins @ '' not ready for setup (ubus unavailable)'')))"

text \<open>The last 800 characters of a long message, without the broken first line.\<close>

definition after_newline :: "str \<Rightarrow> str" where
  "after_newline s = drop 1 (dropWhile (\<lambda>c. code c \<noteq> 10) s)"

definition clip_message :: "str \<Rightarrow> str" where
  "clip_message msg =
     (if 800 < length msg then
        (let m = py_lstrip (drop (length msg - 800) msg) in
         if list_ex (\<lambda>c. code c = 10) m then after_newline m else m)
      else msg)"

definition run_script :: "env \<Rightarrow> str \<Rightarrow> str \<Rightarrow> unit io" where
  "run_script E ins script =
     (let remote_path = ''/tmp/gateway-setup.sh'' in
      thenM (wait_for_instance E ins 90)
     (thenM (push_file E ins remote_path script ''0755'')
     (bindM (run_process E [''incus'', ''exec'', ins, ''--'', ''sh'', remote_path]) (\<lambda>p.
      if returncode p \<noteq> 0
      then raise (RuntimeError (clip_message (py_strip
             (or_else (stderr p) (or_else (stdout p) ''setup script failed'')))))
      else ret ()))))"

section \<open>Lifecycle\<close>

definition incus_image_source :: "str \<Rightarrow> json" where
  "incus_image_source img =
     (if py_startswith img ''local:'' then
        JObj [(''type'', JStr ''image''), (''alias'', JStr (py_removeprefix img ''local:''))]
      else
        (let source = [(''type'', JStr ''image''),
              (''alias'', JStr (if CHR '':'' \<in> set img then last (py_split (CHR '':'') img) else img)),
              (''protocol'', JStr ''simplestreams''), (''server'', JStr ''https://images.linuxcontainers.org'')]
         in if py_startswith img ''images:''
            then JObj (AList.update ''alias'' (JStr (py_removeprefix img ''images:''))
                         (AList.update ''mode'' (JStr ''pull'') source))
            else JObj source))"

definition vm_config :: "env \<Rightarrow> str \<Rightarrow> json" where
  "vm_config E user_data =
     JObj ([(''limits.cpu'', JStr (s_incus_vm_cpu E)), (''limits.memory'', JStr (s_incus_vm_memory E))] @
       (if s_incus_provisioner E = ''cloud-init'' \<and> user_data \<noteq> []
        then [(''cloud-init.user-data'', JStr user_data)] else []) @
       (if s_incus_instance_type E = ''virtual-machine''
        then [(''security.secureboot'', JStr ''false'')] else []))"

fun is_http_404 :: "exn \<Rightarrow> bool" where
  "is_http_404 (HTTPStatusError sc m) = (sc = 404)"
| "is_http_404 _ = False"

definition launch_gateway_vm ::
  "env \<Rightarrow> incus_client \<Rightarrow> str \<Rightarrow> str \<Rightarrow> int \<Rightarrow> str \<Rightarrow> str option \<Rightarrow> str option \<Rightarrow> str option \<Rightarrow> bool \<Rightarrow> json io" where
  "launch_gateway_vm E c name vm_ip udp_port user_data setup_script instance_target listen_host apply_wg_snat =
     thenM (catchM (bindM (get_instance E c name) (\<lambda>_. ret ()))
              (\<lambda>e. if is_http_404 e
                   then bindM (create_instance E c name (incus_image_source (s_incus_image E))
                                 (vm_config E user_data)) (\<lambda>_. ret ())
                   else raise e))
    (thenM (set_static_ip E c name vm_ip None)
    (thenM (add_wg_proxy E c name vm_ip udp_port listen_host apply_wg_snat)
    (bindM (get_instance_state E c name) (\<lambda>state.
     bindM (liftE (json_get state ''status'')) (\<lambda>st.
     bindM (if st \<noteq> JStr ''Running'' then start_instance E c name else ret JNull) (\<lambda>_.
     thenM (if str_true setup_script then run_script E (str_or instance_target name) (the setup_script)
            else ret ())
     (get_instance E c name)))))))"

definition delete_gateway_vm :: "env \<Rightarrow> incus_client \<Rightarrow> str \<Rightarrow> unit io" where
  "delete_gateway_vm E c name =
     thenM (try_except (bindM (stop_instance E c name) (\<lambda>_. ret ())) (\<lambda>_. ret ()))
    (bindM (delete_instance E c name) (\<lambda>_. ret ()))"

definition restart_gateway_vm :: "env \<Rightarrow> incus_client \<Rightarrow> str \<Rightarrow> unit io" where
  "restart_gateway_vm E c name =
     bindM (get_instance_state E c name) (\<lambda>state.
     bindM (liftE (json_get state ''status'')) (\<lambda>st.
     bindM (if st = JStr ''Running'' then stop_instance E c name else ret JNull) (\<lambda>_.
     bindM (start_instance E c name) (\<lambda>_. ret ()))))"

definition get_vm_status :: "env \<Rightarrow> incus_client \<Rightarrow> str \<Rightarrow> json io" where
  "get_vm_status E c name =
     bindM (get_instance_state E c name) (\<lambda>state.
     bindM (liftE (as_dict state)) (\<lambda>d.
     ret (case map_of d ''status'' of Some v \<Rightarrow> v | None \<Rightarrow> JStr ''unknown'')))"

section \<open>After a reboot\<close>

definition incus_exec :: "env \<Rightarrow> str \<Rightarrow> str list \<Rightarrow> proc io" where
  "incus_exec E ins args = run_process E ([''incus'', ''exec'', ins, ''--''] @ args)"

definition running_mark :: str where
  "running_mark = [CHR 0x22] @ ''BackendState'' @ [CHR 0x22] @ '': '' @ [CHR 0x22] @ ''Running'' @ [CHR 0x22]"

definition tailscale_running :: "env \<Rightarrow> str \<Rightarrow> bool io" where
  "tailscale_running E ins =
     bindM (incus_exec E ins [''/usr/sbin/tailscale'', ''status'', ''--json'']) (\<lambda>p.
     ret (returncode p = 0 \<and> py_contains (stdout p) running_mark))"

text \<open>The loop of \<open>_wait_for_tailscale\<close> with its \<open>last_error\<close>; the fuel is that of \<open>poll\<close>.\<close>

fun wait_tailscale_loop :: "env \<Rightarrow> str \<Rightarrow> int \<Rightarrow> nat \<Rightarrow> str \<Rightarrow> unit io" where
  "wait_tailscale_loop E ins deadline 0 last_error = raise Diverged"
| "wait_tailscale_loop E ins deadline (Suc n) last_error =
     bindM (now E) (\<lambda>t.
     if t < deadline then
       bindM (tailscale_running E ins) (\<lambda>up.
       if up then ret ()
       else bindM (incus_exec E ins [''cat'', ''/tmp/deeporc-tailscale-up.log'']) (\<lambda>l.
            thenM (sleep (3 * second))
              (wait_tailscale_loop E ins deadline n
                 (py_strip (or_else (stdout l) (or_else (stderr l) ''tailscale not running''))))))
     else raise (RuntimeError (or_else last_error ''tailscale did not come online after reboot'')))"

definition wait_for_tailscale :: "env \<Rightarrow> str \<Rightarrow> int \<Rightarrow> unit io" where
  "wait_for_tailscale E ins timeout =
     bindM (now E) (\<lambda>t.
     wait_tailscale_loop E ins (t + timeout * second) (nat (timeout * second div (3 * second)) + 2) [])"

fun wait_wg_loop :: "env \<Rightarrow> str \<Rightarrow> nat \<Rightarrow> unit io" where
  "wait_wg_loop E ins 0 = ret ()"
| "wait_wg_loop E ins (Suc n) =
     bindM (incus_exec E ins [''ip'', ''link'', ''show'', ''wg0'']) (\<lambda>p.
     if returncode p = 0 then ret () else thenM (sleep (2 * second)) (wait_wg_loop E ins n))"

definition FRAGMENTS :: "env \<Rightarrow> str" where
  "FRAGMENTS E = s_repo_root E @ ''/orchestrator/cloudinit/templates/_fragments''"

definition OPENWRT :: "env \<Rightarrow> str" where
  "OPENWRT E = s_repo_root E @ ''/deploy/openwrt''"

definition push_repo_file :: "env \<Rightarrow> str \<Rightarrow> str \<Rightarrow> str \<Rightarrow> unit io" where
  "push_repo_file E ins remote_path path = bindM (read_text E path) (\<lambda>s. push_file E ins remote_path s ''0755'')"

definition apply_gateway_post_reboot :: "env \<Rightarrow> str \<Rightarrow> int \<Rightarrow> unit io" where
  "apply_gateway_post_reboot E ins boot_timeout =
     thenM (wait_for_instance E ins boot_timeout)
    (thenM (push_repo_file E ins ''/opt/gateway-agent/deeporc-routing.sh'' (FRAGMENTS E @ ''/deeporc-routing.sh''))
    (thenM (push_repo_file E ins ''/opt/gateway-agent/wg-up.sh'' (OPENWRT E @ ''/wg-up.sh''))
    (thenM (push_repo_file E ins ''/opt/gateway-agent/tailscale-daemon.init'' (FRAGMENTS E @ ''/tailscale.init''))
    (thenM (push_repo_file E ins ''/etc/init.d/tailscale'' (FRAGMENTS E @ ''/tailscale.init''))
    (thenM (push_repo_file E ins ''/etc/init.d/tailscale-up'' (OPENWRT E @ ''/tailscale-up.init''))
    (thenM (wait_wg_loop E ins 30)
    (bindM (incus_exec E ins [''sh'', ''-c'',
        ''/etc/init.d/tailscale start >/tmp/deeporc-tailscale-up.log 2>&1; '' @
        ''/etc/init.d/tailscale-up start >>/tmp/deeporc-tailscale-up.log 2>&1'']) (\<lambda>_.
     thenM (wait_for_tailscale E ins 120)
    (bindM (incus_exec E ins [''/opt/gateway-agent/deeporc-routing.sh'', ''apply'']) (\<lambda>p.
     if returncode p \<noteq> 0
     then raise (RuntimeError (py_strip (or_else (stderr p) (or_else (stdout p) ''deeporc-routing apply failed''))))
     else ret ()))))))))))"

section \<open>Facts\<close>

lemma keeps_remotes [keeps_intros]:
  assumes "stable J"
  shows "keeps J (copy_remote_certs E n d)" "keeps J (ensure_worker_remote_certs E n d)"
    "keeps J (add_worker_remote E n u t d)"
  unfolding add_worker_remote_def ensure_worker_remote_certs_def copy_remote_certs_def Let_def
  by (intro keeps_intros assms)+

lemma keeps_make_incus_client [keeps_intros]:
  assumes "stable J"
  shows "keeps J (make_incus_client E wk)"
  unfolding make_incus_client_def opt_file_def by (intro keeps_intros assms)

lemma keeps_wait_operation_loop [keeps_intros]: "stable J \<Longrightarrow> keeps J (wait_operation_loop E c i n)"
  by (induction n) (auto intro!: keeps_intros simp del: keeps_Pair)

lemma keeps_wait_operation [keeps_intros]: "stable J \<Longrightarrow> keeps J (wait_operation E c v)"
  unfolding wait_operation_def by (cases v) (auto intro!: keeps_intros simp del: keeps_Pair)

lemma keeps_incus_request [keeps_intros]:
  assumes "stable J"
  shows "keeps J (incus_request E c me p b)"
  unfolding incus_request_def by (intro keeps_intros assms)

lemma keeps_instance_ops [keeps_intros]:
  assumes "stable J"
  shows "keeps J (get_instance_state E c n)" "keeps J (create_instance E c n s v)"
    "keeps J (start_instance E c n)" "keeps J (stop_instance E c n)" "keeps J (delete_instance E c n)"
    "keeps J (add_device E c n d t ps)" "keeps J (set_instance_config E c n cf)"
    "keeps J (get_instance E c n)"
  unfolding get_instance_state_def create_instance_def start_instance_def stop_instance_def
    delete_instance_def add_device_def set_instance_config_def get_instance_def
  by (intro keeps_intros assms)+

lemma keeps_devices [keeps_intros]:
  assumes "stable J"
  shows "keeps J (ensure_wg_snat_rule E ip p pub)" "keeps J (add_wg_proxy E c n ip p h b)"
    "keeps J (set_static_ip E c n ip net)"
  unfolding ensure_wg_snat_rule_def add_wg_proxy_def set_static_ip_def Let_def
  by (intro keeps_intros assms)+

lemma keeps_push [keeps_intros]:
  assumes "stable J"
  shows "keeps J (push_file E i r s m)" "keeps J (push_binary E i r l m)" "keeps J (wait_for_instance E i t)"
  unfolding push_file_def push_binary_def wait_for_instance_def by (intro keeps_intros assms)+

lemma keeps_run_script [keeps_intros]:
  assumes "stable J"
  shows "keeps J (run_script E i s)"
  unfolding run_script_def Let_def by (intro keeps_intros assms)

lemma keeps_lifecycle [keeps_intros]:
  assumes "stable J"
  shows "keeps J (launch_gateway_vm E c n ip p u ss t h b)" "keeps J (delete_gateway_vm E c n)"
    "keeps J (restart_gateway_vm E c n)" "keeps J (get_vm_status E c n)"
  unfolding launch_gateway_vm_def delete_gateway_vm_def restart_gateway_vm_def get_vm_status_def
  by (intro keeps_intros assms)+

lemma keeps_wait_tailscale_loop [keeps_intros]: "stable J \<Longrightarrow> keeps J (wait_tailscale_loop E i d n l)"
  by (induction n arbitrary: l)
     (auto intro!: keeps_intros simp: tailscale_running_def incus_exec_def simp del: keeps_Pair)

lemma keeps_wait_wg_loop [keeps_intros]: "stable J \<Longrightarrow> keeps J (wait_wg_loop E i n)"
  by (induction n) (auto intro!: keeps_intros simp: incus_exec_def simp del: keeps_Pair)

lemma keeps_post_reboot [keeps_intros]:
  assumes "stable J"
  shows "keeps J (apply_gateway_post_reboot E i t)"
  unfolding apply_gateway_post_reboot_def push_repo_file_def incus_exec_def wait_for_tailscale_def
  by (intro keeps_intros assms)

section \<open>Properties\<close>

text \<open>
  \<open>push_file\<close> cleans up: whether the push succeeds or raises, the last effect is the removal of
  the temporary file it created, and an exception of the push is passed on unless the removal itself
  raises.
\<close>

theorem push_file_unlinks:
  "\<exists>h. trace (snd (push_file E ins remote content mode w)) =
       trace w @ [TempFile content] @ h @ [Fs ''unlink'' [o_tempname E (trace w)]]"
proof -
  let ?p = "o_tempname E (trace w)" and ?w = "emit (TempFile content) w"
  let ?push = "bindM (run_check E [''incus'', ''file'', ''push'', ?p, ins @ remote]) (\<lambda>_.
    bindM (run_check E [''incus'', ''exec'', ins, ''--'', ''chmod'', mode, remote]) (\<lambda>_. ret ()))"
  have "keeps (\<lambda>v. prefix (trace ?w) (trace v)) ?push"
    by (intro keeps_intros)
  then have "prefix (trace ?w) (trace (snd (?push ?w)))"
    by (simp add: keeps_def)
  then obtain h where "trace (snd (?push ?w)) = trace w @ [TempFile content] @ h"
    by (auto simp: prefix_def append_Cons)
  then show ?thesis
    by (auto simp: push_file_def bindM_def [of "temp_file E content"] temp_file_def finallyM_def fs_op_def
        split: prod.splits sum.splits)
qed

end
