(* ===== verification/Config.thy ===== *)
theory Config
  imports World
begin

text \<open>
  The derived settings (\<open>orchestrator/config.py\<close>); the settings themselves are fields of \<open>env\<close>. Of
  \<open>urllib.parse.urlparse\<close> the part \<open>hostname\<close> needs is modelled.
\<close>

section \<open>Host names of URLs\<close>

definition scheme_char :: "char \<Rightarrow> bool" where
  "scheme_char c \<longleftrightarrow> is_ascii_alnum c \<or> c \<in> set ''+-.''"

definition after_scheme :: "str \<Rightarrow> str" where
  "after_scheme s =
     (let sch = takeWhile (\<lambda>c. c \<noteq> CHR '':'') s; r = dropWhile (\<lambda>c. c \<noteq> CHR '':'') s in
      if r \<noteq> [] \<and> sch \<noteq> [] \<and> \<not> is_digit (hd sch) \<and> is_ascii_alnum (hd sch) \<and> list_all scheme_char sch
      then tl r else s)"

definition url_netloc :: "str \<Rightarrow> str" where
  "url_netloc s =
     (let r = after_scheme s in
      if py_startswith r ''//'' then takeWhile (\<lambda>c. c \<notin> set ''/?#'') (drop 2 r) else [])"

definition url_hostname :: "str \<Rightarrow> str option" where
  "url_hostname s =
     (let hostinfo = last (py_split (CHR ''@'') (url_netloc s));
          h = (if CHR ''['' \<in> set hostinfo
               then takeWhile (\<lambda>c. c \<noteq> CHR '']'') (drop 1 (dropWhile (\<lambda>c. c \<noteq> CHR ''['') hostinfo))
               else takeWhile (\<lambda>c. c \<noteq> CHR '':'') hostinfo)
      in if h = [] then None else Some (py_lower h))"

section \<open>Properties of the settings\<close>

definition headscale_url_for_gateways :: "env \<Rightarrow> str" where
  "headscale_url_for_gateways E =
     (if py_strip (s_headscale_gateway_url E) \<noteq> [] then py_strip (s_headscale_gateway_url E)
      else ''http://'' @ s_orch_host_ip E @ '':8080'')"

definition headscale_url_for_worker :: "env \<Rightarrow> bool \<Rightarrow> str" where
  "headscale_url_for_worker E is_local =
     (if is_local then headscale_url_for_gateways E else py_rstrip_char (CHR ''/'') (s_headscale_url E))"

definition wg_endpoint_host :: "env \<Rightarrow> str" where
  "wg_endpoint_host E =
     (if py_strip (s_wg_public_host E) \<noteq> [] then py_strip (s_wg_public_host E)
      else if py_strip (s_host_public_ip E) \<noteq> [] \<and> py_strip (s_host_public_ip E) \<noteq> ''127.0.0.1''
      then py_strip (s_host_public_ip E)
      else (case url_hostname (s_headscale_url E) of
              Some h \<Rightarrow> h
            | None \<Rightarrow> s_host_public_ip E))"

definition public_orchestrator_url :: "env \<Rightarrow> str" where
  "public_orchestrator_url E =
     (let base = py_rstrip_char (CHR ''/'') (s_headscale_url E); root = py_rstrip_char (CHR ''/'') (s_api_root E)
      in if root \<noteq> [] then base @ root else base)"

end
