(* ===== verification/WorkerSvc.thy ===== *)
theory WorkerSvc
  imports Incus Config Alloc WgConfig
begin

text \<open>
  The worker service (\<open>orchestrator/services/worker_service.py\<close>): which workers are online, which one
  a new gateway goes to, registration, heartbeats, and the enrollment of new workers. Results hold
  the keys of rows; a row object of the code is the row with that key in the session's view.
\<close>

declare append_Cons [simp del]

section \<open>Status\<close>

definition HEARTBEAT_STALE_SECONDS :: int where
  "HEARTBEAT_STALE_SECONDS = 120"

definition status_at :: "int \<Rightarrow> worker \<Rightarrow> worker_status" where
  "status_at t r =
     (if \<not> wk_enabled r then WDisabled
      else (case wk_last_seen_at r of
              None \<Rightarrow> WOffline
            | Some seen \<Rightarrow> if t - seen > HEARTBEAT_STALE_SECONDS * second then WOffline else WOnline))"

text \<open>\<open>effective_status\<close> reads the clock only when it needs it.\<close>

definition effective_status :: "env \<Rightarrow> worker \<Rightarrow> worker_status io" where
  "effective_status E r =
     (if \<not> wk_enabled r \<or> wk_last_seen_at r = None then ret (status_at 0 r)
      else bindM (now E) (\<lambda>t. ret (status_at t r)))"

record dashboard_row =
  dr_worker :: worker
  dr_status :: worker_status
  dr_gateway_count :: nat

definition count_of :: "db \<Rightarrow> int \<Rightarrow> nat" where
  "count_of d wid = (case gateway_counts d wid of Some n \<Rightarrow> n | None \<Rightarrow> 0)"

definition dashboard_workers :: "env \<Rightarrow> dashboard_row list io" where
  "dashboard_workers E =
     bindM (get_db count_of) (\<lambda>count.
     bindM (get_db (\<lambda>d. filter (\<lambda>r. \<not> wk_is_local r) (workers_list_all d))) (\<lambda>rs.
     mapM (\<lambda>r. bindM (effective_status E r) (\<lambda>st.
                ret \<lparr>dr_worker = r, dr_status = st, dr_gateway_count = count (wk_id r)\<rparr>)) rs))"

definition list_online_workers :: "env \<Rightarrow> worker list io" where
  "list_online_workers E =
     bindM (dashboard_workers E) (\<lambda>rows.
     ret (map dr_worker (filter (\<lambda>row. dr_status row = WOnline) rows)))"

section \<open>Choosing a worker\<close>

text \<open>\<open>min(online, key=lambda worker: (counts.get(worker.id, 0), worker.id))\<close>.\<close>

definition key_less :: "nat \<times> int \<Rightarrow> nat \<times> int \<Rightarrow> bool" where
  "key_less a b \<longleftrightarrow> fst a < fst b \<or> (fst a = fst b \<and> snd a < snd b)"

fun min_worker :: "(worker \<Rightarrow> nat \<times> int) \<Rightarrow> worker \<Rightarrow> worker list \<Rightarrow> worker" where
  "min_worker k best [] = best"
| "min_worker k best (r # rs) = min_worker k (if key_less (k r) (k best) then r else best) rs"

definition pick_worker :: "env \<Rightarrow> worker io" where
  "pick_worker E =
     bindM (list_online_workers E) (\<lambda>online.
     case online of
       [] \<Rightarrow> raise (ValueError ''No online gateway worker available'')
     | r # rs \<Rightarrow>
         bindM (get_db count_of) (\<lambda>count.
         ret (min_worker (\<lambda>w. (count (wk_id w), wk_id w)) r rs)))"

definition get_worker :: "int \<Rightarrow> worker io" where
  "get_worker i =
     bindM (get_db (workers_get_by_id i)) (\<lambda>r.
     case r of
       Some w \<Rightarrow> ret w
     | None \<Rightarrow> raise (ValueError (''Worker '' @ str_int i @ '' not found'')))"

definition resolve_worker_for_gateway :: "env \<Rightarrow> int option \<Rightarrow> worker io" where
  "resolve_worker_for_gateway E worker_id =
     bindM (list_online_workers E) (\<lambda>online.
     case worker_id of
       Some i \<Rightarrow>
         bindM (get_worker i) (\<lambda>r.
         if wk_is_local r then raise (ValueError ''Cannot create gateway on control plane'')
         else if \<not> wk_enabled r then raise (ValueError (''Worker '' @ wk_display_name r @ '' is disabled''))
         else bindM (effective_status E r) (\<lambda>st.
              if st \<noteq> WOnline then raise (ValueError (''Worker '' @ wk_display_name r @ '' is offline''))
              else ret r))
     | None \<Rightarrow>
         (case online of
            [] \<Rightarrow> raise (ValueError ''No online gateway worker available'')
          | [r] \<Rightarrow> ret r
          | _ \<Rightarrow> raise (ValueError ''Select a worker for the new gateway'')))"

section \<open>Registration and heartbeats\<close>

text \<open>\<open>Worker(...)\<close> with the columns the code leaves unset.\<close>

definition blank_worker :: worker where
  "blank_worker = \<lparr>wk_id = 0, wk_name = [], wk_display_name = [], wk_public_ip = [],
     wk_tailscale_hostname = None, wk_incus_remote = None, wk_incus_url = None,
     wk_incus_cert_path = None, wk_incus_key_path = None, wk_incus_server_cert_path = None,
     wk_worker_token_hash = [], wk_port_pool_start = 0, wk_port_pool_end = 0,
     wk_ip_pool_network = [], wk_ip_pool_start = [], wk_enabled = True, wk_status = WOffline,
     wk_cpu_percent = None, wk_memory_total_mb = None, wk_memory_used_mb = None,
     wk_memory_percent = None, wk_network_rx_bps = None, wk_network_tx_bps = None,
     wk_last_seen_at = None, wk_created_at = 0\<rparr>"

definition with_pools :: "env \<Rightarrow> worker \<Rightarrow> worker" where
  "with_pools E r = r\<lparr>wk_port_pool_start := s_port_pool_start E, wk_port_pool_end := s_port_pool_end E,
     wk_ip_pool_network := s_ip_pool_network E, wk_ip_pool_start := s_ip_pool_start E\<rparr>"

definition ensure_default_local_worker :: "env \<Rightarrow> int io" where
  "ensure_default_local_worker E =
     bindM (get_db (workers_get_by_name ''local'')) (\<lambda>existing.
     case existing of
       Some r \<Rightarrow>
         thenM (mod_db (upd_worker (wk_id r) (\<lambda>r. r\<lparr>wk_enabled := False\<rparr>)))
        (thenM (if wk_public_ip r \<in> {[], ''127.0.0.1''}
                then mod_db (upd_worker (wk_id r) (\<lambda>r. with_pools E (r\<lparr>wk_public_ip := wg_endpoint_host E\<rparr>)))
                else ret ())
        (thenM (commit E) (ret (wk_id r))))
     | None \<Rightarrow>
         bindM (generate_token E) (\<lambda>token.
         bindM (workers_create E (with_pools E (blank_worker\<lparr>wk_name := ''local'',
            wk_display_name := ''Local (control plane)'', wk_public_ip := wg_endpoint_host E,
            wk_worker_token_hash := hash_token E token, wk_enabled := False, wk_status := WOffline\<rparr>))) (\<lambda>i.
         thenM (commit E) (ret i))))"

record register_worker_args =
  ra_name :: str
  ra_display_name :: "str option"
  ra_public_ip :: str
  ra_tailscale_hostname :: "str option"
  ra_incus_remote :: "str option"
  ra_incus_url :: "str option"
  ra_incus_cert_path :: "str option"
  ra_incus_key_path :: "str option"
  ra_incus_server_cert_path :: "str option"
  ra_port_pool_start :: "int option"
  ra_port_pool_end :: "int option"
  ra_ip_pool_network :: "str option"
  ra_ip_pool_start :: "str option"

definition int_or :: "int option \<Rightarrow> int \<Rightarrow> int" where
  "int_or x d = (case x of None \<Rightarrow> d | Some i \<Rightarrow> if i = 0 then d else i)"

record register_worker_result =
  rwr_worker_id :: int
  rwr_worker_token :: str

definition register_worker :: "env \<Rightarrow> register_worker_args \<Rightarrow> register_worker_result io" where
  "register_worker E a =
     bindM (get_db (workers_get_by_name (ra_name a))) (\<lambda>existing.
     if existing \<noteq> None then raise (ValueError (''Worker '' @ ra_name a @ '' already exists''))
     else
       bindM (generate_token E) (\<lambda>token.
       bindM (workers_create E (blank_worker\<lparr>wk_name := ra_name a,
          wk_display_name := str_or (ra_display_name a) (ra_name a), wk_public_ip := ra_public_ip a,
          wk_tailscale_hostname := ra_tailscale_hostname a, wk_incus_remote := ra_incus_remote a,
          wk_incus_url := ra_incus_url a, wk_incus_cert_path := ra_incus_cert_path a,
          wk_incus_key_path := ra_incus_key_path a,
          wk_incus_server_cert_path := ra_incus_server_cert_path a,
          wk_worker_token_hash := hash_token E token,
          wk_port_pool_start := int_or (ra_port_pool_start a) (s_port_pool_start E),
          wk_port_pool_end := int_or (ra_port_pool_end a) (s_port_pool_end E),
          wk_ip_pool_network := str_or (ra_ip_pool_network a) (s_ip_pool_network E),
          wk_ip_pool_start := str_or (ra_ip_pool_start a) (s_ip_pool_start E),
          wk_enabled := True, wk_status := WOffline\<rparr>)) (\<lambda>i.
       thenM (commit E) (ret \<lparr>rwr_worker_id = i, rwr_worker_token = token\<rparr>))))"

definition authenticate_worker :: "env \<Rightarrow> int \<Rightarrow> str \<Rightarrow> worker io" where
  "authenticate_worker E i token =
     bindM (get_worker i) (\<lambda>r.
     if \<not> verify_token E token (wk_worker_token_hash r) then raise (ValueError ''Invalid worker token'')
     else ret r)"

definition record_heartbeat :: "env \<Rightarrow> int \<Rightarrow> host_stats \<Rightarrow> unit io" where
  "record_heartbeat E i s = thenM (workers_update_stats E i s) (commit E)"

section \<open>Enrollment\<close>

fun identity_loop :: "(str \<Rightarrow> bool) \<Rightarrow> nat list \<Rightarrow> nat option" where
  "identity_loop taken [] = None"
| "identity_loop taken (i # is) =
     (if \<not> taken (''worker'' @ str_nat i) then Some i else identity_loop taken is)"

definition taken_identities :: "int \<Rightarrow> db \<Rightarrow> str list" where
  "taken_identities t d =
     map wk_name (filter (\<lambda>r. \<not> wk_is_local r) (workers_list_all d)) @ enrollments_list_active_names t d"

definition next_worker_identity :: "env \<Rightarrow> (str \<times> str) io" where
  "next_worker_identity E =
     bindM (now E) (\<lambda>t.
     bindM (get_db (taken_identities t)) (\<lambda>taken.
     case identity_loop (\<lambda>n. n \<in> set taken) [1..<1000] of
       Some i \<Rightarrow> ret (''worker'' @ str_nat i, ''Worker '' @ str_nat i)
     | None \<Rightarrow> raise (ValueError ''No available worker name'')))"

record enroll_worker_result =
  ew_enroll_token :: str
  ew_tailscale_auth_key :: str
  ew_command :: str
  ew_name :: str
  ew_display_name :: str
  ew_tailscale_hostname :: str

definition squoted :: "str \<Rightarrow> str" where
  "squoted s = [CHR 0x27] @ s @ [CHR 0x27]"

definition env_line :: "str \<Rightarrow> str \<Rightarrow> str" where
  "env_line name v = ''  '' @ name @ ''='' @ squoted v @ '' '' @ [CHR 0x5C, nl]"

definition build_join_command :: "env \<Rightarrow> str \<Rightarrow> str \<Rightarrow> str \<Rightarrow> str \<Rightarrow> str \<Rightarrow> str" where
  "build_join_command E enroll_token auth_key worker_name worker_display_name tailscale_hostname =
     (let base = public_orchestrator_url E in
      ''curl -fsSL '' @ squoted (base @ ''/ui/workers/join.sh'') @ '' -o /tmp/orchtest-join-worker.sh && '' @
      [CHR 0x5C, nl] @ ''sudo env '' @ [CHR 0x5C, nl] @
      env_line ''CP_BASE_URL'' base @ env_line ''ENROLL_TOKEN'' enroll_token @
      env_line ''TAILSCALE_AUTHKEY'' auth_key @ env_line ''WORKER_NAME'' worker_name @
      env_line ''WORKER_DISPLAY_NAME'' worker_display_name @
      env_line ''TAILSCALE_HOSTNAME'' tailscale_hostname @
      ''  bash /tmp/orchtest-join-worker.sh'')"

definition enrollment_result :: "env \<Rightarrow> enrollment \<Rightarrow> str \<Rightarrow> str \<Rightarrow> enroll_worker_result" where
  "enrollment_result E e enroll_token auth_key =
     \<lparr>ew_enroll_token = enroll_token, ew_tailscale_auth_key = auth_key,
      ew_command = build_join_command E enroll_token auth_key (en_name e) (en_display_name e)
                     (en_tailscale_hostname e),
      ew_name = en_name e, ew_display_name = en_display_name e,
      ew_tailscale_hostname = en_tailscale_hostname e\<rparr>"

text \<open>\<open>except HeadscaleError as exc: raise ValueError(f"...: {exc}") from exc\<close>.\<close>

definition headscale_to_value :: "str \<Rightarrow> 'a io \<Rightarrow> 'a io" where
  "headscale_to_value msg m =
     catchM m (\<lambda>e. if is_HeadscaleError e then raise (ValueError (msg @ exn_str e)) else raise e)"

definition worker_preauth :: "env \<Rightarrow> preauth_key io" where
  "worker_preauth E =
     headscale_to_value ''Failed to create Tailscale auth key: '' (create_worker_preauth_key E)"

definition refresh_enrollment :: "env \<Rightarrow> enrollment \<Rightarrow> enroll_worker_result io" where
  "refresh_enrollment E e =
     bindM (worker_preauth E) (\<lambda>preauth.
     bindM (generate_token E) (\<lambda>token.
     bindM (encrypt_value E token) (\<lambda>token_enc.
     bindM (encrypt_value E (pak_key preauth)) (\<lambda>key_enc.
     thenM (mod_db (upd_enrollment (en_id e) (\<lambda>e. e\<lparr>en_token_hash := hash_token E token,
              en_enroll_token_enc := Some token_enc, en_headscale_auth_key_enc := Some key_enc\<rparr>)))
    (thenM (commit E)
     (ret (enrollment_result E e token (pak_key preauth))))))))"

definition create_enrollment :: "env \<Rightarrow> enroll_worker_result io" where
  "create_enrollment E =
     bindM (now E) (\<lambda>t0.
     bindM (get_db (enrollments_get_latest_active t0)) (\<lambda>existing.
     case existing of
       Some e \<Rightarrow>
         if str_true (en_enroll_token_enc e) \<and> str_true (en_headscale_auth_key_enc e) then
           bindM (decrypt_value E (the (en_enroll_token_enc e))) (\<lambda>token.
           bindM (decrypt_value E (the (en_headscale_auth_key_enc e))) (\<lambda>key.
           ret (enrollment_result E e token key)))
         else refresh_enrollment E e
     | None \<Rightarrow>
         bindM (next_worker_identity E) (\<lambda>(slug, display_name).
         bindM (get_db (workers_get_by_name slug)) (\<lambda>clash.
         if clash \<noteq> None then raise (ValueError (''Worker '' @ slug @ '' already exists''))
         else
           bindM (worker_preauth E) (\<lambda>preauth.
           bindM (generate_token E) (\<lambda>token.
           bindM (now E) (\<lambda>t.
           bindM (encrypt_value E token) (\<lambda>token_enc.
           bindM (encrypt_value E (pak_key preauth)) (\<lambda>key_enc.
           (let row = \<lparr>en_id = 0, en_token_hash = hash_token E token, en_name = slug,
                 en_display_name = display_name, en_public_ip = ''0.0.0.0'', en_tailscale_hostname = slug,
                 en_expires_at = t + 24 * 3600 * second, en_enroll_token_enc = Some token_enc,
                 en_headscale_auth_key_enc = Some key_enc, en_used_at = None, en_worker_id = None,
                 en_created_at = 0\<rparr>
            in bindM (enrollments_create E row) (\<lambda>i.
               thenM (commit E)
               (ret (enrollment_result E row token (pak_key preauth))))))))))))))"

record complete_enrollment_request =
  ce_tailscale_hostname :: str
  ce_tailscale_ip :: str
  ce_incus_trust_token :: str
  ce_public_ip :: str

fun is_IncusRemoteError :: "exn \<Rightarrow> bool" where
  "is_IncusRemoteError (IncusRemoteError m) = True"
| "is_IncusRemoteError _ = False"

definition enrolled_worker ::
  "env \<Rightarrow> enrollment \<Rightarrow> complete_enrollment_request \<Rightarrow> str \<Rightarrow> incus_remote_paths \<Rightarrow> str \<Rightarrow> worker" where
  "enrolled_worker E e req incus_url paths token =
     with_pools E (blank_worker\<lparr>wk_name := en_name e, wk_display_name := en_display_name e,
       wk_public_ip := py_strip (ce_public_ip req),
       wk_tailscale_hostname := Some (or_else (py_strip (ce_tailscale_hostname req)) (en_tailscale_hostname e)),
       wk_incus_remote := Some (en_name e), wk_incus_url := Some incus_url,
       wk_incus_cert_path := Some (rp_cert_path paths), wk_incus_key_path := Some (rp_key_path paths),
       wk_incus_server_cert_path := rp_server_cert_path paths,
       wk_worker_token_hash := hash_token E token, wk_enabled := True, wk_status := WOffline\<rparr>)"

definition complete_enrollment ::
  "env \<Rightarrow> str \<Rightarrow> complete_enrollment_request \<Rightarrow> register_worker_result io" where
  "complete_enrollment E enroll_token req =
     bindM (get_db (enrollments_get_by_token_hash (hash_token E enroll_token))) (\<lambda>found.
     case found of
       None \<Rightarrow> raise (ValueError ''Invalid enrollment token'')
     | Some e \<Rightarrow>
         if \<not> verify_token E enroll_token (en_token_hash e) then raise (ValueError ''Invalid enrollment token'')
         else if en_used_at e \<noteq> None then raise (ValueError ''Enrollment token already used'')
         else
           bindM (now E) (\<lambda>t.
           if en_expires_at e \<le> t then raise (ValueError ''Enrollment token expired'')
           else
             bindM (get_db (workers_get_by_name (en_name e))) (\<lambda>clash.
             if clash \<noteq> None then raise (ValueError (''Worker '' @ en_name e @ '' already exists''))
             else
               (let incus_url = ''https://'' @ py_strip (ce_tailscale_ip req) @ '':8443'' in
                bindM (catchM (add_worker_remote E (en_name e) incus_url
                                 (py_strip (ce_incus_trust_token req)) (s_data_dir E))
                         (\<lambda>x. if is_IncusRemoteError x
                              then raise (ValueError (''Incus remote setup failed: '' @ exn_str x))
                              else raise x)) (\<lambda>paths.
                bindM (generate_token E) (\<lambda>token.
                if py_strip (ce_public_ip req) = [] then raise (ValueError ''Worker public IP is required'')
                else
                  bindM (workers_create E (enrolled_worker E e req incus_url paths token)) (\<lambda>i.
                  thenM (flush E)
                 (bindM (now E) (\<lambda>t2.
                  thenM (mod_db (upd_enrollment (en_id e) (\<lambda>e. e\<lparr>en_used_at := Some t2, en_worker_id := Some i\<rparr>)))
                 (thenM (commit E)
                  (ret \<lparr>rwr_worker_id = i, rwr_worker_token = token\<rparr>)))))))))))"

section \<open>Facts\<close>

interpretation worker_identity: first_fit "\<lambda>_. [1..<1000]"
  "\<lambda>_ used. identity_loop (\<lambda>n. used (the (find (\<lambda>i. ''worker'' @ str_nat i = n) [1..<1000]))) [1..<1000]"
proof (unfold_locales, goal_cases)
  case (1 p used)
  have inj: "''worker'' @ str_nat i = ''worker'' @ str_nat j \<longleftrightarrow> i = j" for i j
    by (simp add: str_nat_inj)
  have found: "find (\<lambda>j. ''worker'' @ str_nat j = ''worker'' @ str_nat i) is = Some i" if "i \<in> set is" for i "is"
    using that by (induction "is") (auto simp: str_nat_inj)
  have "identity_loop (\<lambda>n. used (the (find (\<lambda>i. ''worker'' @ str_nat i = n) all))) is = first_free is used"
    if "set is \<subseteq> set all" for "is" all
    using that
  proof (induction "is")
    case Nil
    then show ?case by (simp add: first_free_def)
  next
    case (Cons i "is")
    then have "i \<in> set all" by simp
    with Cons show ?case by (simp only: identity_loop.simps found option.sel) (simp add: first_free_def)
  qed
  then show ?case by simp
qed

lemma identity_loop_Some:
  "identity_loop taken is = Some i \<Longrightarrow> i \<in> set is \<and> \<not> taken (''worker'' @ str_nat i)"
  by (induction "is") (auto simp del: append_Cons split: if_splits)

definition seen_recently :: "int \<Rightarrow> worker \<Rightarrow> bool" where
  "seen_recently t r \<longleftrightarrow> (\<exists>seen. wk_last_seen_at r = Some seen \<and> t - seen \<le> HEARTBEAT_STALE_SECONDS * second)"

lemma status_online: "status_at t r = WOnline \<longleftrightarrow> wk_enabled r \<and> seen_recently t r"
  by (auto simp: status_at_def seen_recently_def split: option.splits)

text \<open>What a status of online says of the worker: enabled, and seen within the stale limit at a reading of the clock.\<close>

lemma effective_status_online:
  "effective_status E r w = (Inr WOnline, w') \<Longrightarrow>
   wk_enabled r \<and> seen_recently (o_now E (trace w)) r \<and> db w' = db w \<and> stored w' = stored w \<and>
   prefix (trace w) (trace w')"
  by (auto simp: effective_status_def bindM_def now_def status_online seen_recently_def
      status_at_def split: if_splits)

lemma effective_status_returns: "\<exists>st. effective_status E r w = (Inr st, snd (effective_status E r w))"
  by (auto simp: effective_status_def bindM_def now_def)

lemma effective_status_db:
  "db (snd (effective_status E r w)) = db w" "stored (snd (effective_status E r w)) = stored w"
  "prefix (trace w) (trace (snd (effective_status E r w)))"
  by (auto simp: effective_status_def bindM_def now_def)

definition status_row :: "env \<Rightarrow> (int \<Rightarrow> nat) \<Rightarrow> worker \<Rightarrow> dashboard_row io" where
  "status_row E count r =
     bindM (effective_status E r) (\<lambda>st. ret \<lparr>dr_worker = r, dr_status = st, dr_gateway_count = count (wk_id r)\<rparr>)"

lemma status_row_returns:
  "status_row E count r w = (Inr row, w') \<longleftrightarrow>
   (\<exists>st. effective_status E r w = (Inr st, w') \<and>
         row = \<lparr>dr_worker = r, dr_status = st, dr_gateway_count = count (wk_id r)\<rparr>)"
  by (auto simp: status_row_def bindM_returns)

lemma status_rows_returns:
  "mapM (status_row E count) rs w = (Inr rows, w') \<Longrightarrow>
   map dr_worker rows = rs \<and> db w' = db w \<and> stored w' = stored w \<and> prefix (trace w) (trace w') \<and>
   (\<forall>row \<in> set rows. dr_status row = WOnline \<longrightarrow>
      wk_enabled (dr_worker row) \<and>
      (\<exists>h. prefix (trace w) h \<and> prefix h (trace w') \<and> seen_recently (o_now E h) (dr_worker row)))"
proof (induction rs arbitrary: rows w)
  case Nil
  then show ?case by simp
next
  case (Cons r rs)
  then obtain st w1 rest where st: "effective_status E r w = (Inr st, w1)"
    and rest: "mapM (status_row E count) rs w1 = (Inr rest, w')"
    and rows: "rows = \<lparr>dr_worker = r, dr_status = st, dr_gateway_count = count (wk_id r)\<rparr> # rest"
    by (auto simp: bindM_returns status_row_returns)
  have w1: "db w1 = db w" "stored w1 = stored w" "prefix (trace w) (trace w1)"
    using effective_status_db [where E = E and r = r and w = w] by (simp_all add: st)
  from Cons.IH [OF rest] w1 have ih: "map dr_worker rest = rs" "db w' = db w" "stored w' = stored w"
      "prefix (trace w1) (trace w')"
    and on: "\<forall>row \<in> set rest. dr_status row = WOnline \<longrightarrow> wk_enabled (dr_worker row) \<and>
      (\<exists>h. prefix (trace w1) h \<and> prefix h (trace w') \<and> seen_recently (o_now E h) (dr_worker row))"
    by auto
  have "prefix (trace w) (trace w')" using w1(3) ih(4) by (rule prefix_order.trans)
  moreover have "st = WOnline \<longrightarrow> wk_enabled r \<and> seen_recently (o_now E (trace w)) r"
    using effective_status_online [of E r w w1] st by blast
  moreover have "\<forall>row \<in> set rest. dr_status row = WOnline \<longrightarrow> wk_enabled (dr_worker row) \<and>
      (\<exists>h. prefix (trace w) h \<and> prefix h (trace w') \<and> seen_recently (o_now E h) (dr_worker row))"
    using on prefix_order.trans [OF w1(3)] by blast
  ultimately show ?case
    using ih unfolding rows by (auto intro: prefix_order.refl)
qed

lemma list_online_returns:
  assumes "list_online_workers E w = (Inr online, w')"
  shows "db w' = db w \<and> stored w' = stored w \<and> prefix (trace w) (trace w') \<and>
         (\<forall>r \<in> set online. r \<in> set (workers (db w)) \<and> \<not> wk_is_local r \<and> wk_enabled r \<and>
           (\<exists>h. prefix (trace w) h \<and> prefix h (trace w') \<and> seen_recently (o_now E h) r))"
proof -
  from assms obtain rows where
    rows: "mapM (status_row E (count_of (db w))) (filter (\<lambda>r. \<not> wk_is_local r) (workers (db w))) w = (Inr rows, w')"
    and online: "online = map dr_worker (filter (\<lambda>row. dr_status row = WOnline) rows)"
    by (auto simp: list_online_workers_def dashboard_workers_def bindM_returns workers_list_all_def
        status_row_def [abs_def])
  note facts = status_rows_returns [OF rows]
  have "dr_worker row \<in> set (filter (\<lambda>r. \<not> wk_is_local r) (workers (db w)))" if "row \<in> set rows" for row
    using facts that by (metis image_eqI set_map)
  with facts show ?thesis unfolding online by auto
qed

lemma min_worker_in: "min_worker k b rs \<in> set (b # rs)"
  by (induction rs arbitrary: b) auto

lemma key_less_trans: "key_less a b \<Longrightarrow> \<not> key_less c b \<Longrightarrow> \<not> key_less c a"
  by (auto simp: key_less_def)

lemma min_worker_least: "q \<in> set (b # rs) \<Longrightarrow> \<not> key_less (k q) (k (min_worker k b rs))"
proof (induction rs arbitrary: b q)
  case Nil
  then show ?case by (simp add: key_less_def)
next
  case (Cons r rs)
  let ?c = "if key_less (k r) (k b) then r else b"
  have least: "\<not> key_less (k ?c) (k (min_worker k ?c rs))" using Cons.IH [of ?c ?c] by simp
  show ?case
  proof (cases "q \<in> set (?c # rs)")
    case True
    with Cons.IH [of q ?c] show ?thesis by simp
  next
    case False
    with Cons.prems have "q = r \<or> q = b" by auto
    then have "\<not> key_less (k q) (k ?c)" using False by (auto simp: key_less_def split: if_splits)
    with least show ?thesis
      by (auto simp: key_less_def split: if_splits)
  qed
qed

section \<open>Properties\<close>

text \<open>
  \<open>pick_worker\<close> returns a worker of the database that is remote, enabled and was seen within 120
  seconds of a clock reading during the call, and no online worker has fewer gateways, or equally
  many and a smaller id.
\<close>

theorem pick_worker_least_loaded:
  assumes "pick_worker E w = (Inr r, w')"
  shows "r \<in> set (workers (db w)) \<and> \<not> wk_is_local r \<and> wk_enabled r \<and>
         (\<exists>h. prefix (trace w) h \<and> prefix h (trace w') \<and> seen_recently (o_now E h) r) \<and>
         (\<exists>online. list_online_workers E w = (Inr online, w') \<and> r \<in> set online \<and>
            (\<forall>q \<in> set online. \<not> key_less (count_of (db w) (wk_id q), wk_id q) (count_of (db w) (wk_id r), wk_id r)))"
proof -
  from assms obtain online w1 where online: "list_online_workers E w = (Inr online, w1)"
    and rest: "(case online of [] \<Rightarrow> raise (ValueError ''No online gateway worker available'')
      | r # rs \<Rightarrow> bindM (get_db count_of) (\<lambda>count. ret (min_worker (\<lambda>w. (count (wk_id w), wk_id w)) r rs))) w1 = (Inr r, w')"
    unfolding pick_worker_def bindM_returns by blast
  then obtain q rs where q: "online = q # rs" by (cases online) simp_all
  let ?k = "\<lambda>x. (count_of (db w) (wk_id x), wk_id x)"
  have "db w1 = db w" using list_online_returns [OF online] by blast
  with rest q have r: "r = min_worker ?k q rs" and "w' = w1" by (auto simp: bindM_def)
  have "r \<in> set online" using min_worker_in [of ?k q rs] by (simp only: r q)
  moreover have "\<forall>x \<in> set online. \<not> key_less (?k x) (?k r)"
    unfolding r q using min_worker_least [of _ q rs ?k] by blast
  ultimately show ?thesis
    using list_online_returns [OF online] online unfolding \<open>w' = w1\<close> by blast
qed

lemma find_map_same: "(\<And>x. P (f x) = P x) \<Longrightarrow> find P (map f xs) = map_option f (find P xs)"
  by (induction xs) auto

lemma get_worker_returns:
  "get_worker i w = (Inr r, w') \<longleftrightarrow> workers_get_by_id i (db w) = Some r \<and> w' = w"
  by (auto simp: get_worker_def bindM_def split: option.splits)

lemma resolve_worker_for_gateway_returns:
  assumes "resolve_worker_for_gateway E worker_id w = (Inr r, w')"
  shows "r \<in> set (workers (db w)) \<and> \<not> wk_is_local r \<and> wk_enabled r \<and>
         (\<exists>h. prefix (trace w) h \<and> prefix h (trace w') \<and> seen_recently (o_now E h) r) \<and>
         (\<forall>i. worker_id = Some i \<longrightarrow> wk_id r = i) \<and> db w' = db w"
proof -
  from assms obtain online w1 where online: "list_online_workers E w = (Inr online, w1)"
    and rest: "(case worker_id of
       Some i \<Rightarrow>
         bindM (get_worker i) (\<lambda>r.
         if wk_is_local r then raise (ValueError ''Cannot create gateway on control plane'')
         else if \<not> wk_enabled r then raise (ValueError (''Worker '' @ wk_display_name r @ '' is disabled''))
         else bindM (effective_status E r) (\<lambda>st.
              if st \<noteq> WOnline then raise (ValueError (''Worker '' @ wk_display_name r @ '' is offline''))
              else ret r))
     | None \<Rightarrow>
         (case online of
            [] \<Rightarrow> raise (ValueError ''No online gateway worker available'')
          | [r] \<Rightarrow> ret r
          | _ \<Rightarrow> raise (ValueError ''Select a worker for the new gateway''))) w1 = (Inr r, w')"
    unfolding resolve_worker_for_gateway_def bindM_returns by blast
  note facts = list_online_returns [OF online]
  show ?thesis
  proof (cases worker_id)
    case None
    with rest have "online = [r]" "w' = w1" by (auto split: list.splits)
    with facts None show ?thesis by auto
  next
    case (Some i)
    with rest have row: "workers_get_by_id i (db w1) = Some r" and "\<not> wk_is_local r"
        and st: "effective_status E r w1 = (Inr WOnline, w')"
      by (auto simp: bindM_returns get_worker_returns split: if_splits)
    from effective_status_online [OF st] facts have "wk_enabled r" "db w' = db w"
        "\<exists>h. prefix (trace w) h \<and> prefix h (trace w') \<and> seen_recently (o_now E h) r"
      by auto
    with row facts Some \<open>\<not> wk_is_local r\<close> show ?thesis
      by (auto dest: workers_get_by_id_SomeD)
  qed
qed

text \<open>
  A worker resolved for a gateway is never the control plane, never disabled, and was seen within
  120 seconds of a clock reading during the call; an explicitly requested worker is the one returned.
\<close>

theorem resolve_worker_usable:
  assumes "resolve_worker_for_gateway E worker_id w = (Inr r, w')"
  shows "r \<in> set (workers (db w)) \<and> \<not> wk_is_local r \<and> wk_enabled r \<and>
         (\<exists>h. prefix (trace w) h \<and> prefix h (trace w') \<and> seen_recently (o_now E h) r) \<and>
         (\<forall>i. worker_id = Some i \<longrightarrow> wk_id r = i) \<and> db w' = db w"
  using assms by (rule resolve_worker_for_gateway_returns)

lemma workers_create_returns:
  assumes "workers_create E r w = (Inr i, w')"
  shows "\<exists>t. i = next_id wk_id (workers (db w)) \<and>
             w' = emit Flush (w\<lparr>db := (db w)\<lparr>workers := workers (db w) @ [r\<lparr>wk_id := i, wk_created_at := t\<rparr>]\<rparr>\<rparr>)"
  using assms by (auto simp: workers_create_def bindM_returns thenM_returns dest!: flush_returns)

lemma workers_get_new:
  "workers_get_by_id i (d\<lparr>workers := workers d @ [r]\<rparr>) =
     (if wk_id r = next_id wk_id (workers d) \<and> i = wk_id r then Some r
      else workers_get_by_id i (d\<lparr>workers := workers d @ [r]\<rparr>))"
  by (simp add: workers_get_by_id_def tbl_get_new)

lemma workers_get_created:
  "i = next_id wk_id (workers d) \<Longrightarrow>
   workers_get_by_id i (d\<lparr>workers := workers d @ [r\<lparr>wk_id := i, wk_created_at := t\<rparr>]\<rparr>) =
     Some (r\<lparr>wk_id := i, wk_created_at := t\<rparr>)"
  by (simp add: workers_get_by_id_def tbl_get_new)

text \<open>
  C23: The token a registration returns authenticates the registered worker, whose row is committed;
  and no other token with another hash does.
\<close>

theorem register_then_authenticate:
  assumes "register_worker E a w = (Inr r, w')"
  shows "\<exists>wk. authenticate_worker E (rwr_worker_id r) (rwr_worker_token r) w' = (Inr wk, w') \<and>
              wk_name wk = ra_name a \<and> wk_status wk = WOffline \<and> stored w' = db w' \<and>
              (\<forall>tok. hash_token E tok \<noteq> hash_token E (rwr_worker_token r) \<longrightarrow>
                 authenticate_worker E (rwr_worker_id r) tok w' = (Inl (ValueError ''Invalid worker token''), w'))"
proof -
  from assms obtain row i token w1 w2 where
    create: "workers_create E row w1 = (Inr i, w2)" and
    row: "wk_name row = ra_name a" "wk_worker_token_hash row = hash_token E token" "wk_status row = WOffline" and
    c: "commit E w2 = (Inr (), w')" and r: "r = \<lparr>rwr_worker_id = i, rwr_worker_token = token\<rparr>"
    by (auto simp: register_worker_def bindM_returns thenM_returns split: if_splits)
  from workers_create_returns [OF create] commit_returns [OF c] obtain t where
    "workers_get_by_id i (db w') = Some (row\<lparr>wk_id := i, wk_created_at := t\<rparr>)" "stored w' = db w'"
    by (auto simp: workers_get_created)
  with row r show ?thesis
    by (auto simp: authenticate_worker_def get_worker_def bindM_def verify_token_def)
qed

lemma complete_enrollment_elim:
  assumes "complete_enrollment E tok req w = (Inr r, w')"
  obtains e wk i t t2 t3 where
    "enrollments_get_by_token_hash (hash_token E tok) (db w) = Some e" "en_used_at e = None"
    "t < en_expires_at e" "\<not> wk_is_local wk" "wk_enabled wk" "wk_name wk = en_name e"
    "wk_worker_token_hash wk = hash_token E (rwr_worker_token r)" "rwr_worker_id r = i"
    "workers_get_by_name (en_name e) (db w) = None"
    "i = next_id wk_id (workers (db w))"
    "db w' = upd_enrollment (en_id e) (\<lambda>e. e\<lparr>en_used_at := Some t2, en_worker_id := Some i\<rparr>)
       ((db w)\<lparr>workers := workers (db w) @ [wk\<lparr>wk_id := i, wk_created_at := t3\<rparr>]\<rparr>)"
    "stored w' = db w'"
proof -
  from assms obtain e where e: "enrollments_get_by_token_hash (hash_token E tok) (db w) = Some e"
    by (auto simp: complete_enrollment_def bindM_returns split: option.splits)
  with assms have unused: "en_used_at e = None" "o_now E (trace w) < en_expires_at e"
      and free: "workers_get_by_name (en_name e) (db w) = None"
    by (auto simp: complete_enrollment_def bindM_returns Let_def now_def split: if_splits)
  let ?url = "''https://'' @ py_strip (ce_tailscale_ip req) @ '':8443''"
  from assms e unused free obtain paths w1 token w2 i w3 t2 w4 where
    paths: "catchM (add_worker_remote E (en_name e) ?url (py_strip (ce_incus_trust_token req)) (s_data_dir E))
              (\<lambda>x. if is_IncusRemoteError x
                   then raise (ValueError (''Incus remote setup failed: '' @ exn_str x)) else raise x)
              (emit Clock w) = (Inr paths, w1)"
    and create: "workers_create E (enrolled_worker E e req ?url paths token) (emit GenToken w1) = (Inr i, w2)"
    and c: "commit E (emit Clock w3\<lparr>db := upd_enrollment (en_id e)
              (\<lambda>e. e\<lparr>en_used_at := Some t2, en_worker_id := Some i\<rparr>) (db w3)\<rparr>) = (Inr (), w')"
    and w3: "flush E w2 = (Inr (), w3)"
    and r: "r = \<lparr>rwr_worker_id = i, rwr_worker_token = token\<rparr>"
    by (auto simp: complete_enrollment_def bindM_returns thenM_returns Let_def now_def generate_token_def
        simp del: upd_enrollment_def split: if_splits)
  have "keeps (\<lambda>v. db v = db w) (catchM (add_worker_remote E (en_name e) ?url
          (py_strip (ce_incus_trust_token req)) (s_data_dir E))
              (\<lambda>x. if is_IncusRemoteError x
                   then raise (ValueError (''Incus remote setup failed: '' @ exn_str x)) else raise x))"
    by (intro keeps_intros stable_db [where P = "\<lambda>d s. d = db w"])
  from keepsD [OF this _ paths] have "db w1 = db w" by simp
  define wk where "wk = enrolled_worker E e req ?url paths token"
  have wk: "\<not> wk_is_local wk" "wk_enabled wk" "wk_name wk = en_name e"
      "wk_worker_token_hash wk = hash_token E token"
    by (simp_all add: wk_def enrolled_worker_def with_pools_def blank_worker_def wk_is_local_def)
  from workers_create_returns [OF create] obtain t3 where
    i: "i = next_id wk_id (workers (db w))" and
    w2: "db w2 = (db w)\<lparr>workers := workers (db w) @ [wk\<lparr>wk_id := i, wk_created_at := t3\<rparr>]\<rparr>"
    using \<open>db w1 = db w\<close> by (auto simp: wk_def)
  from commit_returns [OF c] flush_returns [OF w3] w2 have
    "db w' = upd_enrollment (en_id e) (\<lambda>e. e\<lparr>en_used_at := Some t2, en_worker_id := Some i\<rparr>)
       ((db w)\<lparr>workers := workers (db w) @ [wk\<lparr>wk_id := i, wk_created_at := t3\<rparr>]\<rparr>)"
    "stored w' = db w'"
    by (simp_all del: upd_enrollment_def)
  from that [OF e unused wk(1-3) _ _ free i this] wk(4) r show thesis by simp
qed


lemma filter_active_later:
  assumes "filter (en_active t) es = []" and "t \<le> t'"
  shows "filter (en_active t') es = []"
  using assms by (auto simp: filter_empty_conv en_active_def)

definition crypto_ok :: "env \<Rightarrow> bool" where
  "crypto_ok E \<longleftrightarrow> (\<forall>h x. o_decrypt E (o_encrypt E h x) = Inr x \<and> o_encrypt E h x \<noteq> [])"

text \<open>What decrypting does to an encrypted value: the hypothesis on the cipher.\<close>

lemma crypto_okD: "crypto_ok E \<Longrightarrow> o_decrypt E (o_encrypt E h x) = Inr x" "crypto_ok E \<Longrightarrow> o_encrypt E h x \<noteq> []"
  by (simp_all add: crypto_ok_def)

lemma first_newest_None: "first_newest nw rs = None \<longleftrightarrow> rs = []"
  by (induction rs) (auto split: option.splits)

lemma enrollments_create_returns:
  assumes "enrollments_create E e w = (Inr i, w')"
  shows "\<exists>t. w' = emit Flush (w\<lparr>db := (db w)\<lparr>enrollments := enrollments (db w) @ [e\<lparr>en_id := i, en_created_at := t\<rparr>]\<rparr>\<rparr>)"
  using assms by (auto simp: enrollments_create_def bindM_returns thenM_returns dest!: flush_returns)

lemma keeps_worker_preauth [keeps_intros]: "stable J \<Longrightarrow> keeps J (worker_preauth E)"
  unfolding worker_preauth_def headscale_to_value_def by (intro keeps_intros)

text \<open>The first call leaves a row with the encrypted secrets of its answer, valid for 24 hours.\<close>

lemma create_enrollment_fresh:
  assumes first: "create_enrollment E w = (Inr r, w')"
    and none: "enrollments_get_latest_active (o_now E (trace w)) (db w) = None" and clock: "clock_ok E"
  shows "\<exists>row token key h i tc. r = enrollment_result E row token key \<and>
     en_enroll_token_enc row = Some (o_encrypt E h token) \<and>
     en_headscale_auth_key_enc row = Some (o_encrypt E h key) \<and> en_used_at row = None \<and>
     o_now E (trace w) + 24 * 3600 * second \<le> en_expires_at row \<and> prefix (trace w) (trace w') \<and>
     db w' = (db w)\<lparr>enrollments := enrollments (db w) @ [row\<lparr>en_id := i, en_created_at := tc\<rparr>]\<rparr>"
proof -
  from first none obtain slug disp w1 preauth w2 i w3 where
    idn: "next_worker_identity E (emit Clock w) = (Inr (slug, disp), w1)" and
    pre: "worker_preauth E w1 = (Inr preauth, w2)" and
    rest: "bindM (generate_token E) (\<lambda>token.
           bindM (now E) (\<lambda>t.
           bindM (encrypt_value E token) (\<lambda>token_enc.
           bindM (encrypt_value E (pak_key preauth)) (\<lambda>key_enc.
           (let row = \<lparr>en_id = 0, en_token_hash = hash_token E token, en_name = slug,
                 en_display_name = disp, en_public_ip = ''0.0.0.0'', en_tailscale_hostname = slug,
                 en_expires_at = t + 24 * 3600 * second, en_enroll_token_enc = Some token_enc,
                 en_headscale_auth_key_enc = Some key_enc, en_used_at = None, en_worker_id = None,
                 en_created_at = 0\<rparr>
            in bindM (enrollments_create E row) (\<lambda>i.
               thenM (commit E)
               (ret (enrollment_result E row token (pak_key preauth)))))))) ) w2 = (Inr r, w')"
    unfolding create_enrollment_def by (auto simp: bindM_returns now_def split: if_splits)
  define token where "token = o_token E (trace w2)"
  define t where "t = o_now E (trace (emit GenToken w2))"
  define v where "v = emit Clock (emit GenToken w2)"
  define row where "row = \<lparr>en_id = 0, en_token_hash = hash_token E token, en_name = slug,
                 en_display_name = disp, en_public_ip = ''0.0.0.0'', en_tailscale_hostname = slug,
                 en_expires_at = t + 24 * 3600 * second, en_enroll_token_enc = Some (o_encrypt E (trace v) token),
                 en_headscale_auth_key_enc = Some (o_encrypt E (trace v) (pak_key preauth)), en_used_at = None,
                 en_worker_id = None, en_created_at = 0\<rparr>"
  from rest obtain i v1 where create: "enrollments_create E row v = (Inr i, v1)"
    and c: "commit E v1 = (Inr (), w')" and r: "r = enrollment_result E row token (pak_key preauth)"
    by (auto simp: bindM_returns thenM_returns generate_token_def now_def encrypt_value_def Let_def
        row_def token_def t_def v_def)
  have ident: "keeps (\<lambda>u. prefix (trace w) (trace u) \<and> db u = db w) (next_worker_identity E)"
    unfolding next_worker_identity_def by (intro keeps_intros) (simp add: stable_def)
  have "prefix (trace w) (trace w1) \<and> db w1 = db w"
    using keepsD [OF ident _ idn] by simp
  moreover have pa: "keeps (\<lambda>u. prefix (trace w) (trace u) \<and> db u = db w) (worker_preauth E)"
    by (intro keeps_intros) (simp add: stable_def)
  ultimately have w2: "prefix (trace w) (trace w2)" "db w2 = db w"
    using keepsD [OF pa _ pre] by blast+
  have t0: "o_now E (trace w) \<le> t"
    unfolding t_def
  proof (rule clock_mono [OF clock])
    show "prefix (trace w) (trace (emit GenToken w2))" using w2(1) by (auto simp: prefix_def)
  qed
  have "db v = db w" by (simp add: v_def w2(2))
  from enrollments_create_returns [OF create] obtain tc where
    "v1 = emit Flush (v\<lparr>db := (db v)\<lparr>enrollments := enrollments (db v) @ [row\<lparr>en_id := i, en_created_at := tc\<rparr>]\<rparr>\<rparr>)"
    by blast
  then have v1: "db v1 = (db w)\<lparr>enrollments := enrollments (db w) @ [row\<lparr>en_id := i, en_created_at := tc\<rparr>]\<rparr>"
      "trace v1 = trace v @ [Flush]"
    using \<open>db v = db w\<close> by simp_all
  from commit_returns [OF c] have w': "db w' = db v1" "trace w' = trace v1 @ [Commit]" by simp_all
  have "prefix (trace w) (trace w')"
    using w2(1) by (auto simp: w' v1 v_def prefix_def)
  then show ?thesis
    using t0 by (intro exI [of _ row] exI [of _ token] exI [of _ "pak_key preauth"] exI [of _ "trace v"]
        exI [of _ i] exI [of _ tc] conjI) (simp_all add: r, simp_all add: row_def w' v1)
qed

text \<open>
  C24: Asking for a join command again returns the open enrollment instead of issuing another token:
  with a cipher that decrypts what it encrypted, a call that created an enrollment and a call less
  than 24 hours later return the same token, key and command, and the second call changes nothing.
\<close>

theorem create_enrollment_reused:
  assumes first: "create_enrollment E w = (Inr r, w')"
    and none: "enrollments_get_latest_active (o_now E (trace w)) (db w) = None"
    and crypto: "crypto_ok E" and clock: "clock_ok E"
    and soon: "o_now E (trace w') < o_now E (trace w) + 24 * 3600 * second"
  shows "create_enrollment E w' = (Inr r, emit Clock w')"
proof -
  let ?t0 = "o_now E (trace w)" and ?t' = "o_now E (trace w')"
  obtain row token key h i tc where r: "r = enrollment_result E row token key"
    and enc: "en_enroll_token_enc row = Some (o_encrypt E h token)"
      "en_headscale_auth_key_enc row = Some (o_encrypt E h key)"
    and valid: "en_used_at row = None" "?t0 + 24 * 3600 * second \<le> en_expires_at row"
    and later: "prefix (trace w) (trace w')"
    and w': "db w' = (db w)\<lparr>enrollments := enrollments (db w) @ [row\<lparr>en_id := i, en_created_at := tc\<rparr>]\<rparr>"
    using create_enrollment_fresh [OF first none clock] by blast
  let ?row = "row\<lparr>en_id := i, en_created_at := tc\<rparr>"
  have "filter (en_active ?t0) (enrollments (db w)) = []"
    using none by (simp add: enrollments_get_latest_active_def first_newest_None)
  then have "filter (en_active ?t') (enrollments (db w)) = []"
    using clock_mono [OF clock later] by (rule filter_active_later)
  moreover have "en_active ?t' ?row"
    using soon valid by (simp add: en_active_def)
  ultimately have "enrollments_get_latest_active ?t' (db w') = Some ?row"
    by (simp add: w' enrollments_get_latest_active_def)
  moreover have "enrollment_result E ?row token key = r"
    by (simp add: r enrollment_result_def)
  ultimately show ?thesis
    by (simp add: create_enrollment_def bindM_def now_def decrypt_value_def enc crypto_okD [OF crypto])
qed

section \<open>Witnesses\<close>

text \<open>An environment whose Headscale has a \<open>workers\<close> user and issues keys, and whose certificates exist.\<close>

definition users_json :: str where
  "users_json = json_dumps (JArr [JObj [(''name'', JStr ''workers''), (''id'', JInt 2)],
                                  JObj [(''name'', JStr ''gateways''), (''id'', JInt 1)]])"

definition key_json :: str where
  "key_json = json_dumps (JObj [(''key'', JStr ''hskey'')])"

lemma users_json: "json_loads (py_strip users_json) = Inr (JArr [JObj [(''name'', JStr ''workers''), (''id'', JInt 2)],
                                  JObj [(''name'', JStr ''gateways''), (''id'', JInt 1)]])"
  by code_simp

lemma key_json: "json_loads (py_strip key_json) = Inr (JObj [(''key'', JStr ''hskey'')])"
  by code_simp

definition worker_env :: env where
  "worker_env = sample_env\<lparr>o_run := (\<lambda>h cmd. Inr \<lparr>returncode = 0,
     stdout = (case tl cmd of [] \<Rightarrow> []
               | c # _ \<Rightarrow> if c = ''users'' then users_json
                   else if c = ''preauthkeys'' then key_json else []), stderr = []\<rparr>),
     o_file := (\<lambda>h p. Some []), o_now := running_clock\<rparr>"

definition sample_enrollment :: enrollment where
  "sample_enrollment = \<lparr>en_id = 1, en_token_hash = ''kot'', en_name = ''worker2'',
     en_display_name = ''Worker 2'', en_public_ip = ''0.0.0.0'', en_tailscale_hostname = ''worker2'',
     en_expires_at = 1000 * second, en_enroll_token_enc = Some ''tok#'',
     en_headscale_auth_key_enc = Some ''key#'', en_used_at = None, en_worker_id = None, en_created_at = 0\<rparr>"

definition sample_request :: complete_enrollment_request where
  "sample_request = \<lparr>ce_tailscale_hostname = ''worker2'', ce_tailscale_ip = ''100.64.0.2'',
     ce_incus_trust_token = ''trust'', ce_public_ip = ''203.0.113.8''\<rparr>"

definition sample_args :: register_worker_args where
  "sample_args = \<lparr>ra_name = ''worker9'', ra_display_name = None, ra_public_ip = ''203.0.113.9'',
     ra_tailscale_hostname = None, ra_incus_remote = None, ra_incus_url = None,
     ra_incus_cert_path = None, ra_incus_key_path = None, ra_incus_server_cert_path = None,
     ra_port_pool_start = None, ra_port_pool_end = None, ra_ip_pool_network = None, ra_ip_pool_start = None\<rparr>"

theorem pick_worker_witness:
  "\<not> wk_is_local sample_worker \<and>
   (\<exists>online. fst (list_online_workers sample_env (fresh_world sample_db)) = Inr online \<and> sample_worker \<in> set online)"
proof -
  have "pick_worker sample_env (fresh_world sample_db) =
      (Inr sample_worker, snd (pick_worker sample_env (fresh_world sample_db)))"
    by (rule run_pair) code_simp
  from pick_worker_least_loaded [OF this] show ?thesis by (metis fst_conv)
qed

theorem resolve_worker_witness:
  "wk_id sample_worker = 1 \<and> wk_enabled sample_worker"
proof -
  have "resolve_worker_for_gateway sample_env (Some 1) (fresh_world sample_db) =
      (Inr sample_worker, snd (resolve_worker_for_gateway sample_env (Some 1) (fresh_world sample_db)))"
    by (rule run_pair) code_simp
  from resolve_worker_usable [OF this] show ?thesis by blast
qed

theorem register_then_authenticate_witness:
  "\<exists>wk. fst (authenticate_worker sample_env 1 ''tok0'' (snd (register_worker sample_env sample_args (fresh_world empty_db)))) =
        Inr wk \<and> wk_name wk = ''worker9''"
proof -
  have "register_worker sample_env sample_args (fresh_world empty_db) =
      (Inr \<lparr>rwr_worker_id = 1, rwr_worker_token = ''tok0''\<rparr>,
       snd (register_worker sample_env sample_args (fresh_world empty_db)))"
    by (rule run_pair) code_simp
  from register_then_authenticate [OF this] show ?thesis
    by (auto simp: sample_args_def)
qed


lemma worker_run: "run_headscale worker_env (c # args) w =
    (Inr (py_strip (if c = ''users'' then users_json else if c = ''preauthkeys'' then key_json else [])),
     emit (Run (''headscale'' # c # args)) w)"
  by (simp add: run_headscale_def comp_defs run_process_def headscale_cmd_def worker_env_def sample_env_def)

lemma running_clock_snoc:
  "running_clock (h @ [e]) = running_clock h + (case e of Sleep t \<Rightarrow> max 0 t | _ \<Rightarrow> 1)"
  by (simp add: running_clock_def)

lemma running_clock_append: "running_clock (h @ h') = running_clock h + running_clock h'"
  by (simp add: running_clock_def)

lemma running_clock_Cons: "running_clock (e # h) = (case e of Sleep t \<Rightarrow> max 0 t | _ \<Rightarrow> 1) + running_clock h"
  by (simp add: running_clock_def)

lemma running_clock_Nil: "running_clock [] = 0"
  by (simp add: running_clock_def)

lemma worker_env_now: "o_now worker_env = running_clock" "\<not> o_locked worker_env h"
  by (simp_all add: worker_env_def sample_env_def)

lemma worker_list_users: "\<exists>w'. list_users worker_env w =
    (Inr [JObj [(''name'', JStr ''workers''), (''id'', JInt 2)],
          JObj [(''name'', JStr ''gateways''), (''id'', JInt 1)]], w') \<and> db w' = db w \<and>
    running_clock (trace w') = running_clock (trace w) + 1"
  unfolding list_users_def comp_defs worker_run by (simp add: users_json json_iter_def running_clock_snoc)

lemma worker_env_preauth: "\<exists>w'. worker_preauth worker_env w =
    (Inr \<lparr>pak_key = ''hskey'', pak_user_id = 2\<rparr>, w') \<and> db w' = db w \<and>
    running_clock (trace w') = running_clock (trace w) + 2"
proof -
  obtain w1 where w1: "list_users worker_env w =
    (Inr [JObj [(''name'', JStr ''workers''), (''id'', JInt 2)],
          JObj [(''name'', JStr ''gateways''), (''id'', JInt 1)]], w1)" "db w1 = db w"
      "running_clock (trace w1) = running_clock (trace w) + 1"
    using worker_list_users by blast
  have user: "s_headscale_worker_user worker_env = ''workers''" by (simp add: worker_env_def sample_env_def)
  have "ensure_headscale_user worker_env ''workers'' w = (Inr 2, w1)"
    unfolding ensure_headscale_user_def comp_defs w1(1)
    by (simp add: json_get_def json_item_def as_dict_def dget_def json_int_def)
  then show ?thesis
    unfolding worker_preauth_def headscale_to_value_def create_worker_preauth_key_def comp_defs user
    by (simp add: worker_run key_json preauth_key_of_def as_dict_def dget_def w1(2,3) running_clock_snoc)
qed

theorem create_enrollment_witness:
  "fst (create_enrollment worker_env (snd (create_enrollment worker_env (fresh_world empty_db)))) =
   fst (create_enrollment worker_env (fresh_world empty_db))"
proof -
  let ?w = "fresh_world empty_db"
  have crypto: "crypto_ok worker_env" by (simp add: crypto_ok_def worker_env_def sample_env_def)
  define w0 where "w0 = emit Clock (emit Clock ?w)"
  define I where "I = [1..<1000::nat]"
  obtain rest where "I = 1 # rest" unfolding I_def using upt_conv_Cons [of 1 1000] by fastforce
  then have worker1: "identity_loop (\<lambda>n. False) I = Some 1" by simp
  have "str_nat (Suc 0) = ''1''" by code_simp
  then have "next_worker_identity worker_env (emit Clock ?w) = (Inr (''worker1'', ''Worker 1''), w0)"
    unfolding next_worker_identity_def comp_defs I_def [symmetric]
    by (simp add: now_def taken_identities_def workers_list_all_def
        enrollments_list_active_names_def fresh_world_def empty_db_def worker1 w0_def append_Cons)
  moreover obtain w1 where w1: "worker_preauth worker_env w0 =
      (Inr \<lparr>pak_key = ''hskey'', pak_user_id = 2\<rparr>, w1)" "db w1 = db w0"
      "running_clock (trace w1) = running_clock (trace w0) + 2"
    using worker_env_preauth by blast
  moreover have w0: "db w0 = empty_db" "running_clock (trace w0) = 2"
    by (simp_all add: w0_def fresh_world_def running_clock_snoc running_clock_def)
  ultimately have "\<exists>r w'. create_enrollment worker_env ?w = (Inr r, w') \<and> running_clock (trace w') = 8"
    unfolding create_enrollment_def comp_defs
    by (simp add: now_def enrollments_get_latest_active_def workers_get_by_name_def empty_db_def
        fresh_world_def generate_token_def encrypt_value_def Let_def enrollments_create_def flush_def
        commit_def unique_ok_def worker_env_now running_clock_append running_clock_Cons
        running_clock_Nil crypto_okD [OF crypto] comp_defs)
  then obtain r w' where first: "create_enrollment worker_env ?w = (Inr r, w')"
    and clock7: "running_clock (trace w') = 8" by blast
  have none: "enrollments_get_latest_active (o_now worker_env (trace ?w)) (db ?w) = None"
    by (simp add: enrollments_get_latest_active_def fresh_world_def empty_db_def)
  have clock: "clock_ok worker_env"
    using running_clock_ok [of worker_env] by (simp add: worker_env_def)
  have soon: "o_now worker_env (trace w') < o_now worker_env (trace ?w) + 24 * 3600 * second"
    using clock7 by (simp add: worker_env_def running_clock_def second_def fresh_world_def)
  from create_enrollment_reused [OF first none crypto clock soon] first show ?thesis by simp
qed

end
