(* ===== verification/GatewaySvc.thy ===== *)
theory GatewaySvc
  imports Alloc Naming Headscale AgentClient Incus Config Egress WorkerSvc
begin

declare append_Cons [simp del]

text \<open>
  The gateway service (\<open>orchestrator/services/gateway_service.py\<close>) without the two operations that
  need the peer service (provisioning and restart, theory \<open>Lifecycle\<close>): creating a gateway with its
  resources and its job, renaming it on Headscale, its status, and its deletion. A row object is its
  primary key; its attributes are read from the session's view.
\<close>

section \<open>Helpers\<close>

definition EXIT_NODE_PENDING :: str where
  "EXIT_NODE_PENDING = ''pending''"

text \<open>\<open>x if x not in {"", EXIT_NODE_PENDING} else None\<close>.\<close>

definition known_exit_node :: "gateway \<Rightarrow> str option" where
  "known_exit_node g = (if gw_exit_node_id g \<noteq> [] \<and> gw_exit_node_id g \<noteq> EXIT_NODE_PENDING
                        then Some (gw_exit_node_id g) else None)"

fun distinct_names :: "str list \<Rightarrow> str list \<Rightarrow> str list" where
  "distinct_names seen [] = []"
| "distinct_names seen (v # vs) =
     (if v \<noteq> [] \<and> v \<notin> set seen then v # distinct_names (v # seen) vs else distinct_names seen vs)"

definition gateway_headscale_hostnames :: "gateway \<Rightarrow> str list" where
  "gateway_headscale_hostnames g =
     distinct_names [] [gw_tailscale_hostname g, gw_name g, gw_incus_instance g]"

definition get_gateway :: "int \<Rightarrow> gateway io" where
  "get_gateway gid =
     bindM (get_db (gateways_get_by_id gid)) (\<lambda>r.
     case r of
       Some g \<Rightarrow> ret g
     | None \<Rightarrow> raise (ValueError (''Gateway '' @ str_int gid @ '' not found'')))"

text \<open>
  \<open>gateway.worker\<close> is the row of \<open>worker_id\<close> or \<open>None\<close>, and then \<open>get_worker\<close> raises: both ways
  the worker is looked up by \<open>worker_id\<close>.
\<close>

definition resolve_worker :: "gateway \<Rightarrow> worker io" where
  "resolve_worker g =
     bindM (get_db (workers_get_by_id (gw_worker_id g))) (\<lambda>r.
     case r of
       Some wk \<Rightarrow> ret wk
     | None \<Rightarrow> get_worker (gw_worker_id g))"

definition gateway_incus_client :: "env \<Rightarrow> worker \<Rightarrow> incus_client io" where
  "gateway_incus_client E wk = (if wk_is_local wk then make_incus_client E None else make_incus_client E (Some wk))"

definition incus_exec_target :: "gateway \<Rightarrow> str io" where
  "incus_exec_target g = bindM (resolve_worker g) (\<lambda>wk. ret (incus_target wk (gw_incus_instance g)))"

definition gateway_agent_client :: "env \<Rightarrow> gateway \<Rightarrow> str \<Rightarrow> agent_client io" where
  "gateway_agent_client E g token =
     bindM (incus_exec_target g) (\<lambda>target. ret (make_agent_client E (gw_vm_ip g) token (Some target)))"

definition get_endpoint :: "gateway \<Rightarrow> str io" where
  "get_endpoint g =
     bindM (resolve_worker g) (\<lambda>wk. ret (wk_public_ip wk @ '':'' @ str_int (gw_udp_port g)))"

definition needs_provisioning :: "gateway \<Rightarrow> bool" where
  "needs_provisioning g \<longleftrightarrow> gw_status g \<in> {GPending, GError, GProvisioning}"

section \<open>Creation\<close>

record create_gateway_request =
  cg_gateway_name :: "str option"
  cg_udp_port :: "int option"
  cg_worker_id :: "int option"
  cg_peer_group_id :: "int option"
  cg_lan_ip :: "str option"
  cg_macvlan_slot :: "int option"

record create_gateway_result =
  cr_gateway :: int
  cr_job :: int
  cr_agent_token :: str

definition next_gateway_name :: "str io" where
  "next_gateway_name =
     bindM (get_db (\<lambda>d. gw_name ` set (gateways_list_all d))) (\<lambda>existing.
     liftE (next_sequential_name GATEWAY_PREFIX (collect_gateway_names [] (Some existing)) SEQUENTIAL_WIDTH))"

text \<open>\<open>request.udp_port or allocate_udp_port(...)\<close>.\<close>

definition gateway_port :: "env \<Rightarrow> worker \<Rightarrow> int option \<Rightarrow> int io" where
  "gateway_port E wk p =
     (if p \<noteq> None \<and> p \<noteq> Some 0 then ret (the p) else allocate_udp_port E wk None)"

definition gateway_preauth :: "env \<Rightarrow> preauth_key io" where
  "gateway_preauth E =
     headscale_to_value ''Failed to create Headscale preauth key: '' (create_gateway_preauth_key E)"

text \<open>The \<open>Gateway(...)\<close> of \<open>create_gateway\<close>, and what follows it: the row, its subnet, its job.\<close>

definition new_gateway_row ::
  "env \<Rightarrow> create_gateway_request \<Rightarrow> int \<Rightarrow> str \<Rightarrow> str \<Rightarrow> int \<Rightarrow> str \<Rightarrow> str \<Rightarrow> str \<Rightarrow> str \<Rightarrow> str \<Rightarrow> gateway" where
  "new_gateway_row E rq worker_id name vm_ip udp_port pub priv_enc key_enc agent_token token_enc =
     \<lparr>gw_id = 0, gw_worker_id = worker_id, gw_peer_group_id = cg_peer_group_id rq,
      gw_lan_ip = cg_lan_ip rq, gw_macvlan_slot = cg_macvlan_slot rq, gw_name = name,
      gw_incus_instance = ''gw-'' @ name, gw_vm_ip = vm_ip, gw_udp_port = udp_port,
      gw_wg_subnet = ''pending'', gw_wg_server_pubkey = pub, gw_wg_server_privkey_enc = priv_enc,
      gw_exit_node_id = EXIT_NODE_PENDING, gw_tailscale_auth_key_enc = key_enc,
      gw_tailscale_hostname = name, gw_agent_token_hash = hash_token E agent_token,
      gw_agent_token_enc = token_enc, gw_status = GPending, gw_error_message = None, gw_created_at = 0\<rparr>"

definition record_gateway :: "env \<Rightarrow> gateway \<Rightarrow> str \<Rightarrow> create_gateway_result io" where
  "record_gateway E row agent_token =
     bindM (gateways_create E row) (\<lambda>gid.
     thenM (flush E)
    (bindM (liftE (allocate_wg_subnet E gid)) (\<lambda>subnet.
     thenM (mod_db (upd_gateway gid (\<lambda>g. g\<lparr>gw_wg_subnet := sa_subnet subnet\<rparr>)))
    (bindM (jobs_create E (new_job CreateGateway gid)) (\<lambda>jid.
     thenM (commit E)
    (ret \<lparr>cr_gateway = gid, cr_job = jid, cr_agent_token = agent_token\<rparr>))))))"

definition create_gateway :: "env \<Rightarrow> create_gateway_request \<Rightarrow> create_gateway_result io" where
  "create_gateway E rq =
     bindM (if str_true (cg_gateway_name rq) then ret (the (cg_gateway_name rq)) else next_gateway_name) (\<lambda>name.
     bindM (get_db (gateways_get_by_name name)) (\<lambda>clash.
     if clash \<noteq> None then raise (ValueError (''Gateway '' @ name @ '' already exists''))
     else
       bindM (gateway_preauth E) (\<lambda>preauth.
       bindM (generate_token E) (\<lambda>agent_token.
       bindM (generate_keypair E) (\<lambda>(priv, pub).
       bindM (resolve_worker_for_gateway E (cg_worker_id rq)) (\<lambda>wk.
       bindM (allocate_vm_ip E wk) (\<lambda>vm_ip.
       bindM (gateway_port E wk (cg_udp_port rq)) (\<lambda>udp_port.
       bindM (encrypt_value E priv) (\<lambda>priv_enc.
       bindM (encrypt_value E (pak_key preauth)) (\<lambda>key_enc.
       bindM (encrypt_value E agent_token) (\<lambda>token_enc.
       record_gateway E (new_gateway_row E rq (wk_id wk) name vm_ip udp_port pub priv_enc key_enc
         agent_token token_enc) agent_token)))))))))))"

section \<open>Headscale name and exit node\<close>

definition ignore_headscale :: "unit io \<Rightarrow> unit io" where
  "ignore_headscale m = catchM m (\<lambda>e. if is_HeadscaleError e then ret () else raise e)"

definition finalize_exit_node :: "env \<Rightarrow> int \<Rightarrow> agent_client \<Rightarrow> unit io" where
  "finalize_exit_node E gid agent =
     bindM (agent_advertise_exit_node E agent) (\<lambda>_.
     bindM (get_gateway gid) (\<lambda>g.
     bindM (find_gateway_headscale_node E None [gw_tailscale_hostname g, gw_name g]) (\<lambda>node.
     thenM (case node of
              Some n \<Rightarrow>
                if n \<noteq> [] \<and> dget n ''id'' \<noteq> JNull
                then ignore_headscale (bindM (liftE (json_int (dget n ''id''))) (\<lambda>i.
                       bindM (approve_node_exit_route E i) (\<lambda>_. ret ())))
                else ret ()
            | None \<Rightarrow> ret ())
    (thenM (ignore_headscale (bindM (approve_exit_routes_for_tagged_nodes E) (\<lambda>_. ret ())))
    (bindM (get_node_tailscale_ip_by_hostname E (gw_tailscale_hostname g)) (\<lambda>ip1.
     bindM (if str_true ip1 then ret ip1 else get_node_tailscale_ip_by_hostname E (gw_name g)) (\<lambda>ip2.
     (let ip = (if str_true ip2 then ip2 else known_exit_node g) in
      if str_true ip
      then thenM (mod_db (upd_gateway gid (\<lambda>g. g\<lparr>gw_exit_node_id := the ip\<rparr>))) (flush E)
      else ret ())))))))) "

text \<open>
  The ids of one answer of Headscale have one JSON type, so \<open>==\<close> on them is equality. The dash
  in the message below is a longer one in the source.
\<close>

fun check_name_free :: "json \<Rightarrow> str \<Rightarrow> jdict list \<Rightarrow> unit result" where
  "check_name_free node_id new_name [] = Inr ()"
| "check_name_free node_id new_name (n # ns) =
     (if dget n ''id'' = node_id then check_name_free node_id new_name ns
      else if headscale_node_name n = new_name
      then Inl (ValueError (''Headscale name '' @ new_name @ '' is already taken''))
      else check_name_free node_id new_name ns)"

text \<open>The part of the rename outside the database: the node on Headscale, then the agent's host name.\<close>

definition rename_node_of_gateway :: "env \<Rightarrow> gateway \<Rightarrow> str \<Rightarrow> unit io" where
  "rename_node_of_gateway E g new_name =
     bindM (find_gateway_headscale_node E (known_exit_node g) [gw_tailscale_hostname g, gw_name g]) (\<lambda>node.
     if node = None \<or> node = Some []
     then raise (ValueError (''Gateway '' @ gw_name g @
            '' not found on Headscale - wait for Tailscale to come online''))
     else if dget (the node) ''id'' = JNull
     then raise (ValueError ''Headscale did not return a node id'')
     else
       bindM (list_headscale_nodes_raw E) (\<lambda>nodes.
       thenM (liftE (check_name_free (dget (the node) ''id'') new_name nodes))
      (thenM (headscale_to_value [] (bindM (liftE (json_int (dget (the node) ''id''))) (\<lambda>i.
                rename_gateway_headscale_display_name E i new_name)))
      (bindM (decrypt_value E (gw_agent_token_enc g)) (\<lambda>agent_token.
       try_except
         (bindM (gateway_agent_client E g agent_token) (\<lambda>c.
          bindM (agent_set_tailscale_hostname E c new_name) (\<lambda>_. ret ())))
         (\<lambda>_. ret ()))))))"

definition rename_tailscale_display_name :: "env \<Rightarrow> int \<Rightarrow> str \<Rightarrow> int io" where
  "rename_tailscale_display_name E gid display_name =
     bindM (get_gateway gid) (\<lambda>g.
     if gw_status g \<noteq> GReady then raise (ValueError (''Gateway '' @ gw_name g @ '' is not ready''))
     else
       bindM (liftE (validate_tailscale_display_name display_name)) (\<lambda>new_name.
       if new_name = gw_tailscale_hostname g then ret gid
       else
         bindM (get_db (gateways_get_by_tailscale_hostname new_name)) (\<lambda>other.
         if other \<noteq> None \<and> gw_id (the other) \<noteq> gid
         then raise (ValueError (''Headscale name '' @ new_name @ '' is already used by gateway '' @
                gw_name (the other)))
         else
           thenM (rename_node_of_gateway E g new_name)
          (thenM (mod_db (upd_gateway gid (\<lambda>g. g\<lparr>gw_tailscale_hostname := new_name\<rparr>)))
          (thenM (flush E)
          (thenM (commit E)
          (ret gid)))))))"

section \<open>Status\<close>

text \<open>\<open>(data.get("status") or "").strip()\<close>.\<close>

definition status_text :: "json \<Rightarrow> str result" where
  "status_text data =
     bindR (json_get data ''status'') (\<lambda>v.
     if \<not> truthy v then Inr []
     else (case v of JStr s \<Rightarrow> Inr (py_strip s)
           | _ \<Rightarrow> Inl (AttributeError (py_repr (json_type v) @ '' object has no attribute 'strip''))))"

definition fetch_tailscale_status :: "env \<Rightarrow> gateway \<Rightarrow> str option io" where
  "fetch_tailscale_status E g =
     (if gw_status g \<noteq> GReady then ret None
      else try_except
             (bindM (decrypt_value E (gw_agent_token_enc g)) (\<lambda>token.
              bindM (gateway_agent_client E g token) (\<lambda>c.
              bindM (agent_tailscale_status E c) (\<lambda>data.
              bindM (liftE (status_text data)) (\<lambda>s.
              ret (if s \<noteq> [] then Some s else None))))))
             (\<lambda>_. ret None))"

record boot_status =
  bs_vm_status :: json
  bs_wg_online :: bool
  bs_tailscale_online :: bool
  bs_ready :: bool

text \<open>
  \<open>{p["public_key"]: p for p in agent.list_peers()}\<close>: a later peer replaces an earlier one of the
  same key. A key that is no text, which the agent does not send, counts as its text.
\<close>

fun peer_dict :: "(str \<times> json) list \<Rightarrow> json list \<Rightarrow> (str \<times> json) list result" where
  "peer_dict acc [] = Inr acc"
| "peer_dict acc (p # ps) =
     bindR (json_item p ''public_key'') (\<lambda>k. peer_dict (AList.update (json_str k) p acc) ps)"

definition agent_peer_stats :: "env \<Rightarrow> agent_client \<Rightarrow> (str \<times> json) list io" where
  "agent_peer_stats E c =
     bindM (agent_list_peers E c) (\<lambda>v. liftE (bindR (json_iter v) (peer_dict [])))"

definition vm_status_of :: "env \<Rightarrow> worker \<Rightarrow> gateway \<Rightarrow> json io" where
  "vm_status_of E wk g =
     try_except (bindM (gateway_incus_client E wk) (\<lambda>c. get_vm_status E c (gw_incus_instance g)))
       (\<lambda>_. ret (JStr ''unknown''))"

text \<open>
  The second \<open>try\<close> assigns \<open>tailscale_online\<close> before it asks for the peers, so an exception there
  leaves it set.
\<close>

definition gateway_links :: "env \<Rightarrow> gateway \<Rightarrow> (bool \<times> bool) io" where
  "gateway_links E g =
     try_except
       (bindM (decrypt_value E (gw_agent_token_enc g)) (\<lambda>token.
        bindM (gateway_agent_client E g token) (\<lambda>c.
        bindM (agent_tailscale_connected E c) (\<lambda>ts.
        try_except
          (bindM (agent_peer_stats E c) (\<lambda>stats.
           bindM (wg_uplink_connected E stats) (\<lambda>wg. ret (ts, wg))))
          (\<lambda>_. ret (ts, False))))))
       (\<lambda>_. ret (False, False))"

definition gateway_boot_status :: "env \<Rightarrow> int \<Rightarrow> boot_status io" where
  "gateway_boot_status E gid =
     bindM (get_gateway gid) (\<lambda>g.
     bindM (resolve_worker g) (\<lambda>wk.
     bindM (vm_status_of E wk g) (\<lambda>vm.
     bindM (if gw_status g = GReady \<and> vm = JStr ''Running'' then gateway_links E g else ret (False, False)) (\<lambda>(ts, wg).
     ret \<lparr>bs_vm_status = vm, bs_wg_online = wg, bs_tailscale_online = ts,
          bs_ready = (vm = JStr ''Running'' \<and> wg \<and> ts)\<rparr>))))"

section \<open>Provisioning requests\<close>

text \<open>A failed gateway starts again, and so does one whose last provisioning was cut off and failed.\<close>

definition must_reopen :: "gateway \<Rightarrow> job option \<Rightarrow> bool" where
  "must_reopen g latest \<longleftrightarrow>
     gw_status g = GError \<or>
     gw_status g = GProvisioning \<and> latest \<noteq> None \<and> job_status (the latest) = JFailed"

definition reopen_gateway :: "env \<Rightarrow> int \<Rightarrow> unit io" where
  "reopen_gateway E gid =
     thenM (gateways_update_status E gid GPending None)
       (mod_db (upd_gateway gid (\<lambda>g. g\<lparr>gw_error_message := None\<rparr>)))"

definition prepare_provisioning :: "env \<Rightarrow> int \<Rightarrow> unit io" where
  "prepare_provisioning E gid =
     bindM (get_gateway gid) (\<lambda>g.
     bindM (get_db (jobs_get_latest_create_job gid)) (\<lambda>latest.
     thenM (if must_reopen g latest then reopen_gateway E gid else ret ())
    (bindM (jobs_reset_failed_job E gid) (\<lambda>job.
     thenM (if job = None then bindM (jobs_create E (new_job CreateGateway gid)) (\<lambda>_. ret ()) else ret ())
     (commit E)))))"

section \<open>Deletion\<close>

definition request_delete_gateway :: "env \<Rightarrow> int \<Rightarrow> int io" where
  "request_delete_gateway E gid =
     bindM (get_gateway gid) (\<lambda>g.
     bindM (get_db (jobs_get_latest_delete_job gid)) (\<lambda>existing.
     if gw_status g = GDeleting \<and> existing \<noteq> None \<and> job_status (the existing) \<in> {JPending, JRunning}
     then ret (job_id (the existing))
     else
       thenM (gateways_update_status E gid GDeleting None)
      (bindM (if existing \<noteq> None \<and> job_status (the existing) = JPending then ret (job_id (the existing))
              else jobs_create E (new_job DeleteGateway gid)) (\<lambda>jid.
       thenM (commit E) (ret jid)))))"

text \<open>
  In \<open>execute_delete_gateway\<close> the job is looked up after \<open>session.delete(gateway)\<close>, whose rows go
  at the next flush only: the session still hands out the job, although the deletion cascades to
  it. Its update is part of that flush and finds the row gone.
\<close>

definition remove_gateway_rows :: "env \<Rightarrow> gateway \<Rightarrow> int option \<Rightarrow> unit io" where
  "remove_gateway_rows E g jid =
     thenM (release_vm_ip (gw_worker_id g) (gw_vm_ip g))
    (thenM (release_udp_port (gw_worker_id g) (gw_udp_port g))
    (bindM (get_db (\<lambda>d. if jid \<noteq> None \<and> jid \<noteq> Some 0 then jobs_get_by_id (the jid) d else None)) (\<lambda>job.
     thenM (gateways_delete (gw_id g))
    (thenM (if job \<noteq> None then jobs_update_status E (the jid) JCompleted None else ret ())
     (commit E)))))"

definition execute_delete_gateway :: "env \<Rightarrow> int \<Rightarrow> int option \<Rightarrow> unit io" where
  "execute_delete_gateway E gid jid =
     bindM (get_db (gateways_get_by_id gid)) (\<lambda>r.
     case r of
       None \<Rightarrow>
         if jid \<noteq> None \<and> jid \<noteq> Some 0 then
           bindM (get_db (jobs_get_by_id (the jid))) (\<lambda>job.
           if job \<noteq> None \<and> job_status (the job) \<noteq> JCompleted
           then thenM (jobs_update_status E (the jid) JCompleted None) (commit E)
           else ret ())
         else ret ()
     | Some g \<Rightarrow>
         thenM (ignore_headscale
                  (bindM (delete_gateway_headscale_node E (known_exit_node g) (gateway_headscale_hostnames g))
                     (\<lambda>_. ret ())))
        (bindM (resolve_worker g) (\<lambda>wk.
         thenM (try_except (bindM (gateway_incus_client E wk) (\<lambda>c. delete_gateway_vm E c (gw_incus_instance g)))
                  (\<lambda>_. ret ()))
        (remove_gateway_rows E g jid))))"

definition delete_gateway :: "env \<Rightarrow> int \<Rightarrow> unit io" where
  "delete_gateway E gid =
     bindM (request_delete_gateway E gid) (\<lambda>jid. execute_delete_gateway E gid (Some jid))"

section \<open>Facts\<close>

text \<open>What every stable predicate survives leaves both views of the database alone.\<close>

lemma keeps_views:
  assumes "keeps (\<lambda>v. db v = db w \<and> stored v = stored w) m" and "m w = (r, w')"
  shows "db w' = db w" "stored w' = stored w"
  using keepsD [OF assms(1) _ assms(2)] by simp_all

lemma stable_run:
  assumes "m w = (r, w')" and "\<And>J. stable J \<Longrightarrow> keeps J m"
  shows "db w' = db w \<and> stored w' = stored w"
  using keepsD [OF assms(2) [OF stable_db [where P = "\<lambda>d s. d = db w \<and> s = stored w"]] _ assms(1)] by simp

lemma stable_views [keeps_intros]: "stable (\<lambda>v. db v = d \<and> stored v = s)"
  by (simp add: stable_def)

lemma keeps_headscale_to_value [keeps_intros]: "keeps J m \<Longrightarrow> keeps J (headscale_to_value msg m)"
  unfolding headscale_to_value_def by (intro keeps_intros)

lemma keeps_ignore_headscale [keeps_intros]: "keeps J m \<Longrightarrow> keeps J (ignore_headscale m)"
  unfolding ignore_headscale_def by (intro keeps_intros)

lemma keeps_get_gateway [keeps_intros]: "keeps J (get_gateway gid)"
  unfolding get_gateway_def by (intro keeps_intros)

lemma keeps_get_worker [keeps_intros]: "keeps J (get_worker i)"
  unfolding get_worker_def by (intro keeps_intros)

lemma keeps_resolve_worker [keeps_intros]: "keeps J (resolve_worker g)"
  unfolding resolve_worker_def by (intro keeps_intros)

lemma keeps_gateway_clients [keeps_intros]:
  assumes "stable J"
  shows "keeps J (gateway_incus_client E wk)" "keeps J (incus_exec_target g)"
    "keeps J (gateway_agent_client E g token)" "keeps J (gateway_preauth E)"
  unfolding gateway_incus_client_def incus_exec_target_def gateway_agent_client_def gateway_preauth_def
  by (intro keeps_intros assms)+

lemma keeps_status [keeps_intros]:
  assumes "stable J"
  shows "keeps J (fetch_tailscale_status E g)" "keeps J (agent_peer_stats E c)"
    "keeps J (vm_status_of E wk g)" "keeps J (gateway_links E g)" "keeps J (gateway_boot_status E gid)"
proof -
  show peers: "keeps J (agent_peer_stats E c)" for c
    unfolding agent_peer_stats_def by (intro keeps_intros assms)
  have "keeps J (wg_uplink_connected E stats)" for stats
    unfolding wg_uplink_connected_def by (intro keeps_intros assms)
  note more = keeps_intros peers this assms
  show links: "keeps J (gateway_links E g)" for g
    unfolding gateway_links_def by (intro more)
  show vm: "keeps J (vm_status_of E wk g)" for wk g
    unfolding vm_status_of_def by (intro more)
  show "keeps J (fetch_tailscale_status E g)"
    unfolding fetch_tailscale_status_def by (intro more)
  show "keeps J (gateway_boot_status E gid)"
    unfolding gateway_boot_status_def by (intro more links vm)
qed

lemma get_gateway_returns:
  "get_gateway gid w = (Inr g, w') \<longleftrightarrow> gateways_get_by_id gid (db w) = Some g \<and> w' = w"
  by (auto simp: get_gateway_def bindM_def split: option.splits)

lemma get_gateway_found: "gateways_get_by_id gid (db w) = Some g \<Longrightarrow> get_gateway gid w = (Inr g, w)"
  by (simp add: get_gateway_def bindM_def)

lemma resolve_worker_found:
  "workers_get_by_id (gw_worker_id g) (db w) = Some wk \<Longrightarrow> resolve_worker g w = (Inr wk, w)"
  by (simp add: resolve_worker_def bindM_def)

lemma resolve_worker_returns:
  "resolve_worker g w = (Inr wk, w') \<longleftrightarrow> workers_get_by_id (gw_worker_id g) (db w) = Some wk \<and> w' = w"
  by (auto simp: resolve_worker_def get_worker_def bindM_def split: option.splits)

lemma gateways_create_returns:
  assumes "gateways_create E g w = (Inr i, w')"
  shows "\<exists>t. i = next_id gw_id (gateways (db w)) \<and>
             db w' = (db w)\<lparr>gateways := gateways (db w) @ [g\<lparr>gw_id := i, gw_created_at := t\<rparr>]\<rparr> \<and>
             stored w' = stored w \<and> unique_ok (db w')"
  using assms by (auto simp: gateways_create_def bindM_returns thenM_returns dest!: flush_returns)

lemma jobs_create_returns:
  assumes "jobs_create E j w = (Inr i, w')"
  shows "\<exists>t. i = next_id job_id (jobs (db w)) \<and>
             db w' = (db w)\<lparr>jobs := jobs (db w) @
                       [j\<lparr>job_id := i, job_created_at := t, job_updated_at := t\<rparr>]\<rparr> \<and>
             stored w' = stored w \<and> unique_ok (db w')"
  using assms by (auto simp: jobs_create_def bindM_returns thenM_returns dest!: flush_returns)

lemma gateways_get_created:
  "i = next_id gw_id (gateways d) \<Longrightarrow>
   gateways_get_by_id i (d\<lparr>gateways := gateways d @ [g\<lparr>gw_id := i, gw_created_at := t\<rparr>]\<rparr>) =
     Some (g\<lparr>gw_id := i, gw_created_at := t\<rparr>)"
  by (simp add: gateways_get_by_id_def tbl_get_new)

lemma jobs_get_created:
  "i = next_id job_id (jobs d) \<Longrightarrow>
   jobs_get_by_id i (d\<lparr>jobs := jobs d @ [j\<lparr>job_id := i, job_created_at := t, job_updated_at := t\<rparr>]\<rparr>) =
     Some (j\<lparr>job_id := i, job_created_at := t, job_updated_at := t\<rparr>)"
  by (simp add: jobs_get_by_id_def tbl_get_new)

text \<open>A recorded gateway: the new rows, committed.\<close>

lemma record_gateway_returns:
  assumes "record_gateway E row token w = (Inr r, w')"
  obtains tc tj subnet where
    "cr_gateway r = next_id gw_id (gateways (db w))" "cr_job r = next_id job_id (jobs (db w))"
    "cr_agent_token r = token" "allocate_wg_subnet E (cr_gateway r) = Inr subnet"
    "db w' = (upd_gateway (cr_gateway r) (\<lambda>g. g\<lparr>gw_wg_subnet := sa_subnet subnet\<rparr>)
                ((db w)\<lparr>gateways := gateways (db w) @ [row\<lparr>gw_id := cr_gateway r, gw_created_at := tc\<rparr>]\<rparr>))
              \<lparr>jobs := jobs (db w) @ [(new_job CreateGateway (cr_gateway r))\<lparr>job_id := cr_job r,
                   job_created_at := tj, job_updated_at := tj\<rparr>]\<rparr>"
    "stored w' = db w'" "unique_ok (db w')"
proof -
  from assms obtain gid w1 w2 subnet w3 jid w4 where
    g: "gateways_create E row w = (Inr gid, w1)" and f: "flush E w1 = (Inr (), w2)" and
    sub: "allocate_wg_subnet E gid = Inr subnet" and
    w3: "w3 = w2\<lparr>db := upd_gateway gid (\<lambda>g. g\<lparr>gw_wg_subnet := sa_subnet subnet\<rparr>) (db w2)\<rparr>" and
    j: "jobs_create E (new_job CreateGateway gid) w3 = (Inr jid, w4)" and
    c: "commit E w4 = (Inr (), w')" and r: "r = \<lparr>cr_gateway = gid, cr_job = jid, cr_agent_token = token\<rparr>"
    by (auto simp: record_gateway_def bindM_returns thenM_returns simp del: upd_defs)
  from gateways_create_returns [OF g] obtain tc where
    g': "gid = next_id gw_id (gateways (db w))"
      "db w1 = (db w)\<lparr>gateways := gateways (db w) @ [row\<lparr>gw_id := gid, gw_created_at := tc\<rparr>]\<rparr>"
    by blast
  from jobs_create_returns [OF j] obtain tj where
    j': "jid = next_id job_id (jobs (db w3))"
      "db w4 = (db w3)\<lparr>jobs := jobs (db w3) @ [(new_job CreateGateway gid)\<lparr>job_id := jid,
         job_created_at := tj, job_updated_at := tj\<rparr>]\<rparr>"
    by blast
  have "db w2 = db w1" using flush_returns [OF f] by simp
  moreover have "db w' = db w4" "stored w' = db w'" "unique_ok (db w')"
    using commit_returns [OF c] by simp_all
  ultimately show thesis
    using that [of subnet tj tc] g' j' sub by (simp add: r w3)
qed

text \<open>The steps of a creation that returned, one after the other.\<close>

lemma create_gateway_elim:
  assumes "create_gateway E rq w = (Inr r, w')"
  obtains name token wk ip port w1 w2 w3 w4 pub pe ke te where
    "str_true (cg_gateway_name rq) \<Longrightarrow> name = the (cg_gateway_name rq)"
    "gateways_get_by_name name (db w) = None" "db w1 = db w"
    "resolve_worker_for_gateway E (cg_worker_id rq) w1 = (Inr wk, w2)"
    "allocate_vm_ip E wk w2 = (Inr ip, w3)" "gateway_port E wk (cg_udp_port rq) w3 = (Inr port, w4)"
    "record_gateway E (new_gateway_row E rq (wk_id wk) name ip port pub pe ke token te) token w4 = (Inr r, w')"
proof -
  let ?nm = "if str_true (cg_gateway_name rq) then ret (the (cg_gateway_name rq)) else next_gateway_name"
  from assms obtain name w0 preauth w1 where
    n: "?nm w = (Inr name, w0)" and none: "gateways_get_by_name name (db w0) = None" and
    pre: "gateway_preauth E w0 = (Inr preauth, w1)" and
    rest: "bindM (generate_token E) (\<lambda>agent_token.
       bindM (generate_keypair E) (\<lambda>(priv, pub).
       bindM (resolve_worker_for_gateway E (cg_worker_id rq)) (\<lambda>wk.
       bindM (allocate_vm_ip E wk) (\<lambda>vm_ip.
       bindM (gateway_port E wk (cg_udp_port rq)) (\<lambda>udp_port.
       bindM (encrypt_value E priv) (\<lambda>priv_enc.
       bindM (encrypt_value E (pak_key preauth)) (\<lambda>key_enc.
       bindM (encrypt_value E agent_token) (\<lambda>token_enc.
       record_gateway E (new_gateway_row E rq (wk_id wk) name vm_ip udp_port pub priv_enc key_enc
         agent_token token_enc) agent_token)))))))) w1 = (Inr r, w')"
    unfolding create_gateway_def bindM_returns [of ?nm]
    by (auto simp: bindM_def [of "get_db f" for f] bindM_returns [of "gateway_preauth E"] split: if_splits
        simp del: bindM_returns)
  have "w0 = w" using n by (auto simp: next_gateway_name_def bindM_def split: if_splits sum.splits)
  moreover have "db w1 = db w0"
    using stable_run [of "gateway_preauth E", OF pre] keeps_gateway_clients(4) by blast
  moreover have "str_true (cg_gateway_name rq) \<Longrightarrow> name = the (cg_gateway_name rq)"
    using n by simp
  moreover from rest obtain token w2 priv pub w3 wk w4 ip w5 port w6 pe ke te where
    "resolve_worker_for_gateway E (cg_worker_id rq) w3 = (Inr wk, w4)" "db w3 = db w1"
    "allocate_vm_ip E wk w4 = (Inr ip, w5)" "gateway_port E wk (cg_udp_port rq) w5 = (Inr port, w6)"
    "record_gateway E (new_gateway_row E rq (wk_id wk) name ip port pub pe ke token te) token w6 = (Inr r, w')"
    by (auto simp: bindM_returns generate_token_def generate_keypair_def encrypt_value_def split: prod.splits)
  ultimately show thesis
    using none that [of name w3 wk w4 ip w5 port w6 pub pe ke token te] by simp
qed

lemma tbl_upd_new:
  "k r = next_id k rs \<Longrightarrow> tbl_upd k (next_id k rs) f (rs @ [r]) = rs @ [f r]"
  using next_id_gt [of _ rs k] by (fastforce simp: tbl_upd_def intro!: map_idI)

lemma used_udp_ports_add_ip [simp]: "used_udp_ports wid (add_ip_alloc i a g d) = used_udp_ports wid d"
  by (simp add: used_udp_ports_def add_ip_alloc_def)

lemma gateway_port_returns:
  assumes "gateway_port E wk p w = (Inr port, w')"
  shows "gateways (db w') = gateways (db w) \<and> jobs (db w') = jobs (db w) \<and>
         (p = None \<longrightarrow> port \<notin> set (used_udp_ports (wk_id wk) (db w)))"
proof (cases "p \<noteq> None \<and> p \<noteq> Some 0")
  case True
  with assms show ?thesis by (auto simp: gateway_port_def)
next
  case False
  with assms have "allocate_udp_port E wk None w = (Inr port, w')" by (auto simp: gateway_port_def)
  from allocate_udp_port_returns [OF this] show ?thesis by (simp add: add_port_alloc_def)
qed

lemma create_gateway_returns:
  assumes "create_gateway E rq w = (Inr r, w')"
  shows "\<exists>g wk s j. gateways_get_by_id (cr_gateway r) (db w') = Some g \<and> gw_status g = GPending \<and>
           gateways_get_by_name (gw_name g) (db w) = None \<and>
           wk \<in> set (workers (db w)) \<and> wk_id wk = gw_worker_id g \<and> wk_enabled wk \<and> \<not> wk_is_local wk \<and>
           gw_vm_ip g \<notin> set (used_vm_ips (wk_id wk) (db w)) \<and>
           (cg_udp_port rq = None \<longrightarrow> gw_udp_port g \<notin> set (used_udp_ports (wk_id wk) (db w))) \<and>
           allocate_wg_subnet E (cr_gateway r) = Inr s \<and> gw_wg_subnet g = sa_subnet s \<and>
           verify_token E (cr_agent_token r) (gw_agent_token_hash g) \<and>
           jobs_get_by_id (cr_job r) (db w') = Some j \<and> job_type j = CreateGateway \<and>
           job_status j = JPending \<and> job_gateway_id j = Some (cr_gateway r) \<and>
           gateways (db w') = gateways (db w) @ [g] \<and> stored w' = db w' \<and>
           gw_peer_group_id g = cg_peer_group_id rq \<and> gw_lan_ip g = cg_lan_ip rq"
proof -
  obtain name token wk ip port w1 w2 w3 w4 pub pe ke te where
    fresh: "gateways_get_by_name name (db w) = None" and w1: "db w1 = db w" and
    wk: "resolve_worker_for_gateway E (cg_worker_id rq) w1 = (Inr wk, w2)" and
    ip: "allocate_vm_ip E wk w2 = (Inr ip, w3)" and
    port: "gateway_port E wk (cg_udp_port rq) w3 = (Inr port, w4)" and
    rec: "record_gateway E (new_gateway_row E rq (wk_id wk) name ip port pub pe ke token te) token w4 = (Inr r, w')"
    using create_gateway_elim [OF assms] by metis
  note usable = resolve_worker_for_gateway_returns [OF wk] and ip' = allocate_vm_ip_returns [OF ip]
    and port' = gateway_port_returns [OF port]
  have same: "gateways (db w4) = gateways (db w)" "jobs (db w4) = jobs (db w)"
    using usable ip' port' w1 by (simp_all add: add_ip_alloc_def)
  obtain tc tj s where
    ids: "cr_gateway r = next_id gw_id (gateways (db w))" "cr_job r = next_id job_id (jobs (db w))"
      "cr_agent_token r = token" and
    sub: "allocate_wg_subnet E (cr_gateway r) = Inr s" and
    rows: "db w' = (upd_gateway (cr_gateway r) (\<lambda>g. g\<lparr>gw_wg_subnet := sa_subnet s\<rparr>)
                ((db w4)\<lparr>gateways := gateways (db w) @
                   [(new_gateway_row E rq (wk_id wk) name ip port pub pe ke token te)
                      \<lparr>gw_id := cr_gateway r, gw_created_at := tc\<rparr>]\<rparr>))
              \<lparr>jobs := jobs (db w) @ [(new_job CreateGateway (cr_gateway r))\<lparr>job_id := cr_job r,
                   job_created_at := tj, job_updated_at := tj\<rparr>]\<rparr>"
      "stored w' = db w'"
    using record_gateway_returns [OF rec] unfolding same by metis
  define g where "g = (new_gateway_row E rq (wk_id wk) name ip port pub pe ke token te)
    \<lparr>gw_id := cr_gateway r, gw_created_at := tc, gw_wg_subnet := sa_subnet s\<rparr>"
  have gws: "gateways (db w') = gateways (db w) @ [g]"
    unfolding rows(1) g_def by (simp add: ids(1) tbl_upd_new)
  then have "gateways_get_by_id (cr_gateway r) (db w') = Some g"
    by (simp add: gateways_get_by_id_def tbl_get_new g_def ids(1))
  moreover obtain j where "jobs_get_by_id (cr_job r) (db w') = Some j" "job_type j = CreateGateway"
      "job_status j = JPending" "job_gateway_id j = Some (cr_gateway r)"
    unfolding rows(1) by (simp add: jobs_get_by_id_def tbl_get_new ids(2) new_job_def)
  moreover have "gw_status g = GPending" "gw_name g = name" "gw_worker_id g = wk_id wk" "gw_vm_ip g = ip"
      "gw_udp_port g = port" "gw_wg_subnet g = sa_subnet s" "gw_agent_token_hash g = hash_token E token"
      "gw_peer_group_id g = cg_peer_group_id rq" "gw_lan_ip g = cg_lan_ip rq"
    by (simp_all add: g_def new_gateway_row_def)
  ultimately show ?thesis
    using gws fresh w1 usable ip' port' sub rows(2)
    by (intro exI [of _ g] exI [of _ wk] exI [of _ s] exI [of _ j]) (simp add: verify_token_def ids(3))
qed


lemma gateways_update_status_returns:
  assumes "gateways_update_status E gid st msg w = (Inr x, w')"
  shows "db w' = upd_gateway gid (\<lambda>g. g\<lparr>gw_status := st, gw_error_message := msg\<rparr>) (db w) \<and> stored w' = stored w"
  using assms by (auto simp: gateways_update_status_def thenM_returns dest!: flush_returns)

lemma gateways_get_status_upd:
  "gateways_get_by_id gid (upd_gateway gid (\<lambda>g. g\<lparr>gw_status := st, gw_error_message := msg\<rparr>) d) =
     map_option (\<lambda>g. g\<lparr>gw_status := st, gw_error_message := msg\<rparr>) (gateways_get_by_id gid d)"
  by (simp add: gateways_get_by_id_upd del: upd_defs)

lemma latest_delete_job_new:
  "jobs_get_latest_delete_job gid (d\<lparr>jobs := jobs d @ [j]\<rparr>) =
     (if job_gateway_id j = Some gid \<and> job_type j = DeleteGateway then Some j
      else jobs_get_latest_delete_job gid d)"
  by (simp add: jobs_get_latest_delete_job_def append_Cons)

lemma jobs_get_mem: "keyed job_id (jobs d) \<Longrightarrow> j \<in> set (jobs d) \<Longrightarrow> jobs_get_by_id (job_id j) d = Some j"
  by (simp add: jobs_get_by_id_def keyed_def tbl_get_mem)

text \<open>
  A deletion request that returns leaves the gateway in status deleting with an open (pending or
  running) delete job of that gateway, and is idempotent: asking again returns the same job and
  changes nothing.
\<close>

theorem request_delete_gateway_idempotent:
  assumes "request_delete_gateway E gid w = (Inr jid, w')" and "keyed job_id (jobs (db w))"
  shows "\<exists>g j. gateways_get_by_id gid (db w') = Some g \<and> gw_status g = GDeleting \<and>
           jobs_get_by_id jid (db w') = Some j \<and> job_type j = DeleteGateway \<and>
           job_gateway_id j = Some gid \<and> job_status j \<in> {JPending, JRunning} \<and>
           request_delete_gateway E gid w' = (Inr jid, w')"
proof -
  have settled: ?thesis
    if "gateways_get_by_id gid (db w') = Some g" "gw_status g = GDeleting"
      "jobs_get_latest_delete_job gid (db w') = Some j" "job_status j \<in> {JPending, JRunning}" "job_id j = jid"
      "jobs_get_by_id jid (db w') = Some j" for g j
    using that latest_delete_job_SomeD [OF that(3)]
    by (auto simp: request_delete_gateway_def get_gateway_def bindM_def)
  from assms(1) obtain g where g: "gateways_get_by_id gid (db w) = Some g"
    by (auto simp: request_delete_gateway_def bindM_returns get_gateway_returns)
  let ?e = "jobs_get_latest_delete_job gid (db w)"
  show ?thesis
  proof (cases "gw_status g = GDeleting \<and> ?e \<noteq> None \<and> job_status (the ?e) \<in> {JPending, JRunning}")
    case True
    with assms(1) g have "w' = w" "jid = job_id (the ?e)"
      by (auto simp: request_delete_gateway_def bindM_def get_gateway_def)
    with True g settled [of g "the ?e"] show ?thesis
      using jobs_get_mem [OF assms(2)] latest_delete_job_SomeD [of gid "db w" "the ?e"] by force
  next
    case False
    with assms(1) g obtain x w1 w2 y where st: "gateways_update_status E gid GDeleting None w = (Inr x, w1)" and
      job: "(if ?e \<noteq> None \<and> job_status (the ?e) = JPending then ret (job_id (the ?e))
             else jobs_create E (new_job DeleteGateway gid)) w1 = (Inr jid, w2)" and
      c: "commit E w2 = (Inr y, w')"
      by (auto simp: request_delete_gateway_def bindM_returns thenM_returns get_gateway_returns
          simp del: upd_defs split: if_splits)
    note st' = gateways_update_status_returns [OF st] and c' = commit_returns [OF c]
    let ?g = "g\<lparr>gw_status := GDeleting, gw_error_message := None\<rparr>"
    have g1: "gateways_get_by_id gid (db w1) = Some ?g"
      using st' g by (simp add: gateways_get_status_upd del: upd_defs)
    have jobs1: "jobs (db w1) = jobs (db w)" using st' by simp
    show ?thesis
    proof (cases "?e \<noteq> None \<and> job_status (the ?e) = JPending")
      case True
      with job c' have w': "db w' = db w1" "jid = job_id (the ?e)" by auto
      have "jobs_get_latest_delete_job gid (db w') = ?e"
        unfolding jobs_get_latest_delete_job_def w' jobs1 by (rule refl)
      moreover have "jobs_get_by_id jid (db w') = ?e"
        using True jobs_get_mem [OF assms(2)] latest_delete_job_SomeD [of gid "db w" "the ?e"] jobs1
        by (auto simp: w' jobs_get_by_id_def)
      ultimately show ?thesis using True g1 w' by (intro settled [of ?g "the ?e"]) auto
    next
      case False
      with job have "jobs_create E (new_job DeleteGateway gid) w1 = (Inr jid, w2)" by auto
      from jobs_create_returns [OF this] obtain t where
        new: "jid = next_id job_id (jobs (db w1))" "db w2 = (db w1)\<lparr>jobs := jobs (db w1) @
           [(new_job DeleteGateway gid)\<lparr>job_id := jid, job_created_at := t, job_updated_at := t\<rparr>]\<rparr>"
        by blast
      let ?j = "(new_job DeleteGateway gid)\<lparr>job_id := jid, job_created_at := t, job_updated_at := t\<rparr>"
      have "db w' = (db w1)\<lparr>jobs := jobs (db w1) @ [?j]\<rparr>" using c' new(2) by simp
      with g1 new(1) show ?thesis
        by (intro settled [of ?g ?j])
          (simp_all add: gateways_get_by_id_def latest_delete_job_new jobs_get_by_id_def tbl_get_new new_job_def)
    qed
  qed
qed

lemma jobs_update_status_returns:
  assumes "jobs_update_status E i st err w = (Inr x, w')"
  shows "\<exists>t. db w' = upd_job t i (\<lambda>j. j\<lparr>job_status := st,
              job_error := (case err of None \<Rightarrow> job_error j | Some e \<Rightarrow> Some e)\<rparr>) (db w) \<and> stored w' = stored w"
  using assms by (auto simp: jobs_update_status_def thenM_returns simp del: upd_defs dest!: flush_returns)

lemma jobs_get_upd_job:
  assumes "\<And>j. job_id (f j) = job_id j"
  shows "jobs_get_by_id i (upd_job t k f d) =
     (if i = k then map_option (\<lambda>j. if f j = j then j else (f j)\<lparr>job_updated_at := t\<rparr>) (jobs_get_by_id i d)
      else jobs_get_by_id i d)"
proof -
  let ?f = "\<lambda>j. if f j = j then j else (f j)\<lparr>job_updated_at := t\<rparr>"
  have "job_id (?f j) = job_id j" for j using assms by simp
  from tbl_get_upd [of job_id ?f i k "jobs d", OF this] show ?thesis by (simp add: jobs_get_by_id_def)
qed

definition job_freed :: "int \<Rightarrow> db \<Rightarrow> db \<Rightarrow> bool" where
  "job_freed gid d d' \<longleftrightarrow>
     (\<forall>j \<in> set (jobs d'). job_gateway_id j \<noteq> Some gid) \<and>
     (\<forall>i j. jobs_get_by_id i d = Some j \<and> job_gateway_id j = Some gid \<longrightarrow> jobs_get_by_id i d' = None)"

lemma jobs_of_gateway_freed:
  assumes "keyed job_id (jobs d)" and "jobs d' = filter (\<lambda>j. job_gateway_id j \<noteq> Some gid) (jobs d)"
  shows "job_freed gid d d'"
proof -
  have "jobs_get_by_id i d' = None" if j: "jobs_get_by_id i d = Some j" "job_gateway_id j = Some gid" for i j
  proof -
    have "j \<in> set (jobs d)" "job_id j = i" using jobs_get_by_id_SomeD [OF j(1)] by simp_all
    then have "\<forall>k \<in> set (jobs d). job_id k = i \<longrightarrow> k = j"
      using assms(1) by (auto simp: keyed_def distinct_map dest: inj_onD)
    with j(2) show ?thesis
      unfolding jobs_get_by_id_def assms(2) by (auto simp: tbl_get_None_iff)
  qed
  with assms(2) show ?thesis by (simp add: job_freed_def)
qed

lemma job_freed_upd:
  assumes "job_freed gid d d1" and "\<And>j. job_id (f j) = job_id j" and "\<And>j. job_gateway_id (f j) = job_gateway_id j"
  shows "job_freed gid d (upd_job t k f d1)"
proof -
  have "job_gateway_id j \<noteq> Some gid" if "j \<in> set (jobs (upd_job t k f d1))" for j
    using that assms(1,3) by (auto simp: job_freed_def set_tbl_upd split: if_splits)
  moreover have "jobs_get_by_id i (upd_job t k f d1) = None" if "jobs_get_by_id i d1 = None" for i
    using that assms(2) by (cases "i = k") (simp_all add: jobs_get_upd_job del: upd_defs)
  ultimately show ?thesis using assms(1) by (auto simp: job_freed_def simp del: upd_defs)
qed

text \<open>The steps of a deletion of an existing gateway that returned.\<close>

definition deleted_gateway :: "gateway \<Rightarrow> db \<Rightarrow> db" where
  "deleted_gateway g d = delete_gateway_rows (gw_id g) (free_port_row (gw_worker_id g) (gw_udp_port g)
                           (free_ip_row (gw_worker_id g) (gw_vm_ip g) d))"

definition harmless_job_update :: "(job \<Rightarrow> job) \<Rightarrow> bool" where
  "harmless_job_update f \<longleftrightarrow> (\<forall>j. job_id (f j) = job_id j \<and> job_gateway_id (f j) = job_gateway_id j)"

lemma remove_gateway_rows_returns:
  assumes "remove_gateway_rows E g jid w = (Inr x, w')"
  shows "(db w' = deleted_gateway g (db w) \<or>
          (\<exists>t k f. harmless_job_update f \<and> db w' = upd_job t k f (deleted_gateway g (db w)))) \<and> stored w' = db w'"
proof -
  let ?w = "w\<lparr>db := deleted_gateway g (db w)\<rparr>"
  obtain b w1 where fin: "(if b then jobs_update_status E (the jid) JCompleted None else ret ()) ?w = (Inr (), w1)"
      and c: "commit E w1 = (Inr x, w')"
    using assms by (auto simp: remove_gateway_rows_def bindM_returns thenM_returns release_vm_ip_run
        release_udp_port_run gateways_delete_def deleted_gateway_def simp del: upd_defs)
  have "db w1 = deleted_gateway g (db w) \<or> (\<exists>t. db w1 = upd_job t (the jid)
      (job_status_update (\<lambda>_. JCompleted)) (deleted_gateway g (db w)))"
    using fin by (cases b) (fastforce simp del: upd_defs dest: jobs_update_status_returns)+
  moreover have "harmless_job_update (job_status_update (\<lambda>_. JCompleted))"
    by (simp add: harmless_job_update_def)
  ultimately show ?thesis using commit_returns [OF c] by auto
qed

lemma keeps_delete_node:
  "stable J \<Longrightarrow> keeps J (ignore_headscale (bindM (delete_gateway_headscale_node E tip hs) (\<lambda>_. ret ())))"
  by (intro keeps_intros)

lemma keeps_delete_vm:
  "stable J \<Longrightarrow> keeps J (try_except (bindM (gateway_incus_client E wk) (\<lambda>c. delete_gateway_vm E c name)) (\<lambda>_. ret ()))"
  by (intro keeps_intros)

lemma execute_delete_gateway_returns:
  assumes "execute_delete_gateway E gid jid w = (Inr x, w')" and "gateways_get_by_id gid (db w) = Some g"
  shows "(db w' = deleted_gateway g (db w) \<or>
          (\<exists>t k f. harmless_job_update f \<and> db w' = upd_job t k f (deleted_gateway g (db w)))) \<and> stored w' = db w'"
proof -
  let ?hs = "ignore_headscale (bindM (delete_gateway_headscale_node E (known_exit_node g)
                (gateway_headscale_hostnames g)) (\<lambda>_. ret ()))"
  let ?vm = "\<lambda>wk. try_except (bindM (gateway_incus_client E wk)
                (\<lambda>c. delete_gateway_vm E c (gw_incus_instance g))) (\<lambda>_. ret ())"
  from assms have "thenM ?hs (bindM (resolve_worker g) (\<lambda>wk. thenM (?vm wk) (remove_gateway_rows E g jid))) w =
      (Inr x, w')"
    unfolding execute_delete_gateway_def bindM_def [of "get_db (gateways_get_by_id gid)"] by simp
  then obtain w1 wk w2 where
    hs: "?hs w = (Inr (), w1)" and vm: "?vm wk w1 = (Inr (), w2)" and
    rows: "remove_gateway_rows E g jid w2 = (Inr x, w')"
    by (auto simp: bindM_returns [of "resolve_worker g"] thenM_returns resolve_worker_returns)
  have "db w1 = db w"
    using stable_run [of ?hs, OF hs] keeps_delete_node by blast
  moreover have "db w2 = db w1"
    using stable_run [of "?vm wk", OF vm] keeps_delete_vm by blast
  ultimately show ?thesis using remove_gateway_rows_returns [OF rows] by simp
qed


lemma reset_failed_job_returns:
  assumes "jobs_reset_failed_job E gid w = (Inr r, w')" and "keyed job_id (jobs (db w))"
  shows "gateways (db w') = gateways (db w) \<and>
         (\<forall>j. r = Some j \<longrightarrow> j \<in> set (jobs (db w')) \<and> job_gateway_id j = Some gid \<and>
                job_type j = CreateGateway \<and> job_status j = JPending)"
proof (cases "jobs_get_latest_create_job gid (db w)")
  case None
  with assms show ?thesis by (simp add: jobs_reset_failed_job_def bindM_def)
next
  case (Some l)
  let ?f = "\<lambda>j. j\<lparr>job_status := JPending, job_error := None\<rparr>"
  from Some assms(1) obtain w1 where
    st: "(if job_status l \<in> {JFailed, JCompleted, JRunning}
          then thenM (mod_job E (job_id l) ?f) (flush E) else ret ()) w = (Inr (), w1)" and
    r: "r = (case jobs_get_by_id (job_id l) (db w1) of
               Some j' \<Rightarrow> if job_status j' = JPending then Some j' else None | None \<Rightarrow> None)" and
    w': "w' = w1"
    by (auto simp: jobs_reset_failed_job_def bindM_returns thenM_returns simp del: upd_defs)
  have l: "l \<in> set (jobs (db w))" "job_gateway_id l = Some gid" "job_type l = CreateGateway"
    using latest_create_job_SomeD [OF Some] by simp_all
  have gws: "gateways (db w1) = gateways (db w)"
    using st by (auto simp: thenM_returns split: if_splits dest!: flush_returns)
  have "\<exists>j. jobs_get_by_id (job_id l) (db w1) = Some j \<and> job_gateway_id j = Some gid \<and> job_type j = CreateGateway"
    using st jobs_get_mem [OF assms(2) l(1)] l
    by (auto simp: thenM_returns jobs_get_upd_job simp del: upd_defs split: if_splits dest!: flush_returns)
  then obtain j where j: "jobs_get_by_id (job_id l) (db w1) = Some j" "job_gateway_id j = Some gid"
      "job_type j = CreateGateway" by blast
  with gws show ?thesis
    using r jobs_get_by_id_SomeD [OF j(1)] by (auto simp: w' split: if_splits)
qed

lemma prepare_provisioning_returns:
  assumes "prepare_provisioning E gid w = (Inr x, w')" and "keyed job_id (jobs (db w))"
  shows "\<exists>g j. gateways_get_by_id gid (db w') = Some g \<and> gw_status g \<noteq> GError \<and>
           jobs_get_pending_for_gateway gid (db w') = Some j \<and> job_gateway_id j = Some gid \<and>
           job_status j = JPending \<and> stored w' = db w'"
proof -
  let ?must = "\<lambda>g. must_reopen g (jobs_get_latest_create_job gid (db w))"
  from assms(1) obtain g w1 r w2 w3 y where
    g: "gateways_get_by_id gid (db w) = Some g" and
    st: "(if ?must g then reopen_gateway E gid else ret ()) w = (Inr (), w1)" and
    r: "jobs_reset_failed_job E gid w1 = (Inr r, w2)" and
    j: "(if r = None then bindM (jobs_create E (new_job CreateGateway gid)) (\<lambda>_. ret ()) else ret ()) w2 = (Inr (), w3)" and
    c: "commit E w3 = (Inr y, w')"
    unfolding prepare_provisioning_def bindM_returns thenM_returns get_gateway_returns get_db_run
    by auto
  have b: "gw_status g = GError \<longrightarrow> ?must g" by (simp add: must_reopen_def)
  have jobs1: "jobs (db w1) = jobs (db w)"
    using st by (auto simp: reopen_gateway_def thenM_returns split: if_splits dest!: gateways_update_status_returns)
  have w1: "\<exists>g1. gateways_get_by_id gid (db w1) = Some g1 \<and> gw_status g1 \<noteq> GError"
    using st g b
    by (auto simp: reopen_gateway_def thenM_returns gateways_get_by_id_upd simp del: upd_gateway_def split: if_splits
        dest!: gateways_update_status_returns)
  note r' = reset_failed_job_returns [OF r, unfolded jobs1, OF assms(2)]
  have w3: "gateways (db w3) = gateways (db w1)"
    "\<exists>j \<in> set (jobs (db w3)). job_gateway_id j = Some gid \<and> job_status j = JPending"
    using j r' by (auto simp: bindM_returns new_job_def split: if_splits dest!: jobs_create_returns)
  then obtain k where "jobs_get_pending_for_gateway gid (db w3) = Some k"
    unfolding jobs_get_pending_for_gateway_def by (metis (mono_tags, lifting) find_None_iff_all not_None_eq)
  moreover have "db w' = db w3" "stored w' = db w'" using commit_returns [OF c] by simp_all
  ultimately show ?thesis
    using w1 w3(1) pending_for_gateway_SomeD [of gid "db w3" k] by (auto simp: gateways_get_by_id_def)
qed

text \<open>
  After \<open>prepare_provisioning\<close> returned, the gateway has a pending job and is not in status
  error, and everything is committed: the worker thread that runs next finds its job.
\<close>

theorem prepare_provisioning_ready:
  assumes "prepare_provisioning E gid w = (Inr x, w')" and "keyed job_id (jobs (db w))"
  shows "\<exists>g j. gateways_get_by_id gid (db w') = Some g \<and> gw_status g \<noteq> GError \<and>
           jobs_get_pending_for_gateway gid (db w') = Some j \<and> job_gateway_id j = Some gid \<and>
           job_status j = JPending \<and> stored w' = db w'"
  by (rule prepare_provisioning_returns [OF assms])

lemma keeps_rename_gateway: "stable J \<Longrightarrow> keeps J (rename_node_of_gateway E g n)"
  unfolding rename_node_of_gateway_def by (intro keeps_intros)

lemma hostname_free_of_find:
  assumes "gateways_get_by_tailscale_hostname v d = None \<or>
           gw_id (the (gateways_get_by_tailscale_hostname v d)) = gid"
    and "gateways_get_by_id gid d = Some g" and "gw_tailscale_hostname g \<noteq> v" and "keyed gw_id (gateways d)"
  shows "v \<notin> gw_tailscale_hostname ` set (gateways d)"
proof (cases "gateways_get_by_tailscale_hostname v d")
  case None
  then show ?thesis by (auto simp: gateways_get_by_tailscale_hostname_def find_None_iff_all)
next
  case (Some r)
  then have r: "r \<in> set (gateways d)" "gw_tailscale_hostname r = v"
    unfolding gateways_get_by_tailscale_hostname_def by (auto dest: find_Some_in)
  with Some assms(1) have "gw_id r = gid" by simp
  with r(1) assms(4) have "gateways_get_by_id gid d = Some r"
    by (auto simp: gateways_get_by_id_def keyed_def tbl_get_mem)
  with assms(2,3) r(2) show ?thesis by simp
qed

lemma distinct_map_upd:
  assumes "keyed k rs" and "distinct (map f rs)" and "v \<notin> f ` set rs" and "\<And>r. f (h r) = v"
  shows "distinct (map f (tbl_upd k i h rs))"
  using assms(1-3)
proof (induction rs)
  case Nil
  then show ?case by (simp add: tbl_upd_def)
next
  case (Cons a rs)
  then have ih: "distinct (map f (tbl_upd k i h rs))" by (simp add: keyed_def)
  show ?case
  proof (cases "k a = i")
    case True
    then have "k r \<noteq> i" if "r \<in> set rs" for r using Cons.prems(1) imageI [OF that, of k] by (auto simp: keyed_def)
    then have "tbl_upd k i h rs = rs" by (simp add: tbl_upd_def map_idI)
    with Cons.prems True assms(4) ih show ?thesis by (simp add: tbl_upd_def)
  next
    case False
    have "f a \<notin> f ` set (tbl_upd k i h rs)"
    proof
      assume "f a \<in> f ` set (tbl_upd k i h rs)"
      then obtain r where "r \<in> set rs" "f a = f (if k r = i then h r else r)" by (auto simp: tbl_upd_def)
      with Cons.prems(2,3) assms(4) show False by (cases "k r = i") auto
    qed
    moreover have "tbl_upd k i h (a # rs) = a # tbl_upd k i h rs" using False by (simp add: tbl_upd_def)
    ultimately show ?thesis using ih by simp
  qed
qed

text \<open>
  Renaming on Headscale keeps the display names of the gateways pairwise distinct: when the call
  returns, the gateway is ready and carries the normalised new name, committed, and no two gateways
  share a name if none did before.
\<close>

theorem rename_keeps_names_distinct:
  assumes "rename_tailscale_display_name E gid s w = (Inr x, w')"
    and "keyed gw_id (gateways (db w))" and "distinct (map gw_tailscale_hostname (gateways (db w)))"
  shows "\<exists>g v. gateways_get_by_id gid (db w') = Some g \<and> gw_status g = GReady \<and>
           validate_tailscale_display_name s = Inr v \<and> gw_tailscale_hostname g = v \<and>
           distinct (map gw_tailscale_hostname (gateways (db w')))"
proof -
  from assms(1) obtain g v where g: "gateways_get_by_id gid (db w) = Some g" "gw_status g = GReady"
      and v: "validate_tailscale_display_name s = Inr v"
    by (auto simp: rename_tailscale_display_name_def bindM_returns [of "get_gateway gid"] get_gateway_returns
        bindM_returns [of "liftE r" for r] split: if_splits)
  show ?thesis
  proof (cases "v = gw_tailscale_hostname g")
    case True
    with assms(1) g v have "w' = w"
      by (simp add: rename_tailscale_display_name_def bindM_def get_gateway_found)
    with g v True assms(3) show ?thesis by auto
  next
    case False
    from assms(1) g v False obtain w1 where
      free: "gateways_get_by_tailscale_hostname v (db w) = None \<or>
             gw_id (the (gateways_get_by_tailscale_hostname v (db w))) = gid" and
      node: "rename_node_of_gateway E g v w = (Inr (), w1)" and
      fin: "thenM (mod_db (upd_gateway gid (\<lambda>g. g\<lparr>gw_tailscale_hostname := v\<rparr>)))
              (thenM (flush E) (thenM (commit E) (ret gid))) w1 = (Inr x, w')"
      by (auto simp: rename_tailscale_display_name_def bindM_def get_gateway_found
          thenM_returns [of "rename_node_of_gateway E g v"] simp del: upd_defs split: if_splits)
    have "db w1 = db w"
      using stable_run [of "rename_node_of_gateway E g v", OF node] keeps_rename_gateway by blast
    then have w': "db w' = upd_gateway gid (\<lambda>g. g\<lparr>gw_tailscale_hostname := v\<rparr>) (db w)"
      using fin by (auto simp: thenM_returns simp del: upd_defs dest!: flush_returns commit_returns)
    have "v \<notin> gw_tailscale_hostname ` set (gateways (db w))"
      using hostname_free_of_find [OF free g(1) _ assms(2)] False by simp
    then have "distinct (map gw_tailscale_hostname (gateways (db w')))"
      unfolding w' upd_gateway_def using distinct_map_upd [OF assms(2,3)] by simp
    moreover have "gateways_get_by_id gid (db w') = Some (g\<lparr>gw_tailscale_hostname := v\<rparr>)"
      using g(1) by (simp add: w' gateways_get_by_id_upd del: upd_gateway_def)
    ultimately show ?thesis using g(2) v by simp
  qed
qed

section \<open>Witnesses\<close>

text \<open>An environment whose answers do not depend on the history.\<close>

definition quiet_env :: env where
  "quiet_env = worker_env\<lparr>o_now := (\<lambda>h. 0), o_token := (\<lambda>h. ''tok''), o_keypair := (\<lambda>h. (''priv'', ''pub''))\<rparr>"

lemma quiet_run: "run_headscale quiet_env (c # args) w =
    (Inr (py_strip (if c = ''users'' then users_json else if c = ''preauthkeys'' then key_json else [])),
     emit (Run (''headscale'' # c # args)) w)"
  by (simp add: run_headscale_def comp_defs run_process_def headscale_cmd_def worker_env_def sample_env_def quiet_env_def)

lemma quiet_settings:
  "s_headscale_user quiet_env = ''gateways''" "o_now quiet_env = (\<lambda>h. 0)" "\<not> o_locked quiet_env h"
  "o_token quiet_env h = ''tok''" "o_keypair quiet_env h = (''priv'', ''pub'')" "s_wg_subnet_base quiet_env = ''10.8''"
  by (simp_all add: quiet_env_def worker_env_def sample_env_def)

lemma quiet_list_users: "\<exists>w'. list_users quiet_env w =
    (Inr [JObj [(''name'', JStr ''workers''), (''id'', JInt 2)],
          JObj [(''name'', JStr ''gateways''), (''id'', JInt 1)]], w') \<and> db w' = db w"
  unfolding list_users_def comp_defs quiet_run by (simp add: users_json json_iter_def)

lemma quiet_preauth: "\<exists>w'. gateway_preauth quiet_env w = (Inr \<lparr>pak_key = ''hskey'', pak_user_id = 1\<rparr>, w') \<and> db w' = db w"
proof -
  obtain w1 where w1: "list_users quiet_env w =
    (Inr [JObj [(''name'', JStr ''workers''), (''id'', JInt 2)],
          JObj [(''name'', JStr ''gateways''), (''id'', JInt 1)]], w1)" "db w1 = db w"
    using quiet_list_users by blast
  have "get_user_id quiet_env None w = (Inr 1, w1)"
    unfolding get_user_id_def comp_defs Let_def w1(1)
    by (simp add: quiet_settings json_get_def json_item_def as_dict_def dget_def json_int_def)
  then show ?thesis
    unfolding gateway_preauth_def headscale_to_value_def create_gateway_preauth_key_def comp_defs
    by (simp add: quiet_run key_json preauth_key_of_def as_dict_def dget_def w1(2))
qed

lemma quiet_resolve:
  assumes "db w = sample_db"
  shows "\<exists>w'. resolve_worker_for_gateway quiet_env (Some 1) w = (Inr sample_worker, w') \<and> db w' = sample_db"
proof -
  have "list_online_workers quiet_env w = (Inr [sample_worker], emit Clock w)"
    using assms
    by (simp add: list_online_workers_def dashboard_workers_def comp_defs status_row_def effective_status_def now_def
        quiet_settings status_at_def sample_db_def sample_worker_def wk_is_local_def workers_list_all_def
        empty_db_def HEARTBEAT_STALE_SECONDS_def second_def)
  then show ?thesis
    using assms
    by (simp add: resolve_worker_for_gateway_def comp_defs get_worker_def workers_get_by_id_def tbl_get_def
        sample_db_def sample_worker_def wk_is_local_def effective_status_def now_def quiet_settings status_at_def
        HEARTBEAT_STALE_SECONDS_def second_def empty_db_def)
qed

lemma sample_vm_loop:
  "vm_ip_loop (\<lambda>a. a \<in> set (used_vm_ips (wk_id sample_worker) sample_db))
     (broadcast \<lparr>net_addr = 167772160, net_plen = 24\<rparr>) 167772170 = Some ''10.0.0.11''"
  by code_simp

lemma sample_after_ip: "unique_ok (add_ip_alloc (wk_id sample_worker) ''10.0.0.11'' None sample_db)"
  by code_simp

lemma quiet_vm_ip:
  assumes "db w = sample_db"
  shows "allocate_vm_ip quiet_env sample_worker w =
    (Inr ''10.0.0.11'', emit Flush (w\<lparr>db := add_ip_alloc (wk_id sample_worker) ''10.0.0.11'' None sample_db\<rparr>))"
proof -
  have "wk_ip_pool_network sample_worker = ''10.0.0.0/24''" "wk_ip_pool_start sample_worker = ''10.0.0.10''"
    by (simp_all add: sample_worker_def)
  then show ?thesis
    using assms sample_vm_loop sample_after_ip
    by (simp add: allocate_vm_ip_def comp_defs sample_parse flush_def quiet_settings)
qed

definition sample_create :: create_gateway_request where
  "sample_create = \<lparr>cg_gateway_name = Some ''gw-001'', cg_udp_port = Some 51825, cg_worker_id = Some 1,
     cg_peer_group_id = None, cg_lan_ip = None, cg_macvlan_slot = None\<rparr>"

lemma sample_subnet: "allocate_wg_subnet sample_env 2 = Inr \<lparr>sa_subnet = ''10.8.3.0/24'', sa_gateway_ip = ''10.8.3.1''\<rparr>"
  by code_simp

lemma quiet_subnet: "allocate_wg_subnet quiet_env 2 = Inr \<lparr>sa_subnet = ''10.8.3.0/24'', sa_gateway_ip = ''10.8.3.1''\<rparr>"
  using sample_subnet by (simp add: allocate_wg_subnet_def quiet_settings sample_env_def)

lemma quiet_record:
  assumes "db w = add_ip_alloc (wk_id sample_worker) ''10.0.0.11'' None sample_db" and "gw_name g = ''gw-001''"
    and "gw_worker_id g = 1" and "gw_udp_port g = 51825"
  shows "\<exists>r w'. record_gateway quiet_env g tok w = (Inr r, w')"
  using assms
  by (simp add: record_gateway_def comp_defs gateways_create_def flush_def jobs_create_def commit_def
      quiet_settings add_ip_alloc_def sample_db_def empty_db_def sample_gateway_def sample_worker_def next_id_def
      unique_ok_def quiet_subnet tbl_upd_def sample_group_def append_Cons)

lemma quiet_create: "\<exists>r w'. create_gateway quiet_env sample_create (fresh_world sample_db) = (Inr r, w')"
proof -
  obtain w1 where w1: "gateway_preauth quiet_env (fresh_world sample_db) = (Inr \<lparr>pak_key = ''hskey'', pak_user_id = 1\<rparr>, w1)"
      "db w1 = sample_db"
    using quiet_preauth [of "fresh_world sample_db"] by (auto simp: fresh_world_def)
  obtain w2 where w2: "resolve_worker_for_gateway quiet_env (Some 1) (emit GenKeypair (emit GenToken w1)) = (Inr sample_worker, w2)"
      "db w2 = sample_db"
    using quiet_resolve [of "emit GenKeypair (emit GenToken w1)"] w1 by auto
  have name: "gateways_get_by_name ''gw-001'' (db (fresh_world sample_db)) = None"
    by (simp add: gateways_get_by_name_def fresh_world_def sample_db_def sample_gateway_def)
  show ?thesis
    using w1 w2 name quiet_vm_ip [OF w2(2)]
    by (simp add: create_gateway_def comp_defs sample_create_def generate_token_def generate_keypair_def quiet_settings
        gateway_port_def encrypt_value_def quiet_record new_gateway_row_def sample_worker_def)
qed


definition deleting_db :: db where
  "deleting_db = sample_db\<lparr>jobs := [(new_job DeleteGateway 1)\<lparr>job_id := 7\<rparr>],
     gateways := [sample_gateway\<lparr>gw_exit_node_id := ''pending''\<rparr>]\<rparr>"

theorem request_delete_gateway_witness:
  "fst (request_delete_gateway sample_env 1 (snd (request_delete_gateway sample_env 1 (fresh_world sample_db)))) = Inr 1"
proof -
  have run: "request_delete_gateway sample_env 1 (fresh_world sample_db) =
      (Inr 1, snd (request_delete_gateway sample_env 1 (fresh_world sample_db)))"
    by (rule run_pair) code_simp
  have "keyed job_id (jobs (db (fresh_world sample_db)))" by (simp add: fresh_world_def sample_db_def empty_db_def)
  from request_delete_gateway_idempotent [OF run this] show ?thesis by auto
qed

theorem prepare_provisioning_witness:
  "\<exists>j. jobs_get_pending_for_gateway 1 (db (snd (prepare_provisioning sample_env 1 (fresh_world sample_db)))) = Some j"
proof -
  have run: "prepare_provisioning sample_env 1 (fresh_world sample_db) =
      (Inr (), snd (prepare_provisioning sample_env 1 (fresh_world sample_db)))"
    by (rule run_pair) code_simp
  have "keyed job_id (jobs (db (fresh_world sample_db)))" by (simp add: fresh_world_def sample_db_def empty_db_def)
  from prepare_provisioning_ready [OF run this] show ?thesis by blast
qed

definition phone_db :: db where
  "phone_db = sample_db\<lparr>gateways := [sample_gateway\<lparr>gw_tailscale_hostname := ''phone'',
     gw_exit_node_id := ''100.64.0.7''\<rparr>]\<rparr>"

theorem rename_witness:
  "\<exists>w' g. rename_tailscale_display_name headscale_env 1 '' GW-One'' (fresh_world phone_db) = (Inr 1, w') \<and>
     gateways_get_by_id 1 (db w') = Some g \<and> gw_tailscale_hostname g = ''gw-one''"
proof -
  let ?w' = "snd (rename_tailscale_display_name headscale_env 1 '' GW-One'' (fresh_world phone_db))"
  have run: "rename_tailscale_display_name headscale_env 1 '' GW-One'' (fresh_world phone_db) = (Inr 1, ?w')"
    by (rule run_pair) code_simp
  have "keyed gw_id (gateways (db (fresh_world phone_db)))"
      "distinct (map gw_tailscale_hostname (gateways (db (fresh_world phone_db))))"
    by code_simp+
  moreover have "validate_tailscale_display_name '' GW-One'' = Inr ''gw-one''" by code_simp
  ultimately show ?thesis using rename_keeps_names_distinct [OF run] run by auto
qed


end
