(* ===== verification/PeerSvc.thy ===== *)
theory PeerSvc
  imports GatewaySvc WgConfig
begin

declare append_Cons [simp del]

text \<open>
  The peer service (\<open>orchestrator/services/peer_service.py\<close>): the one WireGuard backhaul peer of a
  gateway, its keys, its suspension, and the uplink the gateway routes through. Every operation
  talks to the agent of the gateway first or changes the database first, in the source's order.
\<close>

section \<open>The agent of a gateway\<close>

definition MAX_PEERS_PER_GATEWAY :: nat where
  "MAX_PEERS_PER_GATEWAY = 1"

definition default_backhaul_peer_name :: "str \<Rightarrow> str" where
  "default_backhaul_peer_name gateway_name = gateway_name @ ''-link''"

record create_peer_result =
  pr_peer :: int
  pr_client_conf :: str

definition get_agent :: "env \<Rightarrow> int \<Rightarrow> (gateway \<times> agent_client) io" where
  "get_agent E gid =
     bindM (get_gateway gid) (\<lambda>g.
     if gw_status g \<noteq> GReady then raise (ValueError (''Gateway '' @ gw_name g @ '' is not ready''))
     else
       bindM (decrypt_value E (gw_agent_token_enc g)) (\<lambda>token.
       bindM (get_db (workers_get_by_id (gw_worker_id g))) (\<lambda>wk.
       (let ins = (case wk of
                     Some r \<Rightarrow> if str_true (wk_incus_remote r) then incus_target r (gw_incus_instance g)
                               else gw_incus_instance g
                   | None \<Rightarrow> gw_incus_instance g)
        in ret (g, make_agent_client E (gw_vm_ip g) token (Some ins))))))"

definition get_peer :: "int \<Rightarrow> peer io" where
  "get_peer pid =
     bindM (get_db (peers_get_by_id pid)) (\<lambda>r.
     case r of
       Some p \<Rightarrow> ret p
     | None \<Rightarrow> raise (ValueError (''Peer '' @ str_int pid @ '' not found'')))"

section \<open>The uplink of a gateway\<close>

definition UPLINK_KEY :: str where
  "UPLINK_KEY = ''UPLINK_PEER=''"

text \<open>The loop over the lines of \<open>exit.env\<close>, with its flag.\<close>

fun uplink_lines :: "str \<Rightarrow> bool \<Rightarrow> str list \<Rightarrow> str list" where
  "uplink_lines public_key found [] = (if found then [] else [UPLINK_KEY @ public_key])"
| "uplink_lines public_key found (l # ls) =
     (if py_startswith l UPLINK_KEY then (UPLINK_KEY @ public_key) # uplink_lines public_key True ls
      else l # uplink_lines public_key found ls)"

definition set_gateway_uplink_peer :: "env \<Rightarrow> gateway \<Rightarrow> str \<Rightarrow> unit io" where
  "set_gateway_uplink_peer E g public_key =
     bindM (get_db (workers_get_by_id (gw_worker_id g))) (\<lambda>r.
     case r of
       None \<Rightarrow> ret ()
     | Some wk \<Rightarrow>
         (let target = incus_target wk (gw_incus_instance g); env_path = ''/opt/gateway-agent/exit.env'' in
          bindM (run_process E [''incus'', ''exec'', target, ''--'', ''cat'', env_path]) (\<lambda>p.
          if returncode p \<noteq> 0 then ret ()
          else push_file E target env_path
                 (py_join [CHR 0x0A] (uplink_lines public_key False (py_splitlines (stdout p))) @ [CHR 0x0A])
                 ''0600'')))"

section \<open>Configuration of the client\<close>

definition peer_client_config :: "env \<Rightarrow> gateway \<Rightarrow> str \<Rightarrow> str \<Rightarrow> str io" where
  "peer_client_config E g private_key address =
     bindM (get_endpoint g) (\<lambda>endpoint.
     ret (render_client_config
       \<lparr>cc_private_key = private_key, cc_address = address, cc_dns = s_wg_dns E,
        cc_server_public_key = gw_wg_server_pubkey g, cc_endpoint = endpoint,
        cc_allowed_ips = ipv4_allowed_ips_backhaul_uplink (gw_wg_subnet g),
        cc_persistent_keepalive = 25\<rparr>))"

definition export_config :: "env \<Rightarrow> int \<Rightarrow> str io" where
  "export_config E pid =
     bindM (get_peer pid) (\<lambda>p.
     bindM (get_db (gateways_get_by_id (peer_gateway_id p))) (\<lambda>r.
     case r of
       None \<Rightarrow> raise (ValueError ''Gateway not found'')
     | Some g \<Rightarrow>
         bindM (get_endpoint g) (\<lambda>endpoint.
         bindM (decrypt_value E (peer_private_key_enc p)) (\<lambda>private_key.
         peer_client_config E g private_key (peer_allowed_ip p)))))"

section \<open>Operations\<close>

definition create_peer :: "env \<Rightarrow> int \<Rightarrow> str \<Rightarrow> create_peer_result io" where
  "create_peer E gid pname =
     bindM (get_agent E gid) (\<lambda>(g, agent).
     bindM (get_db (peers_list_by_gateway gid)) (\<lambda>existing.
     if MAX_PEERS_PER_GATEWAY \<le> length existing
     then raise (ValueError (''Gateway '' @ gw_name g @ '' already has the backhaul peer ('' @
            peer_name (hd existing) @ '')''))
     else if filter (\<lambda>p. peer_name p = pname) existing \<noteq> []
     then raise (ValueError (''Peer '' @ pname @ '' already exists on gateway '' @ gw_name g))
     else
       bindM (generate_keypair E) (\<lambda>(priv, pub).
       bindM (allocate_peer_ip E g) (\<lambda>peer_ip.
       bindM (encrypt_value E priv) (\<lambda>priv_enc.
       bindM (peers_create E \<lparr>peer_id = 0, peer_gateway_id = gw_id g, peer_name = pname,
                peer_public_key = pub, peer_private_key_enc = priv_enc, peer_allowed_ip = peer_ip,
                peer_suspended = False, peer_created_at = 0\<rparr>) (\<lambda>pid.
       bindM (agent_add_peer E agent pub BACKHAUL_GATEWAY_PEER_ALLOWED_IPS) (\<lambda>_.
       thenM (set_gateway_uplink_peer E g pub)
      (bindM (peer_client_config E g priv peer_ip) (\<lambda>conf.
       thenM (commit E)
      (ret \<lparr>pr_peer = pid, pr_client_conf = conf\<rparr>))))))))))"

text \<open>The loop of \<open>resync_gateway_peers\<close> with \<open>synced\<close> and \<open>uplink_pubkey\<close>.\<close>

fun resync_loop :: "env \<Rightarrow> agent_client \<Rightarrow> peer list \<Rightarrow> nat \<Rightarrow> str \<Rightarrow> (nat \<times> str) io" where
  "resync_loop E agent [] synced uplink = ret (synced, uplink)"
| "resync_loop E agent (p # ps) synced uplink =
     (if peer_suspended p then resync_loop E agent ps synced uplink
      else bindM (agent_add_peer E agent (peer_public_key p) BACKHAUL_GATEWAY_PEER_ALLOWED_IPS) (\<lambda>_.
           resync_loop E agent ps (synced + 1) (peer_public_key p)))"

definition resync_gateway_peers :: "env \<Rightarrow> int \<Rightarrow> nat io" where
  "resync_gateway_peers E gid =
     bindM (get_agent E gid) (\<lambda>(g, agent).
     bindM (get_db (peers_list_by_gateway gid)) (\<lambda>ps.
     bindM (resync_loop E agent ps 0 []) (\<lambda>(synced, uplink).
     thenM (if uplink \<noteq> [] then set_gateway_uplink_peer E g uplink else ret ())
     (ret synced))))"

definition ensure_backhaul_peer :: "env \<Rightarrow> int \<Rightarrow> create_peer_result option io" where
  "ensure_backhaul_peer E gid =
     bindM (get_db (gateways_get_by_id gid)) (\<lambda>r.
     case r of
       None \<Rightarrow> ret None
     | Some g \<Rightarrow>
         if gw_status g \<noteq> GReady then ret None
         else bindM (get_db (peers_list_by_gateway gid)) (\<lambda>ps.
              if ps \<noteq> [] then ret None
              else bindM (create_peer E gid (default_backhaul_peer_name (gw_name g))) (\<lambda>res. ret (Some res))))"

definition next_peer_name :: "int \<Rightarrow> str io" where
  "next_peer_name gid =
     bindM (get_gateway gid) (\<lambda>g.
     bindM (get_db (peers_list_by_gateway gid)) (\<lambda>ps.
     if ps \<noteq> [] then raise (ValueError (''Gateway '' @ gw_name g @ '' already has a backhaul peer''))
     else ret (default_backhaul_peer_name (gw_name g))))"

definition delete_peer :: "env \<Rightarrow> int \<Rightarrow> unit io" where
  "delete_peer E pid =
     bindM (get_peer pid) (\<lambda>p.
     bindM (get_agent E (peer_gateway_id p)) (\<lambda>(g, agent).
     bindM (agent_remove_peer E agent (peer_public_key p)) (\<lambda>_.
     thenM (release_peer_ip (gw_id g) (peer_allowed_ip p))
    (thenM (peers_delete pid)
     (commit E)))))"

definition suspend_peer :: "env \<Rightarrow> int \<Rightarrow> int io" where
  "suspend_peer E pid =
     bindM (get_peer pid) (\<lambda>p.
     bindM (get_agent E (peer_gateway_id p)) (\<lambda>(g, agent).
     bindM (agent_suspend_peer E agent (peer_public_key p) (peer_allowed_ip p)) (\<lambda>_.
     thenM (peers_set_suspended E pid True)
    (thenM (commit E) (ret pid)))))"

definition resume_peer :: "env \<Rightarrow> int \<Rightarrow> int io" where
  "resume_peer E pid =
     bindM (get_peer pid) (\<lambda>p.
     bindM (get_agent E (peer_gateway_id p)) (\<lambda>(g, agent).
     bindM (agent_resume_peer E agent (peer_public_key p) (peer_allowed_ip p)) (\<lambda>_.
     thenM (peers_set_suspended E pid False)
    (thenM (commit E) (ret pid)))))"

definition regenerate_peer_keys :: "env \<Rightarrow> int \<Rightarrow> create_peer_result io" where
  "regenerate_peer_keys E pid =
     bindM (get_peer pid) (\<lambda>p.
     bindM (get_agent E (peer_gateway_id p)) (\<lambda>(g, agent).
     bindM (agent_remove_peer E agent (peer_public_key p)) (\<lambda>_.
     bindM (generate_keypair E) (\<lambda>(priv, pub).
     bindM (agent_add_peer E agent pub BACKHAUL_GATEWAY_PEER_ALLOWED_IPS) (\<lambda>_.
     bindM (encrypt_value E priv) (\<lambda>priv_enc.
     thenM (mod_db (upd_peer pid (\<lambda>p. p\<lparr>peer_public_key := pub, peer_private_key_enc := priv_enc\<rparr>)))
    (thenM (flush E)
    (bindM (peer_client_config E g priv (peer_allowed_ip p)) (\<lambda>conf.
     thenM (commit E)
    (ret \<lparr>pr_peer = pid, pr_client_conf = conf\<rparr>))))))))))"

section \<open>Facts\<close>

lemma keeps_get_agent [keeps_intros]: "stable J \<Longrightarrow> keeps J (get_agent E gid)"
  unfolding get_agent_def Let_def by (intro keeps_intros)

lemma keeps_get_peer [keeps_intros]: "keeps J (get_peer pid)"
  unfolding get_peer_def by (intro keeps_intros)

lemma keeps_uplink [keeps_intros]: "stable J \<Longrightarrow> keeps J (set_gateway_uplink_peer E g k)"
  unfolding set_gateway_uplink_peer_def Let_def by (intro keeps_intros)

lemma keeps_client_config [keeps_intros]: "stable J \<Longrightarrow> keeps J (peer_client_config E g priv a)"
  unfolding peer_client_config_def get_endpoint_def by (intro keeps_intros)

lemma keeps_resync_loop [keeps_intros]: "stable J \<Longrightarrow> keeps J (resync_loop E agent ps n u)"
  by (induction ps arbitrary: n u) (auto intro!: keeps_intros simp del: keeps_Pair)

lemma keeps_resync [keeps_intros]: "stable J \<Longrightarrow> keeps J (resync_gateway_peers E gid)"
  unfolding resync_gateway_peers_def by (intro keeps_intros)

lemma get_agent_returns:
  assumes "get_agent E gid w = (Inr (g, c), w')"
  shows "gateways_get_by_id gid (db w) = Some g \<and> gw_status g = GReady \<and> w' = w"
  using assms
  by (auto simp: get_agent_def bindM_returns get_gateway_returns decrypt_value_def Let_def split: if_splits)

lemma get_peer_returns: "get_peer pid w = (Inr p, w') \<longleftrightarrow> peers_get_by_id pid (db w) = Some p \<and> w' = w"
  by (auto simp: get_peer_def bindM_def split: option.splits)

text \<open>
  The uplink of a gateway is one setting: rewriting \<open>exit.env\<close> leaves every other line as it is and
  in its order, every line of the setting names the new key, there is such a line, and rewriting
  again with another key is the same as rewriting the original with it.
\<close>

theorem uplink_lines_correct:
  "filter (\<lambda>l. \<not> py_startswith l UPLINK_KEY) (uplink_lines k False ls) = filter (\<lambda>l. \<not> py_startswith l UPLINK_KEY) ls \<and>
   (\<forall>l \<in> set (uplink_lines k False ls). py_startswith l UPLINK_KEY \<longrightarrow> l = UPLINK_KEY @ k) \<and>
   UPLINK_KEY @ k \<in> set (uplink_lines k False ls) \<and>
   uplink_lines k' False (uplink_lines k False ls) = uplink_lines k' False ls"
proof -
  have key: "py_startswith (UPLINK_KEY @ k) UPLINK_KEY" for k
    by (simp add: py_startswith_def)
  have "filter (\<lambda>l. \<not> py_startswith l UPLINK_KEY) (uplink_lines k b ls) = filter (\<lambda>l. \<not> py_startswith l UPLINK_KEY) ls" for b
    by (induction ls arbitrary: b) (simp_all add: key)
  moreover have "l \<in> set (uplink_lines k b ls) \<Longrightarrow> py_startswith l UPLINK_KEY \<Longrightarrow> l = UPLINK_KEY @ k" for l b
    by (induction ls arbitrary: b) (auto simp del: append_Cons split: if_split_asm)
  moreover have "UPLINK_KEY @ k \<in> set (uplink_lines k False ls)"
    by (induction ls) simp_all
  moreover have "uplink_lines k' b (uplink_lines k b ls) = uplink_lines k' b ls" for b
    by (induction ls arbitrary: b) (simp_all add: key)
  ultimately show ?thesis by blast
qed

section \<open>At most one peer per gateway\<close>

definition one_peer :: "db \<Rightarrow> bool" where
  "one_peer d \<longleftrightarrow> (\<forall>gid. length (peers_list_by_gateway gid d) \<le> MAX_PEERS_PER_GATEWAY)"

definition room :: "int \<Rightarrow> world \<Rightarrow> bool" where
  "room gid w \<longleftrightarrow> db_inv one_peer w \<and> peers_list_by_gateway gid (db w) = []"

lemma one_peer_cong: "peers d' = peers d \<Longrightarrow> one_peer d' = one_peer d"
  by (simp add: one_peer_def peers_list_by_gateway_def)

lemma one_peer_upd:
  assumes "\<And>p. peer_gateway_id (f p) = peer_gateway_id p"
  shows "one_peer (upd_peer i f d) = one_peer d"
proof -
  have "length (peers_list_by_gateway gid (upd_peer i f d)) = length (peers_list_by_gateway gid d)" for gid
    using assms by (simp add: peers_list_by_gateway_def upd_peer_def tbl_upd_def filter_map comp_def if_distrib
        cong: if_cong)
  then show ?thesis by (simp add: one_peer_def del: upd_defs)
qed

lemma one_peer_filter:
  assumes "one_peer d" and "peers d' = filter P (peers d)"
  shows "one_peer d'"
proof -
  have "peers_list_by_gateway gid d' = filter P (peers_list_by_gateway gid d)" for gid
    using assms(2) by (auto simp: peers_list_by_gateway_def intro: filter_cong)
  moreover have "length (peers_list_by_gateway gid d) \<le> MAX_PEERS_PER_GATEWAY" for gid
    using assms(1) by (simp add: one_peer_def)
  ultimately show ?thesis
    unfolding one_peer_def using length_filter_le order_trans by metis
qed

lemma hoare_keeps: "keeps I m \<Longrightarrow> hoare I m (\<lambda>_. I) (\<lambda>_. I)"
  by (auto simp: hoare_def split: prod.splits sum.splits dest: keepsD)

lemma keeps_hoare:
  assumes "hoare I m (\<lambda>_. I) (\<lambda>_. I)"
  shows "keeps I m"
proof (rule keepsI)
  fix s assume "I s"
  with assms have "case m s of (Inr x, s') \<Rightarrow> I s' | (Inl e, s') \<Rightarrow> I s'" by (simp add: hoare_def)
  then show "I (snd (m s))" by (cases "m s"; cases "fst (m s)") simp_all
qed

lemma room_inv: "room gid w \<Longrightarrow> db_inv one_peer w"
  by (simp add: room_def)

lemma stable_room [keeps_intros]: "stable (room gid)"
  by (simp add: stable_def room_def)

text \<open>A step that keeps \<open>room\<close>, or fails with the invariant intact.\<close>

lemma room_keeps: "keeps (room gid) m \<Longrightarrow> hoare (room gid) m (\<lambda>_. room gid) (\<lambda>_. db_inv one_peer)"
  using hoare_keeps room_inv by (blast intro: hoare_conseq)

lemma room_flush: "hoare (room gid) (flush E) (\<lambda>_. room gid) (\<lambda>_. db_inv one_peer)"
  by (auto simp: hoare_def flush_def room_def db_inv_def rollback_w_def)

lemma room_mod_db: "(\<And>d. peers (f d) = peers d) \<Longrightarrow> keeps (room gid) (mod_db f)"
  unfolding keeps_def mod_db_def modM_def
  by (simp add: room_def db_inv_def one_peer_def peers_list_by_gateway_def)

lemma room_allocate: "hoare (room gid) (allocate_peer_ip E g) (\<lambda>_. room gid) (\<lambda>_. db_inv one_peer)"
proof -
  have store: "hoare (room gid) (thenM (mod_db (add_ip_alloc i a o')) (thenM (flush E) (ret a)))
      (\<lambda>_. room gid) (\<lambda>_. db_inv one_peer)" for i a o'
    by (rule hoare_then [OF room_keeps [OF room_mod_db] hoare_then [OF room_flush room_keeps [OF keeps_ret]]])
      (simp add: add_ip_alloc_def)
  have reads: "keeps (room gid) (liftE r)" "keeps (room gid) (get_db f)" for r f
    by (intro keeps_intros)+
  have fails: "hoare (room gid) (raise e) (\<lambda>_. room gid) (\<lambda>_. db_inv one_peer)" for e
    by (intro room_keeps keeps_intros)
  have gives: "hoare (room gid) (ret a) (\<lambda>_. room gid) (\<lambda>_. db_inv one_peer)" for a
    by (intro room_keeps keeps_intros)
  show ?thesis
    unfolding allocate_peer_ip_def
    apply (rule hoare_bind [OF room_keeps [OF reads(1)]])
    apply (rule hoare_bind [OF room_keeps [OF reads(2)]])
    apply (split option.split, intro conjI allI impI)
     apply (rule hoare_bind [OF room_keeps [OF reads(2)]])
     apply (rule hoare_bind [OF room_keeps [OF reads(1)]])
     apply (split option.split, intro conjI allI impI)
      apply (rule fails store gives)+
    done
qed

lemma room_create:
  assumes "peer_gateway_id p = gid"
  shows "hoare (room gid) (peers_create E p) (\<lambda>_. db_inv one_peer) (\<lambda>_. db_inv one_peer)"
proof -
  have "length (peers_list_by_gateway g (d\<lparr>peers := peers d @ [p']\<rparr>)) \<le> MAX_PEERS_PER_GATEWAY"
    if "one_peer d" "peers_list_by_gateway gid d = []" "peer_gateway_id p' = gid" for d p' g
    using that by (cases "g = gid") (auto simp: one_peer_def peers_list_by_gateway_def MAX_PEERS_PER_GATEWAY_def)
  then show ?thesis
    using assms
    by (auto simp: hoare_def peers_create_def comp_defs flush_def room_def db_inv_def rollback_w_def one_peer_def)
qed

lemma one_peer_upd_kept [keeps_intros]:
  "(\<And>p. peer_gateway_id (f p) = peer_gateway_id p) \<Longrightarrow> keeps (db_inv one_peer) (mod_db (upd_peer i f))"
  by (rule keeps_mod_db) (simp add: one_peer_upd del: upd_defs)

lemma one_peer_release [keeps_intros]: "keeps (db_inv one_peer) (release_peer_ip gid ip)"
  unfolding release_peer_ip_def by (rule keeps_mod_db) (simp add: one_peer_def peers_list_by_gateway_def)

lemma one_peer_delete [keeps_intros]: "keeps (db_inv one_peer) (peers_delete pid)"
  unfolding peers_delete_def
  by (rule keeps_mod_db) (erule one_peer_filter, simp add: tbl_del_def)

lemma one_peer_suspended [keeps_intros]: "keeps (db_inv one_peer) (peers_set_suspended E pid b)"
  unfolding peers_set_suspended_def by (intro keeps_intros) simp

lemma hoare_run: "hoare P m (\<lambda>_. I) (\<lambda>_. I) \<Longrightarrow> P s \<Longrightarrow> I (snd (m s))"
  by (cases "m s"; cases "fst (m s)") (auto simp: hoare_def)

lemma get_db_bind: "bindM (get_db f) k w = k (f (db w)) w"
  by (simp add: bindM_def get_db_def getM_def)

text \<open>From room for one peer, what follows the checks of \<open>create_peer\<close> leaves one.\<close>

lemma one_peer_added:
  assumes that: "gw_id g = gid"
  shows "hoare (room gid)
     (bindM (generate_keypair E) (\<lambda>(priv, pub).
       bindM (allocate_peer_ip E g) (\<lambda>peer_ip.
       bindM (encrypt_value E priv) (\<lambda>priv_enc.
       bindM (peers_create E \<lparr>peer_id = 0, peer_gateway_id = gw_id g, peer_name = pname,
                peer_public_key = pub, peer_private_key_enc = priv_enc, peer_allowed_ip = peer_ip,
                peer_suspended = False, peer_created_at = 0\<rparr>) (\<lambda>pid.
       bindM (agent_add_peer E agent pub BACKHAUL_GATEWAY_PEER_ALLOWED_IPS) (\<lambda>_.
       thenM (set_gateway_uplink_peer E g pub)
      (bindM (peer_client_config E g priv peer_ip) (\<lambda>conf.
       thenM (commit E)
      (ret \<lparr>pr_peer = pid, pr_client_conf = conf\<rparr>)))))))))
     (\<lambda>_. db_inv one_peer) (\<lambda>_. db_inv one_peer)"
proof -
  have step: "keeps (room gid) (generate_keypair E)" "keeps (room gid) (encrypt_value E x)" for x
    by (intro keeps_intros)+
  show ?thesis
    apply (rule hoare_bind [OF room_keeps [OF step(1)]])
    apply (split prod.split, intro allI impI)
    apply (rule hoare_bind [OF room_allocate])
    apply (rule hoare_bind [OF room_keeps [OF step(2)]])
    apply (rule hoare_bind [OF room_create])
     apply (simp add: that)
    apply (rule hoare_keeps)
    apply (intro keeps_intros)
    done
qed

lemma one_peer_create: "keeps (db_inv one_peer) (create_peer E gid pname)"
proof -
  show ?thesis
  proof (rule keepsI)
    fix w assume inv: "db_inv one_peer w"
    show "db_inv one_peer (snd (create_peer E gid pname w))"
    proof (cases "get_agent E gid w")
      case (Pair r w1)
      show ?thesis
      proof (cases r)
        case (Inl e)
        have "db_inv one_peer w1"
          using keepsD [OF keeps_get_agent [OF stable_db_inv] inv Pair] .
        then show ?thesis by (simp add: create_peer_def bindM_def Pair Inl)
      next
        case (Inr ga)
        obtain g agent where ga: "ga = (g, agent)" by (cases ga)
        have found: "gateways_get_by_id gid (db w) = Some g \<and> w1 = w"
          using get_agent_returns Pair unfolding Inr ga by blast
        then have id: "gw_id g = gid" by (auto simp: gateways_get_by_id_def dest: tbl_get_SomeD)
        show ?thesis
        proof (cases "peers_list_by_gateway gid (db w) = []")
          case True
          then have "room gid w" using inv by (simp add: room_def)
          from hoare_run [OF one_peer_added [OF id] this] show ?thesis
            using found True
            by (simp add: create_peer_def bindM_def [of "get_agent E gid"] get_db_bind
                Pair Inr ga MAX_PEERS_PER_GATEWAY_def)
        next
          case False
          then have "MAX_PEERS_PER_GATEWAY \<le> length (peers_list_by_gateway gid (db w))"
            by (simp add: MAX_PEERS_PER_GATEWAY_def Suc_le_eq)
          then show ?thesis using found inv
            by (simp add: create_peer_def bindM_def Pair Inr ga get_db_def)
        qed
      qed
    qed
  qed
qed

section \<open>Creating and keeping the peer\<close>

lemma allocate_peer_ip_rows:
  assumes "allocate_peer_ip E g w = (Inr ip, w')"
  shows "\<exists>as. db w' = (db w)\<lparr>ip_allocs := as\<rparr> \<and>
              (\<exists>a \<in> set as. ia_gateway_id a = Some (gw_id g) \<and> ia_address a = ip)"
proof (cases "spare_peer_alloc (gw_id g) (db w)")
  case (Some a)
  with assms have "ip = ia_address a" "w' = w"
    unfolding allocate_peer_ip_def bindM_returns by auto
  with Some show ?thesis
    by (intro exI [of _ "ip_allocs (db w)"]) (auto simp: spare_peer_alloc_def dest!: find_Some_iff_mem)
next
  case None
  with assms obtain found where
    run: "(case found of Some ip \<Rightarrow> thenM (mod_db (add_ip_alloc (gw_worker_id g) ip (Some (gw_id g))))
                                            (thenM (flush E) (ret ip))
               | None \<Rightarrow> raise (ValueError (''No available peer IPs in subnet '' @ gw_wg_subnet g))) w =
              (Inr ip, w')"
    unfolding allocate_peer_ip_def bindM_returns get_db_run liftE_run
    by (auto simp: bindM_returns)
  then have "db w' = add_ip_alloc (gw_worker_id g) ip (Some (gw_id g)) (db w)"
    by (cases found; auto simp: thenM_returns dest!: flush_returns)
  then show ?thesis by (auto simp: add_ip_alloc_def)
qed

lemma peers_create_returns:
  assumes "peers_create E p w = (Inr i, w')"
  shows "\<exists>t. i = next_id peer_id (peers (db w)) \<and>
             db w' = (db w)\<lparr>peers := peers (db w) @ [p\<lparr>peer_id := i, peer_created_at := t\<rparr>]\<rparr>"
  using assms by (auto simp: peers_create_def bindM_returns thenM_returns dest!: flush_returns)

lemma create_peer_returns:
  assumes "create_peer E gid pname w = (Inr r, w')"
  shows "\<exists>g p. gateways_get_by_id gid (db w) = Some g \<and> gw_status g = GReady \<and>
           peers_list_by_gateway gid (db w) = [] \<and> peers (db w') = peers (db w) @ [p] \<and>
           peers_list_by_gateway gid (db w') = [p] \<and> peers_get_by_id (pr_peer r) (db w') = Some p \<and>
           peer_name p = pname \<and> \<not> peer_suspended p \<and>
           (\<exists>a \<in> set (ip_allocs (db w')). ia_gateway_id a = Some gid \<and> ia_address a = peer_allowed_ip p) \<and>
           gateways (db w') = gateways (db w) \<and> stored w' = db w'"
proof -
  obtain ga w1 where "get_agent E gid w = (Inr ga, w1)"
    using assms unfolding create_peer_def bindM_returns [of "get_agent E gid"] by blast
  then obtain g agent where get: "get_agent E gid w = (Inr (g, agent), w1)" by (cases ga) auto
  have g: "gateways_get_by_id gid (db w) = Some g" "gw_status g = GReady" "w1 = w"
    using get_agent_returns [OF get] by simp_all
  then have id: "gw_id g = gid" by (auto simp: gateways_get_by_id_def dest: tbl_get_SomeD)
  have none: "peers_list_by_gateway gid (db w) = []"
  proof (rule ccontr)
    assume "\<not> ?thesis"
    then have "MAX_PEERS_PER_GATEWAY \<le> length (peers_list_by_gateway gid (db w))"
      by (simp add: MAX_PEERS_PER_GATEWAY_def Suc_le_eq)
    with assms get g(3) show False
      by (simp add: create_peer_def bindM_def [of "get_agent E gid"] get_db_bind)
  qed
  obtain priv pub w2 ip w3 enc w4 pid w5 w6 w7 conf w8 u u' where
    kp: "generate_keypair E w = (Inr (priv, pub), w2)" and ip: "allocate_peer_ip E g w2 = (Inr ip, w3)" and
    enc: "encrypt_value E priv w3 = (Inr enc, w4)" and
    new: "peers_create E \<lparr>peer_id = 0, peer_gateway_id = gw_id g, peer_name = pname,
                peer_public_key = pub, peer_private_key_enc = enc, peer_allowed_ip = ip,
                peer_suspended = False, peer_created_at = 0\<rparr> w4 = (Inr pid, w5)" and
    add: "agent_add_peer E agent pub BACKHAUL_GATEWAY_PEER_ALLOWED_IPS w5 = (Inr u, w6)" and
    up: "set_gateway_uplink_peer E g pub w6 = (Inr u', w7)" and
    conf: "peer_client_config E g priv ip w7 = (Inr conf, w8)" and
    com: "commit E w8 = (Inr (), w')" and r: "r = \<lparr>pr_peer = pid, pr_client_conf = conf\<rparr>"
    using assms get none g(3) unfolding create_peer_def bindM_returns [of "get_agent E gid"]
    by (auto simp: get_db_bind MAX_PEERS_PER_GATEWAY_def bindM_returns thenM_returns)
  have outside: "db w2 = db w" "db w4 = db w3" "db w6 = db w5" "db w7 = db w6" "db w8 = db w7"
    using stable_run [of "generate_keypair E", OF kp] stable_run [of "encrypt_value E priv", OF enc]
      stable_run [of "agent_add_peer E agent pub BACKHAUL_GATEWAY_PEER_ALLOWED_IPS", OF add]
      stable_run [of "set_gateway_uplink_peer E g pub", OF up]
      stable_run [of "peer_client_config E g priv ip", OF conf]
    by (simp_all add: keeps_intros)
  obtain as where as: "db w3 = (db w)\<lparr>ip_allocs := as\<rparr>"
      "\<exists>a \<in> set as. ia_gateway_id a = Some (gw_id g) \<and> ia_address a = ip"
    using allocate_peer_ip_rows [OF ip] outside(1) by auto
  obtain t where t: "pid = next_id peer_id (peers (db w3))"
    "db w5 = (db w3)\<lparr>peers := peers (db w3) @ [\<lparr>peer_id = pid, peer_gateway_id = gw_id g, peer_name = pname,
                peer_public_key = pub, peer_private_key_enc = enc, peer_allowed_ip = ip,
                peer_suspended = False, peer_created_at = t\<rparr>]\<rparr>"
    using peers_create_returns [OF new] outside(2) by auto
  have fin: "db w' = db w5" "stored w' = db w'"
    using commit_returns [OF com] outside by simp_all
  show ?thesis
    using g id none as t fin r
    by (intro exI [of _ g] exI [of _ "\<lparr>peer_id = pid, peer_gateway_id = gw_id g, peer_name = pname,
                peer_public_key = pub, peer_private_key_enc = enc, peer_allowed_ip = ip,
                peer_suspended = False, peer_created_at = t\<rparr>"])
       (simp add: peers_list_by_gateway_def peers_get_by_id_def tbl_get_new)
qed

text \<open>
  C13: A peer is created only on a gateway that is READY and has no peer; the new row is the only
  change of the table of peers, it belongs to the gateway under the given name with the generated
  public key and an address allocated to that gateway, it is not suspended, and the whole is
  committed when the call returns.
\<close>

theorem create_peer_correct:
  assumes "create_peer E gid pname w = (Inr r, w')"
  shows "\<exists>g p. gateways_get_by_id gid (db w) = Some g \<and> gw_status g = GReady \<and>
           peers_list_by_gateway gid (db w) = [] \<and> peers (db w') = peers (db w) @ [p] \<and>
           peers_list_by_gateway gid (db w') = [p] \<and> peers_get_by_id (pr_peer r) (db w') = Some p \<and>
           peer_name p = pname \<and> \<not> peer_suspended p \<and>
           (\<exists>a \<in> set (ip_allocs (db w')). ia_gateway_id a = Some gid \<and> ia_address a = peer_allowed_ip p) \<and>
           gateways (db w') = gateways (db w) \<and> stored w' = db w'"
  by (rule create_peer_returns [OF assms])

text \<open>
  Making sure of the backhaul peer is idempotent: after a call that returned, whatever it did, a
  second call finds nothing to do, contacts nobody and changes nothing.
\<close>

theorem ensure_backhaul_peer_idempotent:
  assumes "ensure_backhaul_peer E gid w = (Inr r, w')"
  shows "ensure_backhaul_peer E gid w' = (Inr None, w')"
proof -
  have idle: "ensure_backhaul_peer E gid v = (Inr None, v)" if "peers_list_by_gateway gid (db v) \<noteq> []" for v
    using that by (simp add: ensure_backhaul_peer_def get_db_bind split: option.split)
  show ?thesis
  proof (cases "ensure_backhaul_peer E gid w = (Inr None, w)")
    case True
    with assms show ?thesis by simp
  next
    case False
    then have none: "peers_list_by_gateway gid (db w) = []" using idle by blast
    obtain g where g: "gateways_get_by_id gid (db w) = Some g" "gw_status g = GReady"
      using False by (fastforce simp: ensure_backhaul_peer_def get_db_bind split: option.splits if_splits)
    obtain res where "create_peer E gid (default_backhaul_peer_name (gw_name g)) w = (Inr res, w')"
      using assms g none by (auto simp: ensure_backhaul_peer_def get_db_bind bindM_returns)
    from create_peer_returns [OF this] show ?thesis using idle by auto
  qed
qed

text \<open>
  No operation of the service gives a gateway a second peer: if every gateway has at most
  \<open>MAX_PEERS_PER_GATEWAY\<close> peers in the session and in the database, this is so after each operation,
  whether it returns or raises, and at whatever point it failed.
\<close>

theorem at_most_one_peer:
  "keeps (db_inv one_peer) (create_peer E gid pname) \<and>
   keeps (db_inv one_peer) (ensure_backhaul_peer E gid) \<and>
   keeps (db_inv one_peer) (resync_gateway_peers E gid) \<and>
   keeps (db_inv one_peer) (delete_peer E pid) \<and>
   keeps (db_inv one_peer) (suspend_peer E pid) \<and>
   keeps (db_inv one_peer) (resume_peer E pid) \<and>
   keeps (db_inv one_peer) (regenerate_peer_keys E pid)"
  unfolding ensure_backhaul_peer_def delete_peer_def suspend_peer_def resume_peer_def regenerate_peer_keys_def
  by (intro conjI one_peer_create keeps_intros; simp)

lemma suspend_peer_returns:
  assumes "suspend_peer E pid w = (Inr i, w')"
  shows "i = pid \<and> db w' = upd_peer pid (\<lambda>p. p\<lparr>peer_suspended := True\<rparr>) (db w) \<and> stored w' = db w'"
proof -
  obtain p ga u w1 w2 w3 where p: "get_peer pid w = (Inr p, w)" and
    g: "get_agent E (peer_gateway_id p) w = (Inr ga, w1)" and
    a: "agent_suspend_peer E (snd ga) (peer_public_key p) (peer_allowed_ip p) w1 = (Inr u, w2)" and
    s: "peers_set_suspended E pid True w2 = (Inr (), w3)" and c: "commit E w3 = (Inr (), w')" "i = pid"
    using assms unfolding suspend_peer_def bindM_returns thenM_returns get_peer_returns
    by (auto simp: bindM_returns thenM_returns)
  have "db w2 = db w"
    using stable_run [of "get_agent E (peer_gateway_id p)", OF g]
      stable_run [of "agent_suspend_peer E (snd ga) (peer_public_key p) (peer_allowed_ip p)", OF a]
    by (simp add: keeps_intros)
  then show ?thesis
    using s c commit_returns [OF c(1)]
    by (auto simp: peers_set_suspended_def thenM_returns simp del: upd_defs dest!: flush_returns)
qed

lemma resume_peer_returns:
  assumes "resume_peer E pid w = (Inr i, w')"
  shows "i = pid \<and> db w' = upd_peer pid (\<lambda>p. p\<lparr>peer_suspended := False\<rparr>) (db w) \<and> stored w' = db w'"
proof -
  obtain p ga u w1 w2 w3 where p: "get_peer pid w = (Inr p, w)" and
    g: "get_agent E (peer_gateway_id p) w = (Inr ga, w1)" and
    a: "agent_resume_peer E (snd ga) (peer_public_key p) (peer_allowed_ip p) w1 = (Inr u, w2)" and
    s: "peers_set_suspended E pid False w2 = (Inr (), w3)" and c: "commit E w3 = (Inr (), w')" "i = pid"
    using assms unfolding resume_peer_def bindM_returns thenM_returns get_peer_returns
    by (auto simp: bindM_returns thenM_returns)
  have "db w2 = db w"
    using stable_run [of "get_agent E (peer_gateway_id p)", OF g]
      stable_run [of "agent_resume_peer E (snd ga) (peer_public_key p) (peer_allowed_ip p)", OF a]
    by (simp add: keeps_intros)
  then show ?thesis
    using s c commit_returns [OF c(1)]
    by (auto simp: peers_set_suspended_def thenM_returns simp del: upd_defs dest!: flush_returns)
qed

text \<open>
  C14: Suspending and resuming are inverse: a suspended peer keeps its row with the flag set, nothing
  else of the database changes, and resuming an active peer that was suspended gives the table of
  peers back as it was, committed.
\<close>

theorem suspend_resume_roundtrip:
  assumes "suspend_peer E pid w = (Inr i, w1)" and "resume_peer E pid w1 = (Inr j, w2)"
    and "peers_get_by_id pid (db w) = Some p" and "\<not> peer_suspended p" and "keyed peer_id (peers (db w))"
  shows "peers_get_by_id pid (stored w1) = Some (p\<lparr>peer_suspended := True\<rparr>) \<and>
         db w2 = db w \<and> stored w2 = db w"
proof -
  note up = suspend_peer_returns [OF assms(1)] and down = resume_peer_returns [OF assms(2)]
  have same: "tbl_upd peer_id pid (\<lambda>p. p\<lparr>peer_suspended := False\<rparr>)
      (tbl_upd peer_id pid (\<lambda>p. p\<lparr>peer_suspended := True\<rparr>) (peers (db w))) = peers (db w)"
  proof -
    have "\<not> peer_suspended q" if "q \<in> set (peers (db w))" "peer_id q = pid" for q
    proof -
      have "peers_get_by_id pid (db w) = Some q"
        using that assms(5) unfolding peers_get_by_id_def keyed_def by (metis tbl_get_mem)
      with assms(3,4) show ?thesis by simp
    qed
    then show ?thesis by (auto simp: tbl_upd_def intro!: map_idI)
  qed
  then have "db w2 = db w" using up down by (simp add: upd_peer_def)
  moreover have "peers_get_by_id pid (db w1) = Some (p\<lparr>peer_suspended := True\<rparr>)"
    using up assms(3) by (simp add: upd_peer_def peers_get_by_id_def tbl_get_upd)
  ultimately show ?thesis using up down by simp
qed

section \<open>Resynchronisation\<close>

definition active_peers :: "int \<Rightarrow> db \<Rightarrow> peer list" where
  "active_peers gid d = filter (\<lambda>p. \<not> peer_suspended p) (peers_list_by_gateway gid d)"

text \<open>What \<open>resync_gateway_peers\<close> is to do, without its loop and its two variables.\<close>

fun add_peers :: "env \<Rightarrow> agent_client \<Rightarrow> peer list \<Rightarrow> unit io" where
  "add_peers E agent [] = ret ()"
| "add_peers E agent (p # ps) =
     bindM (agent_add_peer E agent (peer_public_key p) BACKHAUL_GATEWAY_PEER_ALLOWED_IPS) (\<lambda>_.
     add_peers E agent ps)"

definition resync_spec :: "env \<Rightarrow> int \<Rightarrow> nat io" where
  "resync_spec E gid =
     bindM (get_agent E gid) (\<lambda>(g, agent).
     bindM (get_db (active_peers gid)) (\<lambda>ps.
     thenM (add_peers E agent ps)
    (thenM (if ps \<noteq> [] \<and> peer_public_key (last ps) \<noteq> []
            then set_gateway_uplink_peer E g (peer_public_key (last ps)) else ret ())
    (ret (length ps)))))"

lemma resync_loop_active:
  "resync_loop E agent ps n u =
     thenM (add_peers E agent (filter (\<lambda>p. \<not> peer_suspended p) ps))
       (ret (n + length (filter (\<lambda>p. \<not> peer_suspended p) ps),
             if filter (\<lambda>p. \<not> peer_suspended p) ps = [] then u
             else peer_public_key (last (filter (\<lambda>p. \<not> peer_suspended p) ps))))"
proof (induction ps arbitrary: n u)
  case Nil
  show ?case by (simp add: fun_eq_iff thenM_def)
next
  case (Cons p ps)
  show ?case
    by (auto simp: Cons.IH fun_eq_iff bindM_def thenM_def split: prod.splits sum.splits)
qed

text \<open>
  C15: Resynchronising a gateway gives its agent exactly the peers of the gateway that are not
  suspended, in their order, and makes the last of them the uplink; the loop with its counter and
  its last key is equal to that description on every input, errors included.
\<close>

theorem resync_gateway_peers_spec: "resync_gateway_peers E gid = resync_spec E gid"
proof -
  have bind: "bindM (thenM m (ret x)) k = thenM m (k x)" for m :: "unit io" and x :: "nat \<times> str" and k :: "nat \<times> str \<Rightarrow> nat io"
    by (simp add: fun_eq_iff bindM_def thenM_def split: prod.split sum.split)
  have "(\<lambda>(g, agent). bindM (get_db (peers_list_by_gateway gid)) (\<lambda>ps.
            bindM (resync_loop E agent ps 0 []) (\<lambda>(synced, uplink).
            thenM (if uplink \<noteq> [] then set_gateway_uplink_peer E g uplink else ret ()) (ret synced)))) =
     (\<lambda>(g, agent). bindM (get_db (active_peers gid)) (\<lambda>ps. thenM (add_peers E agent ps)
       (thenM (if ps \<noteq> [] \<and> peer_public_key (last ps) \<noteq> []
            then set_gateway_uplink_peer E g (peer_public_key (last ps)) else ret ())
       (ret (length ps)))))"
    by (auto simp: fun_eq_iff get_db_bind resync_loop_active bind active_peers_def)
  then show ?thesis by (simp add: resync_gateway_peers_def resync_spec_def)
qed

section \<open>Witnesses\<close>

theorem uplink_lines_witness:
  "UPLINK_KEY @ ''new'' \<in> set (uplink_lines ''new'' False [''A=1'', ''UPLINK_PEER=old'', ''B=2''])"
  using uplink_lines_correct [where k = "''new''" and ls = "[''A=1'', ''UPLINK_PEER=old'', ''B=2'']"] by blast

definition sample_peer :: peer where
  "sample_peer = \<lparr>peer_id = 1, peer_gateway_id = 1, peer_name = ''gw-000-link'', peer_public_key = ''pk'',
     peer_private_key_enc = ''sk#'', peer_allowed_ip = ''10.8.2.2'', peer_suspended = False, peer_created_at = 0\<rparr>"

definition peer_db :: db where
  "peer_db = sample_db\<lparr>peers := [sample_peer]\<rparr>"

theorem suspend_resume_witness:
  "db (snd (resume_peer sample_env 1 (snd (suspend_peer sample_env 1 (fresh_world peer_db))))) = peer_db"
proof -
  let ?w1 = "snd (suspend_peer sample_env 1 (fresh_world peer_db))"
  have "suspend_peer sample_env 1 (fresh_world peer_db) = (Inr 1, ?w1)"
    "resume_peer sample_env 1 ?w1 = (Inr 1, snd (resume_peer sample_env 1 ?w1))"
    by (rule run_pair, code_simp)+
  moreover have "peers_get_by_id 1 (db (fresh_world peer_db)) = Some sample_peer" "\<not> peer_suspended sample_peer"
    "keyed peer_id (peers (db (fresh_world peer_db)))" by code_simp+
  ultimately show ?thesis using suspend_resume_roundtrip by (fastforce simp: fresh_world_def)
qed

theorem create_peer_witness:
  "\<exists>p. peers (db (snd (create_peer sample_env 1 ''gw-000-link'' (fresh_world sample_db)))) = [p] \<and>
     peer_gateway_id p = 1"
proof -
  have "\<not> isl (fst (create_peer sample_env 1 ''gw-000-link'' (fresh_world sample_db)))" by code_simp
  then obtain r where "create_peer sample_env 1 ''gw-000-link'' (fresh_world sample_db) =
      (Inr r, snd (create_peer sample_env 1 ''gw-000-link'' (fresh_world sample_db)))"
    by (metis isl_def old.sum.exhaust prod.collapse)
  from create_peer_correct [OF this] show ?thesis
    by (auto simp: peers_list_by_gateway_def fresh_world_def sample_db_def empty_db_def filter_eq_Cons_iff)
qed

theorem ensure_backhaul_peer_witness:
  "fst (ensure_backhaul_peer sample_env 1 (snd (ensure_backhaul_peer sample_env 1 (fresh_world sample_db)))) = Inr None"
proof -
  have "\<not> isl (fst (ensure_backhaul_peer sample_env 1 (fresh_world sample_db)))" by code_simp
  then obtain r where "ensure_backhaul_peer sample_env 1 (fresh_world sample_db) =
      (Inr r, snd (ensure_backhaul_peer sample_env 1 (fresh_world sample_db)))"
    by (metis isl_def old.sum.exhaust prod.collapse)
  from ensure_backhaul_peer_idempotent [OF this] show ?thesis by simp
qed

end
