(* ===== verification/Lifecycle.thy ===== *)
theory Lifecycle
  imports PeerSvc
begin

declare append_Cons [simp del]

text \<open>
  The two long operations of a gateway (\<open>orchestrator/services/gateway_service.py\<close>): its
  provisioning, from the decryption of its secrets to the backhaul peer, and its restart. The
  variables of the cloud-init templates (\<open>orchestrator/cloudinit/renderer.py\<close>) are listed here; the
  rendering itself is \<open>jinja2\<close>, the field \<open>o_render\<close> of the environment.
\<close>

section \<open>Cloud-init\<close>

record cloud_init_params =
  ci_gateway_name :: str
  ci_wg_private_key :: str
  ci_wg_gateway_ip :: str
  ci_wg_subnet :: str
  ci_wg_listen_port :: int
  ci_headscale_url :: str
  ci_tailscale_auth_key :: str
  ci_agent_token :: str
  ci_orch_allowed_ip :: str
  ci_vm_ip :: str
  ci_agent_port :: int
  ci_gateway_agent_wheel_url :: str
  ci_use_golden_image :: bool
  ci_net_interface :: str
  ci_wg_mtu :: int
  ci_exit_mtu :: int

text \<open>The keyword arguments of \<open>template.render(**params.__dict__)\<close>, as text.\<close>

definition template_vars :: "cloud_init_params \<Rightarrow> (str \<times> str) list" where
  "template_vars p =
     [(''gateway_name'', ci_gateway_name p), (''wg_private_key'', ci_wg_private_key p),
      (''wg_gateway_ip'', ci_wg_gateway_ip p), (''wg_subnet'', ci_wg_subnet p),
      (''wg_listen_port'', str_int (ci_wg_listen_port p)), (''headscale_url'', ci_headscale_url p),
      (''tailscale_auth_key'', ci_tailscale_auth_key p), (''agent_token'', ci_agent_token p),
      (''orch_allowed_ip'', ci_orch_allowed_ip p), (''vm_ip'', ci_vm_ip p),
      (''agent_port'', str_int (ci_agent_port p)),
      (''gateway_agent_wheel_url'', ci_gateway_agent_wheel_url p),
      (''use_golden_image'', if ci_use_golden_image p then ''True'' else ''False''),
      (''net_interface'', ci_net_interface p), (''wg_mtu'', str_int (ci_wg_mtu p)),
      (''exit_mtu'', str_int (ci_exit_mtu p))]"

definition render_user_data :: "env \<Rightarrow> cloud_init_params \<Rightarrow> str" where
  "render_user_data E p =
     o_render E (if ci_use_golden_image p then ''user-data-golden.yaml.j2'' else ''user-data.yaml.j2'')
       (template_vars p)"

definition render_openwrt_setup :: "env \<Rightarrow> cloud_init_params \<Rightarrow> str" where
  "render_openwrt_setup E p = o_render E ''openwrt-setup.sh.j2'' (template_vars p)"

section \<open>Provisioning\<close>

definition gateway_params ::
  "env \<Rightarrow> gateway \<Rightarrow> worker \<Rightarrow> subnet_allocation \<Rightarrow> str \<Rightarrow> str \<Rightarrow> str \<Rightarrow> cloud_init_params" where
  "gateway_params E g wk subnet wg_priv ts_key agent_token =
     \<lparr>ci_gateway_name = gw_name g, ci_wg_private_key = wg_priv, ci_wg_gateway_ip = sa_gateway_ip subnet,
      ci_wg_subnet = sa_subnet subnet, ci_wg_listen_port = gw_udp_port g,
      ci_headscale_url = headscale_url_for_worker E (wk_is_local wk), ci_tailscale_auth_key = ts_key,
      ci_agent_token = agent_token, ci_orch_allowed_ip = s_orch_host_ip E, ci_vm_ip = gw_vm_ip g,
      ci_agent_port = s_agent_port E, ci_gateway_agent_wheel_url = s_gateway_agent_wheel_url E,
      ci_use_golden_image = py_startswith (s_incus_image E) ''local:'',
      ci_net_interface = s_incus_net_interface E,
      ci_wg_mtu = BACKHAUL_WG_MTU, ci_exit_mtu = GATEWAY_EXIT_MTU\<rparr>"

text \<open>\<open>stage\<close> and \<open>heartbeat\<close>: nothing without a job.\<close>

definition stage :: "env \<Rightarrow> int option \<Rightarrow> str \<Rightarrow> unit io" where
  "stage E jid name = (case jid of Some j \<Rightarrow> set_provision_stage E j name True | None \<Rightarrow> ret ())"

text \<open>\<open>setup_script\<close> and \<open>user_data\<close> for the provisioner in use.\<close>

definition instance_scripts :: "env \<Rightarrow> cloud_init_params \<Rightarrow> str \<times> str option" where
  "instance_scripts E p =
     (if s_incus_provisioner E = ''openwrt'' then ([], Some (render_openwrt_setup E p))
      else (render_user_data E p, None))"

definition launch_instance :: "env \<Rightarrow> int option \<Rightarrow> gateway \<Rightarrow> worker \<Rightarrow> cloud_init_params \<Rightarrow> unit io" where
  "launch_instance E jid g wk p =
     thenM (gateways_update_status E (gw_id g) GProvisioning None)
    (thenM (stage E jid STAGE_VM_LAUNCH)
    (thenM (commit E)
    (bindM (gateway_incus_client E wk) (\<lambda>client.
     bindM (launch_gateway_vm E client (gw_incus_instance g) (gw_vm_ip g) (gw_udp_port g)
              (fst (instance_scripts E p)) (snd (instance_scripts E p))
              (Some (incus_target wk (gw_incus_instance g)))
              (if wk_is_local wk then None else Some (wk_public_ip wk)) True) (\<lambda>_. ret ())))))"

text \<open>The first wait: \<open>agent.health()\<close> is tried until it answers at all, then the wait goes on.\<close>

definition wait_cloud_init :: "env \<Rightarrow> int option \<Rightarrow> agent_client \<Rightarrow> unit io" where
  "wait_cloud_init E jid agent =
     bindM (poll E (min 300 (s_provisioning_timeout_seconds E) * second) (5 * second)
       (thenM (stage E jid STAGE_CLOUD_INIT)
         (try_except (bindM (agent_health E agent) (\<lambda>_. ret (Some ()))) (\<lambda>_. ret None)))) (\<lambda>_. ret ())"

definition agent_timeout_detail :: "env \<Rightarrow> agent_client \<Rightarrow> str io" where
  "agent_timeout_detail E agent =
     (let detail = ''Agent health check timed out (WireGuard or Tailscale not online)'' in
      try_except
        (bindM (agent_health E agent) (\<lambda>health.
         bindM (liftE (json_get health ''wg_online'')) (\<lambda>wg.
         bindM (liftE (json_get health ''tailscale_online'')) (\<lambda>ts.
         bindM (liftE (json_get health ''exit_node_configured'')) (\<lambda>ex.
         ret (detail @ '': wg='' @ json_str wg @ '' ts='' @ json_str ts @ '' exit='' @ json_str ex))))))
        (\<lambda>_. ret detail))"

definition fail_gateway :: "env \<Rightarrow> int \<Rightarrow> str \<Rightarrow> unit io" where
  "fail_gateway E gid msg = thenM (gateways_update_status E gid GError (Some msg)) (commit E)"

text \<open>The peer of a gateway that is ready: failures are logged, the gateway stays ready.\<close>

definition setup_peer :: "env \<Rightarrow> int \<Rightarrow> agent_client \<Rightarrow> unit io" where
  "setup_peer E gid agent =
     try_except
       (bindM (ensure_backhaul_peer E gid) (\<lambda>_.
        try_except
          (bindM (agent_advertise_exit_node E agent) (\<lambda>_.
           bindM (agent_run_exit_via_wg E agent) (\<lambda>_. ret ())))
          (\<lambda>_. ret ())))
       (\<lambda>e. if is_ValueError e then ret () else rollback)"

text \<open>Once the agent is healthy: register, advertise, READY, peer.\<close>

definition complete_gateway :: "env \<Rightarrow> int option \<Rightarrow> gateway \<Rightarrow> agent_client \<Rightarrow> unit io" where
  "complete_gateway E jid g agent =
     thenM (stage E jid STAGE_REGISTER)
    (bindM (agent_register E agent (gw_name g)) (\<lambda>_.
     bindM (try_except (thenM (finalize_exit_node E (gw_id g) agent) (ret None)) (\<lambda>e. ret (Some e))) (\<lambda>failed.
     case failed of
       Some e \<Rightarrow> fail_gateway E (gw_id g) (''Exit node advertise failed: '' @ exn_str e)
     | None \<Rightarrow>
         thenM (gateways_update_status E (gw_id g) GReady None)
        (thenM (commit E)
        (thenM (stage E jid STAGE_PEER_SETUP)
         (setup_peer E (gw_id g) agent))))))"

definition bring_up_gateway :: "env \<Rightarrow> int option \<Rightarrow> gateway \<Rightarrow> str \<Rightarrow> unit io" where
  "bring_up_gateway E jid g agent_token =
     thenM (stage E jid STAGE_CLOUD_INIT)
    (bindM (gateway_agent_client E g agent_token) (\<lambda>agent.
     thenM (wait_cloud_init E jid agent)
    (thenM (stage E jid STAGE_AGENT_WAIT)
    (bindM (agent_wait_until_healthy E agent (s_provisioning_timeout_seconds E) 5
              (stage E jid STAGE_AGENT_WAIT)) (\<lambda>healthy.
     if \<not> healthy
     then bindM (agent_timeout_detail E agent) (\<lambda>detail. fail_gateway E (gw_id g) detail)
     else complete_gateway E jid g agent)))))"

definition provision_gateway :: "env \<Rightarrow> int \<Rightarrow> int option \<Rightarrow> int io" where
  "provision_gateway E gid jid =
     bindM (get_gateway gid) (\<lambda>g.
     bindM (decrypt_value E (gw_agent_token_enc g)) (\<lambda>agent_token.
     bindM (decrypt_value E (gw_wg_server_privkey_enc g)) (\<lambda>wg_priv.
     bindM (decrypt_value E (gw_tailscale_auth_key_enc g)) (\<lambda>ts_key.
     bindM (liftE (allocate_wg_subnet E (gw_id g))) (\<lambda>subnet.
     bindM (resolve_worker g) (\<lambda>wk.
     thenM (launch_instance E jid g wk (gateway_params E g wk subnet wg_priv ts_key agent_token))
    (thenM (bring_up_gateway E jid g agent_token)
     (ret gid))))))))"

section \<open>Restart\<close>

definition restart_gateway :: "env \<Rightarrow> int \<Rightarrow> int io" where
  "restart_gateway E gid =
     bindM (get_gateway gid) (\<lambda>g.
     if gw_status g \<noteq> GReady then raise (ValueError ''Gateway is not ready'')
     else
       bindM (resolve_worker g) (\<lambda>wk.
       bindM (gateway_incus_client E wk) (\<lambda>client.
       thenM (restart_gateway_vm E client (gw_incus_instance g))
      (thenM (apply_gateway_post_reboot E (incus_target wk (gw_incus_instance g)) 120)
      (bindM (resync_gateway_peers E gid) (\<lambda>_.
       ret gid))))))"

section \<open>Facts about the database\<close>

text \<open>
  Predicates of the database that the steps of provisioning keep: \<open>frame\<close> for those that do not look at
  peers and address allocations, \<open>job_frame\<close> and \<open>gateway_frame\<close> for those that survive changes of the
  attributes of jobs and of gateways.
\<close>

definition frame :: "(db \<Rightarrow> bool) \<Rightarrow> bool" where
  "frame I \<longleftrightarrow> (\<forall>d ps. I d \<longrightarrow> I (d\<lparr>peers := ps\<rparr>)) \<and> (\<forall>d as. I d \<longrightarrow> I (d\<lparr>ip_allocs := as\<rparr>))"

definition job_frame :: "(db \<Rightarrow> bool) \<Rightarrow> bool" where
  "job_frame I \<longleftrightarrow> (\<forall>d t i f. (\<forall>j. job_id (f j) = job_id j) \<longrightarrow> I d \<longrightarrow> I (upd_job t i f d))"

definition gateway_frame :: "(db \<Rightarrow> bool) \<Rightarrow> bool" where
  "gateway_frame I \<longleftrightarrow> (\<forall>d i f. (\<forall>g. gw_id (f g) = gw_id g) \<longrightarrow> I d \<longrightarrow> I (upd_gateway i f d))"

lemma frame_mod_db:
  "frame I \<Longrightarrow> keeps (db_inv I) (mod_db (add_ip_alloc i a o'))"
  by (rule keeps_mod_db) (simp add: frame_def add_ip_alloc_def)

lemma frame_allocate [keeps_intros]: "frame I \<Longrightarrow> keeps (db_inv I) (allocate_peer_ip E g)"
  unfolding allocate_peer_ip_def by (intro keeps_intros frame_mod_db)

lemma frame_peers_create [keeps_intros]:
  assumes "frame I"
  shows "keeps (db_inv I) (peers_create E p)"
proof -
  have "keeps (db_inv I) (modM (\<lambda>w. w\<lparr>db := (db w)\<lparr>peers := f w\<rparr>\<rparr>))" for f
    using assms by (simp add: keeps_def db_inv_def frame_def)
  then show ?thesis unfolding peers_create_def by (intro keeps_intros)
qed

lemma frame_create_peer [keeps_intros]: "frame I \<Longrightarrow> keeps (db_inv I) (create_peer E gid n)"
  unfolding create_peer_def by (intro keeps_intros)

lemma frame_ensure_peer [keeps_intros]: "frame I \<Longrightarrow> keeps (db_inv I) (ensure_backhaul_peer E gid)"
  unfolding ensure_backhaul_peer_def by (intro keeps_intros)

lemma frame_mod_job:
  assumes "job_frame I" and "\<And>j. job_id (f j) = job_id j"
  shows "keeps (db_inv I) (mod_job E i f)"
  using assms by (simp add: keeps_def mod_job_def db_inv_def job_frame_def del: upd_defs)

lemma frame_update_stage [keeps_intros]: "job_frame I \<Longrightarrow> keeps (db_inv I) (jobs_update_stage E i s b)"
  unfolding jobs_update_stage_def by (intro keeps_intros frame_mod_job) simp_all

lemma frame_update_job [keeps_intros]: "job_frame I \<Longrightarrow> keeps (db_inv I) (jobs_update_status E i s e)"
  unfolding jobs_update_status_def by (intro keeps_intros frame_mod_job) simp_all

lemma frame_set_stage [keeps_intros]: "job_frame I \<Longrightarrow> keeps (db_inv I) (set_provision_stage E i s b)"
  unfolding set_provision_stage_def by (intro keeps_intros)

lemma frame_stage [keeps_intros]: "job_frame I \<Longrightarrow> keeps (db_inv I) (stage E jid s)"
  unfolding stage_def by (intro keeps_intros)

lemma frame_update_gateway [keeps_intros]: "gateway_frame I \<Longrightarrow> keeps (db_inv I) (gateways_update_status E i s m)"
  unfolding gateways_update_status_def
  by (intro keeps_intros keeps_mod_db) (simp add: gateway_frame_def del: upd_defs)

lemma frame_setup_peer [keeps_intros]: "frame I \<Longrightarrow> keeps (db_inv I) (setup_peer E gid agent)"
  unfolding setup_peer_def by (intro keeps_intros)

lemma frame_finalize [keeps_intros]: "gateway_frame I \<Longrightarrow> keeps (db_inv I) (finalize_exit_node E gid agent)"
  unfolding finalize_exit_node_def Let_def
  by (intro keeps_intros keeps_mod_db) (simp add: gateway_frame_def del: upd_defs)

lemma frame_fail [keeps_intros]: "gateway_frame I \<Longrightarrow> keeps (db_inv I) (fail_gateway E gid msg)"
  unfolding fail_gateway_def by (intro keeps_intros)

lemma frame_detail [keeps_intros]: "stable J \<Longrightarrow> keeps J (agent_timeout_detail E agent)"
  unfolding agent_timeout_detail_def Let_def by (intro keeps_intros)

lemma frame_cloud_init [keeps_intros]: "job_frame I \<Longrightarrow> keeps (db_inv I) (wait_cloud_init E jid agent)"
  unfolding wait_cloud_init_def by (intro keeps_intros)

lemma frame_client [keeps_intros]:
  "keeps J (gateway_agent_client E g token)" "stable J \<Longrightarrow> keeps J (gateway_incus_client E wk)"
  unfolding gateway_agent_client_def incus_exec_target_def gateway_incus_client_def
  by (intro keeps_intros)+

lemma frame_launch [keeps_intros]:
  "gateway_frame I \<Longrightarrow> job_frame I \<Longrightarrow> keeps (db_inv I) (launch_instance E jid g wk p)"
  unfolding launch_instance_def by (intro keeps_intros)

lemma frame_complete [keeps_intros]:
  "frame I \<Longrightarrow> gateway_frame I \<Longrightarrow> job_frame I \<Longrightarrow> keeps (db_inv I) (complete_gateway E jid g agent)"
  unfolding complete_gateway_def by (intro keeps_intros)

lemma frame_bring_up [keeps_intros]:
  "frame I \<Longrightarrow> gateway_frame I \<Longrightarrow> job_frame I \<Longrightarrow> keeps (db_inv I) (bring_up_gateway E jid g token)"
  unfolding bring_up_gateway_def by (intro keeps_intros)

lemma frame_provision [keeps_intros]:
  "frame I \<Longrightarrow> gateway_frame I \<Longrightarrow> job_frame I \<Longrightarrow> keeps (db_inv I) (provision_gateway E gid jid)"
  unfolding provision_gateway_def by (intro keeps_intros)

section \<open>The outcome of provisioning\<close>

definition gateway_status_in :: "int \<Rightarrow> gateway_status set \<Rightarrow> db \<Rightarrow> bool" where
  "gateway_status_in gid S d \<longleftrightarrow> (\<exists>g. gateways_get_by_id gid d = Some g \<and> gw_status g \<in> S)"

definition gateway_exists :: "int \<Rightarrow> db \<Rightarrow> bool" where
  "gateway_exists gid d \<longleftrightarrow> gateways_get_by_id gid d \<noteq> None"

lemma frame_status [keeps_intros]: "frame (gateway_status_in gid S)" "job_frame (gateway_status_in gid S)"
  by (simp_all add: frame_def job_frame_def gateway_status_in_def gateways_get_by_id_def)

lemma frame_exists [keeps_intros]:
  "frame (gateway_exists gid)" "job_frame (gateway_exists gid)" "gateway_frame (gateway_exists gid)"
  by (simp_all add: frame_def job_frame_def gateway_frame_def gateway_exists_def gateways_get_by_id_def tbl_get_upd)

lemma db_kept: "m w = (r, w') \<Longrightarrow> db_inv I w \<Longrightarrow> keeps (db_inv I) m \<Longrightarrow> db_inv I w'"
  by (rule keepsD)

lemma update_status_outcome:
  assumes "gateways_update_status E gid st msg w = (Inr x, w1)" and "commit E w1 = (Inr y, w')"
    and "gateway_exists gid (db w)"
  shows "db_inv (gateway_status_in gid {st}) w'"
  using gateways_update_status_returns [OF assms(1)] commit_returns [OF assms(2)] assms(3)
  by (auto simp: db_inv_def gateway_status_in_def gateway_exists_def gateways_get_status_upd simp del: upd_defs)

lemma fail_gateway_outcome:
  assumes "fail_gateway E gid msg w = (Inr x, w')" and "gateway_exists gid (db w)"
  shows "db_inv (gateway_status_in gid {GError}) w'"
  using assms by (auto simp: fail_gateway_def thenM_returns elim!: update_status_outcome)

lemma db_inv_mono: "db_inv I w \<Longrightarrow> (\<And>d. I d \<Longrightarrow> J d) \<Longrightarrow> db_inv J w"
  by (simp add: db_inv_def)

lemma complete_gateway_outcome:
  assumes run: "complete_gateway E jid g agent w = (Inr x, w')" and inv: "db_inv (gateway_exists (gw_id g)) w"
  shows "db_inv (gateway_status_in (gw_id g) {GReady, GError}) w'"
proof -
  let ?I = "gateway_exists (gw_id g)"
  let ?fin = "try_except (thenM (finalize_exit_node E (gw_id g) agent) (ret None)) (\<lambda>e. ret (Some e))"
  from run obtain w1 y w2 failed w3 where
    s: "stage E jid STAGE_REGISTER w = (Inr (), w1)" and
    r: "agent_register E agent (gw_name g) w1 = (Inr y, w2)" and
    f: "?fin w2 = (Inr failed, w3)" and
    k: "(case failed of
       Some e \<Rightarrow> fail_gateway E (gw_id g) (''Exit node advertise failed: '' @ exn_str e)
     | None \<Rightarrow>
         thenM (gateways_update_status E (gw_id g) GReady None)
        (thenM (commit E)
        (thenM (stage E jid STAGE_PEER_SETUP)
         (setup_peer E (gw_id g) agent)))) w3 = (Inr x, w')"
    unfolding complete_gateway_def bindM_returns thenM_returns by auto
  have "db_inv ?I w1" by (rule db_kept [of "stage E jid STAGE_REGISTER", OF s inv]) (intro keeps_intros)
  then have "db_inv ?I w2" by (rule db_kept [of "agent_register E agent (gw_name g)", OF r]) (intro keeps_intros)
  then have inv3: "db_inv ?I w3" by (rule db_kept [of "?fin", OF f]) (intro keeps_intros)
  show ?thesis
  proof (cases failed)
    case (Some e)
    with k inv3 have "db_inv (gateway_status_in (gw_id g) {GError}) w'"
      by (auto simp: db_inv_def [of ?I] intro: fail_gateway_outcome)
    then show ?thesis by (rule db_inv_mono) (auto simp: gateway_status_in_def)
  next
    case None
    let ?R = "gateway_status_in (gw_id g) {GReady}"
    from k None obtain u w4 v w5 z w6 where
      u: "gateways_update_status E (gw_id g) GReady None w3 = (Inr u, w4)" and c: "commit E w4 = (Inr v, w5)" and
      s: "stage E jid STAGE_PEER_SETUP w5 = (Inr z, w6)" and p: "setup_peer E (gw_id g) agent w6 = (Inr x, w')"
      by (auto simp: thenM_returns)
    have "db_inv ?R w5" using update_status_outcome [OF u c] inv3 by (simp add: db_inv_def)
    then have "db_inv ?R w6" by (rule db_kept [of "stage E jid STAGE_PEER_SETUP", OF s]) (intro keeps_intros)
    then have "db_inv ?R w'" by (rule db_kept [of "setup_peer E (gw_id g) agent", OF p]) (intro keeps_intros)
    then show ?thesis by (rule db_inv_mono) (auto simp: gateway_status_in_def)
  qed
qed

lemma bring_up_outcome:
  assumes run: "bring_up_gateway E jid g token w = (Inr x, w')" and inv: "db_inv (gateway_exists (gw_id g)) w"
  shows "db_inv (gateway_status_in (gw_id g) {GReady, GError}) w'"
proof -
  let ?I = "gateway_exists (gw_id g)"
  from run obtain u w1 agent w2 v w3 z w4 healthy w5 where
    a: "stage E jid STAGE_CLOUD_INIT w = (Inr u, w1)" and
    b: "gateway_agent_client E g token w1 = (Inr agent, w2)" and
    c: "wait_cloud_init E jid agent w2 = (Inr v, w3)" and
    d: "stage E jid STAGE_AGENT_WAIT w3 = (Inr z, w4)" and
    e: "agent_wait_until_healthy E agent (s_provisioning_timeout_seconds E) 5 (stage E jid STAGE_AGENT_WAIT) w4 =
          (Inr healthy, w5)" and
    k: "(if \<not> healthy
         then bindM (agent_timeout_detail E agent) (\<lambda>detail. fail_gateway E (gw_id g) detail)
         else complete_gateway E jid g agent) w5 = (Inr x, w')"
    unfolding bring_up_gateway_def bindM_returns thenM_returns by blast
  have "db_inv ?I w1" by (rule db_kept [of "stage E jid STAGE_CLOUD_INIT", OF a inv]) (intro keeps_intros)
  then have "db_inv ?I w2" by (rule db_kept [of "gateway_agent_client E g token", OF b]) (intro keeps_intros)
  then have "db_inv ?I w3" by (rule db_kept [of "wait_cloud_init E jid agent", OF c]) (intro keeps_intros)
  then have "db_inv ?I w4" by (rule db_kept [of "stage E jid STAGE_AGENT_WAIT", OF d]) (intro keeps_intros)
  then have inv5: "db_inv ?I w5" by (rule db_kept [of "agent_wait_until_healthy E agent (s_provisioning_timeout_seconds E) 5 (stage E jid STAGE_AGENT_WAIT)", OF e]) (intro keeps_intros)
  show ?thesis
  proof (cases healthy)
    case True
    with k inv5 show ?thesis by (auto intro: complete_gateway_outcome)
  next
    case False
    with k obtain detail w6 where
      t: "agent_timeout_detail E agent w5 = (Inr detail, w6)" and f: "fail_gateway E (gw_id g) detail w6 = (Inr x, w')"
      by (auto simp: bindM_returns)
    have "db_inv ?I w6" by (rule db_kept [of "agent_timeout_detail E agent", OF t inv5]) (intro keeps_intros)
    then have "db_inv (gateway_status_in (gw_id g) {GError}) w'"
      using fail_gateway_outcome [OF f] by (simp add: db_inv_def)
    then show ?thesis by (rule db_inv_mono) (auto simp: gateway_status_in_def)
  qed
qed

lemma provision_gateway_outcome:
  assumes run: "provision_gateway E gid jid w = (Inr x, w')" and inv: "gateway_exists gid (stored w)"
  shows "db_inv (gateway_status_in gid {GReady, GError}) w'"
proof -
  from run obtain g tok priv key sub wk w1 w2 u v where
    g: "get_gateway gid w = (Inr g, w)" and
    l: "launch_instance E jid g wk (gateway_params E g wk sub priv key tok) w = (Inr u, w1)" and
    b: "bring_up_gateway E jid g tok w1 = (Inr v, w')"
    unfolding provision_gateway_def bindM_returns thenM_returns get_gateway_returns decrypt_value_def
    by (auto simp: resolve_worker_returns)
  have id: "gateways_get_by_id gid (db w) = Some g" "gw_id g = gid"
    using g gateways_get_by_id_SomeD by (auto simp: get_gateway_returns)
  then have "db_inv (gateway_exists gid) w" using inv by (simp add: db_inv_def gateway_exists_def)
  then have "db_inv (gateway_exists gid) w1" by (rule db_kept [of "launch_instance E jid g wk (gateway_params E g wk sub priv key tok)", OF l]) (intro keeps_intros)
  then show ?thesis using bring_up_outcome [OF b] id(2) by simp
qed

end
