(* ===== verification/Jobs.thy ===== *)
theory Jobs
  imports Lifecycle
begin

declare append_Cons [simp del]

text \<open>
  The background workers (\<open>orchestrator/workers/provisioning.py\<close>, \<open>orchestrator/workers/deletion.py\<close>):
  the job a thread processes, its retries while the database is locked, the sets of active gateways
  that keep a second thread away, and the recovery of gateways left behind by a restart. Starting a
  thread is the event \<open>Spawn\<close>; \<open>thread_step\<close> below runs the threads.
\<close>

section \<open>Constants\<close>

definition LOCK_RETRIES :: nat where
  "LOCK_RETRIES = 12"

text \<open>Half a second and three quarters of a second, in microseconds.\<close>

definition LOCK_BACKOFF :: int where
  "LOCK_BACKOFF = 500000"

definition REQUEST_SETTLE :: int where
  "REQUEST_SETTLE = 750000"

definition STALE_JOB_MINUTES :: int where
  "STALE_JOB_MINUTES = 10"

section \<open>Sessions of the workers\<close>

text \<open>
  \<open>session = get_session_factory()()\<close> \<open>try: ... finally: session.close()\<close>: a session that starts from
  the committed database and whose uncommitted changes are lost at the end.
\<close>

definition own_session :: "'a io \<Rightarrow> 'a io" where
  "own_session m w = (case m (rollback_w w) of (r, w') \<Rightarrow> (r, rollback_w w'))"

definition is_stale_running_job :: "env \<Rightarrow> job \<Rightarrow> bool io" where
  "is_stale_running_job E j =
     (if job_status j \<noteq> JRunning then ret False
      else bindM (now E) (\<lambda>t. ret (t - job_updated_at j > STALE_JOB_MINUTES * 60 * second)))"

section \<open>The queue\<close>

definition queue_enqueue :: "int \<Rightarrow> int \<Rightarrow> unit io" where
  "queue_enqueue jid gid = modM (\<lambda>w. w\<lparr>prov_queue := prov_queue w @ [(jid, gid)]\<rparr>)"

definition queue_pop :: "(int \<times> int) option io" where
  "queue_pop w =
     (case prov_queue w of
        [] \<Rightarrow> (Inr None, w)
      | x # xs \<Rightarrow> (Inr (Some x), w\<lparr>prov_queue := xs\<rparr>))"

section \<open>Provisioning jobs\<close>

definition provisioning_failed :: "env \<Rightarrow> int \<Rightarrow> int \<Rightarrow> exn \<Rightarrow> unit io" where
  "provisioning_failed E jid gid exc =
     thenM rollback
    (bindM (get_db (jobs_get_by_id jid)) (\<lambda>j.
     bindM (get_db (gateways_get_by_id gid)) (\<lambda>g.
     if j \<noteq> None \<and> g \<noteq> None
     then thenM (gateways_update_status E gid GError (Some (exn_str exc)))
         (thenM (jobs_update_status E jid JFailed (Some (exn_str exc)))
          (commit E))
     else ret ())))"

definition process_provisioning_job :: "env \<Rightarrow> int \<Rightarrow> int \<Rightarrow> unit io" where
  "process_provisioning_job E jid gid =
     bindM (get_db (jobs_get_by_id jid)) (\<lambda>j.
     bindM (get_db (gateways_get_by_id gid)) (\<lambda>g.
     if j = None \<or> g = None then ret ()
     else
       thenM (jobs_update_status E jid JRunning None)
      (thenM (set_provision_stage E jid STAGE_PREPARING True)
      (thenM (commit E)
       (try_except
         (bindM (provision_gateway E gid (Some jid)) (\<lambda>_.
          thenM (jobs_update_status E jid JCompleted None)
         (thenM (set_provision_stage E jid STAGE_DONE True)
          (commit E))))
         (provisioning_failed E jid gid))))))"

text \<open>\<open>while True\<close> over the queue; nothing that runs inside adds to it, so its length is fuel enough.\<close>

fun drain_loop :: "env \<Rightarrow> nat \<Rightarrow> nat \<Rightarrow> nat io" where
  "drain_loop E 0 processed = raise Diverged"
| "drain_loop E (Suc n) processed =
     bindM queue_pop (\<lambda>item.
     case item of
       None \<Rightarrow> ret processed
     | Some (jid, gid) \<Rightarrow>
         thenM (process_provisioning_job E jid gid) (drain_loop E n (processed + 1)))"

definition drain_queue :: "env \<Rightarrow> nat io" where
  "drain_queue E = bindM (getM (\<lambda>w. length (prov_queue w))) (\<lambda>n. drain_loop E (n + 1) 0)"

text \<open>\<open>jid\<close> is a Python truth value: \<open>None\<close> and 0 both mean that no job was named.\<close>

definition named_job :: "int option \<Rightarrow> bool" where
  "named_job jid \<longleftrightarrow> jid \<noteq> None \<and> jid \<noteq> Some 0"

text \<open>The job the thread is to process, or \<open>None\<close> when it returns without one.\<close>

definition job_to_provision :: "env \<Rightarrow> int \<Rightarrow> int option \<Rightarrow> job option io" where
  "job_to_provision E gid jid =
     bindM (get_db (\<lambda>d. if named_job jid then jobs_get_by_id (the jid) d
                        else jobs_get_pending_for_gateway gid d)) (\<lambda>r.
     case r of
       None \<Rightarrow> thenM (prepare_provisioning E gid) (get_db (jobs_get_pending_for_gateway gid))
     | Some j \<Rightarrow>
         bindM (is_stale_running_job E j) (\<lambda>stale.
         if stale then thenM (prepare_provisioning E gid) (get_db (jobs_get_pending_for_gateway gid))
         else if job_status j \<noteq> JPending then ret None
         else ret (Some j)))"

definition run_gateway_provisioning_once :: "env \<Rightarrow> int \<Rightarrow> int option \<Rightarrow> unit io" where
  "run_gateway_provisioning_once E gid jid =
     own_session
       (bindM (get_db (gateways_get_by_id gid)) (\<lambda>g.
        case g of
          None \<Rightarrow> ret ()
        | Some gw \<Rightarrow>
            if \<not> needs_provisioning gw then ret ()
            else
              bindM (job_to_provision E gid jid) (\<lambda>r.
              case r of
                None \<Rightarrow> ret ()
              | Some j \<Rightarrow>
                  thenM (set_provision_stage E (job_id j) STAGE_QUEUED True)
                 (thenM (commit E)
                  (process_provisioning_job E (job_id j) gid)))))"

section \<open>Retrying while the database is locked\<close>

definition is_locked :: "exn \<Rightarrow> bool" where
  "is_locked e \<longleftrightarrow> py_contains (py_lower (exn_str e)) ''locked''"

fun retry_locked :: "unit io \<Rightarrow> nat \<Rightarrow> nat \<Rightarrow> unit io" where
  "retry_locked once 0 attempt = ret ()"
| "retry_locked once (Suc n) attempt =
     catchM once (\<lambda>e.
       if is_OperationalError e
       then if \<not> is_locked e \<or> attempt + 1 \<ge> LOCK_RETRIES then ret ()
            else thenM (sleep (LOCK_BACKOFF * int (attempt + 1))) (retry_locked once n (attempt + 1))
       else raise e)"

definition run_gateway_provisioning :: "env \<Rightarrow> int \<Rightarrow> int option \<Rightarrow> unit io" where
  "run_gateway_provisioning E gid jid =
     thenM (sleep REQUEST_SETTLE) (retry_locked (run_gateway_provisioning_once E gid jid) LOCK_RETRIES 0)"

section \<open>Deletion jobs\<close>

definition deletion_failed :: "env \<Rightarrow> int \<Rightarrow> int \<Rightarrow> exn \<Rightarrow> unit io" where
  "deletion_failed E jid gid exc =
     thenM rollback
    (bindM (get_db (jobs_get_by_id jid)) (\<lambda>j.
     bindM (get_db (gateways_get_by_id gid)) (\<lambda>g.
     thenM (if j \<noteq> None then jobs_update_status E jid JFailed (Some (exn_str exc)) else ret ())
    (thenM (if g \<noteq> None
            then gateways_update_status E gid GError (Some (''Deletion failed: '' @ exn_str exc))
            else ret ())
     (commit E)))))"

definition process_deletion_job :: "env \<Rightarrow> int \<Rightarrow> int \<Rightarrow> unit io" where
  "process_deletion_job E jid gid =
     bindM (get_db (jobs_get_by_id jid)) (\<lambda>j.
     if j = None then ret ()
     else
       thenM (jobs_update_status E jid JRunning None)
      (thenM (commit E)
       (try_except (execute_delete_gateway E gid (Some jid)) (deletion_failed E jid gid))))"

text \<open>A delete job whose gateway is gone already is completed.\<close>

definition finish_orphan_job :: "env \<Rightarrow> int option \<Rightarrow> unit io" where
  "finish_orphan_job E jid =
     (if named_job jid
      then bindM (get_db (jobs_get_by_id (the jid))) (\<lambda>r.
           case r of
             Some j \<Rightarrow> if job_status j \<noteq> JCompleted
                       then thenM (jobs_update_status E (job_id j) JCompleted None) (commit E)
                       else ret ()
           | None \<Rightarrow> ret ())
      else ret ())"

definition delete_with_job :: "env \<Rightarrow> int \<Rightarrow> job \<Rightarrow> unit io" where
  "delete_with_job E gid j =
     bindM (is_stale_running_job E j) (\<lambda>stale.
     if stale
     then thenM (jobs_update_status E (job_id j) JPending None)
         (thenM (commit E) (process_deletion_job E (job_id j) gid))
     else if job_status j \<notin> {JPending, JRunning} then ret ()
     else process_deletion_job E (job_id j) gid)"

definition run_gateway_deletion_once :: "env \<Rightarrow> int \<Rightarrow> int option \<Rightarrow> unit io" where
  "run_gateway_deletion_once E gid jid =
     own_session
       (bindM (get_db (gateways_get_by_id gid)) (\<lambda>g.
        case g of
          None \<Rightarrow> finish_orphan_job E jid
        | Some gw \<Rightarrow>
            if gw_status gw \<noteq> GDeleting then ret ()
            else
              bindM (get_db (\<lambda>d. if named_job jid then jobs_get_by_id (the jid) d
                                 else jobs_get_latest_delete_job gid d)) (\<lambda>r.
              case r of
                None \<Rightarrow> ret ()
              | Some j \<Rightarrow> delete_with_job E gid j)))"

definition run_gateway_deletion :: "env \<Rightarrow> int \<Rightarrow> int option \<Rightarrow> unit io" where
  "run_gateway_deletion E gid jid =
     thenM (sleep REQUEST_SETTLE) (retry_locked (run_gateway_deletion_once E gid jid) LOCK_RETRIES 0)"

section \<open>Threads\<close>

definition start_provisioning :: "int \<Rightarrow> int option \<Rightarrow> unit io" where
  "start_provisioning gid jid w =
     (if gid \<in> set (prov_active w) then (Inr (), w)
      else (Inr (), emit (Spawn ''provision-gateway-'' gid jid) (w\<lparr>prov_active := gid # prov_active w\<rparr>)))"

definition discard_provisioning :: "int \<Rightarrow> unit io" where
  "discard_provisioning gid = modM (\<lambda>w. w\<lparr>prov_active := removeAll gid (prov_active w)\<rparr>)"

definition provisioning_thread :: "env \<Rightarrow> int \<Rightarrow> int option \<Rightarrow> unit io" where
  "provisioning_thread E gid jid = finallyM (run_gateway_provisioning E gid jid) (discard_provisioning gid)"

definition schedule_provisioning_after_request :: "int \<Rightarrow> int \<Rightarrow> unit io" where
  "schedule_provisioning_after_request gid jid = start_provisioning gid (Some jid)"

definition start_deletion :: "int \<Rightarrow> int option \<Rightarrow> unit io" where
  "start_deletion gid jid w =
     (if gid \<in> set (del_active w) then (Inr (), w)
      else (Inr (), emit (Spawn ''delete-gateway-'' gid jid) (w\<lparr>del_active := gid # del_active w\<rparr>)))"

definition discard_deletion :: "int \<Rightarrow> unit io" where
  "discard_deletion gid = modM (\<lambda>w. w\<lparr>del_active := removeAll gid (del_active w)\<rparr>)"

definition deletion_thread :: "env \<Rightarrow> int \<Rightarrow> int option \<Rightarrow> unit io" where
  "deletion_thread E gid jid = finallyM (run_gateway_deletion E gid jid) (discard_deletion gid)"

definition schedule_deletion_after_request :: "int \<Rightarrow> int \<Rightarrow> unit io" where
  "schedule_deletion_after_request gid jid = start_deletion gid (Some jid)"

section \<open>Recovery\<close>

text \<open>
  A create job that was RUNNING is reset, whether or not it is stale: the second half of the
  condition of the source always holds, because the loop has passed the active gateways over.
\<close>

definition job_to_resume :: "env \<Rightarrow> int \<Rightarrow> job option \<Rightarrow> job option io" where
  "job_to_resume E gid latest =
     (if latest \<noteq> None \<and> job_status (the latest) = JRunning
      then bindM (is_stale_running_job E (the latest)) (\<lambda>_.
           thenM (prepare_provisioning E gid) (get_db (jobs_get_pending_for_gateway gid)))
      else ret latest)"

definition start_resumed :: "env \<Rightarrow> int \<Rightarrow> job option \<Rightarrow> nat io" where
  "start_resumed E gid latest =
     (case latest of
        Some j \<Rightarrow> if job_status j = JPending
                  then thenM (start_provisioning gid (Some (job_id j))) (ret 1) else ret 0
      | None \<Rightarrow>
          thenM (prepare_provisioning E gid)
         (bindM (get_db (jobs_get_pending_for_gateway gid)) (\<lambda>again.
          case again of
            Some j \<Rightarrow> thenM (start_provisioning gid (Some (job_id j))) (ret 1)
          | None \<Rightarrow> ret 0)))"

text \<open>One round of the loop over the gateways.\<close>

definition resume_provisioning_of :: "env \<Rightarrow> int \<Rightarrow> nat io" where
  "resume_provisioning_of E gid =
     bindM (get_db (gateways_get_by_id gid)) (\<lambda>g.
     bindM (getM (\<lambda>w. gid \<in> set (prov_active w))) (\<lambda>active.
     case g of
       None \<Rightarrow> ret 0
     | Some gw \<Rightarrow>
         if \<not> needs_provisioning gw \<or> active then ret 0
         else
           bindM (get_db (jobs_get_latest_create_job gid)) (\<lambda>latest.
           bindM (job_to_resume E gid latest) (start_resumed E gid))))"

fun resume_loop :: "(int \<Rightarrow> nat io) \<Rightarrow> int list \<Rightarrow> nat \<Rightarrow> nat io" where
  "resume_loop f [] started = ret started"
| "resume_loop f (gid # gids) started = bindM (f gid) (\<lambda>k. resume_loop f gids (started + k))"

definition resume_incomplete_provisioning :: "env \<Rightarrow> nat io" where
  "resume_incomplete_provisioning E =
     own_session
       (bindM (get_db (\<lambda>d. map gw_id (gateways_list_all d))) (\<lambda>gids.
        bindM (resume_loop (resume_provisioning_of E) gids 0) (\<lambda>started.
        thenM (commit E) (ret started))))"

definition resume_deletion_of :: "env \<Rightarrow> int \<Rightarrow> nat io" where
  "resume_deletion_of E gid =
     bindM (get_db (gateways_get_by_id gid)) (\<lambda>g.
     bindM (getM (\<lambda>w. gid \<in> set (del_active w))) (\<lambda>active.
     case g of
       None \<Rightarrow> ret 0
     | Some gw \<Rightarrow>
         if gw_status gw \<noteq> GDeleting \<or> active then ret 0
         else
           bindM (get_db (jobs_get_latest_delete_job gid)) (\<lambda>latest.
           case latest of
             None \<Rightarrow>
               bindM (jobs_create E (new_job DeleteGateway gid)) (\<lambda>jid.
               thenM (commit E)
              (thenM (start_deletion gid (Some jid)) (ret 1)))
           | Some j \<Rightarrow>
               bindM (is_stale_running_job E j) (\<lambda>stale.
               if job_status j = JRunning \<and> \<not> stale then ret 0
               else
                 thenM (if stale then thenM (jobs_update_status E (job_id j) JPending None) (commit E) else ret ())
                (if stale \<or> job_status j = JPending
                 then thenM (start_deletion gid (Some (job_id j))) (ret 1)
                 else ret 0)))))"

definition resume_incomplete_deletions :: "env \<Rightarrow> nat io" where
  "resume_incomplete_deletions E =
     own_session
       (bindM (get_db (\<lambda>d. map gw_id (gateways_list_all d))) (\<lambda>gids.
        resume_loop (resume_deletion_of E) gids 0))"

section \<open>Facts\<close>

definition job_exists :: "int \<Rightarrow> db \<Rightarrow> bool" where
  "job_exists jid d \<longleftrightarrow> jobs_get_by_id jid d \<noteq> None"

definition both_exist :: "int \<Rightarrow> int \<Rightarrow> db \<Rightarrow> bool" where
  "both_exist jid gid d \<longleftrightarrow> job_exists jid d \<and> gateway_exists gid d"

lemma job_exists_upd: "(\<And>j. job_id (f j) = job_id j) \<Longrightarrow> job_exists k (upd_job t i f d) = job_exists k d"
  by (simp add: job_exists_def jobs_get_upd_job del: upd_defs)

lemma frame_both [keeps_intros]:
  "frame (both_exist jid gid)" "job_frame (both_exist jid gid)" "gateway_frame (both_exist jid gid)"
  using frame_exists [of gid]
  by (simp_all add: frame_def job_frame_def gateway_frame_def both_exist_def job_exists_upd del: upd_defs)
     (simp_all add: job_exists_def jobs_get_by_id_def)

definition job_status_is :: "int \<Rightarrow> job_status \<Rightarrow> db \<Rightarrow> bool" where
  "job_status_is jid st d \<longleftrightarrow> (\<exists>j. jobs_get_by_id jid d = Some j \<and> job_status j = st)"

lemma job_status_upd:
  assumes "job_exists jid d" and "\<And>j. job_id (f j) = job_id j" and "\<And>j. job_status (f j) = st"
  shows "job_status_is jid st (upd_job t jid f d)"
proof -
  obtain j where "jobs_get_by_id jid d = Some j" using assms(1) by (auto simp: job_exists_def)
  moreover have "job_status j = st" if "f j = j" using assms(3) [of j] that by simp
  ultimately show ?thesis using assms(2,3)
    by (simp add: job_status_is_def jobs_get_upd_job del: upd_defs)
qed

lemma job_status_upd_same:
  assumes "job_status_is jid st d" and "\<And>j. job_id (f j) = job_id j" and "\<And>j. job_status (f j) = job_status j"
  shows "job_status_is jid st (upd_job t i f d)"
proof -
  obtain j where "jobs_get_by_id jid d = Some j" "job_status j = st" using assms(1) by (auto simp: job_status_is_def)
  then show ?thesis using assms(2,3)
    by (cases "jid = i") (simp_all add: job_status_is_def jobs_get_upd_job del: upd_defs)
qed

lemma jobs_get_upd_gateway: "jobs_get_by_id i (upd_gateway k f d) = jobs_get_by_id i d"
  by (simp add: jobs_get_by_id_def)

lemma gateways_get_upd_job: "gateways_get_by_id i (upd_job t k f d) = gateways_get_by_id i d"
  by (simp add: gateways_get_by_id_def)

lemma stage_keeps_status [keeps_intros]:
  "keeps (db_inv (job_status_is jid st)) (set_provision_stage E i s b)"
proof -
  have "keeps (db_inv (job_status_is jid st)) (mod_job E i (\<lambda>j. j\<lparr>job_stage := a, job_stage_updated_at := c\<rparr>))" for a c
    by (simp add: keeps_def mod_job_def db_inv_def job_status_upd_same del: upd_defs)
  then show ?thesis
    unfolding set_provision_stage_def jobs_update_stage_def by (intro keeps_intros)
qed

lemma set_stage_returns:
  assumes "set_provision_stage E i st b w = (Inr x, w')"
  shows "(db w' = db w \<or> (\<exists>t a c. db w' = upd_job t i (\<lambda>j. j\<lparr>job_stage := a, job_stage_updated_at := c\<rparr>) (db w))) \<and>
         stored w' = db w'"
proof -
  obtain w1 y where u: "jobs_update_stage E i st b w = (Inr y, w1)" and c: "commit E w1 = (Inr x, w')"
    using assms by (auto simp: set_provision_stage_def thenM_returns)
  have "db w1 = db w \<or> (\<exists>t a c. db w1 = upd_job t i (\<lambda>j. j\<lparr>job_stage := a, job_stage_updated_at := c\<rparr>) (db w))"
    using u by (fastforce simp: jobs_update_stage_def bindM_returns thenM_returns mod_job_def now_def
        simp del: upd_defs split: option.splits if_splits dest!: flush_returns)
  with commit_returns [OF c] show ?thesis by simp
qed

lemma set_stage_outcome:
  assumes "set_provision_stage E i st b w = (Inr x, w')"
  shows "job_exists k (db w') = job_exists k (db w) \<and> gateways_get_by_id gid (db w') = gateways_get_by_id gid (db w) \<and>
         (job_status_is k js (db w) \<longrightarrow> job_status_is k js (db w')) \<and> stored w' = db w'"
  using set_stage_returns [OF assms]
  by (auto simp: job_exists_upd gateways_get_upd_job job_status_upd_same simp del: upd_defs)

text \<open>
  How a provisioning job may end: the job is completed and the gateway ready, or in error with the
  job completed all the same (the two early returns of \<open>provision_gateway\<close>), or the job failed and
  the gateway is in error.
\<close>

definition provisioning_settled :: "int \<Rightarrow> int \<Rightarrow> db \<Rightarrow> bool" where
  "provisioning_settled jid gid d \<longleftrightarrow>
     job_status_is jid JCompleted d \<and> gateway_status_in gid {GReady, GError} d \<or>
     job_status_is jid JFailed d \<and> gateway_status_in gid {GError} d"

lemma provisioning_failed_outcome:
  assumes "provisioning_failed E jid gid e w = (Inr x, w')" and "both_exist jid gid (stored w)"
  shows "provisioning_settled jid gid (stored w')"
proof -
  let ?v = "rollback_w w"
  have v: "db ?v = stored w" by (simp add: rollback_w_def)
  with assms obtain w1 w2 where
    g: "gateways_update_status E gid GError (Some (exn_str e)) ?v = (Inr (), w1)" and
    j: "jobs_update_status E jid JFailed (Some (exn_str e)) w1 = (Inr (), w2)" and
    c: "commit E w2 = (Inr (), w')"
    by (auto simp: provisioning_failed_def rollback_def thenM_returns bindM_returns both_exist_def
        job_exists_def gateway_exists_def simp del: upd_defs)
  have e: "job_exists jid (db w1)" "gateway_status_in gid {GError} (db w1)"
    using gateways_update_status_returns [OF g] assms(2) v
    by (auto simp: both_exist_def job_exists_def gateway_exists_def gateway_status_in_def jobs_get_upd_gateway
        gateways_get_status_upd simp del: upd_defs)
  then have "job_status_is jid JFailed (db w2)" "gateway_status_in gid {GError} (db w2)"
    using jobs_update_status_returns [OF j]
    by (auto simp: job_status_upd gateway_status_in_def gateways_get_upd_job simp del: upd_defs)
  then show ?thesis using commit_returns [OF c] by (simp add: provisioning_settled_def)
qed

lemma completed_outcome:
  assumes "thenM (jobs_update_status E jid JCompleted None) (thenM (set_provision_stage E jid STAGE_DONE True) (commit E)) w
             = (Inr x, w')"
    and "both_exist jid gid (db w)" and "gateway_status_in gid {GReady, GError} (db w)"
  shows "provisioning_settled jid gid (stored w')"
proof -
  let ?P = "\<lambda>d. job_status_is jid JCompleted d \<and> gateway_status_in gid {GReady, GError} d"
  obtain w1 w2 where
    j: "jobs_update_status E jid JCompleted None w = (Inr (), w1)" and
    s: "set_provision_stage E jid STAGE_DONE True w1 = (Inr (), w2)" and
    c: "commit E w2 = (Inr (), w')"
    using assms(1) by (auto simp: thenM_returns)
  have w1: "?P (db w1)"
    using jobs_update_status_returns [OF j] assms(2,3)
    by (auto simp: job_status_upd both_exist_def gateway_status_in_def gateways_get_upd_job simp del: upd_defs)
  then have "?P (db w2)"
    using set_stage_outcome [OF s, of jid gid JCompleted] by (simp add: gateway_status_in_def)
  then show ?thesis using commit_returns [OF c] by (simp add: provisioning_settled_def)
qed

text \<open>
  C3: A provisioning job that was processed is settled: whatever the outside world answered, when the
  call returns for a job and a gateway that exist, either the job is completed and the gateway is
  READY or in ERROR, or the job has failed and the gateway is in ERROR; and this is committed. The
  gateway is never left in PROVISIONING.
\<close>

theorem process_provisioning_job_settles:
  assumes "process_provisioning_job E jid gid w = (Inr x, w')" and "both_exist jid gid (db w)"
  shows "provisioning_settled jid gid (stored w')"
proof -
  let ?I = "both_exist jid gid"
  let ?go = "bindM (provision_gateway E gid (Some jid)) (\<lambda>_.
          thenM (jobs_update_status E jid JCompleted None)
         (thenM (set_provision_stage E jid STAGE_DONE True) (commit E)))"
  obtain w1 w2 w3 where
    r: "jobs_update_status E jid JRunning None w = (Inr (), w1)" and
    s: "set_provision_stage E jid STAGE_PREPARING True w1 = (Inr (), w2)" and
    c: "commit E w2 = (Inr (), w3)" and
    t: "try_except ?go (provisioning_failed E jid gid) w3 = (Inr x, w')"
    using assms unfolding process_provisioning_job_def
    by (auto simp: bindM_returns thenM_returns both_exist_def job_exists_def gateway_exists_def)
  have "?I (db w1)"
    using jobs_update_status_returns [OF r] assms(2)
    by (auto simp: both_exist_def job_exists_upd gateway_exists_def gateways_get_upd_job simp del: upd_defs)
  then have "?I (db w2)"
    using set_stage_outcome [OF s, of jid gid] by (simp add: both_exist_def gateway_exists_def)
  then have w3: "db_inv ?I w3" using commit_returns [OF c] by (simp add: db_inv_def)
  obtain q w4 where run: "?go w3 = (q, w4)" by (cases "?go w3")
  have w4: "db_inv ?I w4" by (rule db_kept [of "?go", OF run w3]) (intro keeps_intros)
  show ?thesis
  proof (cases q)
    case (Inl e)
    with t run have "provisioning_failed E jid gid e w4 = (Inr x, w')"
      by (auto simp: try_except_def catchM_def split: if_splits)
    then show ?thesis using provisioning_failed_outcome w4 by (simp add: db_inv_def)
  next
    case (Inr y)
    with t run have w': "w' = w4" by (simp add: try_except_def catchM_def)
    from run Inr obtain z v where p: "provision_gateway E gid (Some jid) w3 = (Inr z, v)" and
      k: "thenM (jobs_update_status E jid JCompleted None)
         (thenM (set_provision_stage E jid STAGE_DONE True) (commit E)) v = (Inr y, w4)"
      by (auto simp: bindM_returns)
    have "db_inv ?I v" by (rule db_kept [of "provision_gateway E gid (Some jid)", OF p w3]) (intro keeps_intros)
    moreover have "db_inv (gateway_status_in gid {GReady, GError}) v"
      using provision_gateway_outcome [OF p] w3 by (simp add: db_inv_def both_exist_def)
    ultimately show ?thesis using completed_outcome [OF k] w' by (simp add: db_inv_def)
  qed
qed

section \<open>The outcome of a deletion\<close>

text \<open>What the deletion keeps while it runs: the job is there as long as the gateway is.\<close>

definition job_with_gateway :: "int \<Rightarrow> int \<Rightarrow> db \<Rightarrow> bool" where
  "job_with_gateway jid gid d \<longleftrightarrow> (gateway_exists gid d \<longrightarrow> job_exists jid d)"

lemma frame_job_with_gateway [keeps_intros]: "job_frame (job_with_gateway jid gid)"
  by (simp add: job_frame_def job_with_gateway_def job_exists_upd gateway_exists_def gateways_get_upd_job del: upd_defs)

lemma keeps_release [keeps_intros]:
  "keeps (db_inv (job_with_gateway jid gid)) (release_vm_ip wid a)"
  "keeps (db_inv (job_with_gateway jid gid)) (release_udp_port wid n)"
  unfolding release_vm_ip_def release_udp_port_def
  by (rule keeps_mod_db; simp add: job_with_gateway_def job_exists_def jobs_get_by_id_def
      gateway_exists_def gateways_get_by_id_def)+

lemma keeps_gateways_delete:
  "keeps (db_inv (job_with_gateway jid gid)) (gateways_delete gid)"
  unfolding gateways_delete_def
  by (rule keeps_mod_db) (simp add: job_with_gateway_def gateway_exists_def gateways_get_by_id_def delete_gateway_rows_def)

lemma keeps_execute_delete [keeps_intros]:
  "keeps (db_inv (job_with_gateway jid gid)) (execute_delete_gateway E gid (Some jid))"
proof (rule keepsI)
  fix w assume inv: "db_inv (job_with_gateway jid gid) w"
  show "db_inv (job_with_gateway jid gid) (snd (execute_delete_gateway E gid (Some jid) w))"
  proof (cases "gateways_get_by_id gid (db w)")
    case None
    have "keeps (db_inv (job_with_gateway jid gid))
        (if Some jid \<noteq> None \<and> Some jid \<noteq> Some 0 then
           bindM (get_db (jobs_get_by_id (the (Some jid)))) (\<lambda>job.
           if job \<noteq> None \<and> job_status (the job) \<noteq> JCompleted
           then thenM (jobs_update_status E (the (Some jid)) JCompleted None) (commit E)
           else ret ())
         else ret ())"
      by (intro keeps_intros)
    with inv None show ?thesis by (simp add: execute_delete_gateway_def get_db_bind keeps_def)
  next
    case (Some g)
    then have id: "gw_id g = gid" by (auto dest: gateways_get_by_id_SomeD)
    have "keeps (db_inv (job_with_gateway jid gid))
        (thenM (ignore_headscale
                  (bindM (delete_gateway_headscale_node E (known_exit_node g) (gateway_headscale_hostnames g))
                     (\<lambda>_. ret ())))
        (bindM (resolve_worker g) (\<lambda>wk.
         thenM (try_except (bindM (gateway_incus_client E wk) (\<lambda>c. delete_gateway_vm E c (gw_incus_instance g)))
                  (\<lambda>_. ret ()))
        (remove_gateway_rows E g (Some jid)))))"
      unfolding remove_gateway_rows_def id
      by (intro keeps_intros keeps_gateways_delete)
    with inv Some show ?thesis by (simp add: execute_delete_gateway_def get_db_bind keeps_def)
  qed
qed

lemma deletion_failed_outcome:
  assumes "deletion_failed E jid gid e w = (Inr x, w')" and "job_with_gateway jid gid (stored w)"
  shows "\<not> gateway_exists gid (stored w') \<or>
         job_status_is jid JFailed (stored w') \<and> gateway_status_in gid {GError} (stored w')"
proof -
  let ?v = "rollback_w w" and ?d = "stored w"
  have v: "db ?v = ?d" by (simp add: rollback_w_def)
  with assms obtain w1 w2 where
    j: "(if job_exists jid ?d then jobs_update_status E jid JFailed (Some (exn_str e)) else ret ()) ?v = (Inr (), w1)" and
    g: "(if gateway_exists gid ?d then gateways_update_status E gid GError (Some (''Deletion failed: '' @ exn_str e))
         else ret ()) w1 = (Inr (), w2)" and
    c: "commit E w2 = (Inr (), w')"
    unfolding deletion_failed_def rollback_def job_exists_def gateway_exists_def
    by (auto simp: thenM_returns bindM_returns simp del: upd_defs)
  show ?thesis
  proof (cases "gateway_exists gid ?d")
    case True
    then have "job_exists jid ?d" using assms(2) by (simp add: job_with_gateway_def)
    then have "jobs_update_status E jid JFailed (Some (exn_str e)) ?v = (Inr (), w1)" using j by simp
    from jobs_update_status_returns [OF this] have
      w1: "job_status_is jid JFailed (db w1)" "gateway_exists gid (db w1)"
      using \<open>job_exists jid ?d\<close> True v
      by (auto simp: job_status_upd gateway_exists_def gateways_get_upd_job simp del: upd_defs)
    have "gateways_update_status E gid GError (Some (''Deletion failed: '' @ exn_str e)) w1 = (Inr (), w2)"
      using g True by simp
    from gateways_update_status_returns [OF this] w1 have
      "job_status_is jid JFailed (db w2)" "gateway_status_in gid {GError} (db w2)"
      by (auto simp: job_status_is_def jobs_get_upd_gateway gateway_exists_def gateway_status_in_def
          gateways_get_status_upd simp del: upd_defs)
    then show ?thesis using commit_returns [OF c] by simp
  next
    case False
    then have "w2 = w1" using g by simp
    moreover have "\<not> gateway_exists gid (db w1)"
      using j False v by (auto simp: gateway_exists_def gateways_get_upd_job simp del: upd_defs
          split: if_splits dest!: jobs_update_status_returns)
    ultimately show ?thesis using commit_returns [OF c] by simp
  qed
qed

lemma execute_delete_gone:
  assumes "execute_delete_gateway E gid jid w = (Inr x, w')"
  shows "\<not> gateway_exists gid (db w') \<and> (stored w' = db w' \<or> w' = w)"
proof (cases "gateways_get_by_id gid (db w)")
  case None
  with assms show ?thesis
    by (auto simp: execute_delete_gateway_def get_db_bind bindM_returns thenM_returns gateway_exists_def
        gateways_get_upd_job simp del: upd_defs split: if_splits
        dest!: jobs_update_status_returns commit_returns)
next
  case (Some g)
  from execute_delete_gateway_returns [OF assms this] gateways_get_by_id_SomeD [OF Some] show ?thesis
    by (auto simp: gateway_exists_def gateways_get_by_id_def deleted_gateway_def delete_gateway_rows_def
        free_port_row_def free_ip_row_def)
qed

text \<open>
  C8: A deletion job that was processed is settled: when the call returns for a job that exists,
  either the gateway is gone from the committed database, or the job has failed and the gateway is in
  ERROR. It is never left in DELETING with a job that runs.
\<close>

theorem process_deletion_job_settles:
  assumes "process_deletion_job E jid gid w = (Inr x, w')" and "job_exists jid (db w)"
  shows "\<not> gateway_exists gid (stored w') \<or>
         job_status_is jid JFailed (stored w') \<and> gateway_status_in gid {GError} (stored w')"
proof -
  let ?K = "job_with_gateway jid gid"
  let ?go = "execute_delete_gateway E gid (Some jid)"
  obtain w1 w2 where
    r: "jobs_update_status E jid JRunning None w = (Inr (), w1)" and
    c: "commit E w1 = (Inr (), w2)" and
    t: "try_except ?go (deletion_failed E jid gid) w2 = (Inr x, w')"
    using assms unfolding process_deletion_job_def
    by (auto simp: bindM_returns thenM_returns job_exists_def)
  have "job_exists jid (db w1)"
    using jobs_update_status_returns [OF r] assms(2) by (auto simp: job_exists_upd simp del: upd_defs)
  then have w2: "db_inv ?K w2" "stored w2 = db w2"
    using commit_returns [OF c] by (simp_all add: db_inv_def job_with_gateway_def)
  obtain q w3 where run: "?go w2 = (q, w3)" by (cases "?go w2")
  have w3: "db_inv ?K w3" by (rule db_kept [of "?go", OF run w2(1)]) (intro keeps_intros)
  show ?thesis
  proof (cases q)
    case (Inl e)
    with t run have "deletion_failed E jid gid e w3 = (Inr x, w')"
      by (auto simp: try_except_def catchM_def split: if_splits)
    then show ?thesis using deletion_failed_outcome w3 by (simp add: db_inv_def)
  next
    case (Inr y)
    with t run have w': "w' = w3" by (simp add: try_except_def catchM_def)
    from execute_delete_gone [of E gid "Some jid" w2 y w3] run Inr w2(2) w' show ?thesis by auto
  qed
qed

section \<open>Witnesses\<close>

text \<open>A gateway whose agent is not given time to come up.\<close>

definition hurried_env :: env where
  "hurried_env = sample_env\<lparr>s_provisioning_timeout_seconds := 0\<rparr>"

definition pending_db :: db where
  "pending_db = sample_db\<lparr>gateways := [sample_gateway\<lparr>gw_status := GPending\<rparr>],
     jobs := [(new_job CreateGateway 1)\<lparr>job_id := 7\<rparr>]\<rparr>"

definition deleting_now_db :: db where
  "deleting_now_db = sample_db\<lparr>gateways := [sample_gateway\<lparr>gw_status := GDeleting\<rparr>],
     jobs := [(new_job DeleteGateway 1)\<lparr>job_id := 7\<rparr>]\<rparr>"

lemma hurried_run:
  "process_provisioning_job hurried_env 7 1 (fresh_world pending_db) =
     (Inr (), snd (process_provisioning_job hurried_env 7 1 (fresh_world pending_db)))"
  by (rule run_pair) code_simp

theorem process_provisioning_job_witness:
  "provisioning_settled 7 1 (stored (snd (process_provisioning_job hurried_env 7 1 (fresh_world pending_db))))"
proof -
  have "both_exist 7 1 (db (fresh_world pending_db))" by code_simp
  from process_provisioning_job_settles [OF hurried_run this] show ?thesis .
qed

text \<open>
  The job of a gateway that did not come up is recorded as COMPLETED: \<open>provision_gateway\<close> returns on
  the timeout of the agent, and the worker takes the return for success.
\<close>

definition incus_env :: env where
  "incus_env = hurried_env\<lparr>o_http := (\<lambda>h me u b. Inr (200, ''{\"metadata\":{\"status\":\"Running\",\"devices\":{}}}'')),
     o_file := (\<lambda>h p. Some ''pem'')\<rparr>"

lemma timed_out_job_completed:
  "let d = stored (snd (process_provisioning_job incus_env 7 1 (fresh_world pending_db)))
   in map gw_status (gateways d) = [GError] \<and> map job_status (jobs d) = [JCompleted]"
  by code_simp

theorem process_deletion_job_witness:
  "\<exists>w'. process_deletion_job sample_env 7 1 (fresh_world deleting_now_db) = (Inr (), w') \<and>
     (\<not> gateway_exists 1 (stored w') \<or> job_status_is 7 JFailed (stored w'))"
proof -
  have run: "process_deletion_job sample_env 7 1 (fresh_world deleting_now_db) =
     (Inr (), snd (process_deletion_job sample_env 7 1 (fresh_world deleting_now_db)))"
    by (rule run_pair) code_simp
  have "job_exists 7 (db (fresh_world deleting_now_db))" by code_simp
  from process_deletion_job_settles [OF run this] run show ?thesis by blast
qed

end
