(* ===== verification/Threads.thy ===== *)
theory Threads
  imports Jobs
begin

declare append_Cons [simp del]

text \<open>
  The threads of the background workers as a transition system. A state is the world together with
  the threads that were started and have not ended; a step is a request that starts a thread, one of
  the two recovery passes, or the end of a thread, whose body runs as one step: the sessions of
  different threads are serialised by the lock of the database. \<open>live_threads\<close> shows that the two
  sets of active gateways do what they are for, \<open>resume_leaves_none_behind\<close> that recovery starts
  what it has to.
\<close>

section \<open>Operations that start no thread\<close>

lemma detached_repos [detached_intros]:
  assumes "detached J"
  shows "keeps J (jobs_update_status E i s e)" "keeps J (jobs_update_stage E i sg b)" "keeps J (jobs_create E j)"
    "keeps J (jobs_reset_failed_job E gid)" "keeps J (gateways_update_status E i gs m)"
    "keeps J (gateways_delete i)" "keeps J (peers_create E p)"
    "keeps J (release_vm_ip wid a)" "keeps J (release_udp_port wid n)" "keeps J (allocate_peer_ip E g)"
    "keeps J (set_provision_stage E i sg b)"
  unfolding jobs_update_status_def jobs_update_stage_def jobs_create_def jobs_reset_failed_job_def mod_job_def
    gateways_update_status_def gateways_delete_def peers_create_def release_vm_ip_def release_udp_port_def
    allocate_peer_ip_def set_provision_stage_def
  by (intro detached_intros keeps_intros assms)+

lemma detached_gateway [detached_intros]:
  assumes "detached J"
  shows "keeps J (prepare_provisioning E gid)" "keeps J (execute_delete_gateway E gid jid)"
    "keeps J (finalize_exit_node E gid agent)" "keeps J (create_peer E gid n)" "keeps J (ensure_backhaul_peer E gid)"
  unfolding prepare_provisioning_def reopen_gateway_def execute_delete_gateway_def remove_gateway_rows_def
    finalize_exit_node_def create_peer_def ensure_backhaul_peer_def Let_def
  by (intro detached_intros keeps_intros assms)+

lemma detached_provision [detached_intros]:
  assumes "detached J"
  shows "keeps J (stage E jid s)" "keeps J (launch_instance E jid g wk p)" "keeps J (wait_cloud_init E jid agent)"
    "keeps J (fail_gateway E gid msg)" "keeps J (setup_peer E gid agent)" "keeps J (complete_gateway E jid g agent)"
    "keeps J (bring_up_gateway E jid g token)" "keeps J (provision_gateway E gid jid)"
  unfolding stage_def launch_instance_def wait_cloud_init_def fail_gateway_def setup_peer_def
    complete_gateway_def bring_up_gateway_def provision_gateway_def
  by (intro detached_intros keeps_intros assms)+

lemma detached_own_session [detached_intros]:
  assumes "detached J" and "keeps J m"
  shows "keeps J (own_session m)"
  using assms unfolding keeps_def own_session_def detached_def rollback_w_def
  by (auto split: prod.split) (metis snd_conv)

lemma detached_stale [detached_intros]: "detached J \<Longrightarrow> keeps J (is_stale_running_job E j)"
  unfolding is_stale_running_job_def by (intro detached_intros keeps_intros)

lemma detached_jobs [detached_intros]:
  assumes "detached J"
  shows "keeps J (provisioning_failed E i gid e)" "keeps J (process_provisioning_job E i gid)"
    "keeps J (job_to_provision E gid jid)" "keeps J (run_gateway_provisioning_once E gid jid)"
    "keeps J (deletion_failed E i gid e)" "keeps J (process_deletion_job E i gid)"
    "keeps J (finish_orphan_job E jid)" "keeps J (delete_with_job E gid j)" "keeps J (run_gateway_deletion_once E gid jid)"
  unfolding provisioning_failed_def process_provisioning_job_def job_to_provision_def
    run_gateway_provisioning_once_def deletion_failed_def process_deletion_job_def finish_orphan_job_def
    delete_with_job_def run_gateway_deletion_once_def
  by (intro detached_intros keeps_intros assms)+

lemma detached_retry [detached_intros]:
  assumes "detached J" and "keeps J m"
  shows "keeps J (retry_locked m n a)"
  by (induction n arbitrary: a) (auto intro!: detached_intros keeps_intros assms simp del: keeps_Pair)

lemma detached_run [detached_intros]:
  assumes "detached J"
  shows "keeps J (run_gateway_provisioning E gid jid)" "keeps J (run_gateway_deletion E gid jid)"
  unfolding run_gateway_provisioning_def run_gateway_deletion_def
  by (intro detached_intros keeps_intros assms)+

section \<open>The transition system\<close>

text \<open>A thread: the prefix of its name, which tells the worker, its gateway and its job.\<close>

type_synonym thread = "str \<times> int \<times> int option"
type_synonym system = "world \<times> thread list"

definition PROVISION :: str where
  "PROVISION = ''provision-gateway-''"

definition DELETE :: str where
  "DELETE = ''delete-gateway-''"

fun spawns :: "event list \<Rightarrow> thread list" where
  "spawns [] = []"
| "spawns (Spawn n g j # es) = (n, g, j) # spawns es"
| "spawns (e # es) = spawns es"

text \<open>The threads started between two worlds.\<close>

definition started :: "world \<Rightarrow> world \<Rightarrow> thread list" where
  "started w w' = drop (length (spawns (trace w))) (spawns (trace w'))"

inductive step :: "env \<Rightarrow> system \<Rightarrow> system \<Rightarrow> bool" for E where
  provisioning_requested:
    "schedule_provisioning_after_request gid jid w = (r, w') \<Longrightarrow> step E (w, ts) (w', ts @ started w w')"
| deletion_requested:
    "schedule_deletion_after_request gid jid w = (r, w') \<Longrightarrow> step E (w, ts) (w', ts @ started w w')"
| provisioning_resumed:
    "resume_incomplete_provisioning E w = (r, w') \<Longrightarrow> step E (w, ts) (w', ts @ started w w')"
| deletions_resumed:
    "resume_incomplete_deletions E w = (r, w') \<Longrightarrow> step E (w, ts) (w', ts @ started w w')"
| provisioning_ended:
    "(PROVISION, gid, jid) \<in> set ts \<Longrightarrow> provisioning_thread E gid jid w = (r, w') \<Longrightarrow>
     step E (w, ts) (w', remove1 (PROVISION, gid, jid) ts)"
| deletion_ended:
    "(DELETE, gid, jid) \<in> set ts \<Longrightarrow> deletion_thread E gid jid w = (r, w') \<Longrightarrow>
     step E (w, ts) (w', remove1 (DELETE, gid, jid) ts)"

text \<open>The modules are loaded with no active gateway.\<close>

inductive reachable :: "env \<Rightarrow> system \<Rightarrow> bool" for E where
  loaded: "reachable E (fresh_world d, [])"
| stepped: "reachable E s \<Longrightarrow> step E s s' \<Longrightarrow> reachable E s'"

section \<open>At most one thread per gateway and worker\<close>

definition gateways_of :: "str \<Rightarrow> thread list \<Rightarrow> int list" where
  "gateways_of n ts = map (\<lambda>t. fst (snd t)) (filter (\<lambda>t. fst t = n) ts)"

definition consistent :: "thread list \<Rightarrow> world \<Rightarrow> bool" where
  "consistent ts w \<longleftrightarrow>
     distinct (gateways_of PROVISION ts) \<and> set (gateways_of PROVISION ts) = set (prov_active w) \<and>
     distinct (gateways_of DELETE ts) \<and> set (gateways_of DELETE ts) = set (del_active w)"

lemma gateways_of_append [simp]: "gateways_of n (ts @ us) = gateways_of n ts @ gateways_of n us"
  by (simp add: gateways_of_def)

lemma gateways_of_single [simp]: "gateways_of n [(m, g, j)] = (if m = n then [g] else [])"
  by (simp add: gateways_of_def)

lemma names_differ [simp]: "PROVISION \<noteq> DELETE" "DELETE \<noteq> PROVISION"
  by (simp_all add: PROVISION_def DELETE_def)

lemma spawns_append: "spawns (h @ h') = spawns h @ spawns h'"
proof (induction h)
  case (Cons e h)
  then show ?case by (cases e) (simp_all add: append_Cons)
qed simp

lemma spawns_quiet: "\<not> is_spawn e \<Longrightarrow> spawns [e] = []"
  by (cases e) simp_all

text \<open>With the threads of \<open>ts\<close> alive when \<open>n\<close> threads had been started in all.\<close>

definition live_inv :: "thread list \<Rightarrow> nat \<Rightarrow> world \<Rightarrow> bool" where
  "live_inv ts n w \<longleftrightarrow> n \<le> length (spawns (trace w)) \<and> consistent (ts @ drop n (spawns (trace w))) w"

lemma live_inv_detached [detached_intros]: "detached (live_inv ts n)"
  by (simp add: detached_def stable_def live_inv_def consistent_def spawns_append spawns_quiet)

lemma live_inv_start [detached_intros]:
  "keeps (live_inv ts n) (start_provisioning gid jid)" "keeps (live_inv ts n) (start_deletion gid jid)"
  by (auto simp: keeps_def start_provisioning_def start_deletion_def live_inv_def consistent_def spawns_append
      PROVISION_def [symmetric] DELETE_def [symmetric])

lemma live_inv_resume_loop:
  assumes "\<And>gid. keeps J (f gid)"
  shows "keeps J (resume_loop f gids k)"
  using assms by (induction gids arbitrary: k) (auto intro!: keeps_intros simp del: keeps_Pair)

lemma live_inv_resume [detached_intros]:
  "keeps (live_inv ts n) (resume_incomplete_provisioning E)" "keeps (live_inv ts n) (resume_incomplete_deletions E)"
  unfolding resume_incomplete_provisioning_def resume_incomplete_deletions_def resume_provisioning_of_def
    job_to_resume_def start_resumed_def resume_deletion_of_def
  by (intro detached_intros keeps_intros live_inv_resume_loop)+

lemma live_inv_now: "live_inv ts (length (spawns (trace w))) w \<longleftrightarrow> consistent ts w"
  by (simp add: live_inv_def)

lemma consistent_started:
  assumes "consistent ts w" and "m w = (r, w')" and "\<And>n. keeps (live_inv ts n) m"
  shows "consistent (ts @ started w w') w'"
  using keepsD [OF assms(3) _ assms(2), of "length (spawns (trace w))"] assms(1)
  by (simp add: live_inv_now) (simp add: live_inv_def started_def)

lemma gateways_of_Cons:
  "gateways_of n [] = []" "gateways_of n ((m, g, j) # ts) = (if m = n then g # gateways_of n ts else gateways_of n ts)"
  by (simp_all add: gateways_of_def)

lemma gateways_of_mem: "(n, g, j) \<in> set ts \<Longrightarrow> g \<in> set (gateways_of n ts)"
  by (force simp: gateways_of_def)

lemma gateways_of_remove:
  "(n, g, j) \<in> set ts \<Longrightarrow> distinct (gateways_of n ts) \<Longrightarrow>
   gateways_of n (remove1 (n, g, j) ts) = removeAll g (gateways_of n ts)"
proof (induction ts)
  case (Cons t ts)
  obtain m h k where t: "t = (m, h, k)" by (cases t)
  show ?case
  proof (cases "t = (n, g, j)")
    case True
    then show ?thesis using Cons.prems(2) by (simp add: gateways_of_Cons removeAll_id)
  next
    case False
    with Cons.prems have mem: "(n, g, j) \<in> set ts" by simp
    then show ?thesis
      using False Cons.prems(2) Cons.IH gateways_of_mem [OF mem] unfolding t
      by (cases "m = n") (auto simp: gateways_of_Cons)
  qed
qed simp

lemma gateways_of_remove_other: "n \<noteq> m \<Longrightarrow> gateways_of n (remove1 (m, g, j) ts) = gateways_of n ts"
  by (induction ts) (auto simp: gateways_of_def)

lemma active_detached: "detached (\<lambda>w. prov_active w = A \<and> del_active w = B)"
  by (simp add: detached_def stable_def)

lemma provisioning_thread_active:
  assumes "provisioning_thread E gid jid w = (r, w')"
  shows "prov_active w' = removeAll gid (prov_active w) \<and> del_active w' = del_active w"
proof -
  let ?J = "\<lambda>v. prov_active v = prov_active w \<and> del_active v = del_active w"
  obtain q v where run: "run_gateway_provisioning E gid jid w = (q, v)" by (cases "run_gateway_provisioning E gid jid w")
  have "keeps ?J (run_gateway_provisioning E gid jid)" by (intro detached_intros active_detached)
  then have "?J v" using run by (simp add: keeps_def) (metis snd_conv)
  with assms run show ?thesis
    by (auto simp: provisioning_thread_def finallyM_def discard_provisioning_def)
qed

lemma deletion_thread_active:
  assumes "deletion_thread E gid jid w = (r, w')"
  shows "del_active w' = removeAll gid (del_active w) \<and> prov_active w' = prov_active w"
proof -
  let ?J = "\<lambda>v. prov_active v = prov_active w \<and> del_active v = del_active w"
  obtain q v where run: "run_gateway_deletion E gid jid w = (q, v)" by (cases "run_gateway_deletion E gid jid w")
  have "keeps ?J (run_gateway_deletion E gid jid)" by (intro detached_intros active_detached)
  then have "?J v" using run by (simp add: keeps_def) (metis snd_conv)
  with assms run show ?thesis
    by (auto simp: deletion_thread_def finallyM_def discard_deletion_def)
qed

lemma consistent_step:
  assumes "step E s s'" and "consistent (snd s) (fst s)"
  shows "consistent (snd s') (fst s')"
  using assms
proof (induction rule: step.induct)
  case (provisioning_requested gid jid w r w' ts)
  then show ?case
    using consistent_started [of ts w "schedule_provisioning_after_request gid jid"]
    by (simp add: schedule_provisioning_after_request_def live_inv_start)
next
  case (deletion_requested gid jid w r w' ts)
  then show ?case
    using consistent_started [of ts w "schedule_deletion_after_request gid jid"]
    by (simp add: schedule_deletion_after_request_def live_inv_start)
next
  case (provisioning_resumed w r w' ts)
  then show ?case
    using consistent_started [of ts w "resume_incomplete_provisioning E"] by (simp add: live_inv_resume)
next
  case (deletions_resumed w r w' ts)
  then show ?case
    using consistent_started [of ts w "resume_incomplete_deletions E"] by (simp add: live_inv_resume)
next
  case (provisioning_ended gid jid ts w r w')
  with provisioning_thread_active [OF provisioning_ended(2)] gateways_of_remove [OF provisioning_ended(1)]
  show ?case by (simp add: consistent_def gateways_of_remove_other distinct_removeAll)
next
  case (deletion_ended gid jid ts w r w')
  with deletion_thread_active [OF deletion_ended(2)] gateways_of_remove [OF deletion_ended(1)]
  show ?case by (simp add: consistent_def gateways_of_remove_other distinct_removeAll)
qed

lemma reachable_consistent: "reachable E s \<Longrightarrow> consistent (snd s) (fst s)"
proof (induction rule: reachable.induct)
  case (loaded d)
  show ?case by (simp add: consistent_def gateways_of_def fresh_world_def)
next
  case (stepped s s')
  then show ?case by (rule_tac consistent_step)
qed

text \<open>
  C4: At most one provisioning thread and at most one deletion thread work on a gateway at any time:
  in every state that requests, recovery passes and ends of threads lead to, the gateways of the live
  threads of each worker are pairwise distinct, and the set of active gateways of the worker holds
  exactly them; so a gateway whose thread has ended, however it ended, can be worked on again.
\<close>

theorem one_thread_per_gateway:
  assumes "reachable E (w, ts)"
  shows "distinct (gateways_of PROVISION ts) \<and> set (prov_active w) = set (gateways_of PROVISION ts) \<and>
         distinct (gateways_of DELETE ts) \<and> set (del_active w) = set (gateways_of DELETE ts)"
  using reachable_consistent [OF assms] by (simp add: consistent_def)

theorem one_thread_witness:
  "\<exists>w ts. reachable sample_env (w, ts) \<and> ts \<noteq> [] \<and> distinct (gateways_of PROVISION ts)"
proof -
  let ?w0 = "fresh_world sample_db"
  let ?w1 = "snd (schedule_provisioning_after_request 1 7 ?w0)"
  have "step sample_env (?w0, []) (?w1, [] @ started ?w0 ?w1)"
    by (rule provisioning_requested) (rule prod.collapse [symmetric])
  with loaded have "reachable sample_env (?w1, [] @ started ?w0 ?w1)" by (rule stepped)
  moreover have "started ?w0 ?w1 \<noteq> []" by code_simp
  ultimately show ?thesis using one_thread_per_gateway by fastforce
qed

section \<open>Recovery\<close>

text \<open>What recovery looks at to decide about one gateway.\<close>

definition seen :: "int \<Rightarrow> gateway option \<Rightarrow> job option \<Rightarrow> db \<Rightarrow> bool" where
  "seen gid g l d \<longleftrightarrow>
     keyed job_id (jobs d) \<and> gateways_get_by_id gid d = g \<and> jobs_get_latest_create_job gid d = l"

lemma find_upd_same: "(\<And>x. x \<in> set xs \<Longrightarrow> P (u x) = P x \<and> (P x \<longrightarrow> u x = x)) \<Longrightarrow> find P (map u xs) = find P xs"
  by (induction xs) auto

lemma seen_upd_job:
  assumes "seen gid g l d" and "k \<in> set (jobs d)" and "job_gateway_id k = Some gid'" and "gid' \<noteq> gid"
  shows "seen gid g l (upd_job t (job_id k) (\<lambda>j. j\<lparr>job_status := JPending, job_error := None\<rparr>) d)"
proof -
  have key: "keyed job_id (jobs d)" using assms(1) by (simp add: seen_def)
  have only: "job_gateway_id j = Some gid'" if "j \<in> set (jobs d)" "job_id j = job_id k" for j
  proof -
    have "j = k" using jobs_get_mem [OF key that(1), unfolded that(2)] jobs_get_mem [OF key assms(2)] by (rule option.inject [THEN iffD1, OF trans [OF sym]])
    then show ?thesis using assms(3) by simp
  qed
  let ?f = "\<lambda>j::job. j\<lparr>job_status := JPending, job_error := None\<rparr>"
  define u where "u j = (if job_id j = job_id k then (if ?f j = j then j else (?f j)\<lparr>job_updated_at := t\<rparr>) else j)" for j :: job
  have u: "job_gateway_id (u j) = job_gateway_id j" "job_type (u j) = job_type j" "job_id (u j) = job_id j"
    "job_id j \<noteq> job_id k \<Longrightarrow> u j = j" for j
    by (simp_all add: u_def)
  have jobs: "jobs (upd_job t (job_id k) ?f d) = map u (jobs d)"
    by (simp add: tbl_upd_def u_def)
  have same: "u j = j" if "j \<in> set (jobs d)" "job_gateway_id j = Some gid" for j
    using only [OF that(1)] that(2) assms(4) u(4) [of j] by auto
  have "find (\<lambda>j. job_gateway_id j = Some gid \<and> job_type j = CreateGateway) (map u (rev (jobs d))) =
        find (\<lambda>j. job_gateway_id j = Some gid \<and> job_type j = CreateGateway) (rev (jobs d))"
    by (rule find_upd_same) (simp add: u same)
  moreover have "job_id \<circ> u = job_id" by (simp add: fun_eq_iff u)
  ultimately show ?thesis using assms(1)
    unfolding seen_def jobs_get_latest_create_job_def jobs keyed_iff
    by (simp add: rev_map gateways_get_upd_job del: upd_defs)
qed

lemma seen_kept_by_reset:
  assumes "gid' \<noteq> gid"
  shows "keeps (db_inv (seen gid g l)) (jobs_reset_failed_job E gid')"
proof (rule keepsI)
  fix w assume inv: "db_inv (seen gid g l) w"
  show "db_inv (seen gid g l) (snd (jobs_reset_failed_job E gid' w))"
  proof (cases "jobs_get_latest_create_job gid' (db w)")
    case None
    then show ?thesis using inv by (simp add: jobs_reset_failed_job_def get_db_bind)
  next
    case (Some k)
    let ?f = "\<lambda>j::job. j\<lparr>job_status := JPending, job_error := None\<rparr>"
    let ?w1 = "w\<lparr>db := upd_job (db_now E w) (job_id k) ?f (db w)\<rparr>"
    have "seen gid g l (db ?w1)"
      using inv latest_create_job_SomeD [OF Some] assms
      by (auto simp: db_inv_def simp del: upd_defs intro: seen_upd_job)
    then have w1: "db_inv (seen gid g l) ?w1" using inv by (simp add: db_inv_def del: upd_defs)
    have rest: "keeps (db_inv (seen gid g l)) (thenM (flush E) (get_db F))" for F :: "db \<Rightarrow> job option"
      by (intro keeps_intros)
    have step: "snd (jobs_reset_failed_job E gid' w) =
       (if job_status k \<in> {JFailed, JCompleted, JRunning} then snd (flush E ?w1) else w)"
      using Some by (auto simp: jobs_reset_failed_job_def get_db_bind thenM_def mod_job_def
          simp del: upd_defs split: sum.splits prod.splits)
    have "db_inv (seen gid g l) (snd (flush E ?w1))"
      using w1 keeps_session(1) [of "seen gid g l" E] by (simp add: keeps_def del: upd_defs)
    then show ?thesis using step inv by simp
  qed
qed

lemma seen_kept_by_create:
  assumes "gid' \<noteq> gid"
  shows "keeps (db_inv (seen gid g l)) (jobs_create E (new_job CreateGateway gid'))"
proof -
  have "seen gid g l (d\<lparr>jobs := jobs d @ [(new_job CreateGateway gid')\<lparr>job_id := next_id job_id (jobs d),
      job_created_at := t, job_updated_at := t\<rparr>]\<rparr>)" if "seen gid g l d" for d t
    using that assms
    by (simp add: seen_def keyed_new gateways_get_by_id_def jobs_get_latest_create_job_def new_job_def append_Cons)
  then have add: "keeps (db_inv (seen gid g l)) (modM (\<lambda>w. w\<lparr>db := (db w)\<lparr>jobs := jobs (db w) @
      [(new_job CreateGateway gid')\<lparr>job_id := next_id job_id (jobs (db w)),
        job_created_at := db_now E w, job_updated_at := db_now E w\<rparr>]\<rparr>\<rparr>))"
    by (simp add: keeps_def db_inv_def)
  show ?thesis
  proof (rule keepsI)
    fix w assume inv: "db_inv (seen gid g l) w"
    let ?w1 = "w\<lparr>db := (db w)\<lparr>jobs := jobs (db w) @
      [(new_job CreateGateway gid')\<lparr>job_id := next_id job_id (jobs (db w)),
        job_created_at := db_now E w, job_updated_at := db_now E w\<rparr>]\<rparr>\<rparr>"
    have w1: "db_inv (seen gid g l) ?w1" using add inv by (simp add: keeps_def)
    have "snd (jobs_create E (new_job CreateGateway gid') w) = snd (flush E ?w1)"
      by (auto simp: jobs_create_def get_db_bind thenM_def split: sum.splits prod.splits)
    then show "db_inv (seen gid g l) (snd (jobs_create E (new_job CreateGateway gid') w))"
      using w1 keeps_session(1) [of "seen gid g l" E] by (simp add: keeps_def)
  qed
qed

lemma seen_kept_by_prepare:
  assumes "gid' \<noteq> gid"
  shows "keeps (db_inv (seen gid g l)) (prepare_provisioning E gid')"
proof -
  have "keeps (db_inv (seen gid g l)) (mod_db (upd_gateway gid' f))" if "\<And>r. gw_id (f r) = gw_id r" for f
  proof (rule keeps_mod_db)
    fix d assume "seen gid g l d"
    then show "seen gid g l (upd_gateway gid' f d)"
      using assms gateways_get_by_id_upd [of f gid gid' d, OF that]
      unfolding seen_def jobs_get_latest_create_job_def by simp
  qed
  then show ?thesis
    unfolding prepare_provisioning_def reopen_gateway_def gateways_update_status_def
    by (intro keeps_intros seen_kept_by_reset [OF assms] seen_kept_by_create [OF assms]) simp_all
qed

lemma start_provisioning_active:
  "start_provisioning gid jid w = (Inr x, w') \<Longrightarrow> gid \<in> set (prov_active w')"
  by (auto simp: start_provisioning_def split: if_splits)

lemma still_active:
  "keeps (\<lambda>w. gid \<in> set (prov_active w)) (start_provisioning gid' jid)"
  "detached (\<lambda>w. gid \<in> set (prov_active w))"
  by (auto simp: keeps_def start_provisioning_def detached_def stable_def)

lemma resume_of_keeps_active: "keeps (\<lambda>w. gid \<in> set (prov_active w)) (resume_provisioning_of E gid')"
  unfolding resume_provisioning_of_def job_to_resume_def start_resumed_def by (intro detached_intros keeps_intros still_active)

lemma resume_of_keeps_seen:
  assumes "gid' \<noteq> gid"
  shows "keeps (db_inv (seen gid g l)) (resume_provisioning_of E gid')"
proof -
  have "keeps (db_inv (seen gid g l)) (start_provisioning gid' jid)" for jid
    by (simp add: keeps_def start_provisioning_def db_inv_def)
  then show ?thesis
    unfolding resume_provisioning_of_def job_to_resume_def start_resumed_def is_stale_running_job_def
    by (intro keeps_intros seen_kept_by_prepare [OF assms])
qed

lemma prepared_job_started:
  assumes "thenM (prepare_provisioning E gid) (get_db (jobs_get_pending_for_gateway gid)) w = (Inr r, w')"
    and "keyed job_id (jobs (db w))"
  shows "\<exists>j. r = Some j \<and> job_status j = JPending"
proof -
  from assms(1) have run: "prepare_provisioning E gid w = (Inr (), w')"
    and r: "r = jobs_get_pending_for_gateway gid (db w')"
    by (auto simp: thenM_returns)
  from prepare_provisioning_returns [OF run assms(2)] r show ?thesis by auto
qed

lemma resume_of_starts:
  assumes run: "resume_provisioning_of E gid w = (Inr k, w')"
    and seen: "db_inv (seen gid (Some g) l) w" and need: "needs_provisioning g"
    and live: "\<And>j. l = Some j \<Longrightarrow> job_status j \<in> {JPending, JRunning}"
  shows "gid \<in> set (prov_active w')"
proof (cases "gid \<in> set (prov_active w)")
  case True
  with resume_of_keeps_active [of gid E gid] run show ?thesis by (simp add: keeps_def) (metis snd_conv)
next
  case False
  from seen have d: "gateways_get_by_id gid (db w) = Some g" "jobs_get_latest_create_job gid (db w) = l"
      "keyed job_id (jobs (db w))"
    by (simp_all add: db_inv_def seen_def)
  let ?prep = "thenM (prepare_provisioning E gid) (get_db (jobs_get_pending_for_gateway gid))"
  have run': "bindM (job_to_resume E gid l) (start_resumed E gid) w = (Inr k, w')"
    using run d need False
    by (simp add: resume_provisioning_of_def get_db_bind bindM_def [of "getM f" for f])
  have go: "gid \<in> set (prov_active w')" if "job_status j = JPending" "start_resumed E gid (Some j) v = (Inr k, w')" for j v
    using that by (auto simp: start_resumed_def thenM_returns dest: start_provisioning_active)
  show ?thesis
  proof (cases l)
    case None
    with run' have "start_resumed E gid None w = (Inr k, w')" by (simp add: job_to_resume_def bindM_returns)
    then obtain x v where p: "prepare_provisioning E gid w = (Inr x, v)" and
      q: "bindM (get_db (jobs_get_pending_for_gateway gid)) (\<lambda>again.
               case again of
                 Some j \<Rightarrow> thenM (start_provisioning gid (Some (job_id j))) (ret 1)
               | None \<Rightarrow> ret (0::nat)) v = (Inr k, w')"
      unfolding start_resumed_def option.case thenM_returns [of "prepare_provisioning E gid"] by blast
    from prepare_provisioning_returns [OF p d(3)] obtain j where
      "jobs_get_pending_for_gateway gid (db v) = Some j" by blast
    with q show ?thesis by (auto simp: get_db_bind thenM_returns dest: start_provisioning_active)
  next
    case (Some j)
    show ?thesis
    proof (cases "job_status j = JRunning")
      case False
      with Some live have "job_status j = JPending" by auto
      moreover have "start_resumed E gid (Some j) w = (Inr k, w')"
        using run' Some False by (simp add: job_to_resume_def bindM_returns)
      ultimately show ?thesis by (rule go)
    next
      case True
      with run' Some obtain b v r v' where s: "is_stale_running_job E j w = (Inr b, v)" and
        p: "?prep v = (Inr r, v')" and q: "start_resumed E gid r v' = (Inr k, w')"
        unfolding job_to_resume_def by (auto simp: bindM_returns)
      have "db v = db w" using stable_run [of "is_stale_running_job E j", OF s]
        by (simp add: is_stale_running_job_def keeps_intros)
      then obtain i where "r = Some i" "job_status i = JPending"
        using prepared_job_started [OF p] d(3) by auto
      with q go show ?thesis by blast
    qed
  qed
qed

lemma resume_loop_starts:
  assumes "resume_loop (resume_provisioning_of E) gids n w = (Inr k, w')" and "gid \<in> set gids"
    and "db_inv (seen gid (Some g) l) w" and "needs_provisioning g"
    and "\<And>j. l = Some j \<Longrightarrow> job_status j \<in> {JPending, JRunning}"
  shows "gid \<in> set (prov_active w')"
  using assms(1-3)
proof (induction gids arbitrary: n w)
  case (Cons i gids)
  obtain c v where one: "resume_provisioning_of E i w = (Inr c, v)" and
    rest: "resume_loop (resume_provisioning_of E) gids (n + c) v = (Inr k, w')"
    using Cons.prems(1) by (auto simp: bindM_returns)
  show ?case
  proof (cases "i = gid")
    case True
    have "gid \<in> set (prov_active v)"
      using resume_of_starts [OF one [unfolded True] Cons.prems(3) assms(4) assms(5)] .
    moreover have "keeps (\<lambda>w. gid \<in> set (prov_active w)) (resume_loop (resume_provisioning_of E) gids (n + c))"
      by (rule live_inv_resume_loop) (rule resume_of_keeps_active)
    ultimately show ?thesis using rest by (simp add: keeps_def) (metis snd_conv)
  next
    case False
    have "db_inv (seen gid (Some g) l) v"
      by (rule db_kept [of "resume_provisioning_of E i", OF one Cons.prems(3) resume_of_keeps_seen [OF False]])
    then show ?thesis using Cons.IH [OF rest] Cons.prems(2) False by auto
  qed
qed simp

text \<open>
  C9: Recovery leaves no gateway behind: when \<open>resume_incomplete_provisioning\<close> returns, every gateway
  that needs provisioning (in PENDING, ERROR or PROVISIONING) is being worked on, the ones whose
  create job was RUNNING when the process stopped included; the only exceptions are those whose
  latest create job had failed or was completed.
\<close>

theorem resume_leaves_none_behind:
  assumes "resume_incomplete_provisioning E w = (Inr k, w')"
    and "keyed job_id (jobs (stored w))" and "keyed gw_id (gateways (stored w))"
    and "g \<in> set (gateways (stored w))" and "needs_provisioning g"
    and "\<forall>j. jobs_get_latest_create_job (gw_id g) (stored w) = Some j \<longrightarrow> job_status j \<in> {JPending, JRunning}"
  shows "gw_id g \<in> set (prov_active w')"
proof -
  let ?v = "rollback_w w"
  have v: "db ?v = stored w" "stored ?v = stored w" by (simp_all add: rollback_w_def)
  from assms(1) obtain u where w': "w' = rollback_w u" and
    run: "bindM (get_db (\<lambda>d. map gw_id (gateways_list_all d))) (\<lambda>gids.
        bindM (resume_loop (resume_provisioning_of E) gids 0) (\<lambda>started.
        thenM (commit E) (ret started))) ?v = (Inr k, u)"
    by (auto simp: resume_incomplete_provisioning_def own_session_def split: prod.splits)
  then obtain u' x where
    loop: "resume_loop (resume_provisioning_of E) (map gw_id (gateways_list_all (stored w))) 0 ?v = (Inr k, u')" and
    c: "commit E u' = (Inr x, u)"
    by (auto simp: get_db_bind bindM_returns thenM_returns v)
  have "gateways_get_by_id (gw_id g) (stored w) = Some g"
    using assms(3,4) by (simp add: gateways_get_by_id_def keyed_def tbl_get_mem)
  then have "db_inv (seen (gw_id g) (Some g) (jobs_get_latest_create_job (gw_id g) (stored w))) ?v"
    using assms(2) by (simp add: db_inv_def seen_def v)
  moreover have "gw_id g \<in> set (map gw_id (gateways_list_all (stored w)))"
    using assms(4) by (auto simp: gateways_list_all_def)
  ultimately have "gw_id g \<in> set (prov_active u')"
    using resume_loop_starts [OF loop] assms(5,6) by blast
  then show ?thesis using commit_returns [OF c] w' by (auto simp: commit_def rollback_w_def split: if_splits)
qed

definition stopped_db :: db where
  "stopped_db = sample_db\<lparr>gateways := [sample_gateway\<lparr>gw_status := GProvisioning\<rparr>],
     jobs := [(new_job CreateGateway 1)\<lparr>job_id := 7, job_status := JRunning\<rparr>]\<rparr>"

theorem resume_witness:
  "1 \<in> set (prov_active (snd (resume_incomplete_provisioning sample_env (fresh_world stopped_db))))"
proof -
  let ?w = "fresh_world stopped_db" and ?g = "sample_gateway\<lparr>gw_status := GProvisioning\<rparr>"
  have run: "resume_incomplete_provisioning sample_env ?w = (Inr 1, snd (resume_incomplete_provisioning sample_env ?w))"
    by (rule run_pair) code_simp
  have "keyed job_id (jobs (stored ?w))" "keyed gw_id (gateways (stored ?w))" "?g \<in> set (gateways (stored ?w))"
    "needs_provisioning ?g" "gw_id ?g = 1" by code_simp+
  moreover have "jobs_get_latest_create_job 1 (stored ?w) = Some ((new_job CreateGateway 1)\<lparr>job_id := 7, job_status := JRunning\<rparr>)"
    by code_simp
  ultimately show ?thesis using resume_leaves_none_behind [OF run] by fastforce
qed

section \<open>A locked database\<close>

lemma retry_never_operational: "retry_locked m n a w = (Inl e, w') \<Longrightarrow> \<not> is_OperationalError e"
proof (induction n arbitrary: a w)
  case (Suc n)
  from Suc.prems show ?case
    by (auto simp: catchM_def thenM_def sleep_def split: prod.splits sum.splits if_splits dest: Suc.IH)
qed simp

text \<open>
  A locked database never kills a worker thread: whatever happens during its attempts, no
  \<open>OperationalError\<close> leaves \<open>run_gateway_provisioning\<close> or \<open>run_gateway_deletion\<close>.
\<close>

theorem locked_database_is_survived:
  "fst (run_gateway_provisioning E gid jid w) \<noteq> Inl (OperationalError m) \<and>
   fst (run_gateway_deletion E gid jid w) \<noteq> Inl (OperationalError m)"
proof -
  have never: "fst (retry_locked once LOCK_RETRIES 0 v) \<noteq> Inl (OperationalError m)" for once v
  proof
    assume "fst (retry_locked once LOCK_RETRIES 0 v) = Inl (OperationalError m)"
    then have "retry_locked once LOCK_RETRIES 0 v = (Inl (OperationalError m), snd (retry_locked once LOCK_RETRIES 0 v))"
      by (rule run_pair)
    from retry_never_operational [OF this] show False by simp
  qed
  then show ?thesis
    unfolding run_gateway_provisioning_def run_gateway_deletion_def by (simp add: thenM_def sleep_def)
qed

end
