(* ===== verification/PeerGroups.thy ===== *)
theory PeerGroups
  imports PeerSvc
begin

declare append_Cons [simp del]

text \<open>
  Peer groups: the service that creates them and their gateways
  (\<open>orchestrator/services/peer_group_service.py\<close>), and the shell scripts that set an exit host up for
  a group (\<open>orchestrator/services/exit_host_script_service.py\<close>, \<open>orchestrator/host_setup/script.py\<close>):
  one macvlan interface, one policy-routing table and one WireGuard interface per gateway.
\<close>

section \<open>The service\<close>

record create_peer_group_request =
  cp_name :: str
  cp_worker_id :: int
  cp_lan_start_ip :: str
  cp_lan_subnet :: "str option"
  cp_lan_gateway :: "str option"
  cp_parent_iface :: "str option"

record create_gateways_in_group_result =
  gr_group :: int
  gr_gateways :: "create_gateway_result list"

definition group_row :: "create_peer_group_request \<Rightarrow> str \<Rightarrow> int \<Rightarrow> str \<Rightarrow> str \<Rightarrow> peer_group" where
  "group_row rq name wid subnet gw =
     \<lparr>pg_id = 0, pg_name = name, pg_worker_id = wid, pg_lan_subnet = subnet,
      pg_lan_start_ip = py_strip (cp_lan_start_ip rq), pg_lan_gateway = Some gw,
      pg_parent_iface = (if str_true (cp_parent_iface rq) then Some (py_strip (the (cp_parent_iface rq))) else None),
      pg_created_at = 0\<rparr>"

definition create_group :: "env \<Rightarrow> create_peer_group_request \<Rightarrow> int io" where
  "create_group E rq =
     (let name = py_strip (cp_name rq) in
      if name = [] then raise (ValueError ''Group name is required'')
      else
        bindM (get_db (groups_get_by_name name)) (\<lambda>other.
        if other \<noteq> None then raise (ValueError (''Peer group '' @ name @ '' already exists''))
        else
          bindM (get_worker (cp_worker_id rq)) (\<lambda>wk.
          bindM (if str_true (cp_lan_subnet rq) then ret (the (cp_lan_subnet rq))
                 else liftE (infer_lan_subnet (cp_lan_start_ip rq) 24)) (\<lambda>subnet.
          bindM (liftE (validate_lan_start_ip subnet (cp_lan_start_ip rq))) (\<lambda>_.
          bindM (if str_true (cp_lan_gateway rq) then ret (the (cp_lan_gateway rq))
                 else liftE (default_lan_gateway subnet)) (\<lambda>gw.
          bindM (groups_create E (group_row rq name (wk_id wk) subnet gw)) (\<lambda>i.
          thenM (commit E) (ret i))))))))"

definition group_gateway_request :: "peer_group \<Rightarrow> str \<Rightarrow> int \<Rightarrow> create_gateway_request" where
  "group_gateway_request g lan_ip slot =
     \<lparr>cg_gateway_name = None, cg_udp_port = None, cg_worker_id = Some (pg_worker_id g),
      cg_peer_group_id = Some (pg_id g), cg_lan_ip = Some lan_ip, cg_macvlan_slot = Some slot\<rparr>"

text \<open>The loop \<open>for _ in range(count)\<close> with its list of results.\<close>

fun create_gateways_loop ::
  "env \<Rightarrow> peer_group \<Rightarrow> nat \<Rightarrow> create_gateway_result list \<Rightarrow> create_gateway_result list io" where
  "create_gateways_loop E g 0 results = ret results"
| "create_gateways_loop E g (Suc n) results =
     bindM (allocate_lan_ip g) (\<lambda>lan_ip.
     bindM (liftE (macvlan_slot_from_ip lan_ip)) (\<lambda>slot.
     bindM (create_gateway E (group_gateway_request g lan_ip slot)) (\<lambda>r.
     create_gateways_loop E g n (results @ [r]))))"

definition get_group :: "int \<Rightarrow> peer_group io" where
  "get_group i =
     bindM (get_db (groups_get_by_id i)) (\<lambda>r.
     case r of
       Some g \<Rightarrow> ret g
     | None \<Rightarrow> raise (ValueError (''Peer group '' @ str_int i @ '' not found'')))"

definition create_gateways :: "env \<Rightarrow> int \<Rightarrow> int \<Rightarrow> create_gateways_in_group_result io" where
  "create_gateways E gid count =
     (if count < 1 then raise (ValueError ''Count must be at least 1'')
      else if count > 64 then raise (ValueError ''Count cannot exceed 64 per request'')
      else
        bindM (get_group gid) (\<lambda>g.
        bindM (remaining_lan_capacity g) (\<lambda>available.
        if count > available
        then raise (ValueError (''Only '' @ str_int available @ '' LAN address(es) left in group '' @ pg_name g @
                                '' ('' @ pg_lan_subnet g @ '')''))
        else
          bindM (create_gateways_loop E g (nat count) []) (\<lambda>results.
          thenM (commit E)
         (ret \<lparr>gr_group = gid, gr_gateways = results\<rparr>)))))"

definition delete_group :: "env \<Rightarrow> int \<Rightarrow> unit io" where
  "delete_group E gid =
     bindM (get_group gid) (\<lambda>g.
     bindM (get_db (\<lambda>d. filter (\<lambda>x. gw_status x \<noteq> GDeleting) (group_gateways gid d))) (\<lambda>active.
     if active \<noteq> []
     then raise (ValueError (''Peer group '' @ pg_name g @ '' still has '' @ str_nat (length active) @
                             '' gateway(s); delete them first''))
     else thenM (groups_delete gid) (commit E)))"

definition rename_group :: "env \<Rightarrow> int \<Rightarrow> str \<Rightarrow> int io" where
  "rename_group E gid name =
     (let new_name = py_strip name in
      if new_name = [] then raise (ValueError ''Group name is required'')
      else
        bindM (get_group gid) (\<lambda>g.
        if new_name = pg_name g then ret gid
        else
          bindM (get_db (groups_get_by_name new_name)) (\<lambda>existing.
          if existing \<noteq> None
          then raise (ValueError (''Peer group '' @ new_name @ '' already exists''))
          else
            thenM (mod_db (upd_group gid (\<lambda>g. g\<lparr>pg_name := new_name\<rparr>)))
           (thenM (flush E) (thenM (commit E) (ret gid))))))"

section \<open>Base64\<close>

text \<open>\<open>str.encode()\<close>: the UTF-8 bytes of a text.\<close>

definition utf8_bytes :: "str \<Rightarrow> nat list" where
  "utf8_bytes s = concat (map (\<lambda>c. if code c < 128 then [code c]
                                   else [192 + code c div 64, 128 + code c mod 64]) s)"

definition b64_char :: "nat \<Rightarrow> char" where
  "b64_char n =
     (if n < 26 then char_of (65 + n)
      else if n < 52 then char_of (71 + n)
      else if n < 62 then char_of (n - 4)
      else if n = 62 then CHR ''+'' else CHR ''/'')"

fun b64encode :: "nat list \<Rightarrow> str" where
  "b64encode [] = []"
| "b64encode [a] = [b64_char (a div 4), b64_char (a mod 4 * 16), CHR ''='', CHR ''='']"
| "b64encode [a, b] =
     [b64_char (a div 4), b64_char (a mod 4 * 16 + b div 16), b64_char (b mod 16 * 4), CHR ''='']"
| "b64encode (a # b # c # rest) =
     b64_char (a div 4) # b64_char (a mod 4 * 16 + b div 16) # b64_char (b mod 16 * 4 + c div 64) #
     b64_char (c mod 64) # b64encode rest"

section \<open>Interfaces\<close>

definition wg_interface_name :: "str \<Rightarrow> str" where
  "wg_interface_name gateway_name = take 15 (''wg-'' @ filter is_ascii_alnum gateway_name)"

definition lan_prefix_len :: "peer_group \<Rightarrow> nat result" where
  "lan_prefix_len g = bindR (ip_network False (pg_lan_subnet g)) (\<lambda>net. Inr (net_plen net))"

definition lan_network_cidr :: "peer_group \<Rightarrow> str result" where
  "lan_network_cidr g = bindR (ip_network False (pg_lan_subnet g)) (\<lambda>net. Inr (format_network net))"

definition valid_wg_conf :: "str option \<Rightarrow> bool" where
  "valid_wg_conf conf \<longleftrightarrow>
     (case conf of
        None \<Rightarrow> False
      | Some c \<Rightarrow> py_strip c \<noteq> [] \<and> py_contains c ''[Interface]'' \<and> py_contains c ''[Peer]'' \<and>
                  py_contains c ''PrivateKey'')"

text \<open>\<open>str.upper\<close> on ASCII text.\<close>

definition py_upper :: "str \<Rightarrow> str" where
  "py_upper s = map (\<lambda>c. if 97 \<le> code c \<and> code c \<le> 122 then char_of (code c - 32) else c) s"

definition write_wg_conf_lines :: "str \<Rightarrow> str \<Rightarrow> str \<Rightarrow> str list" where
  "write_wg_conf_lines conf_path wg_if wg_conf =
     (let var = ''DEEPORC_B64_'' @ py_upper (py_replace_char (CHR ''-'') ''_'' wg_if);
          encoded = b64encode (utf8_bytes (py_strip wg_conf))
      in [''mkdir -p \"${WG_CONF_DIR}\"'',
          var @ ''=\"'' @ encoded @ ''\"'',
          ''printf \"%s\" \"${'' @ var @ ''}\" | base64 -d > \"'' @ conf_path @ ''\"'',
          ''chmod 600 \"'' @ conf_path @ ''\"''])"

section \<open>The script that sets an exit host up\<close>

definition single :: "str \<Rightarrow> str" where
  "single s = [CHR 0x27] @ s @ [CHR 0x27]"

text \<open>The lines before the gateways; the dash of the comments is written as its UTF-8 bytes.\<close>

definition script_header :: "peer_group \<Rightarrow> nat \<Rightarrow> nat \<Rightarrow> str \<Rightarrow> str \<Rightarrow> str list" where
  "script_header g entry_count ready_count parent lan_gw =
     [''#!/usr/bin/env bash'',
      ''# deepOrc exit host '' @ [CHR 0xE2, CHR 0x80, CHR 0x94] @ '' peer group: '' @ pg_name g,
      ''# Gateways in group: '' @ str_nat entry_count @ '' ('' @ str_nat ready_count @ '' with WireGuard config)'',
      ''# Run as root on the EXIT VM (no sudo). Prefer downloading this file '' @ [CHR 0xE2, CHR 0x80, CHR 0x94] @
        '' do not copy from the browser modal for large groups.'',
      ''set -euo pipefail'',
      [],
      ''PARENT_IFACE=\"${PARENT_IFACE:-'' @ parent @ ''}\"'',
      ''LAN_GW=\"${LAN_GW:-'' @ lan_gw @ ''}\"'',
      ''WG_CONF_DIR=\"${WG_CONF_DIR:-/etc/wireguard}\"'',
      [],
      ''sysctl -w net.ipv4.ip_forward=1'',
      ''sysctl -w net.ipv4.conf.all.rp_filter=0'',
      ''sysctl -w net.ipv4.conf.default.rp_filter=0'',
      ''sysctl -w net.ipv4.conf.${PARENT_IFACE}.rp_filter=0'',
      ''sysctl -w net.ipv4.conf.all.arp_ignore=1'',
      ''sysctl -w net.ipv4.conf.all.arp_announce=2'',
      [],
      ''mkdir -p /etc/iproute2'',
      ''grep -q \"^200 deeporc\" /etc/iproute2/rt_tables 2>/dev/null || echo \"200 deeporc\" >> /etc/iproute2/rt_tables'',
      []]"

text \<open>The macvlan interface of a gateway and its routing table, both named after its slot.\<close>

definition mac_name :: "int \<Rightarrow> str" where
  "mac_name slot = ''mac_'' @ str_int slot"

definition macvlan_block :: "str \<Rightarrow> str \<Rightarrow> int \<Rightarrow> nat \<Rightarrow> str \<Rightarrow> str list" where
  "macvlan_block name lan_ip slot prefix_len lan_network =
     (let mac = mac_name slot; table = str_int slot; wg_if = wg_interface_name name in
      [''echo '' @ single (''==> '' @ name @ '' ('' @ lan_ip @ '' / '' @ mac @ '')''),
       ''ip link del '' @ mac @ '' 2>/dev/null || true'',
       ''ip link add '' @ mac @ '' link \"${PARENT_IFACE}\" type macvlan mode bridge'',
       ''ip addr add '' @ lan_ip @ ''/'' @ str_nat prefix_len @ '' dev '' @ mac,
       ''ip link set '' @ mac @ '' up'',
       ''grep -q '' @ single (''^'' @ table @ '' '') @ '' /etc/iproute2/rt_tables 2>/dev/null || echo '' @
         single (table @ '' deeporc-'' @ str_int slot) @ '' >> /etc/iproute2/rt_tables'',
       ''ip route replace default via \"${LAN_GW}\" dev '' @ mac @ '' table '' @ table,
       ''ip route replace '' @ lan_network @ '' dev '' @ mac @ '' scope link table '' @ table,
       ''ip rule del from '' @ lan_ip @ ''/32 lookup '' @ table @ '' 2>/dev/null || true'',
       ''ip rule add pref '' @ str_int (32000 + slot) @ '' from '' @ lan_ip @ ''/32 lookup '' @ table,
       ''ip rule del iif '' @ wg_if @ '' lookup '' @ table @ '' 2>/dev/null || true''])"

definition forward_rules :: "str \<Rightarrow> str \<Rightarrow> str list" where
  "forward_rules wg_if mac =
     [''iptables -C FORWARD -i '' @ wg_if @ '' -o '' @ mac @ '' -j ACCEPT 2>/dev/null || '' @
      ''iptables -A FORWARD -i '' @ wg_if @ '' -o '' @ mac @ '' -j ACCEPT'',
      ''iptables -C FORWARD -i '' @ mac @ '' -o '' @ wg_if @ '' -m state --state RELATED,ESTABLISHED -j ACCEPT 2>/dev/null || '' @
      ''iptables -A FORWARD -i '' @ mac @ '' -o '' @ wg_if @ '' -m state --state RELATED,ESTABLISHED -j ACCEPT'',
      ''iptables -t nat -C POSTROUTING -o '' @ mac @ '' -j MASQUERADE 2>/dev/null || '' @
      ''iptables -t nat -A POSTROUTING -o '' @ mac @ '' -j MASQUERADE'']"

definition wireguard_block :: "gateway \<Rightarrow> int \<Rightarrow> str option \<Rightarrow> str list" where
  "wireguard_block g slot wg_conf =
     (let wg_if = wg_interface_name (gw_name g); mac = mac_name slot in
      if gw_status g \<noteq> GReady
      then [''echo '' @ single (''  skip WireGuard: '' @ gw_name g @ '' status='' @
              gateway_status_value (gw_status g) @ '' (wait for ready in UI)'') @ '' >&2'']
      else if \<not> valid_wg_conf wg_conf
      then [''echo '' @ single (''  skip WireGuard: '' @ gw_name g @ '' missing or incomplete backhaul peer config'') @
              '' >&2'']
      else
        write_wg_conf_lines (''${WG_CONF_DIR}/'' @ wg_if @ ''.conf'') wg_if (the wg_conf) @
        [''wg-quick down '' @ wg_if @ '' 2>/dev/null || true'',
         ''wg-quick up '' @ wg_if,
         ''ip link set '' @ wg_if @ '' mtu '' @ str_int BACKHAUL_WG_MTU,
         ''ip rule add pref '' @ str_int (32500 + slot) @ '' iif '' @ wg_if @ '' lookup '' @ str_int slot] @
        forward_rules wg_if mac)"

text \<open>One pass of the loop over the entries: nothing for a gateway without a LAN address or slot.\<close>

definition gateway_lines :: "nat \<Rightarrow> str \<Rightarrow> gateway \<times> str option \<Rightarrow> str list" where
  "gateway_lines prefix_len lan_network e =
     (case (gw_lan_ip (fst e), gw_macvlan_slot (fst e)) of
        (Some lan_ip, Some slot) \<Rightarrow>
          if lan_ip = [] then []
          else [''('' @ py_join ''; '' (macvlan_block (gw_name (fst e)) lan_ip slot prefix_len lan_network @
                                        wireguard_block (fst e) slot (snd e)) @
                '') || echo '' @ single (''FAILED: '' @ gw_name (fst e)) @ '' >&2'',
                []]
      | _ \<Rightarrow> [])"

definition render_exit_host_script :: "peer_group \<Rightarrow> (gateway \<times> str option) list \<Rightarrow> str result" where
  "render_exit_host_script g entries =
     bindR (if str_true (pg_lan_gateway g) then Inr (the (pg_lan_gateway g))
            else default_lan_gateway (pg_lan_subnet g)) (\<lambda>lan_gw.
     bindR (lan_prefix_len g) (\<lambda>prefix_len.
     bindR (lan_network_cidr g) (\<lambda>lan_network.
     (let ready_count = length (filter (\<lambda>e. gw_status (fst e) = GReady \<and> valid_wg_conf (snd e)) entries);
          head = script_header g (length entries) ready_count (str_or (pg_parent_iface g) ''ens18'') lan_gw
      in Inr (py_join [CHR 0x0A]
           (if entries = []
            then head @ [''echo '' @ single (''No gateways in this group yet '' @ [CHR 0xE2, CHR 0x80, CHR 0x94] @
                           '' create gateways in the UI first.'') @ '' >&2'', ''exit 1'']
            else head @ concat (map (gateway_lines prefix_len lan_network) entries) @
                 [''echo '' @ single ''Done.'']) @ [CHR 0x0A])))))"

section \<open>The script that tears it down\<close>

definition teardown_lines :: "gateway \<Rightarrow> str list" where
  "teardown_lines g =
     (case gw_macvlan_slot g of
        None \<Rightarrow> []
      | Some slot \<Rightarrow>
          (let mac = mac_name slot; wg_if = wg_interface_name (gw_name g); table = str_int slot;
               lan_ip = str_or (gw_lan_ip g) []
           in [''wg-quick down '' @ wg_if @ '' 2>/dev/null || true'',
               ''rm -f /etc/wireguard/'' @ wg_if @ ''.conf 2>/dev/null || true'',
               ''iptables -t nat -D POSTROUTING -o '' @ mac @ '' -j MASQUERADE 2>/dev/null || true'',
               ''iptables -D FORWARD -i '' @ wg_if @ '' -o '' @ mac @ '' -j ACCEPT 2>/dev/null || true'',
               ''iptables -D FORWARD -i '' @ mac @ '' -o '' @ wg_if @
                 '' -m state --state RELATED,ESTABLISHED -j ACCEPT 2>/dev/null || true'',
               ''ip rule del from '' @ lan_ip @ ''/32 lookup '' @ table @ '' 2>/dev/null || true'',
               ''ip rule del iif '' @ wg_if @ '' lookup '' @ table @ '' 2>/dev/null || true'',
               ''ip route flush table '' @ table @ '' 2>/dev/null || true'',
               ''ip link del '' @ mac @ '' 2>/dev/null || true'']))"

definition render_exit_host_teardown_script :: "peer_group \<Rightarrow> gateway list \<Rightarrow> str" where
  "render_exit_host_teardown_script g gws =
     py_join [CHR 0x0A]
       ([''#!/usr/bin/env bash'',
         ''# Tear down deepOrc exit host '' @ [CHR 0xE2, CHR 0x80, CHR 0x94] @ '' peer group: '' @ pg_name g,
         ''set -euo pipefail'', []] @
        concat (map teardown_lines gws) @
        [''echo '' @ single ''Teardown done.'']) @ [CHR 0x0A]"

section \<open>The script service\<close>

text \<open>\<open>sorted(..., key=lambda g: (g.macvlan_slot or 0, g.id))\<close>.\<close>

definition slot_key :: "gateway \<Rightarrow> int \<times> int" where
  "slot_key g = ((case gw_macvlan_slot g of Some s \<Rightarrow> s | None \<Rightarrow> 0), gw_id g)"

definition key_before :: "int \<times> int \<Rightarrow> int \<times> int \<Rightarrow> bool" where
  "key_before a b \<longleftrightarrow> fst a < fst b \<or> fst a = fst b \<and> snd a < snd b"

fun insert_by_slot :: "gateway \<Rightarrow> gateway list \<Rightarrow> gateway list" where
  "insert_by_slot g [] = [g]"
| "insert_by_slot g (h # hs) =
     (if key_before (slot_key h) (slot_key g) then h # insert_by_slot g hs else g # h # hs)"

definition sort_by_slot :: "gateway list \<Rightarrow> gateway list" where
  "sort_by_slot gs = foldr insert_by_slot gs []"

definition wg_conf_for_gateway :: "env \<Rightarrow> gateway \<Rightarrow> str option io" where
  "wg_conf_for_gateway E g =
     bindM (get_db (\<lambda>d. find (\<lambda>p. peer_name p = default_backhaul_peer_name (gw_name g))
                             (peers_list_by_gateway (gw_id g) d))) (\<lambda>r.
     case r of
       Some p \<Rightarrow> bindM (export_config E (peer_id p)) (\<lambda>c. ret (Some c))
     | None \<Rightarrow> ret None)"

definition build_setup_script :: "env \<Rightarrow> int \<Rightarrow> (int \<times> str) io" where
  "build_setup_script E gid =
     bindM (get_group gid) (\<lambda>g.
     bindM (get_db (\<lambda>d. sort_by_slot (group_gateways gid d))) (\<lambda>gws.
     bindM (mapM (\<lambda>gw. bindM (wg_conf_for_gateway E gw) (\<lambda>c. ret (gw, c))) gws) (\<lambda>entries.
     bindM (liftE (render_exit_host_script g entries)) (\<lambda>script. ret (gid, script)))))"

definition build_teardown_script :: "env \<Rightarrow> int \<Rightarrow> (int \<times> str) io" where
  "build_teardown_script E gid =
     bindM (get_group gid) (\<lambda>g.
     bindM (get_db (\<lambda>d. sort_by_slot (group_gateways gid d))) (\<lambda>gws.
     ret (gid, render_exit_host_teardown_script g gws)))"

section \<open>LAN addresses of a group\<close>

lemma used_lan_snoc:
  "gateways d' = gateways d @ [g] \<Longrightarrow> gw_peer_group_id g = Some i \<Longrightarrow> gw_lan_ip g = Some ip \<Longrightarrow>
   used_lan_ips i d' = used_lan_ips i d @ [ip]"
  by (simp add: used_lan_ips_def group_gateways_def map_filter_def)

lemma lan_ip_loop_fresh: "lan_ip_loop net used c = Inr (Some ip) \<Longrightarrow> \<not> used ip"
proof (induction net used c rule: lan_ip_loop.induct)
  case (1 net used c)
  from 1(2) show ?case
    by (subst (asm) lan_ip_loop.simps) (auto split: if_splits simp: bindR_Inr_iff dest: 1(1))
qed

lemma allocate_lan_ip_fresh:
  assumes "allocate_lan_ip g w = (Inr ip, w')"
  shows "ip \<notin> set (used_lan_ips (pg_id g) (db w)) \<and> w' = w"
  using assms unfolding allocate_lan_ip_def
  by (auto simp: bindM_returns liftE_run split: option.splits dest: lan_ip_loop_fresh)

lemma create_gateways_loop_returns:
  assumes "create_gateways_loop E g n results w = (Inr rs, w')"
  shows "\<exists>new ips. rs = results @ new \<and> length new = n \<and> length ips = n \<and>
           used_lan_ips (pg_id g) (db w') = used_lan_ips (pg_id g) (db w) @ ips \<and>
           distinct ips \<and> set ips \<inter> set (used_lan_ips (pg_id g) (db w)) = {}"
  using assms
proof (induction n arbitrary: results w)
  case 0
  then show ?case by simp
next
  case (Suc n)
  from Suc.prems obtain ip slot r w1 where
    ip: "allocate_lan_ip g w = (Inr ip, w)" and
    cr: "create_gateway E (group_gateway_request g ip slot) w = (Inr r, w1)" and
    loop: "create_gateways_loop E g n (results @ [r]) w1 = (Inr rs, w')"
    using allocate_lan_ip_fresh by (auto simp: bindM_returns liftE_run) blast
  from create_gateway_returns [OF cr] obtain gw where
    "gateways (db w1) = gateways (db w) @ [gw]" "gw_peer_group_id gw = Some (pg_id g)" "gw_lan_ip gw = Some ip"
    by (auto simp: group_gateway_request_def)
  from used_lan_snoc [OF this] have used: "used_lan_ips (pg_id g) (db w1) = used_lan_ips (pg_id g) (db w) @ [ip]" .
  from Suc.IH [OF loop] obtain new ips where
    "rs = results @ r # new" "length new = n" "length ips = n"
    "used_lan_ips (pg_id g) (db w') = used_lan_ips (pg_id g) (db w) @ ip # ips" "distinct ips"
    "set ips \<inter> set (used_lan_ips (pg_id g) (db w1)) = {}"
    unfolding used by (auto simp: append_Cons)
  moreover have "ip \<notin> set (used_lan_ips (pg_id g) (db w))" using allocate_lan_ip_fresh [OF ip] by simp
  ultimately show ?case
    unfolding used by (intro exI [of _ "r # new"] exI [of _ "ip # ips"]) (auto simp: append_Cons)
qed

text \<open>
  C29: Creating \<open>count\<close> gateways in a group gives \<open>count\<close> gateways, each with a LAN address of its own:
  the addresses are pairwise distinct, none was used in the group before, those of the other
  gateways of the group stay, and the request was within 1 and 64 and within the capacity left.
\<close>

theorem create_gateways_distinct_addresses:
  assumes "create_gateways E gid count w = (Inr res, w')"
  shows "1 \<le> count \<and> count \<le> 64 \<and> length (gr_gateways res) = nat count \<and>
         (\<exists>ips. length ips = nat count \<and> distinct ips \<and> set ips \<inter> set (used_lan_ips gid (db w)) = {} \<and>
            used_lan_ips gid (db w') = used_lan_ips gid (db w) @ ips) \<and> stored w' = db w'"
proof -
  from assms obtain g available w1 w2 x where
    range: "1 \<le> count" "count \<le> 64" and g: "get_group gid w = (Inr g, w)" and
    loop: "create_gateways_loop E g (nat count) [] w1 = (Inr (gr_gateways res), w2)" and
    av: "remaining_lan_capacity g w = (Inr available, w1)" and
    c: "commit E w2 = (Inr x, w')"
    by (auto simp: create_gateways_def bindM_returns thenM_returns get_group_def split: if_splits option.splits)
  have id: "pg_id g = gid"
    using g by (auto simp: get_group_def bindM_returns groups_get_by_id_def split: option.splits dest: tbl_get_SomeD)
  have "w1 = w" using av by (auto simp: remaining_lan_capacity_def bindM_returns liftE_run)
  with create_gateways_loop_returns [OF loop] range id commit_returns [OF c] show ?thesis by auto
qed

section \<open>The embedded configuration\<close>

definition b64_alphabet :: str where
  "b64_alphabet = map b64_char [0..<64] @ ''=''"

text \<open>\<open>base64 -d\<close>, for the texts \<open>b64encode\<close> writes.\<close>

definition b64_value :: "char \<Rightarrow> nat" where
  "b64_value c =
     (let n = code c in
      if 65 \<le> n \<and> n \<le> 90 then n - 65
      else if 97 \<le> n \<and> n \<le> 122 then n - 71
      else if 48 \<le> n \<and> n \<le> 57 then n + 4
      else if n = 43 then 62 else 63)"

fun b64decode :: "str \<Rightarrow> nat list" where
  "b64decode (a # b # c # d # rest) =
     (b64_value a * 4 + b64_value b div 16) #
     (if c = CHR ''='' then []
      else (b64_value b mod 16 * 16 + b64_value c div 4) #
           (if d = CHR ''='' then [] else (b64_value c mod 4 * 64 + b64_value d) # b64decode rest))"
| "b64decode _ = []"

lemma b64_table: "list_all (\<lambda>n. b64_value (b64_char n) = n \<and> b64_char n \<noteq> CHR ''='') [0..<64]"
  by code_simp

lemma b64_char: "n < 64 \<Longrightarrow> b64_value (b64_char n) = n" "n < 64 \<Longrightarrow> b64_char n \<noteq> CHR ''=''"
  "n < 64 \<Longrightarrow> b64_char n \<in> set b64_alphabet" "CHR ''='' \<in> set b64_alphabet"
  using b64_table by (auto simp: list_all_iff b64_alphabet_def)

lemma b64_split:
  "a < 256 \<Longrightarrow> a div 4 < (64::nat)" "b < 256 \<Longrightarrow> a mod 4 * 16 + b div 16 < (64::nat)"
  "b mod 16 * 4 < (64::nat)" "a mod 4 * 16 < (64::nat)" "c < 256 \<Longrightarrow> b mod 16 * 4 + c div 64 < (64::nat)"
  "c mod 64 < (64::nat)"
  by (simp_all add: less_mult_imp_div_less)

lemma b64_join:
  "b < 256 \<Longrightarrow> b div 16 div 16 = (0::nat)" "b < 256 \<Longrightarrow> b div 16 mod 16 = (b::nat) div 16"
  "c < 256 \<Longrightarrow> c div 64 div 4 = (0::nat)" "c < 256 \<Longrightarrow> c div 64 mod 4 = (c::nat) div 64"
  by (simp_all add: less_mult_imp_div_less div_eq_0_iff)

lemma b64_decode_encode: "\<forall>x \<in> set bs. x < 256 \<Longrightarrow> b64decode (b64encode bs) = bs"
  by (induction bs rule: b64encode.induct) (simp_all add: b64_char b64_split b64_join)

lemma b64_encode_alphabet: "\<forall>x \<in> set bs. x < 256 \<Longrightarrow> set (b64encode bs) \<subseteq> set b64_alphabet"
  by (induction bs rule: b64encode.induct) (simp_all add: b64_char b64_split)

lemma utf8_bytes_small: "\<forall>x \<in> set (utf8_bytes s). x < 256"
proof -
  have "x < 256" if "x \<in> set (if code c < 128 then [code c] else [192 + code c div 64, 128 + code c mod 64])" for x c
  proof -
    have "code c < 256" by (simp add: code_def)
    then have "code c div 64 < 4" by (simp add: less_mult_imp_div_less)
    moreover have "code c mod 64 < 64" by simp
    ultimately show ?thesis using that by (auto split: if_splits)
  qed
  then show ?thesis by (fastforce simp: utf8_bytes_def)
qed


section \<open>Interface names\<close>

text \<open>
  An interface name fits the 15 characters of the kernel, and the gateways the orchestrator names
  itself get interfaces of their own: two generated names give the same interface only when they are
  the same (up to the ten digits that fit).
\<close>

theorem wg_interface_names:
  "length (wg_interface_name s) \<le> 15 \<and>
   (m < 10 ^ 10 \<and> n < 10 ^ 10 \<and>
    wg_interface_name (format_sequential_name GATEWAY_PREFIX m SEQUENTIAL_WIDTH) =
    wg_interface_name (format_sequential_name GATEWAY_PREFIX n SEQUENTIAL_WIDTH) \<longrightarrow> m = n)"
proof -
  have len: "length (zero_pad SEQUENTIAL_WIDTH k) \<le> 10" if "k < 10 ^ 10" for k :: nat
    using length_str_nat_le [OF that] by (simp add: zero_pad_def SEQUENTIAL_WIDTH_def)
  have name: "wg_interface_name (format_sequential_name GATEWAY_PREFIX k SEQUENTIAL_WIDTH) =
      ''wg-gw'' @ zero_pad SEQUENTIAL_WIDTH k" if "k < 10 ^ 10" for k
  proof -
    have "filter is_ascii_alnum (zero_pad SEQUENTIAL_WIDTH k) = zero_pad SEQUENTIAL_WIDTH k"
      using zero_pad_digits [of SEQUENTIAL_WIDTH k] by (simp add: filter_id_conv list_all_iff digit_alnum)
    moreover have "is_ascii_alnum (CHR ''g'')" "is_ascii_alnum (CHR ''w'')" "\<not> is_ascii_alnum (CHR ''-'')"
      by code_simp+
    ultimately show ?thesis
      using len [OF that]
      by (simp add: wg_interface_name_def format_sequential_name_def GATEWAY_PREFIX_def append_Cons)
  qed
  have "m = n" if "m < 10 ^ 10" "n < 10 ^ 10"
      "wg_interface_name (format_sequential_name GATEWAY_PREFIX m SEQUENTIAL_WIDTH) =
       wg_interface_name (format_sequential_name GATEWAY_PREFIX n SEQUENTIAL_WIDTH)"
    using that(3) unfolding name [OF that(1)] name [OF that(2)] by (simp add: zero_pad_inj)
  moreover have "length (wg_interface_name s) \<le> 15" by (simp add: wg_interface_name_def)
  ultimately show ?thesis by blast
qed

section \<open>Witnesses\<close>

theorem wg_interface_names_witness: "wg_interface_name ''gw-001'' \<noteq> wg_interface_name ''gw-002''"
proof -
  have "format_sequential_name GATEWAY_PREFIX 1 SEQUENTIAL_WIDTH = ''gw-001''"
    "format_sequential_name GATEWAY_PREFIX 2 SEQUENTIAL_WIDTH = ''gw-002''" by code_simp+
  with wg_interface_names [where m = 1 and n = 2] show ?thesis by auto
qed

text \<open>A group with six host addresses.\<close>

definition small_db :: db where
  "small_db = sample_db\<lparr>peer_groups := [sample_group\<lparr>pg_lan_subnet := ''192.168.13.96/29''\<rparr>]\<rparr>"

theorem create_gateways_witness:
  "\<exists>res w'. create_gateways quiet_env 1 1 (fresh_world small_db) = (Inr res, w') \<and>
     length (gr_gateways res) = 1 \<and> length (used_lan_ips 1 (db w')) = 1"
proof -
  have "\<not> isl (fst (create_gateways quiet_env 1 1 (fresh_world small_db)))" by code_simp
  then obtain res where run: "create_gateways quiet_env 1 1 (fresh_world small_db) =
      (Inr res, snd (create_gateways quiet_env 1 1 (fresh_world small_db)))"
    by (metis isl_def old.sum.exhaust prod.collapse)
  have "used_lan_ips 1 (db (fresh_world small_db)) = []" by code_simp
  with create_gateways_distinct_addresses [OF run] run show ?thesis by auto
qed

end
