(* ===== verification/Metrics.thy ===== *)
theory Metrics
  imports PeerSvc Egress
begin

declare append_Cons [simp del]

text \<open>
  The periodic workers: the collection of metrics from the gateways
  (\<open>orchestrator/workers/metrics_collector.py\<close>) and the maintenance of the exit routes on Headscale
  (\<open>orchestrator/workers/headscale_sync.py\<close>).
\<close>

section \<open>Egress\<close>

definition no_egress :: egress_snapshot where
  "no_egress = \<lparr>eg_public_ip = None, eg_country_code = None, eg_updated_at = None\<rparr>"

definition egress_of :: "str \<Rightarrow> str option \<Rightarrow> egress_snapshot" where
  "egress_of ip country = \<lparr>eg_public_ip = Some ip, eg_country_code = country, eg_updated_at = None\<rparr>"

text \<open>\<open>(payload.get("ip") or "").strip()\<close>: a truthy value that is no string has no \<open>strip\<close>.\<close>

definition payload_ip :: "json \<Rightarrow> str result" where
  "payload_ip payload =
     bindR (json_get payload ''ip'') (\<lambda>v.
     if \<not> truthy v then Inr []
     else case v of
            JStr s \<Rightarrow> Inr (py_strip s)
          | _ \<Rightarrow> Inl (AttributeError (py_repr (json_type v) @ '' object has no attribute 'strip'')))"

definition egress_geo_from_agent :: "env \<Rightarrow> agent_client \<Rightarrow> egress_snapshot \<Rightarrow> egress_snapshot io" where
  "egress_geo_from_agent E agent snapshot =
     try_except
       (bindM (agent_egress_public_ip E agent) (\<lambda>payload.
        bindM (liftE (payload_ip payload)) (\<lambda>ip.
        if ip = [] then ret no_egress
        else if Some ip = eg_public_ip snapshot \<and> str_true (eg_country_code snapshot)
        then ret (egress_of ip (eg_country_code snapshot))
        else bindM (lookup_geo E ip) (\<lambda>geo.
             case geo of
               Some g \<Rightarrow> ret (egress_of (geo_ip g) (Some (geo_country_code g)))
             | None \<Rightarrow> ret (egress_of ip None)))))
       (\<lambda>_. ret no_egress)"

definition latest_snapshot :: "gateway_metric option \<Rightarrow> gateway_metric option \<Rightarrow> egress_snapshot" where
  "latest_snapshot latest egress_metric =
     (let snapshot = egress_snapshot_from_metric egress_metric in
      if \<not> str_true (eg_public_ip snapshot) then egress_snapshot_from_metric latest else snapshot)"

definition resolve_egress ::
  "env \<Rightarrow> agent_client \<Rightarrow> gateway_metric option \<Rightarrow> gateway_metric option \<Rightarrow> interface_state \<Rightarrow> int \<Rightarrow>
   egress_snapshot io" where
  "resolve_egress E agent latest_metric egress_metric current_state t =
     (let snapshot = egress_snapshot_from_metric egress_metric;
          snapshot = (if \<not> str_true (eg_public_ip snapshot) \<and> latest_metric \<noteq> None
                      then egress_snapshot_from_metric latest_metric else snapshot);
          previous_state = map_option (\<lambda>m. interface_state_of (gm_tailscale_online m) (gm_wg_online m)
                                             (gm_exit_node_reachable m)) latest_metric
      in if \<not> should_refresh_egress previous_state current_state snapshot t then ret snapshot
         else bindM (egress_geo_from_agent E agent snapshot) (\<lambda>refreshed.
              ret (merge_egress snapshot (Some refreshed) True t)))"

section \<open>One gateway\<close>

text \<open>
  The local variables the second \<open>try\<close> assigns. An exception leaves the ones assigned so far, so the
  block is a list of stages, each of which either updates the variables or ends the block.
\<close>

record probe =
  pb_agent :: agent_client
  pb_stats :: "(str \<times> json) list"
  pb_peers :: "peer list"
  pb_tailscale :: "bool option"
  pb_wg :: "bool option"
  pb_exit :: json
  pb_snapshot :: egress_snapshot

fun attempt :: "probe \<Rightarrow> (probe \<Rightarrow> probe io) list \<Rightarrow> (probe \<times> bool) io" where
  "attempt p [] = ret (p, True)"
| "attempt p (f # fs) =
     bindM (try_except (bindM (f p) (\<lambda>q. ret (Some q))) (\<lambda>_. ret None)) (\<lambda>r.
     case r of
       Some q \<Rightarrow> attempt q fs
     | None \<Rightarrow> ret (p, False))"

text \<open>
  A JSON value bound to a Boolean or an integer column: \<open>None\<close> is NULL, and what is no value of the
  column is refused.
\<close>

definition column_bool :: "json \<Rightarrow> bool option result" where
  "column_bool v =
     (case v of
        JNull \<Rightarrow> Inr None
      | JBool b \<Rightarrow> Inr (Some b)
      | _ \<Rightarrow> Inl (TypeError (''Not a boolean value: '' @ json_repr v)))"

definition column_int :: "json \<Rightarrow> int option result" where
  "column_int v =
     (case v of
        JNull \<Rightarrow> Inr None
      | JInt i \<Rightarrow> Inr (Some i)
      | _ \<Rightarrow> Inl (TypeError (''Not an integer value: '' @ json_repr v)))"

definition health_stage :: "env \<Rightarrow> gateway \<Rightarrow> worker \<Rightarrow> probe \<Rightarrow> probe io" where
  "health_stage E g wk p =
     bindM (decrypt_value E (gw_agent_token_enc g)) (\<lambda>token.
     (let agent = make_agent_client E (gw_vm_ip g) token (Some (incus_target wk (gw_incus_instance g))) in
      bindM (agent_health E agent) (\<lambda>health.
      bindM (liftE (json_get health ''exit_node_configured'')) (\<lambda>v.
      ret (p\<lparr>pb_agent := agent, pb_exit := v\<rparr>)))))"

definition peers_stage :: "env \<Rightarrow> gateway \<Rightarrow> probe \<Rightarrow> probe io" where
  "peers_stage E g p =
     bindM (agent_peer_stats E (pb_agent p)) (\<lambda>stats.
     bindM (get_db (peers_list_by_gateway (gw_id g))) (\<lambda>db_peers.
     (let active = filter (\<lambda>q. \<not> peer_suspended q) db_peers in
      bindM (if list_ex (\<lambda>q. peer_public_key q \<notin> fst ` set stats) active
             then bindM (resync_gateway_peers E (gw_id g)) (\<lambda>_. agent_peer_stats E (pb_agent p))
             else ret stats) (\<lambda>stats.
      ret (p\<lparr>pb_stats := stats, pb_peers := db_peers\<rparr>)))))"

definition wg_stage :: "env \<Rightarrow> probe \<Rightarrow> probe io" where
  "wg_stage E p = bindM (wg_uplink_connected E (pb_stats p)) (\<lambda>b. ret (p\<lparr>pb_wg := Some b\<rparr>))"

definition tailscale_stage :: "env \<Rightarrow> probe \<Rightarrow> probe io" where
  "tailscale_stage E p = bindM (agent_tailscale_connected E (pb_agent p)) (\<lambda>b. ret (p\<lparr>pb_tailscale := Some b\<rparr>))"

text \<open>\<open>datetime.fromisoformat(stats["last_handshake"])\<close> when there is one.\<close>

definition last_handshake :: "json \<Rightarrow> int option result" where
  "last_handshake stats =
     bindR (json_get stats ''last_handshake'') (\<lambda>v.
     if \<not> truthy v then Inr None
     else case v of
            JStr s \<Rightarrow> bindR (fromisoformat s) (\<lambda>t. Inr (Some t))
          | _ \<Rightarrow> Inl (TypeError ''fromisoformat: argument must be str''))"

fun peer_metrics_loop :: "env \<Rightarrow> (str \<times> json) list \<Rightarrow> peer list \<Rightarrow> unit io" where
  "peer_metrics_loop E peer_stats [] = ret ()"
| "peer_metrics_loop E peer_stats (q # qs) =
     (case map_of peer_stats (peer_public_key q) of
        Some stats \<Rightarrow>
          if truthy stats then
            bindM (liftE (last_handshake stats)) (\<lambda>hs.
            bindM (liftE (bindR (json_get stats ''rx_bytes'') column_int)) (\<lambda>rx.
            bindM (liftE (bindR (json_get stats ''tx_bytes'') column_int)) (\<lambda>tx.
            thenM (metrics_add_peer E (peer_id q) hs rx tx) (peer_metrics_loop E peer_stats qs))))
          else peer_metrics_loop E peer_stats qs
      | None \<Rightarrow> peer_metrics_loop E peer_stats qs)"

definition peer_metrics_stage :: "env \<Rightarrow> probe \<Rightarrow> probe io" where
  "peer_metrics_stage E p = thenM (peer_metrics_loop E (pb_stats p) (pb_peers p)) (ret p)"

text \<open>
  The state compared with the last metric. An exit flag that is no Boolean counts as unknown here; its
  row is refused anyway.
\<close>

definition probe_state :: "probe \<Rightarrow> interface_state" where
  "probe_state p =
     interface_state_of (pb_tailscale p) (pb_wg p) (case pb_exit p of JBool b \<Rightarrow> Some b | _ \<Rightarrow> None)"

definition egress_stage :: "env \<Rightarrow> gateway_metric option \<Rightarrow> gateway_metric option \<Rightarrow> int \<Rightarrow> probe \<Rightarrow> probe io" where
  "egress_stage E latest egress_metric t p =
     bindM (resolve_egress E (pb_agent p) latest egress_metric (probe_state p) t) (\<lambda>s.
     ret (p\<lparr>pb_snapshot := s\<rparr>))"

text \<open>The row to record: no egress unless both pathways are up.\<close>

definition metric_row :: "int \<Rightarrow> json \<Rightarrow> probe \<Rightarrow> bool option \<Rightarrow> gateway_metric" where
  "metric_row gid vm_status p ex =
     (let snapshot = (if \<not> pathways_ready (probe_state p) then no_egress else pb_snapshot p) in
      \<lparr>gm_id = 0, gm_gateway_id = gid,
       gm_vm_status = (case vm_status of JNull \<Rightarrow> None | v \<Rightarrow> Some (json_str v)),
       gm_tailscale_online = pb_tailscale p, gm_wg_online = pb_wg p, gm_exit_node_reachable = ex,
       gm_egress_public_ip = eg_public_ip snapshot, gm_egress_country_code = eg_country_code snapshot,
       gm_egress_updated_at = eg_updated_at snapshot, gm_polled_at = 0\<rparr>)"

definition known_exit :: "gateway_metric option \<Rightarrow> json" where
  "known_exit latest =
     (case latest of
        Some m \<Rightarrow> (case gm_exit_node_reachable m of Some b \<Rightarrow> JBool b | None \<Rightarrow> JNull)
      | None \<Rightarrow> JNull)"

definition collect_gateway :: "env \<Rightarrow> int \<Rightarrow> gateway \<Rightarrow> unit io" where
  "collect_gateway E t g =
     bindM (resolve_worker g) (\<lambda>wk.
     bindM (vm_status_of E wk g) (\<lambda>vm_status.
     bindM (get_db (latest_gateway_metric (gw_id g))) (\<lambda>latest.
     bindM (get_db (latest_gateway_metric_with_egress (gw_id g))) (\<lambda>egress_metric.
     bindM (attempt
              \<lparr>pb_agent = make_agent_client E (gw_vm_ip g) [] None, pb_stats = [], pb_peers = [],
               pb_tailscale = None, pb_wg = None,
               pb_exit = known_exit latest,
               pb_snapshot = latest_snapshot latest egress_metric\<rparr>
              [health_stage E g wk, peers_stage E g, wg_stage E, tailscale_stage E, peer_metrics_stage E,
               egress_stage E latest egress_metric t]) (\<lambda>(p, ok).
     bindM (liftE (column_bool (pb_exit p))) (\<lambda>ex.
     metrics_add_gateway E
       (metric_row (gw_id g) vm_status
         (if \<not> ok \<and> vm_status = JStr ''Running''
          then p\<lparr>pb_tailscale := Some False, pb_wg := Some False\<rparr> else p) ex)))))))"

fun collect_loop :: "env \<Rightarrow> int \<Rightarrow> gateway list \<Rightarrow> nat \<Rightarrow> nat io" where
  "collect_loop E t [] count = ret count"
| "collect_loop E t (g # gs) count =
     (if gw_status g \<noteq> GReady then collect_loop E t gs count
      else thenM (collect_gateway E t g) (collect_loop E t gs (count + 1)))"

definition collect_metrics :: "env \<Rightarrow> nat io" where
  "collect_metrics E =
     bindM (now E) (\<lambda>t.
     try_except
       (bindM (get_db gateways_list_all) (\<lambda>gs.
        bindM (collect_loop E t gs 0) (\<lambda>count.
        thenM (commit E) (ret count))))
       (\<lambda>e. thenM rollback (raise e)))"

section \<open>Headscale maintenance\<close>

text \<open>
  \<open>_gateway_names_from_db\<close> opens a session of its own; the names are read and not used any further.
\<close>

definition gateway_names_from_db :: "str set io" where
  "gateway_names_from_db w = (Inr (gw_name ` set (gateways_list_all (stored w))), w)"

definition sync_headscale_exit_nodes :: "env \<Rightarrow> str set option \<Rightarrow> nat io" where
  "sync_headscale_exit_nodes E gateway_names =
     bindM (case gateway_names of Some ns \<Rightarrow> ret ns | None \<Rightarrow> gateway_names_from_db) (\<lambda>names.
     try_except (approve_exit_routes_for_tagged_nodes E) (\<lambda>_. ret 0))"

section \<open>Facts\<close>

text \<open>Egress data stands only in rows whose two pathways are up.\<close>

definition egress_ok :: "db \<Rightarrow> bool" where
  "egress_ok d \<longleftrightarrow> (\<forall>m \<in> set (gateway_metrics d). gm_egress_public_ip m \<noteq> None \<longrightarrow>
     gm_tailscale_online m = Some True \<and> gm_wg_online m = Some True)"

lemma metric_row_ok:
  "gm_egress_public_ip (metric_row gid vm p ex) \<noteq> None \<Longrightarrow>
   gm_tailscale_online (metric_row gid vm p ex) = Some True \<and> gm_wg_online (metric_row gid vm p ex) = Some True"
  by (auto simp: metric_row_def Let_def pathways_ready_def probe_state_def interface_state_of_def no_egress_def
      split: if_splits)

lemma egress_ok_add_gateway:
  assumes "gm_egress_public_ip m \<noteq> None \<Longrightarrow> gm_tailscale_online m = Some True \<and> gm_wg_online m = Some True"
  shows "keeps (db_inv egress_ok) (metrics_add_gateway E m)"
  unfolding metrics_add_gateway_def
  by (intro keeps_intros keeps_mod_db) (use assms in \<open>auto simp: egress_ok_def\<close>)

lemma egress_ok_add_peer [keeps_intros]: "keeps (db_inv egress_ok) (metrics_add_peer E pid hs rx tx)"
  unfolding metrics_add_peer_def by (intro keeps_intros keeps_mod_db) (simp add: egress_ok_def)

lemma keeps_attempt [keeps_intros]:
  assumes "\<And>f p. f \<in> set fs \<Longrightarrow> keeps J (f p)"
  shows "keeps J (attempt p fs)"
  using assms by (induction fs arbitrary: p) (auto intro!: keeps_intros simp del: keeps_Pair)

lemma keeps_lookup_geo [keeps_intros]: "keeps (db_inv I) (lookup_geo E ip)"
proof -
  have "keeps (db_inv I) (cache_put i g t)" for i g t
    by (simp add: keeps_def cache_put_def db_inv_def)
  then show ?thesis
    unfolding lookup_geo_def lookup_geo_uncached_def try_geo_def Let_def by (intro keeps_intros)
qed

lemma keeps_resolve_egress [keeps_intros]: "keeps (db_inv I) (resolve_egress E agent l m s t)"
  unfolding resolve_egress_def egress_geo_from_agent_def Let_def by (intro keeps_intros)

lemma keeps_peer_stats [keeps_intros]: "stable J \<Longrightarrow> keeps J (agent_peer_stats E c)"
  unfolding agent_peer_stats_def by (intro keeps_intros)

lemma keeps_peer_metrics [keeps_intros]: "keeps (db_inv egress_ok) (peer_metrics_loop E st qs)"
  by (induction qs) (auto intro!: keeps_intros simp del: keeps_Pair split: option.split)

lemma keeps_stages [keeps_intros]:
  "keeps (db_inv egress_ok) (health_stage E g wk p)" "keeps (db_inv egress_ok) (peers_stage E g p)"
  "keeps (db_inv egress_ok) (wg_stage E p)" "keeps (db_inv egress_ok) (tailscale_stage E p)"
  "keeps (db_inv egress_ok) (peer_metrics_stage E p)" "keeps (db_inv egress_ok) (egress_stage E l m t p)"
  unfolding health_stage_def peers_stage_def wg_stage_def tailscale_stage_def peer_metrics_stage_def egress_stage_def
    Let_def wg_uplink_connected_def agent_tailscale_connected_def tailscale_connected_via_incus_def
  by (intro keeps_intros)+

lemma keeps_collect_gateway [keeps_intros]: "keeps (db_inv egress_ok) (collect_gateway E t g)"
  unfolding collect_gateway_def
  by (intro keeps_intros egress_ok_add_gateway metric_row_ok) (auto intro: keeps_stages)

text \<open>
  The metrics never show a public address for a gateway whose pathways are down: however the
  collection ends, a row that carries an egress address has Tailscale and WireGuard online, in the
  session and in the committed database, if all rows had it so before.
\<close>

theorem collect_metrics_egress: "keeps (db_inv egress_ok) (collect_metrics E)"
proof -
  have "keeps (db_inv egress_ok) (collect_loop E t gs n)" for t gs n
    by (induction gs arbitrary: n) (auto intro!: keeps_intros simp del: keeps_Pair)
  then show ?thesis unfolding collect_metrics_def by (intro keeps_intros)
qed

end
