(* ===== verification/PyLines.thy ===== *)
theory PyLines
  imports PyStr
begin

text \<open>
  Reading printed text back: lines joined with line feeds, words separated by single spaces, integers
  in decimal. The lemmas serve the parsers of command output and of configuration files.
\<close>

section \<open>Lines\<close>

abbreviation one_line :: "str \<Rightarrow> bool" where
  "one_line s \<equiv> list_all (\<lambda>c. \<not> is_linebreak c) s"

lemma linebreak_LF: "is_linebreak (CHR 0x0A)"
  by (simp add: is_linebreak_def code_def)

lemma lines_step:
  "one_line w \<Longrightarrow> py_lines_aux acc (w @ CHR 0x0A # s) = (rev acc @ w) # py_splitlines s"
proof (induction w arbitrary: acc)
  case Nil
  then show ?case by (cases s) (simp_all add: linebreak_LF py_splitlines_def code_def)
next
  case (Cons c w)
  obtain d r where rest: "w @ CHR 0x0A # s = d # r" by (cases "w @ CHR 0x0A # s") auto
  have "\<not> is_linebreak c" using Cons.prems by simp
  moreover from this have "code c \<noteq> 13" by (auto simp: is_linebreak_def)
  ultimately show ?case using Cons rest by simp
qed

lemma lines_last: "one_line w \<Longrightarrow> py_lines_aux acc w = (if acc @ w = [] then [] else [rev acc @ w])"
proof (induction w arbitrary: acc)
  case Nil
  then show ?case by simp
next
  case (Cons c w)
  have "\<not> is_linebreak c" using Cons.prems by simp
  moreover from this have "code c \<noteq> 13" by (auto simp: is_linebreak_def)
  ultimately show ?case using Cons by (cases w) simp_all
qed

lemma splitlines_Cons: "one_line w \<Longrightarrow> py_splitlines (w @ CHR 0x0A # s) = w # py_splitlines s"
  using lines_step [of w "[]" s] by (simp add: py_splitlines_def)

lemma splitlines_one: "one_line w \<Longrightarrow> w \<noteq> [] \<Longrightarrow> py_splitlines w = [w]"
  using lines_last [of w "[]"] by (simp add: py_splitlines_def)

lemma splitlines_Nil [simp]: "py_splitlines [] = []"
  by (simp add: py_splitlines_def)

lemma splitlines_join:
  assumes "\<And>w. w \<in> set ws \<Longrightarrow> one_line w" and "ws \<noteq> []" and "last ws \<noteq> []"
  shows "py_splitlines (py_join [CHR 0x0A] ws) = ws"
  using assms
proof (induction ws)
  case Nil
  then show ?case by simp
next
  case (Cons w ws)
  then show ?case
    by (cases ws) (simp_all add: splitlines_one splitlines_Cons)
qed

text \<open>Lines each ended by a line feed.\<close>

lemma splitlines_terminated:
  "(\<And>w. w \<in> set ws \<Longrightarrow> one_line w) \<Longrightarrow> py_splitlines (concat (map (\<lambda>w. w @ [CHR 0x0A]) ws)) = ws"
  by (induction ws) (simp_all add: splitlines_Cons)

lemma strip_end:
  assumes "s \<noteq> []" and "\<not> is_space (hd s)" and "\<not> is_space (last s)" and "is_space c"
  shows "py_strip (s @ [c]) = s"
proof -
  have "py_lstrip (s @ [c]) = s @ [c]" using assms(1,2) by (simp add: py_lstrip_def dropWhile_id)
  moreover have "dropWhile is_space (rev s) = rev s" using assms(1,3) by (intro dropWhile_id) (simp add: hd_rev)
  ultimately show ?thesis using assms(4) by (simp add: py_strip_def)
qed

lemma space_LF: "is_space (CHR 0x0A)"
  by (simp add: is_space_def code_def)

section \<open>Words\<close>

abbreviation one_word :: "str \<Rightarrow> bool" where
  "one_word s \<equiv> list_all (\<lambda>c. \<not> is_space c) s"

lemma words_step:
  "one_word w \<Longrightarrow> is_space c \<Longrightarrow> acc @ w \<noteq> [] \<Longrightarrow>
   py_words_aux acc (w @ c # s) = (rev acc @ w) # py_words s"
  by (induction w arbitrary: acc) (auto simp: py_words_def)

lemma words_last: "one_word w \<Longrightarrow> acc @ w \<noteq> [] \<Longrightarrow> py_words_aux acc w = [rev acc @ w]"
  by (induction w arbitrary: acc) auto

lemma words_Cons: "one_word w \<Longrightarrow> w \<noteq> [] \<Longrightarrow> is_space c \<Longrightarrow> py_words (w @ c # s) = w # py_words s"
  using words_step [of w c "[]" s] by (simp add: py_words_def)

lemma words_one: "one_word w \<Longrightarrow> w \<noteq> [] \<Longrightarrow> py_words w = [w]"
  using words_last [of w "[]"] by (simp add: py_words_def)

lemma words_space: "is_space c \<Longrightarrow> py_words (c # s) = py_words s"
  by (simp add: py_words_def)

lemma space_blank: "is_space (CHR '' '')"
  by (simp add: is_space_def code_def)

lemma words_lstrip: "py_words (dropWhile is_space s) = py_words s"
  by (induction s) (simp_all add: words_space)

lemma words_trailing: "list_all is_space t \<Longrightarrow> py_words_aux acc (s @ t) = py_words_aux acc s"
proof (induction s arbitrary: acc)
  case Nil
  then show ?case by (induction t arbitrary: acc) auto
qed simp

lemma words_strip [simp]: "py_words (py_strip s) = py_words s"
proof -
  let ?t = "rev (takeWhile is_space (rev (py_lstrip s)))"
  have "py_lstrip s = py_strip s @ ?t"
    unfolding py_strip_def by (metis rev_append rev_rev_ident takeWhile_dropWhile_id)
  moreover have "list_all is_space ?t" by (auto simp: list_all_iff dest: set_takeWhileD)
  ultimately have "py_words (py_lstrip s) = py_words (py_strip s)"
    unfolding py_words_def by (metis words_trailing)
  then show ?thesis by (simp add: py_lstrip_def words_lstrip)
qed

text \<open>A word occurs in a text of words exactly when it occurs in one of them.\<close>

lemma contains_Cons: "py_contains (c # s) p \<longleftrightarrow> take (length p) (c # s) = p \<or> py_contains s p"
  by (rule py_contains.simps)

lemma contains_word_split:
  assumes "one_word p" and "is_space c" and "p \<noteq> []"
  shows "py_contains (w @ c # s) p \<longleftrightarrow> py_contains w p \<or> py_contains s p"
proof
  assume "py_contains (w @ c # s) p"
  then obtain a b where eq: "w @ c # s = a @ p @ b" by (auto simp: py_contains_iff)
  have "c \<notin> set p" using assms(1,2) by (auto simp: list_all_iff)
  then show "py_contains w p \<or> py_contains s p"
  proof (cases "length a + length p \<le> length w")
    case True
    then have "w = a @ p @ take (length w - length a - length p) b"
      using arg_cong [OF eq, of "take (length w)"] by simp
    then show ?thesis by (auto simp: py_contains_iff)
  next
    case False
    show ?thesis
    proof (cases "length a \<le> length w")
      case True
      have inside: "length w - length a < length p" using False True by linarith
      then have "(w @ c # s) ! length w = p ! (length w - length a)"
        using True by (subst eq) (simp add: nth_append)
      with inside have "c \<in> set p" by (simp add: nth_append)
      then show ?thesis using \<open>c \<notin> set p\<close> by simp
    next
      case False
      then have "s = drop (length w + 1) a @ p @ b"
        using arg_cong [OF eq, of "drop (length w + 1)"] by simp
      then show ?thesis by (auto simp: py_contains_iff)
    qed
  qed
next
  assume "py_contains w p \<or> py_contains s p"
  then show "py_contains (w @ c # s) p"
    unfolding py_contains_iff by (metis append.assoc append_Cons)
qed

lemma contains_space_Cons:
  "one_word p \<Longrightarrow> is_space c \<Longrightarrow> p \<noteq> [] \<Longrightarrow> py_contains (c # s) p \<longleftrightarrow> py_contains s p"
  using contains_word_split [of p c "[]" s] by simp

section \<open>Integers\<close>

lemma digits_strip: "list_all is_digit s \<Longrightarrow> py_strip s = s"
  by (intro py_strip_id) (cases s; auto simp: list_all_iff digit_not_space)

lemma sign_not_digit: "list_all is_digit s \<Longrightarrow> s \<noteq> [] \<Longrightarrow> hd s \<noteq> CHR ''-'' \<and> hd s \<noteq> CHR ''+''"
  by (cases s) (auto simp: is_digit_def code_def)

lemma py_int_digits: "list_all is_digit s \<Longrightarrow> s \<noteq> [] \<Longrightarrow> py_int s = Some (int (digits_val s))"
  using sign_not_digit [of s] by (cases s) (simp_all add: py_int_def Let_def digits_strip)

lemma py_int_str_nat [simp]: "py_int (str_nat n) = Some (int n)"
  using py_int_digits [OF str_nat_digits str_nat_nonempty] by simp

lemma str_nat_word: "one_word (str_nat n)"
  using str_nat_digits [of n] by (auto simp: list_all_iff digit_not_space)

lemma space_of_linebreak: "is_linebreak c \<Longrightarrow> is_space c"
  by (auto simp: is_linebreak_def is_space_def)

lemma one_word_line: "one_word w \<Longrightarrow> one_line w"
  by (auto simp: list_all_iff space_of_linebreak)

end
