(* ===== verification/AgentHost.thy ===== *)
theory AgentHost
  imports AgentClient IpAddr PyLines
begin

declare append_Cons [simp del]

text \<open>
  The agent inside a gateway (\<open>gateway_agent\<close>): the commands it runs on its host. This theory holds
  what an operation of the agent runs in, the WireGuard peers (\<open>gateway_agent/wg_handler.py\<close>), the
  suspension of peers in the firewall (\<open>gateway_agent/nft_handler.py\<close>) and the health checks
  (\<open>gateway_agent/health.py\<close>). The programs \<open>wg\<close>, \<open>nft\<close>, \<open>ip\<close>, \<open>tailscale\<close>, \<open>wget\<close> and \<open>systemctl\<close>,
  the clock and the files of the host are functions of the environment, of the trace so far.
\<close>

section \<open>The host\<close>

datatype host_event =
    HRun "str list"
  | HClock
  | HFs str "str list"

record host =
  h_agent_token :: str
  h_wg_interface :: str
  h_listen_host :: str
  h_listen_port :: int
  h_orch_allowed_ip :: str
  h_net_interface :: str
  h_nft_suspend_table :: str
  h_run :: "host_event list \<Rightarrow> str list \<Rightarrow> exn + proc"
  h_now :: "host_event list \<Rightarrow> int"
  h_file :: "host_event list \<Rightarrow> str \<Rightarrow> str option"
  h_fs :: "host_event list \<Rightarrow> str \<Rightarrow> str list \<Rightarrow> exn + unit"

text \<open>The trace of the effects, and the module global of \<open>gateway_agent/main.py\<close>.\<close>

record host_world =
  h_trace :: "host_event list"
  registered :: bool

type_synonym 'a host_io = "(host_world, exn, 'a) comp"

definition h_emit :: "host_event \<Rightarrow> host_world \<Rightarrow> host_world" where
  "h_emit e w = w\<lparr>h_trace := h_trace w @ [e]\<rparr>"

text \<open>\<open>subprocess.run(cmd, capture_output=True, text=True, check=False)\<close>.\<close>

definition subprocess_run :: "host \<Rightarrow> str list \<Rightarrow> proc host_io" where
  "subprocess_run H cmd w = (h_run H (h_trace w) cmd, h_emit (HRun cmd) w)"

definition subprocess_check :: "host \<Rightarrow> str list \<Rightarrow> proc host_io" where
  "subprocess_check H cmd =
     bindM (subprocess_run H cmd) (\<lambda>p.
     if returncode p \<noteq> 0
     then raise (CalledProcessError (''Command '' @ json_repr (JArr (map JStr cmd)) @
                   '' returned non-zero exit status '' @ str_int (returncode p) @ ''.''))
     else ret p)"

definition host_now :: "host \<Rightarrow> int host_io" where
  "host_now H w = (Inr (h_now H (h_trace w)), h_emit HClock w)"

definition host_is_file :: "host \<Rightarrow> str \<Rightarrow> bool host_io" where
  "host_is_file H p = getM (\<lambda>w. h_file H (h_trace w) p \<noteq> None)"

definition host_fs :: "host \<Rightarrow> str \<Rightarrow> str list \<Rightarrow> unit host_io" where
  "host_fs H op args w = (h_fs H (h_trace w) op args, h_emit (HFs op args) w)"

text \<open>\<open>try ... except RuntimeError\<close>.\<close>

definition try_runtime :: "'a host_io \<Rightarrow> (exn \<Rightarrow> 'a host_io) \<Rightarrow> 'a host_io" where
  "try_runtime m h = catchM m (\<lambda>e. if is_RuntimeError e then h e else raise e)"

section \<open>WireGuard peers\<close>

record peer_info =
  pi_public_key :: str
  pi_allowed_ips :: str
  pi_endpoint :: "str option"
  pi_last_handshake :: "int option"
  pi_rx_bytes :: int
  pi_tx_bytes :: int

definition run_wg :: "host \<Rightarrow> str list \<Rightarrow> str host_io" where
  "run_wg H args =
     bindM (subprocess_run H (''wg'' # args)) (\<lambda>p.
     if returncode p \<noteq> 0 then raise (RuntimeError (or_else (py_strip (stderr p)) ''wg command failed''))
     else ret (stdout p))"

definition interface_up :: "host \<Rightarrow> str \<Rightarrow> bool host_io" where
  "interface_up H interface =
     try_runtime (bindM (run_wg H [''show'', interface]) (\<lambda>_. ret True)) (\<lambda>_. ret False)"

definition add_peer :: "host \<Rightarrow> str \<Rightarrow> str \<Rightarrow> str \<Rightarrow> unit host_io" where
  "add_peer H public_key allowed_ips interface =
     bindM (run_wg H [''set'', interface, ''peer'', public_key, ''allowed-ips'', allowed_ips]) (\<lambda>_. ret ())"

definition remove_peer :: "host \<Rightarrow> str \<Rightarrow> str \<Rightarrow> unit host_io" where
  "remove_peer H public_key interface =
     bindM (run_wg H [''set'', interface, ''peer'', public_key, ''remove'']) (\<lambda>_. ret ())"

definition py_int_of :: "str \<Rightarrow> int result" where
  "py_int_of s =
     (case py_int s of
        Some i \<Rightarrow> Inr i
      | None \<Rightarrow> Inl (ValueError (''invalid literal for int() with base 10: '' @ py_repr s)))"

text \<open>\<open>datetime.fromtimestamp(i, tz=UTC)\<close> for a positive number of seconds: the years end at 9999.\<close>

definition MAX_TIMESTAMP :: int where
  "MAX_TIMESTAMP = 253402300799"

definition handshake_time :: "int \<Rightarrow> int option result" where
  "handshake_time i =
     (if i > 0
      then if i \<le> MAX_TIMESTAMP then Inr (Some i) else Inl (ValueError ''year is out of range'')
      else Inr None)"

text \<open>A line of \<open>wg show <interface> dump\<close>; a line with fewer than eight fields is passed over.\<close>

definition dump_line :: "str \<Rightarrow> peer_info option result" where
  "dump_line line =
     (let parts = py_split (CHR 0x09) line in
      if length parts < 8 then Inr None
      else
        bindR (py_int_of (parts ! 4)) (\<lambda>latest_handshake.
        bindR (py_int_of (parts ! 5)) (\<lambda>rx_bytes.
        bindR (py_int_of (parts ! 6)) (\<lambda>tx_bytes.
        bindR (handshake_time latest_handshake) (\<lambda>last_handshake.
        Inr (Some \<lparr>pi_public_key = parts ! 0, pi_allowed_ips = parts ! 3,
                   pi_endpoint = (if parts ! 2 \<noteq> ''(none)'' then Some (parts ! 2) else None),
                   pi_last_handshake = last_handshake, pi_rx_bytes = rx_bytes, pi_tx_bytes = tx_bytes\<rparr>))))))"

fun dump_lines :: "str list \<Rightarrow> peer_info list result" where
  "dump_lines [] = Inr []"
| "dump_lines (line # lines) =
     bindR (dump_line line) (\<lambda>p.
     bindR (dump_lines lines) (\<lambda>ps. Inr (case p of Some x \<Rightarrow> x # ps | None \<Rightarrow> ps)))"

definition parse_dump :: "str \<Rightarrow> peer_info list result" where
  "parse_dump output = dump_lines (drop 1 (py_splitlines (py_strip output)))"

definition list_peers :: "host \<Rightarrow> str \<Rightarrow> peer_info list host_io" where
  "list_peers H interface =
     bindM (try_runtime (bindM (run_wg H [''show'', interface, ''dump'']) (\<lambda>s. ret (Some s))) (\<lambda>_. ret None)) (\<lambda>r.
     case r of
       None \<Rightarrow> ret []
     | Some output \<Rightarrow> liftE (parse_dump output))"

definition get_config :: "host \<Rightarrow> str \<Rightarrow> str host_io" where
  "get_config H interface = run_wg H [''showconf'', interface]"

section \<open>Suspended peers\<close>

definition run_nft :: "host \<Rightarrow> str list \<Rightarrow> unit host_io" where
  "run_nft H args =
     bindM (subprocess_run H (''nft'' # args)) (\<lambda>p.
     if returncode p \<noteq> 0 then raise (RuntimeError (or_else (py_strip (stderr p)) ''nft command failed''))
     else ret ())"

definition suspend_table :: "host \<Rightarrow> str list" where
  "suspend_table H = py_words (h_nft_suspend_table H)"

definition ensure_suspend_table :: "host \<Rightarrow> unit host_io" where
  "ensure_suspend_table H =
     thenM (run_nft H ([''add'', ''table''] @ suspend_table H))
    (run_nft H ([''add'', ''chain''] @ suspend_table H @
       [''forward'', ''{'', ''type'', ''filter'', ''hook'', ''forward'', ''priority'', ''filter'', '';'',
        ''policy'', ''accept'', '';'', ''}'']))"

definition suspend_peer_ip :: "host \<Rightarrow> str \<Rightarrow> unit host_io" where
  "suspend_peer_ip H peer_ip =
     thenM (ensure_suspend_table H)
    (try_runtime (run_nft H ([''add'', ''rule''] @ suspend_table H @
                     [''forward'', ''ip daddr '' @ peer_ip @ '' drop'']))
      (\<lambda>_. ret ()))"

text \<open>\<open>line.strip().split()[-1]\<close>: the number after \<open># handle\<close>.\<close>

definition last_word :: "str \<Rightarrow> str result" where
  "last_word line =
     (case py_words (py_strip line) of
        [] \<Rightarrow> Inl (IndexError ''list index out of range'')
      | ws \<Rightarrow> Inr (last ws))"

definition to_resume :: "str \<Rightarrow> str \<Rightarrow> bool" where
  "to_resume peer_ip line \<longleftrightarrow> py_contains line peer_ip \<and> py_contains line ''drop''"

fun resume_loop_lines :: "host \<Rightarrow> str \<Rightarrow> str list \<Rightarrow> unit host_io" where
  "resume_loop_lines H peer_ip [] = ret ()"
| "resume_loop_lines H peer_ip (line # lines) =
     (if to_resume peer_ip line
      then bindM (liftE (last_word line)) (\<lambda>handle.
           thenM (run_nft H ([''delete'', ''rule''] @ suspend_table H @ [''forward'', ''handle'', handle]))
                 (resume_loop_lines H peer_ip lines))
      else resume_loop_lines H peer_ip lines)"

definition resume_peer_ip :: "host \<Rightarrow> str \<Rightarrow> unit host_io" where
  "resume_peer_ip H peer_ip =
     bindM (subprocess_run H ([''nft'', ''-a'', ''list'', ''chain''] @ suspend_table H @ [''forward''])) (\<lambda>p.
     if returncode p \<noteq> 0 then ret ()
     else resume_loop_lines H peer_ip (py_splitlines (stdout p)))"

section \<open>Health\<close>

definition PEER_HANDSHAKE_MAX_AGE_SECONDS :: int where
  "PEER_HANDSHAKE_MAX_AGE_SECONDS = 180"

record health_status =
  hs_wg_online :: bool
  hs_tailscale_online :: bool
  hs_nft_running :: bool
  hs_exit_node_configured :: bool

definition connected_ips :: "json \<Rightarrow> json list result" where
  "connected_ips data =
     bindR (json_get data ''Self'') (\<lambda>self.
     bindR (if truthy self then json_get self ''TailscaleIPs'' else Inr JNull) (\<lambda>ips.
     if truthy ips then json_iter ips else Inr []))"

definition tailscale_connected :: "host \<Rightarrow> bool host_io" where
  "tailscale_connected H =
     bindM (subprocess_run H [''tailscale'', ''status'', ''--json'']) (\<lambda>p.
     if returncode p \<noteq> 0 then ret False
     else case json_loads (stdout p) of
            Inl e \<Rightarrow> ret False
          | Inr data \<Rightarrow>
              bindM (liftE (json_get data ''BackendState'')) (\<lambda>state.
              if state \<noteq> JStr ''Running'' then ret False
              else bindM (liftE (connected_ips data)) (\<lambda>ips.
                   ret (list_ex (\<lambda>ip. CHR ''.'' \<in> set (json_str ip)) ips))))"

definition tailscale_online :: "host \<Rightarrow> bool host_io" where
  "tailscale_online H = tailscale_connected H"

definition tailscale_status_text :: "host \<Rightarrow> str host_io" where
  "tailscale_status_text H =
     bindM (subprocess_run H [''/usr/sbin/tailscale'', ''status'']) (\<lambda>p.
     if returncode p \<noteq> 0
     then raise (RuntimeError (py_strip (or_else (stderr p) (or_else (stdout p) ''tailscale status failed''))))
     else ret (or_else (py_strip (stdout p)) ''(empty)''))"

definition nft_running :: "host \<Rightarrow> bool host_io" where
  "nft_running H =
     bindM (subprocess_run H [''systemctl'', ''is-active'', ''nftables'']) (\<lambda>p.
     ret (py_strip (stdout p) = ''active''))"

text \<open>\<open>x in v\<close> for a decoded value: the elements of a list, the keys of an object, the parts of a text.\<close>

definition json_contains :: "json \<Rightarrow> str \<Rightarrow> bool result" where
  "json_contains v x =
     (case v of
        JArr vs \<Rightarrow> Inr (JStr x \<in> set vs)
      | JObj d \<Rightarrow> Inr (dhas d x)
      | JStr s \<Rightarrow> Inr (py_contains s x)
      | _ \<Rightarrow> Inl (TypeError (''argument of type '' @ py_repr (json_type v) @ '' is not iterable'')))"

definition exit_advertised :: "json \<Rightarrow> bool result" where
  "exit_advertised prefs =
     bindR (json_get prefs ''AdvertiseExitNode'') (\<lambda>v.
     if truthy v then Inr True
     else bindR (json_get prefs ''AdvertiseRoutes'') (\<lambda>routes.
          json_contains (if truthy routes then routes else JArr []) ''0.0.0.0/0''))"

definition exit_node_configured :: "host \<Rightarrow> bool host_io" where
  "exit_node_configured H =
     bindM (subprocess_run H [''tailscale'', ''debug'', ''prefs'']) (\<lambda>p.
     if returncode p \<noteq> 0 then ret False
     else case json_loads (stdout p) of
            Inl e \<Rightarrow> ret (py_contains (py_lower (py_replace_char (CHR '' '') [] (stdout p))) ''advertiseexitnode'')
          | Inr prefs \<Rightarrow> liftE (exit_advertised prefs))"

text \<open>
  \<open>ipaddress.ip_address\<close> on a text that is no IPv4 address: the IPv6 addresses. The groups between
  colons, at most one of the inner ones empty (the \<open>::\<close>), the last one possibly a dotted IPv4
  address, and an optional scope after a percent sign.
\<close>

definition hextet_ok :: "str \<Rightarrow> bool" where
  "hextet_ok s \<longleftrightarrow> s \<noteq> [] \<and> length s \<le> 4 \<and> list_all (\<lambda>c. hex_val c \<noteq> None) s"

definition ipv6_groups :: "str list \<Rightarrow> bool" where
  "ipv6_groups parts =
     (let n = length parts;
          gaps = filter (\<lambda>i. parts ! i = []) [1..<n - 1]
      in 3 \<le> n \<and> n \<le> 9 \<and>
         (case gaps of
            [] \<Rightarrow> n = 8 \<and> list_all hextet_ok parts
          | [k] \<Rightarrow>
              (let hi = (if parts ! 0 = [] then k - 1 else k);
                   lo = (if parts ! (n - 1) = [] then n - k - 2 else n - k - 1)
               in (parts ! 0 = [] \<longrightarrow> hi = 0) \<and> (parts ! (n - 1) = [] \<longrightarrow> lo = 0) \<and> hi + lo \<le> 7 \<and>
                  list_all hextet_ok (take hi parts) \<and> list_all hextet_ok (drop (n - lo) parts))
          | _ \<Rightarrow> False))"

definition is_ipv6 :: "str \<Rightarrow> bool" where
  "is_ipv6 s =
     (case py_split (CHR ''%'') s of
        a # scope \<Rightarrow>
          (let parts = py_split (CHR '':'') a in
           (scope = [] \<or> length scope = 1 \<and> hd scope \<noteq> []) \<and> CHR ''/'' \<notin> set s \<and> 3 \<le> length parts \<and>
           (if CHR ''.'' \<in> set (last parts)
            then parse_ipv4 (last parts) \<noteq> None \<and> ipv6_groups (butlast parts @ [''0'', ''0''])
            else ipv6_groups parts))
      | [] \<Rightarrow> False)"

definition is_ip_text :: "str \<Rightarrow> bool" where
  "is_ip_text s \<longleftrightarrow> parse_ipv4 s \<noteq> None \<or> is_ipv6 s"

definition first_line :: "str \<Rightarrow> str result" where
  "first_line s =
     (case py_splitlines (py_strip s) of
        [] \<Rightarrow> Inl (IndexError ''list index out of range'')
      | l # ls \<Rightarrow> Inr (py_strip l))"

fun egress_loop :: "host \<Rightarrow> str list \<Rightarrow> str list \<Rightarrow> str host_io" where
  "egress_loop H errors [] =
     raise (RuntimeError (if errors \<noteq> [] then last errors else ''egress ip lookup failed''))"
| "egress_loop H errors (url # urls) =
     bindM (subprocess_run H [''wget'', ''-qO-'', ''-T'', ''10'', url]) (\<lambda>p.
     if returncode p \<noteq> 0
     then egress_loop H (errors @ [or_else (py_strip (stderr p)) (or_else (py_strip (stdout p)) url)]) urls
     else bindM (liftE (first_line (stdout p))) (\<lambda>candidate.
          if is_ip_text candidate then ret candidate
          else egress_loop H (errors @ [''invalid response from '' @ url @ '': '' @ py_repr candidate]) urls))"

definition fetch_egress_public_ip :: "host \<Rightarrow> str host_io" where
  "fetch_egress_public_ip H = egress_loop H [] [''https://api.ipify.org'', ''https://ifconfig.me/ip'']"

definition wg_uplink_online :: "host \<Rightarrow> str \<Rightarrow> int \<Rightarrow> bool host_io" where
  "wg_uplink_online H interface max_age =
     bindM (list_peers H interface) (\<lambda>peers.
     if peers = [] then ret False
     else bindM (host_now H) (\<lambda>t.
          ret (list_ex (\<lambda>p. case pi_last_handshake p of
                              None \<Rightarrow> False
                            | Some hs \<Rightarrow> t - hs * second < max_age * second) peers)))"

definition collect_health :: "host \<Rightarrow> str \<Rightarrow> health_status host_io" where
  "collect_health H interface =
     bindM (wg_uplink_online H interface PEER_HANDSHAKE_MAX_AGE_SECONDS) (\<lambda>wg.
     bindM (tailscale_connected H) (\<lambda>ts.
     bindM (nft_running H) (\<lambda>nft.
     bindM (exit_node_configured H) (\<lambda>ex.
     ret \<lparr>hs_wg_online = wg, hs_tailscale_online = ts, hs_nft_running = nft, hs_exit_node_configured = ex\<rparr>))))"

section \<open>Reading the dump back\<close>

text \<open>
  What \<open>wg show <interface> dump\<close> prints: a line for the interface, then one for each peer, with the
  fields separated by tabs.
\<close>

definition shown_endpoint :: "peer_info \<Rightarrow> str" where
  "shown_endpoint p = (case pi_endpoint p of Some e \<Rightarrow> e | None \<Rightarrow> ''(none)'')"

definition shown_handshake :: "peer_info \<Rightarrow> int" where
  "shown_handshake p = (case pi_last_handshake p of Some t \<Rightarrow> t | None \<Rightarrow> 0)"

definition dump_fields :: "str \<Rightarrow> str \<Rightarrow> peer_info \<Rightarrow> str list" where
  "dump_fields preshared keepalive p =
     [pi_public_key p, preshared, shown_endpoint p, pi_allowed_ips p, str_int (shown_handshake p),
      str_int (pi_rx_bytes p), str_int (pi_tx_bytes p), keepalive]"

definition dump_row :: "str \<Rightarrow> str \<Rightarrow> peer_info \<Rightarrow> str" where
  "dump_row preshared keepalive p = py_join [CHR 0x09] (dump_fields preshared keepalive p)"

definition dump_text :: "str \<Rightarrow> str \<Rightarrow> str \<Rightarrow> peer_info list \<Rightarrow> str" where
  "dump_text header preshared keepalive ps =
     py_join [CHR 0x0A] (header # map (dump_row preshared keepalive) ps) @ [CHR 0x0A]"

definition field :: "str \<Rightarrow> bool" where
  "field s \<longleftrightarrow> one_line s \<and> CHR 0x09 \<notin> set s"

definition dumped_peer :: "peer_info \<Rightarrow> bool" where
  "dumped_peer p \<longleftrightarrow>
     field (pi_public_key p) \<and> field (pi_allowed_ips p) \<and>
     (\<forall>e. pi_endpoint p = Some e \<longrightarrow> field e \<and> e \<noteq> ''(none)'') \<and>
     (\<forall>t. pi_last_handshake p = Some t \<longrightarrow> 0 < t \<and> t \<le> MAX_TIMESTAMP) \<and> 0 \<le> pi_rx_bytes p \<and> 0 \<le> pi_tx_bytes p"

lemma py_split_join: "(\<And>w. w \<in> set ws \<Longrightarrow> c \<notin> set w) \<Longrightarrow> ws \<noteq> [] \<Longrightarrow> py_split c (py_join [c] ws) = ws"
proof (induction ws)
  case Nil
  then show ?case by simp
next
  case (Cons w ws)
  then show ?case by (cases ws) (simp_all add: py_split_id py_split_append append_Cons)
qed

lemma str_int_field: "0 \<le> i \<Longrightarrow> field (str_int i)"
proof -
  assume "0 \<le> i"
  then have "list_all is_digit (str_int i)" by (simp add: str_int_def str_nat_digits)
  then show ?thesis
    by (auto simp: field_def list_all_iff is_digit_def is_linebreak_def code_def)
qed

lemma py_int_str_int: "0 \<le> i \<Longrightarrow> py_int_of (str_int i) = Inr i"
  by (simp add: str_int_def py_int_of_def)

lemma field_none: "field ''(none)''"
  by code_simp

lemma shown_facts:
  assumes "dumped_peer p"
  shows "field (shown_endpoint p)" and "0 \<le> shown_handshake p"
    and "handshake_time (shown_handshake p) = Inr (pi_last_handshake p)"
    and "(if shown_endpoint p \<noteq> ''(none)'' then Some (shown_endpoint p) else None) = pi_endpoint p"
  using assms
  by (auto simp: dumped_peer_def field_none shown_endpoint_def shown_handshake_def handshake_time_def
      split: option.split)

lemma dump_row_fields:
  assumes "dumped_peer p" and "field preshared" and "field keepalive" and "w \<in> set (dump_fields preshared keepalive p)"
  shows "field w"
  using assms shown_facts [OF assms(1)] by (auto simp: dump_fields_def dumped_peer_def str_int_field)

lemma dump_line_row:
  assumes "dumped_peer p" and "field preshared" and "field keepalive"
  shows "dump_line (dump_row preshared keepalive p) = Inr (Some p)"
proof -
  note shown = shown_facts [OF assms(1)]
  have "py_split (CHR 0x09) (dump_row preshared keepalive p) = dump_fields preshared keepalive p"
    unfolding dump_row_def using dump_row_fields [OF assms]
    by (intro py_split_join) (auto simp: field_def dump_fields_def)
  moreover have "0 \<le> pi_rx_bytes p" "0 \<le> pi_tx_bytes p" using assms(1) by (simp_all add: dumped_peer_def)
  ultimately show ?thesis
    using shown(1-3)
    by (simp add: dump_line_def Let_def py_int_str_int dump_fields_def shown(4) split del: if_split
        cong del: if_weak_cong)
qed

lemma dump_lines_rows:
  assumes "\<And>p. p \<in> set ps \<Longrightarrow> dumped_peer p" and "field preshared" and "field keepalive"
  shows "dump_lines (map (dump_row preshared keepalive) ps) = Inr ps"
  using assms(1) by (induction ps) (simp_all add: dump_line_row assms(2,3))

lemma py_join_fields_one_line:
  "(\<And>w. w \<in> set ws \<Longrightarrow> one_line w) \<Longrightarrow> \<not> is_linebreak c \<Longrightarrow> one_line (py_join [c] ws)"
proof (induction ws)
  case (Cons w ws)
  then show ?case by (cases ws) auto
qed simp

lemma py_join_last: "ws \<noteq> [] \<Longrightarrow> last ws \<noteq> [] \<Longrightarrow> py_join [c] ws \<noteq> [] \<and> last (py_join [c] ws) = last (last ws)"
proof (induction ws)
  case (Cons w ws)
  then show ?case by (cases ws) (auto simp: append_Cons)
qed simp

lemma py_join_hd: "w \<noteq> [] \<Longrightarrow> hd (py_join [c] (w # ws)) = hd w"
  by (cases ws) auto

lemma dump_row_ok:
  assumes "dumped_peer p" and "field preshared" and "field keepalive" and "keepalive \<noteq> []"
  shows "one_line (dump_row preshared keepalive p)"
    and "dump_row preshared keepalive p \<noteq> [] \<and> last (dump_row preshared keepalive p) = last keepalive"
proof -
  have "\<not> is_linebreak (CHR 0x09)" by (simp add: is_linebreak_def code_def)
  then show "one_line (dump_row preshared keepalive p)"
    unfolding dump_row_def using dump_row_fields [OF assms(1-3)]
    by (intro py_join_fields_one_line) (auto simp: field_def)
  have "dump_fields preshared keepalive p \<noteq> []" "last (dump_fields preshared keepalive p) = keepalive"
    by (simp_all add: dump_fields_def)
  then show "dump_row preshared keepalive p \<noteq> [] \<and> last (dump_row preshared keepalive p) = last keepalive"
    unfolding dump_row_def using py_join_last [of "dump_fields preshared keepalive p"] assms(4) by simp
qed


section \<open>Resuming a peer\<close>

lemma contains_chars: "py_contains s p \<Longrightarrow> set p \<subseteq> set s"
  by (auto simp: py_contains_iff)

lemma run_nft_returns:
  "run_nft H args w = (Inr u, w') \<Longrightarrow> w' = h_emit (HRun (''nft'' # args)) w"
  by (auto simp: run_nft_def subprocess_run_def bindM_def split: sum.splits if_splits)

definition delete_rule :: "host \<Rightarrow> str \<Rightarrow> host_event" where
  "delete_rule H handle =
     HRun (''nft'' # [''delete'', ''rule''] @ suspend_table H @ [''forward'', ''handle'', handle])"

lemma h_trace_emit [simp]: "h_trace (h_emit e w) = h_trace w @ [e]"
  by (simp add: h_emit_def)

lemma resume_loop_returns:
  "resume_loop_lines H peer_ip lines w = (Inr u, w') \<Longrightarrow>
   \<exists>hs. map last_word (filter (to_resume peer_ip) lines) = map Inr hs \<and>
        h_trace w' = h_trace w @ map (delete_rule H) hs"
proof (induction lines arbitrary: w)
  case Nil
  then show ?case by simp
next
  case (Cons line lines)
  show ?case
  proof (cases "to_resume peer_ip line")
    case False
    with Cons show ?thesis by simp
  next
    case True
    with Cons.prems obtain h w1 where "last_word line = Inr h"
      and "run_nft H ([''delete'', ''rule''] @ suspend_table H @ [''forward'', ''handle'', h]) w = (Inr (), w1)"
      and "resume_loop_lines H peer_ip lines w1 = (Inr u, w')"
      by (auto simp: bindM_returns thenM_returns)
    moreover from this(2) have "h_trace w1 = h_trace w @ [delete_rule H h]"
      using run_nft_returns by (fastforce simp: delete_rule_def)
    moreover obtain hs where "map last_word (filter (to_resume peer_ip) lines) = map Inr hs"
        "h_trace w' = h_trace w1 @ map (delete_rule H) hs"
      using Cons.IH [OF calculation(3)] by blast
    ultimately show ?thesis using True by (intro exI [of _ "h # hs"]) simp
  qed
qed

text \<open>
  What \<open>nft -a list chain\<close> prints: some lines around the rules (no address in them and no \<open>drop\<close>), and
  a line for each suspended address with the handle of its rule at the end.
\<close>

definition drop_rule :: "str \<times> nat \<Rightarrow> str" where
  "drop_rule r =
     CHR 0x09 # CHR 0x09 # ''ip'' @ CHR '' '' # ''daddr'' @ CHR '' '' # fst r @ CHR '' '' # ''drop'' @ CHR '' '' #
     ''#'' @ CHR '' '' # ''handle'' @ CHR '' '' # str_nat (snd r)"

definition chain_text :: "str list \<Rightarrow> (str \<times> nat) list \<Rightarrow> str list \<Rightarrow> str" where
  "chain_text pre rules post = concat (map (\<lambda>l. l @ [CHR 0x0A]) (pre @ map drop_rule rules @ post))"

definition address_text :: "str \<Rightarrow> bool" where
  "address_text s \<longleftrightarrow> one_word s \<and> CHR ''.'' \<in> set s"

lemma drop_rule_words:
  assumes "address_text (fst r)"
  shows "last_word (drop_rule r) = Inr (str_nat (snd r))" and "one_line (drop_rule r)"
proof -
  have a: "one_word (fst r)" "fst r \<noteq> []" using assms by (auto simp: address_text_def)
  have tab: "is_space (CHR 0x09)" by (simp add: is_space_def code_def)
  have lits: "one_word ''ip''" "one_word ''daddr''" "one_word ''drop''" "one_word ''#''" "one_word ''handle''"
    by code_simp+
  have "py_words (drop_rule r) = [''ip'', ''daddr'', fst r, ''drop'', ''#'', ''handle'', str_nat (snd r)]"
    unfolding drop_rule_def words_space [OF tab]
    using words_Cons [OF lits(1) _ space_blank] words_Cons [OF lits(2) _ space_blank] words_Cons [OF a space_blank]
      words_Cons [OF lits(3) _ space_blank] words_Cons [OF lits(4) _ space_blank] words_Cons [OF lits(5) _ space_blank]
      words_one [OF str_nat_word str_nat_nonempty]
    by simp
  then show "last_word (drop_rule r) = Inr (str_nat (snd r))" by (simp add: last_word_def)
  show "one_line (drop_rule r)"
    using one_word_line [OF a(1)] one_word_line [OF str_nat_word [of "snd r"]]
    by (simp add: drop_rule_def append_Cons is_linebreak_def code_def)
qed

lemma drop_rule_resumed:
  assumes "address_text (fst r)" and "address_text ip"
  shows "to_resume ip (drop_rule r) \<longleftrightarrow> py_contains (fst r) ip"
proof -
  have ip: "one_word ip" "ip \<noteq> []" "CHR ''.'' \<in> set ip" using assms(2) by (auto simp: address_text_def)
  have tab: "is_space (CHR 0x09)" by (simp add: is_space_def code_def)
  have no: "\<not> py_contains w ip" if "CHR ''.'' \<notin> set w" for w
    using that ip(3) contains_chars [of w ip] by auto
  have num: "CHR ''.'' \<notin> set (str_nat (snd r))"
    using str_nat_digits [of "snd r"] by (auto simp: list_all_iff is_digit_def code_def)
  have "py_contains (drop_rule r) ip \<longleftrightarrow> py_contains (fst r) ip"
    unfolding drop_rule_def contains_space_Cons [OF ip(1) tab ip(2)] contains_word_split [OF ip(1) space_blank ip(2)]
    by (simp add: no num del: py_contains.simps)
  moreover have "py_contains (drop_rule r) ''drop''"
    unfolding py_contains_iff
    by (intro exI [of _ "CHR 0x09 # CHR 0x09 # ''ip'' @ CHR '' '' # ''daddr'' @ CHR '' '' # fst r @ '' ''"]
        exI [of _ "CHR '' '' # ''#'' @ CHR '' '' # ''handle'' @ CHR '' '' # str_nat (snd r)"])
      (simp add: drop_rule_def append_Cons)
  ultimately show ?thesis by (simp add: to_resume_def)
qed

text \<open>
  C37: Resuming a peer deletes, in the listed order and nothing else, the handles of the drop rules whose
  address contains the peer's address as a text. So every rule of the peer goes, but the rule of
  another suspended peer goes too when its address merely extends the text, as \<open>10.8.0.25\<close> extends
  \<open>10.8.0.2\<close>.
\<close>

theorem resume_deletes_rules:
  assumes "address_text ip" and "\<And>r. r \<in> set rules \<Longrightarrow> address_text (fst r)"
    and "\<And>l. l \<in> set (pre @ post) \<Longrightarrow> one_line l \<and> \<not> py_contains l ''drop''"
    and "h_run H (h_trace w) ([''nft'', ''-a'', ''list'', ''chain''] @ suspend_table H @ [''forward'']) =
         Inr \<lparr>returncode = 0, stdout = chain_text pre rules post, stderr = err\<rparr>"
    and "resume_peer_ip H ip w = (Inr u, w')"
  shows "h_trace w' = h_trace w @
      [HRun ([''nft'', ''-a'', ''list'', ''chain''] @ suspend_table H @ [''forward''])] @
      map (\<lambda>r. delete_rule H (str_nat (snd r))) (filter (\<lambda>r. py_contains (fst r) ip) rules)"
proof -
  let ?lines = "pre @ map drop_rule rules @ post"
  let ?w = "h_emit (HRun ([''nft'', ''-a'', ''list'', ''chain''] @ suspend_table H @ [''forward''])) w"
  have "one_line l" if "l \<in> set ?lines" for l
    using that assms(3) [of l] drop_rule_words(2) assms(2) by auto
  then have "py_splitlines (chain_text pre rules post) = ?lines"
    unfolding chain_text_def by (rule splitlines_terminated)
  with assms(4,5) have "resume_loop_lines H ip ?lines ?w = (Inr u, w')"
    by (simp add: resume_peer_ip_def subprocess_run_def bindM_def)
  from resume_loop_returns [OF this] obtain hs where
    hs: "map last_word (filter (to_resume ip) ?lines) = map Inr hs"
    and trace: "h_trace w' = h_trace ?w @ map (delete_rule H) hs" by blast
  have none: "filter (to_resume ip) pre = []" "filter (to_resume ip) post = []"
    using assms(3) by (auto simp: filter_empty_conv to_resume_def)
  let ?found = "filter (\<lambda>r. py_contains (fst r) ip) rules"
  have "filter (to_resume ip) (map drop_rule rules) = map drop_rule ?found"
    using assms(2) by (induction rules) (simp_all add: drop_rule_resumed [OF _ assms(1)])
  with hs none have "map last_word (map drop_rule ?found) = map Inr hs" by simp
  moreover have "map last_word (map drop_rule ?found) = map Inr (map (\<lambda>r. str_nat (snd r)) ?found)"
    using assms(2) drop_rule_words(1) by auto
  ultimately have "map (Inr :: str \<Rightarrow> exn + str) hs = map Inr (map (\<lambda>r. str_nat (snd r)) ?found)" by metis
  then have "hs = map (\<lambda>r. str_nat (snd r)) (filter (\<lambda>r. py_contains (fst r) ip) rules)"
    by (rule map_injective) (simp add: inj_def)
  with trace show ?thesis by (simp add: comp_def)
qed

section \<open>The egress address\<close>

lemma egress_loop_valid: "egress_loop H errors urls w = (Inr a, w') \<Longrightarrow> is_ip_text a"
proof (induction urls arbitrary: errors w)
  case Nil
  then show ?case by simp
next
  case (Cons url urls)
  then show ?case
    by (auto simp: bindM_returns split: if_splits)
qed

text \<open>
  C38: The public address the agent reports is always the text of an IP address. But a service that
  answers nothing at all ends the look-up with an \<open>IndexError\<close>, which is not the \<open>RuntimeError\<close> the
  route turns into a 503, and the second service is never asked.
\<close>

theorem fetch_egress_answers:
  assumes "h_run H (h_trace w) [''wget'', ''-qO-'', ''-T'', ''10'', ''https://api.ipify.org''] = Inr p"
  shows "(fetch_egress_public_ip H w = (Inr a, w') \<longrightarrow> is_ip_text a) \<and>
    (returncode p = 0 \<and> py_strip (stdout p) = [] \<longrightarrow>
       fetch_egress_public_ip H w =
         (Inl (IndexError ''list index out of range''),
          h_emit (HRun [''wget'', ''-qO-'', ''-T'', ''10'', ''https://api.ipify.org'']) w))"
proof -
  have "fetch_egress_public_ip H w = (Inr a, w') \<longrightarrow> is_ip_text a"
    unfolding fetch_egress_public_ip_def using egress_loop_valid by blast
  then show ?thesis
    using assms by (simp add: fetch_egress_public_ip_def bindM_def subprocess_run_def first_line_def)
qed

section \<open>A concrete host\<close>

definition sample_host :: "(host_event list \<Rightarrow> str list \<Rightarrow> exn + proc) \<Rightarrow> host" where
  "sample_host run =
     \<lparr>h_agent_token = ''secret'', h_wg_interface = ''wg0'', h_listen_host = ''0.0.0.0'', h_listen_port = 8081,
      h_orch_allowed_ip = ''10.10.0.1'', h_net_interface = ''eth0'', h_nft_suspend_table = ''inet wg_suspend'',
      h_run = run, h_now = (\<lambda>h. int (length h) * second), h_file = (\<lambda>h p. None), h_fs = (\<lambda>h op args. Inr ())\<rparr>"

definition fresh_host :: host_world where
  "fresh_host = \<lparr>h_trace = [], registered = False\<rparr>"

definition prints :: "str \<Rightarrow> exn + proc" where
  "prints s = Inr \<lparr>returncode = 0, stdout = s, stderr = []\<rparr>"

definition suspended_host :: host where
  "suspended_host =
     sample_host (\<lambda>h cmd.
       if cmd ! 1 = ''-a''
       then prints (chain_text [''table inet wg_suspend {''] [(''10.8.0.2'', 4), (''10.8.0.25'', 5), (''10.8.0.3'', 6)] [''}''])
       else prints [])"

lemma resume_witness_run: "fst (resume_peer_ip suspended_host ''10.8.0.2'' fresh_host) = Inr ()"
  by code_simp

theorem resume_deletes_rules_witness:
  "h_trace (snd (resume_peer_ip suspended_host ''10.8.0.2'' fresh_host)) =
     [HRun [''nft'', ''-a'', ''list'', ''chain'', ''inet'', ''wg_suspend'', ''forward''],
      HRun [''nft'', ''delete'', ''rule'', ''inet'', ''wg_suspend'', ''forward'', ''handle'', ''4''],
      HRun [''nft'', ''delete'', ''rule'', ''inet'', ''wg_suspend'', ''forward'', ''handle'', ''5'']]"
proof -
  let ?rules = "[(''10.8.0.2'', 4), (''10.8.0.25'', 5), (''10.8.0.3'', 6 :: nat)]"
  obtain w' where run: "resume_peer_ip suspended_host ''10.8.0.2'' fresh_host = (Inr (), w')"
    using resume_witness_run by (cases "resume_peer_ip suspended_host ''10.8.0.2'' fresh_host") simp
  have ok: "address_text ''10.8.0.2''" "list_all (\<lambda>r. address_text (fst r)) ?rules"
    "list_all (\<lambda>l. one_line l \<and> \<not> py_contains l ''drop'') ([''table inet wg_suspend {''] @ [''}''])"
    by code_simp+
  have list: "h_run suspended_host (h_trace fresh_host)
      ([''nft'', ''-a'', ''list'', ''chain''] @ suspend_table suspended_host @ [''forward'']) =
      Inr \<lparr>returncode = 0, stdout = chain_text [''table inet wg_suspend {''] ?rules [''}''], stderr = []\<rparr>"
    by (simp add: suspended_host_def sample_host_def prints_def append_Cons)
  have "h_trace w' = h_trace fresh_host @
      [HRun ([''nft'', ''-a'', ''list'', ''chain''] @ suspend_table suspended_host @ [''forward''])] @
      map (\<lambda>r. delete_rule suspended_host (str_nat (snd r))) (filter (\<lambda>r. py_contains (fst r) ''10.8.0.2'') ?rules)"
    using ok by (intro resume_deletes_rules [OF ok(1) _ _ list run]) (auto simp: list_all_iff)
  moreover have "h_trace fresh_host @
      [HRun ([''nft'', ''-a'', ''list'', ''chain''] @ suspend_table suspended_host @ [''forward''])] @
      map (\<lambda>r. delete_rule suspended_host (str_nat (snd r))) (filter (\<lambda>r. py_contains (fst r) ''10.8.0.2'') ?rules) =
     [HRun [''nft'', ''-a'', ''list'', ''chain'', ''inet'', ''wg_suspend'', ''forward''],
      HRun [''nft'', ''delete'', ''rule'', ''inet'', ''wg_suspend'', ''forward'', ''handle'', ''4''],
      HRun [''nft'', ''delete'', ''rule'', ''inet'', ''wg_suspend'', ''forward'', ''handle'', ''5'']]"
    by code_simp
  ultimately show ?thesis using run by simp
qed

definition dumping_host :: "peer_info list \<Rightarrow> host" where
  "dumping_host ps = sample_host (\<lambda>h cmd. prints (dump_text ''priv'' ''(none)'' ''off'' ps))"

definition two_peers :: "peer_info list" where
  "two_peers =
     [\<lparr>pi_public_key = ''k1='', pi_allowed_ips = ''10.8.0.2/32'', pi_endpoint = Some ''198.51.100.1:51820'',
       pi_last_handshake = Some 1700000000, pi_rx_bytes = 10, pi_tx_bytes = 20\<rparr>,
      \<lparr>pi_public_key = ''k2='', pi_allowed_ips = ''10.8.0.3/32'', pi_endpoint = None,
       pi_last_handshake = None, pi_rx_bytes = 0, pi_tx_bytes = 0\<rparr>]"

lemma two_peers_ok: "p \<in> set two_peers \<Longrightarrow> dumped_peer p"
  by (auto simp: two_peers_def dumped_peer_def field_def MAX_TIMESTAMP_def is_linebreak_def code_def)


theorem fetch_egress_witness:
  "fst (fetch_egress_public_ip (sample_host (\<lambda>h cmd. prints '' '')) fresh_host) =
     Inl (IndexError ''list index out of range'')"
proof -
  have "py_strip '' '' = []" by code_simp
  then show ?thesis
    using fetch_egress_answers [of "sample_host (\<lambda>h cmd. prints '' '')" fresh_host
        "\<lparr>returncode = 0, stdout = '' '', stderr = []\<rparr>"]
    by (simp add: sample_host_def prints_def)
qed

end
