(* ===== verification/AgentRouting.thy ===== *)
theory AgentRouting
  imports AgentHost
begin

declare append_Cons [simp del]

text \<open>
  The routing of a gateway (\<open>gateway_agent/tailscale_handler.py\<close>): what arrives on \<open>tailscale0\<close> leaves
  through the WireGuard uplink \<open>wg0\<close>, while the gateway's own answers, the tailnet and the public
  resolvers keep to the main table. All of it is commands: \<open>ip rule\<close>, \<open>ip route\<close>, \<open>nft\<close>, \<open>tailscale\<close>.
\<close>

section \<open>Constants\<close>

definition EXIT_NODE_ENV :: str where "EXIT_NODE_ENV = ''/opt/gateway-agent/exit-node.env''"
definition WG_GATEWAY_REPLY_RULE_PREF :: str where "WG_GATEWAY_REPLY_RULE_PREF = ''40''"
definition WG_PEER_RETURN_RULE_PREF :: str where "WG_PEER_RETURN_RULE_PREF = ''35''"
definition WG_UDP_REPLY_RULE_PREF :: str where "WG_UDP_REPLY_RULE_PREF = ''50''"
definition GATEWAY_TS_RULE_PREF :: str where "GATEWAY_TS_RULE_PREF = ''45''"

definition PUBLIC_DNS_RULE_PREFS :: "(str \<times> str) list" where
  "PUBLIC_DNS_RULE_PREFS =
     [(''8.8.8.8'', ''52''), (''8.8.4.4'', ''53''), (''1.1.1.1'', ''54''), (''1.0.0.1'', ''55'')]"

definition TAILNET_RETURN_RULE_PREF :: str where "TAILNET_RETURN_RULE_PREF = ''48''"
definition MAGICDNS_V4_RULE_PREF :: str where "MAGICDNS_V4_RULE_PREF = ''57''"
definition EXIT_CLIENT_RULE_PREF :: str where "EXIT_CLIENT_RULE_PREF = ''58''"
definition WG_INGRESS_RULE_PREF :: str where "WG_INGRESS_RULE_PREF = ''59''"
definition BACKHAUL_ROUTE_TABLE :: str where "BACKHAUL_ROUTE_TABLE = ''200''"
definition BACKHAUL_ROUTE_TABLE_NAME :: str where "BACKHAUL_ROUTE_TABLE_NAME = ''backhaul''"
definition STALE_PEER_RULE_PREF :: str where "STALE_PEER_RULE_PREF = ''100''"
definition STALE_PEER_TABLE :: str where "STALE_PEER_TABLE = ''100''"
definition TAILSCALE_SNAT_SUBNET :: str where "TAILSCALE_SNAT_SUBNET = ''100.64.0.0/10''"
definition UPLINK_INTERFACE :: str where "UPLINK_INTERFACE = ''wg0''"
definition HOST_INTERFACE :: str where "HOST_INTERFACE = ''eth0''"

section \<open>Commands\<close>

definition run_cmd :: "host \<Rightarrow> str list \<Rightarrow> unit host_io" where
  "run_cmd H cmd =
     bindM (subprocess_run H cmd) (\<lambda>p.
     if returncode p \<noteq> 0
     then raise (RuntimeError (or_else (py_strip (stderr p)) (or_else (py_strip (stdout p)) (py_join '' '' cmd))))
     else ret ())"

definition run_optional :: "host \<Rightarrow> str list \<Rightarrow> unit host_io" where
  "run_optional H cmd = bindM (subprocess_run H cmd) (\<lambda>_. ret ())"

section \<open>Addresses of the gateway\<close>

text \<open>\<open>re.search(r"\sinet\s(\S+)", line)\<close>: the first group of the first match.\<close>

fun inet_address :: "str \<Rightarrow> str option" where
  "inet_address [] = None"
| "inet_address (c # s) =
     (let rest = drop 4 s; a = takeWhile (\<lambda>d. \<not> is_space d) (drop 1 rest) in
      if is_space c \<and> py_startswith s ''inet'' \<and> rest \<noteq> [] \<and> is_space (hd rest) \<and> a \<noteq> []
      then Some a else inet_address s)"

definition first_inet :: "str \<Rightarrow> str option" where
  "first_inet out = (case List.map_filter inet_address (py_splitlines out) of [] \<Rightarrow> None | a # as \<Rightarrow> Some a)"

definition before_slash :: "str \<Rightarrow> str" where
  "before_slash s = hd (py_split (CHR ''/'') s)"

text \<open>The word after the first \<open>key\<close> that has one.\<close>

fun word_after :: "str \<Rightarrow> str list \<Rightarrow> str option" where
  "word_after key (w # v # ws) = (if w = key then Some v else word_after key (v # ws))"
| "word_after key _ = None"

definition host_pool_address :: "str \<Rightarrow> str option" where
  "host_pool_address out =
     map_option before_slash
       (find (\<lambda>a. py_startswith a ''10.10.'') (List.map_filter inet_address (py_splitlines out)))"

definition vm_lan_ip :: "host \<Rightarrow> str host_io" where
  "vm_lan_ip H =
     bindM (subprocess_check H [''ip'', ''-4'', ''-o'', ''addr'', ''show'', ''scope'', ''global'']) (\<lambda>p.
     case host_pool_address (stdout p) of
       Some a \<Rightarrow> ret a
     | None \<Rightarrow>
         bindM (subprocess_check H [''ip'', ''-4'', ''route'', ''get'', ''1.1.1.1'']) (\<lambda>q.
         case word_after ''src'' (py_words (stdout q)) of
           Some a \<Rightarrow> ret a
         | None \<Rightarrow> raise (RuntimeError ''could not detect VM LAN IP'')))"

definition show_addresses :: "str \<Rightarrow> str list" where
  "show_addresses interface = [''ip'', ''-4'', ''-o'', ''addr'', ''show'', ''dev'', interface]"

text \<open>\<open>ip, prefix = a.split("/")\<close> and the first three numbers of the address, as a \<open>.0\<close> network.\<close>

definition wg_network :: "str \<Rightarrow> str result" where
  "wg_network a =
     (case py_split (CHR ''/'') a of
        [ip, plen] \<Rightarrow>
          (case py_split (CHR ''.'') ip of
             o1 # o2 # o3 # _ \<Rightarrow> Inr (o1 @ ''.'' @ o2 @ ''.'' @ o3 @ ''.0/'' @ plen)
           | _ \<Rightarrow> Inl (IndexError ''list index out of range''))
      | [_] \<Rightarrow> Inl (ValueError ''not enough values to unpack (expected 2, got 1)'')
      | _ \<Rightarrow> Inl (ValueError ''too many values to unpack (expected 2)''))"

definition wg_subnet :: "host \<Rightarrow> str \<Rightarrow> str host_io" where
  "wg_subnet H interface =
     bindM (subprocess_run H (show_addresses interface)) (\<lambda>p.
     case first_inet (stdout p) of
       Some a \<Rightarrow> liftE (wg_network a)
     | None \<Rightarrow> ret ''10.64.2.0/24'')"

definition wg_gateway_ip :: "host \<Rightarrow> str \<Rightarrow> str host_io" where
  "wg_gateway_ip H interface =
     bindM (subprocess_run H (show_addresses interface)) (\<lambda>p.
     case first_inet (stdout p) of
       Some a \<Rightarrow> ret (before_slash a)
     | None \<Rightarrow> raise (RuntimeError (''could not detect gateway IP on '' @ interface)))"

definition tailscale_gateway_ip :: "host \<Rightarrow> str option host_io" where
  "tailscale_gateway_ip H =
     bindM (subprocess_run H (show_addresses ''tailscale0'')) (\<lambda>p.
     ret (map_option before_slash (first_inet (stdout p))))"

definition detect_wan_interface :: "host \<Rightarrow> str host_io" where
  "detect_wan_interface H =
     (if h_net_interface H \<noteq> [] then ret (h_net_interface H)
      else bindM (subprocess_run H [''ip'', ''-4'', ''route'', ''show'', ''default'']) (\<lambda>p.
           ret (case List.map_filter (\<lambda>l. word_after ''dev'' (py_words l)) (py_splitlines (stdout p)) of
                  [] \<Rightarrow> ''eth0''
                | d # ds \<Rightarrow> d)))"

text \<open>\<open>re.search(r"default via (\S+)", out)\<close>.\<close>

fun default_via :: "str \<Rightarrow> str option" where
  "default_via [] = None"
| "default_via (c # s) =
     (let a = takeWhile (\<lambda>d. \<not> is_space d) (drop 11 s) in
      if py_startswith (c # s) ''default via '' \<and> a \<noteq> [] then Some a else default_via s)"

definition host_default_gw :: "host \<Rightarrow> str option host_io" where
  "host_default_gw H =
     bindM (subprocess_run H [''ip'', ''-4'', ''route'', ''show'', ''default'', ''dev'', HOST_INTERFACE]) (\<lambda>p.
     ret (default_via (stdout p)))"

section \<open>Rules\<close>

definition ensure_ip_rule :: "host \<Rightarrow> str \<Rightarrow> str list \<Rightarrow> unit host_io" where
  "ensure_ip_rule H pref match =
     thenM (run_optional H ([''ip'', ''rule'', ''del'', ''pref'', pref] @ match))
           (run_cmd H ([''ip'', ''rule'', ''add'', ''pref'', pref] @ match))"

definition ensure_wg_reply_rules :: "host \<Rightarrow> str \<Rightarrow> str \<Rightarrow> str \<Rightarrow> unit host_io" where
  "ensure_wg_reply_rules H vm_ip gw_ip subnet =
     thenM (ensure_ip_rule H WG_PEER_RETURN_RULE_PREF [''to'', subnet, ''lookup'', ''main''])
    (thenM (ensure_ip_rule H WG_GATEWAY_REPLY_RULE_PREF [''from'', gw_ip @ ''/32'', ''lookup'', ''main''])
    (ensure_ip_rule H WG_UDP_REPLY_RULE_PREF [''from'', vm_ip @ ''/32'', ''lookup'', ''main'']))"

definition cleanup_stale_peer_routing :: "host \<Rightarrow> str \<Rightarrow> unit host_io" where
  "cleanup_stale_peer_routing H subnet =
     thenM (run_optional H [''ip'', ''rule'', ''del'', ''pref'', STALE_PEER_RULE_PREF])
    (thenM (run_optional H [''ip'', ''rule'', ''del'', ''pref'', STALE_PEER_RULE_PREF, ''iif'', UPLINK_INTERFACE,
                            ''from'', subnet, ''lookup'', STALE_PEER_TABLE])
    (run_optional H [''ip'', ''route'', ''flush'', ''table'', STALE_PEER_TABLE]))"

definition clear_advertised_wg_routes :: "host \<Rightarrow> unit host_io" where
  "clear_advertised_wg_routes H = run_optional H [''tailscale'', ''set'', ''--advertise-routes='']"

definition persist_exit_node_id :: "host \<Rightarrow> str \<Rightarrow> unit host_io" where
  "persist_exit_node_id H exit_node_id =
     thenM (host_fs H ''mkdir'' [''/opt/gateway-agent''])
    (host_fs H ''write'' [EXIT_NODE_ENV, ''EXIT_NODE_ID='' @ exit_node_id @ [CHR 0x0A]])"

section \<open>Firewall rules\<close>

definition nft_rule_exists :: "host \<Rightarrow> str \<Rightarrow> str \<Rightarrow> str \<Rightarrow> bool host_io" where
  "nft_rule_exists H table chain needle =
     bindM (subprocess_run H ([''nft'', ''-a'', ''list'', ''chain''] @ py_words table @ [chain])) (\<lambda>p.
     ret (returncode p = 0 \<and> py_contains (stdout p) needle))"

text \<open>\<open>str.isdigit\<close> also holds of the Latin-1 superscripts.\<close>

definition py_isdigit :: "str \<Rightarrow> bool" where
  "py_isdigit s \<longleftrightarrow> s \<noteq> [] \<and> list_all (\<lambda>c. is_digit c \<or> code c \<in> {178, 179, 185}) s"

fun delete_matching_loop :: "host \<Rightarrow> str \<Rightarrow> str \<Rightarrow> (str \<Rightarrow> bool) \<Rightarrow> str list \<Rightarrow> unit host_io" where
  "delete_matching_loop H table chain matches [] = ret ()"
| "delete_matching_loop H table chain matches (line # lines) =
     (if matches line
      then bindM (liftE (last_word line)) (\<lambda>handle.
           thenM (whenM (py_isdigit handle)
                    (run_optional H ([''nft'', ''delete'', ''rule''] @ py_words table @ [chain, ''handle'', handle])))
                 (delete_matching_loop H table chain matches lines))
      else delete_matching_loop H table chain matches lines)"

definition nft_delete_matching :: "host \<Rightarrow> str \<Rightarrow> str \<Rightarrow> (str \<Rightarrow> bool) \<Rightarrow> unit host_io" where
  "nft_delete_matching H table chain matches =
     bindM (subprocess_run H ([''nft'', ''-a'', ''list'', ''chain''] @ py_words table @ [chain])) (\<lambda>p.
     if returncode p \<noteq> 0 then ret ()
     else delete_matching_loop H table chain matches (py_splitlines (stdout p)))"

definition cleanup_stale_exit_hacks :: "host \<Rightarrow> unit host_io" where
  "cleanup_stale_exit_hacks H =
     thenM (run_optional H [''ip'', ''rule'', ''del'', ''pref'', ''60''])
    (forM [''ip gw_mangle'', ''ip gw_preroute''] (\<lambda>table.
       run_optional H ([''nft'', ''delete'', ''table''] @ py_words table)))"

definition bypass_resolver :: "host \<Rightarrow> str option \<Rightarrow> str \<times> str \<Rightarrow> unit host_io" where
  "bypass_resolver H host_gw r =
     thenM (run_optional H [''ip'', ''route'', ''del'', fst r @ ''/32'', ''dev'', UPLINK_INTERFACE])
    (thenM (case host_gw of
              Some gw \<Rightarrow> run_optional H [''ip'', ''route'', ''replace'', fst r @ ''/32'', ''via'', gw, ''dev'', HOST_INTERFACE]
            | None \<Rightarrow> ret ())
    (ensure_ip_rule H (snd r) [''to'', fst r, ''lookup'', ''main'']))"

definition ensure_public_dns_bypass :: "host \<Rightarrow> unit host_io" where
  "ensure_public_dns_bypass H =
     bindM (host_default_gw H) (\<lambda>host_gw. forM PUBLIC_DNS_RULE_PREFS (bypass_resolver H host_gw))"

definition nat_chain :: "str list" where
  "nat_chain = [''nft'', ''add'', ''chain'', ''ip'', ''gw_nat'', ''postrouting'', ''{'', ''type'', ''nat'', ''hook'',
     ''postrouting'', ''priority'', ''srcnat'', '';'', ''policy'', ''accept'', '';'', ''}'']"

definition dns_masquerade :: "str \<Rightarrow> str list" where
  "dns_masquerade proto = [''nft'', ''add'', ''rule'', ''ip'', ''gw_nat'', ''postrouting'', ''ip'', ''saddr'',
     TAILSCALE_SNAT_SUBNET, ''oifname'', HOST_INTERFACE, proto, ''dport'', ''53'', ''masquerade'']"

definition list_postrouting :: "str list" where
  "list_postrouting = [''nft'', ''list'', ''chain'', ''ip'', ''gw_nat'', ''postrouting'']"

definition ensure_eth0_dns_snat :: "host \<Rightarrow> unit host_io" where
  "ensure_eth0_dns_snat H =
     bindM (subprocess_run H list_postrouting) (\<lambda>p.
     if returncode p = 0 \<and> py_contains (stdout p) ''oifname \"eth0\" udp dport 53'' then ret ()
     else
       thenM (run_optional H [''nft'', ''add'', ''table'', ''ip'', ''gw_nat''])
      (bindM (subprocess_run H list_postrouting) (\<lambda>q.
       thenM (whenM (returncode q \<noteq> 0) (run_optional H nat_chain))
      (forM [''udp'', ''tcp''] (\<lambda>proto. run_optional H (dns_masquerade proto))))))"

section \<open>Policy routing\<close>

definition reply_rules :: "host \<Rightarrow> str \<Rightarrow> str \<Rightarrow> str \<Rightarrow> str option \<Rightarrow> unit host_io" where
  "reply_rules H vm_ip gw_ip subnet ts_ip =
     thenM (ensure_ip_rule H WG_PEER_RETURN_RULE_PREF [''to'', subnet, ''lookup'', ''main''])
    (thenM (ensure_ip_rule H WG_GATEWAY_REPLY_RULE_PREF [''from'', gw_ip @ ''/32'', ''lookup'', ''main''])
    (thenM (ensure_ip_rule H WG_UDP_REPLY_RULE_PREF [''from'', vm_ip @ ''/32'', ''lookup'', ''main''])
    (if str_true ts_ip
     then ensure_ip_rule H GATEWAY_TS_RULE_PREF [''from'', the ts_ip @ ''/32'', ''lookup'', ''main'']
     else ret ())))"

definition tailnet_rules :: "host \<Rightarrow> unit host_io" where
  "tailnet_rules H =
     thenM (ensure_ip_rule H TAILNET_RETURN_RULE_PREF [''to'', TAILSCALE_SNAT_SUBNET, ''lookup'', ''main''])
    (thenM (run_optional H [''ip'', ''route'', ''replace'', ''100.100.100.100'', ''dev'', ''tailscale0'', ''scope'', ''link''])
    (thenM (ensure_ip_rule H MAGICDNS_V4_RULE_PREF [''to'', ''100.100.100.100'', ''lookup'', ''main''])
    (thenM (ensure_ip_rule H EXIT_CLIENT_RULE_PREF [''iif'', ''tailscale0'', ''lookup'', BACKHAUL_ROUTE_TABLE])
    (ensure_ip_rule H WG_INGRESS_RULE_PREF [''iif'', UPLINK_INTERFACE, ''lookup'', ''main'']))))"

definition backhaul_table :: "host \<Rightarrow> unit host_io" where
  "backhaul_table H =
     bindM (subprocess_run H [''grep'', ''-q'', BACKHAUL_ROUTE_TABLE_NAME, ''/etc/iproute2/rt_tables'']) (\<lambda>p.
     thenM (whenM (returncode p \<noteq> 0)
              (host_fs H ''append'' [''/etc/iproute2/rt_tables'',
                 BACKHAUL_ROUTE_TABLE @ '' '' @ BACKHAUL_ROUTE_TABLE_NAME @ [CHR 0x0A]]))
    (thenM (run_cmd H [''ip'', ''route'', ''replace'', ''default'', ''dev'', UPLINK_INTERFACE, ''table'', BACKHAUL_ROUTE_TABLE])
    (run_optional H [''ip'', ''route'', ''replace'', TAILSCALE_SNAT_SUBNET, ''dev'', ''tailscale0'', ''table'', BACKHAUL_ROUTE_TABLE])))"

definition ensure_backhaul_policy_routing :: "host \<Rightarrow> str \<Rightarrow> str \<Rightarrow> str \<Rightarrow> str option \<Rightarrow> unit host_io" where
  "ensure_backhaul_policy_routing H vm_ip gw_ip subnet tailscale_ip =
     bindM (if str_true tailscale_ip then ret tailscale_ip else tailscale_gateway_ip H) (\<lambda>ts_ip.
     thenM (reply_rules H vm_ip gw_ip subnet ts_ip)
    (thenM (cleanup_stale_exit_hacks H)
    (thenM (ensure_public_dns_bypass H)
    (thenM (tailnet_rules H)
    (backhaul_table H)))))"

section \<open>The exit path\<close>

definition strip_tailscale_postrouting_masquerade :: "host \<Rightarrow> unit host_io" where
  "strip_tailscale_postrouting_masquerade H =
     nft_delete_matching H ''ip nat'' ''ts-postrouting'' (\<lambda>line. py_contains line ''masquerade'')"

definition uplink_masquerade :: "str list" where
  "uplink_masquerade = [''nft'', ''add'', ''rule'', ''ip'', ''gw_nat'', ''postrouting'', ''ip'', ''saddr'',
     TAILSCALE_SNAT_SUBNET, ''oifname'', UPLINK_INTERFACE, ''masquerade'']"

definition forward_chain :: "str list" where
  "forward_chain = [''nft'', ''add'', ''chain'', ''ip'', ''deeporc_exit'', ''forward'', ''{'', ''type'', ''filter'', ''hook'',
     ''forward'', ''priority'', ''filter'', '';'', ''policy'', ''accept'', '';'', ''}'']"

definition forward_rule :: "str \<Rightarrow> str \<Rightarrow> str list" where
  "forward_rule iif oif = [''nft'', ''add'', ''rule'', ''ip'', ''deeporc_exit'', ''forward'', ''iifname'', iif, ''oifname'',
     oif, ''accept'']"

definition forward_both_ways :: "host \<Rightarrow> unit host_io" where
  "forward_both_ways H =
     bindM (nft_rule_exists H ''ip deeporc_exit'' ''forward'' ''tailscale0'') (\<lambda>known.
     if known then ret ()
     else thenM (run_optional H (forward_rule ''tailscale0'' UPLINK_INTERFACE))
                (run_optional H (forward_rule UPLINK_INTERFACE ''tailscale0'')))"

definition ensure_exit_via_wg_backhaul :: "host \<Rightarrow> unit host_io" where
  "ensure_exit_via_wg_backhaul H =
     thenM (strip_tailscale_postrouting_masquerade H)
    (thenM (run_optional H [''nft'', ''delete'', ''table'', ''ip'', ''gw_nat''])
    (thenM (run_optional H [''nft'', ''delete'', ''table'', ''ip'', ''deeporc_exit''])
    (bindM (host_is_file H ''/etc/nftables.d/gateway.nft'') (\<lambda>b.
     if b then
       thenM (run_cmd H [''nft'', ''-f'', ''/etc/nftables.d/gateway.nft'']) (ensure_eth0_dns_snat H)
     else
       thenM (run_optional H [''nft'', ''add'', ''table'', ''ip'', ''gw_nat''])
      (thenM (run_optional H nat_chain)
      (thenM (run_optional H uplink_masquerade)
      (thenM (forM [''udp'', ''tcp''] (\<lambda>proto. run_optional H (dns_masquerade proto)))
      (thenM (run_optional H [''nft'', ''add'', ''table'', ''ip'', ''deeporc_exit''])
      (thenM (run_optional H forward_chain) (forward_both_ways H))))))))))"

definition remove_exit_node_egress :: "unit host_io" where
  "remove_exit_node_egress = ret ()"

definition ensure_exit_node_forwarding :: "host \<Rightarrow> unit host_io" where
  "ensure_exit_node_forwarding H =
     bindM (host_is_file H ''/opt/gateway-agent/deeporc-routing.sh'') (\<lambda>b.
     if b then run_cmd H [''/opt/gateway-agent/deeporc-routing.sh'', ''apply'']
     else
       bindM (vm_lan_ip H) (\<lambda>vm_ip.
       bindM (wg_gateway_ip H UPLINK_INTERFACE) (\<lambda>gw_ip.
       bindM (wg_subnet H UPLINK_INTERFACE) (\<lambda>subnet.
       bindM (tailscale_gateway_ip H) (\<lambda>ts_ip.
       thenM (ensure_backhaul_policy_routing H vm_ip gw_ip subnet ts_ip)
             (ensure_exit_via_wg_backhaul H))))))"

text \<open>\<open>raise RuntimeError(result.stderr.strip() or detail)\<close> unless the command succeeds.\<close>

definition run_or_fail :: "host \<Rightarrow> str list \<Rightarrow> str \<Rightarrow> unit host_io" where
  "run_or_fail H cmd detail =
     bindM (subprocess_run H cmd) (\<lambda>p.
     if returncode p \<noteq> 0 then raise (RuntimeError (or_else (py_strip (stderr p)) detail)) else ret ())"

definition advertise_exit_node :: "host \<Rightarrow> unit host_io" where
  "advertise_exit_node H =
     bindM (wg_subnet H UPLINK_INTERFACE) (\<lambda>subnet.
     thenM (cleanup_stale_peer_routing H subnet)
    (thenM (run_or_fail H [''tailscale'', ''set'', ''--advertise-exit-node'', ''--accept-dns'', ''--advertise-routes='']
              ''tailscale advertise-exit-node failed'')
    (thenM (clear_advertised_wg_routes H)
    (thenM (ensure_exit_node_forwarding H)
    (strip_tailscale_postrouting_masquerade H)))))"

definition set_tailscale_hostname :: "host \<Rightarrow> str \<Rightarrow> unit host_io" where
  "set_tailscale_hostname H hostname =
     run_or_fail H [''tailscale'', ''set'', ''--hostname'', hostname] ''tailscale set hostname failed''"

definition restore_exit_node_routing :: "host \<Rightarrow> unit host_io" where
  "restore_exit_node_routing H =
     thenM (cleanup_stale_exit_hacks H)
    (try_runtime
       (bindM (subprocess_run H [''tailscale'', ''debug'', ''prefs'']) (\<lambda>p.
        if returncode p = 0 then
          bindM (case json_loads (stdout p) of
                   Inl e \<Rightarrow> ret (py_contains (stdout p) ''\"AdvertiseExitNode\": true'')
                 | Inr prefs \<Rightarrow> liftE (exit_advertised prefs)) (\<lambda>advertised.
          if advertised then ensure_exit_node_forwarding H else remove_exit_node_egress)
        else remove_exit_node_egress))
       (\<lambda>_. remove_exit_node_egress))"

definition set_exit_node :: "host \<Rightarrow> str \<Rightarrow> unit host_io" where
  "set_exit_node H exit_node_id =
     bindM (vm_lan_ip H) (\<lambda>vm_ip.
     bindM (wg_gateway_ip H UPLINK_INTERFACE) (\<lambda>gw_ip.
     bindM (wg_subnet H UPLINK_INTERFACE) (\<lambda>subnet.
     thenM (ensure_wg_reply_rules H vm_ip gw_ip subnet)
    (thenM (cleanup_stale_peer_routing H subnet)
    (thenM (run_or_fail H [''tailscale'', ''set'', ''--exit-node='' @ exit_node_id, ''--exit-node-allow-lan-access=false'',
              ''--netfilter-mode=off''] ''tailscale set failed'')
    (thenM (clear_advertised_wg_routes H)
    (persist_exit_node_id H exit_node_id)))))))"

definition clear_exit_node :: "host \<Rightarrow> unit host_io" where
  "clear_exit_node H =
     thenM (run_or_fail H [''tailscale'', ''set'', ''--exit-node='', ''--netfilter-mode=off'']
              ''tailscale clear exit-node failed'')
    (thenM remove_exit_node_egress
    (bindM (host_is_file H EXIT_NODE_ENV) (\<lambda>b. whenM b (host_fs H ''unlink'' [EXIT_NODE_ENV]))))"

section \<open>What the rules mean\<close>

text \<open>
  The rules a trace has added, and the table they choose for a packet: of the rules that select the
  packet, the one with the lowest preference decides.
\<close>

record packet =
  pk_iif :: str
  pk_src :: nat
  pk_dst :: nat

definition in_cidr :: "nat \<Rightarrow> str \<Rightarrow> bool" where
  "in_cidr a net = (case ip_network False net of Inr n \<Rightarrow> in_net a n | Inl e \<Rightarrow> False)"

definition selects :: "str list \<Rightarrow> packet \<Rightarrow> bool" where
  "selects match k \<longleftrightarrow>
     (if hd match = ''to'' then in_cidr (pk_dst k) (match ! 1)
      else if hd match = ''from'' then in_cidr (pk_src k) (match ! 1)
      else hd match = ''iif'' \<and> pk_iif k = match ! 1)"

definition chosen_table :: "(str \<times> str list) list \<Rightarrow> packet \<Rightarrow> str option" where
  "chosen_table rules k =
     map_option (\<lambda>r. last (snd r)) (find (\<lambda>r. selects (snd r) k) (sort_key (\<lambda>r. digits_val (fst r)) rules))"

definition added_rule :: "host_event \<Rightarrow> (str \<times> str list) list" where
  "added_rule e =
     (case e of
        HRun cmd \<Rightarrow>
          if take 4 cmd = [''ip'', ''rule'', ''add'', ''pref''] \<and> 5 \<le> length cmd
          then [(cmd ! 4, drop 5 cmd)] else []
      | _ \<Rightarrow> [])"

definition added_rules :: "host_event list \<Rightarrow> (str \<times> str list) list" where
  "added_rules tr = concat (map added_rule tr)"

text \<open>\<open>adds m rs\<close>: whenever \<open>m\<close> returns, it has added exactly the rules \<open>rs\<close>, in this order.\<close>

definition adds :: "'a host_io \<Rightarrow> (str \<times> str list) list \<Rightarrow> bool" where
  "adds m rs \<longleftrightarrow> (\<forall>w x w'. m w = (Inr x, w') \<longrightarrow> added_rules (h_trace w') = added_rules (h_trace w) @ rs)"

named_theorems adds_intros \<open>the rules a computation adds\<close>

lemma adds_ret [adds_intros]: "adds (ret x) []"
  by (simp add: adds_def)

lemma adds_Pair [simp]: "adds (Pair (Inr x)) []"
  by (simp add: adds_def)

lemma adds_lift [adds_intros]: "adds (liftE r) []" "adds (raise e) rs" "adds (getM f) []"
  by (simp_all add: adds_def)

lemma adds_thenM: "adds m rs \<Longrightarrow> adds k ss \<Longrightarrow> adds (thenM m k) (rs @ ss)"
  unfolding adds_def by (fastforce simp: thenM_returns)

lemma adds_bindM: "adds m rs \<Longrightarrow> (\<And>x. adds (f x) ss) \<Longrightarrow> adds (bindM m f) (rs @ ss)"
  unfolding adds_def by (fastforce simp: bindM_returns)

text \<open>Most steps add nothing, and so do their compositions.\<close>

lemma adds_thenM_Nil [adds_intros]: "adds m [] \<Longrightarrow> adds k [] \<Longrightarrow> adds (thenM m k) []"
  using adds_thenM [of m "[]" k "[]"] by simp

lemma adds_bindM_Nil [adds_intros]: "adds m [] \<Longrightarrow> (\<And>x. adds (f x) []) \<Longrightarrow> adds (bindM m f) []"
  using adds_bindM [of m "[]" f "[]"] by simp

lemma adds_if [adds_intros]: "adds m rs \<Longrightarrow> adds k rs \<Longrightarrow> adds (if b then m else k) rs"
  by simp

lemma adds_whenM [adds_intros]: "adds m [] \<Longrightarrow> adds (whenM b m) []"
  by (simp add: adds_def)

lemma adds_option [adds_intros]:
  "adds m rs \<Longrightarrow> (\<And>a. adds (k a) rs) \<Longrightarrow> adds (case x of None \<Rightarrow> m | Some a \<Rightarrow> k a) rs"
  by (cases x) simp_all

lemma adds_run [adds_intros]:
  "take 4 cmd \<noteq> [''ip'', ''rule'', ''add'', ''pref''] \<Longrightarrow> adds (subprocess_run H cmd) []"
  by (simp add: adds_def subprocess_run_def added_rules_def added_rule_def)

lemma adds_run_cmd [adds_intros]:
  assumes "take 4 cmd \<noteq> [''ip'', ''rule'', ''add'', ''pref'']"
  shows "adds (run_cmd H cmd) []" and "adds (run_optional H cmd) []"
  unfolding run_cmd_def run_optional_def by (intro adds_intros assms)+

lemma adds_fs [adds_intros]: "adds (host_fs H op args) []"
  by (simp add: adds_def host_fs_def added_rules_def added_rule_def)

lemma adds_ensure [adds_intros]: "adds (ensure_ip_rule H pref match) [(pref, match)]"
proof -
  have "adds (run_optional H ([''ip'', ''rule'', ''del'', ''pref'', pref] @ match)) []"
    by (intro adds_intros) (simp add: append_Cons)
  moreover have "adds (run_cmd H ([''ip'', ''rule'', ''add'', ''pref'', pref] @ match)) [(pref, match)]"
    by (auto simp: adds_def run_cmd_def subprocess_run_def bindM_def added_rules_def added_rule_def append_Cons
        split: sum.splits if_splits)
  ultimately show ?thesis
    unfolding ensure_ip_rule_def using adds_thenM [of _ "[]"] by force
qed

lemma adds_forM: "(\<And>x. adds (f x) (g x)) \<Longrightarrow> adds (forM xs f) (concat (map g xs))"
proof (induction xs)
  case Nil
  then show ?case by simp
next
  case (Cons x xs)
  then show ?case using adds_thenM [of "f x" "g x"] by simp
qed

definition gateway_rules :: "str \<Rightarrow> str \<Rightarrow> str \<Rightarrow> str option \<Rightarrow> (str \<times> str list) list" where
  "gateway_rules vm_ip gw_ip subnet ts_ip =
     [(''35'', [''to'', subnet, ''lookup'', ''main'']),
      (''40'', [''from'', gw_ip @ ''/32'', ''lookup'', ''main'']),
      (''50'', [''from'', vm_ip @ ''/32'', ''lookup'', ''main''])] @
     (if str_true ts_ip then [(''45'', [''from'', the ts_ip @ ''/32'', ''lookup'', ''main''])] else [])"

definition path_rules :: "(str \<times> str list) list" where
  "path_rules =
     [(''52'', [''to'', ''8.8.8.8'', ''lookup'', ''main'']), (''53'', [''to'', ''8.8.4.4'', ''lookup'', ''main'']),
      (''54'', [''to'', ''1.1.1.1'', ''lookup'', ''main'']), (''55'', [''to'', ''1.0.0.1'', ''lookup'', ''main'']),
      (''48'', [''to'', ''100.64.0.0/10'', ''lookup'', ''main'']),
      (''57'', [''to'', ''100.100.100.100'', ''lookup'', ''main'']),
      (''58'', [''iif'', ''tailscale0'', ''lookup'', ''200'']), (''59'', [''iif'', ''wg0'', ''lookup'', ''main''])]"

text \<open>The commands of the operations, unfolded; \<open>not_rule\<close> says that none of the fixed ones adds a rule.\<close>

lemmas routing_constants = EXIT_NODE_ENV_def WG_GATEWAY_REPLY_RULE_PREF_def WG_PEER_RETURN_RULE_PREF_def
  WG_UDP_REPLY_RULE_PREF_def GATEWAY_TS_RULE_PREF_def PUBLIC_DNS_RULE_PREFS_def TAILNET_RETURN_RULE_PREF_def
  MAGICDNS_V4_RULE_PREF_def EXIT_CLIENT_RULE_PREF_def WG_INGRESS_RULE_PREF_def BACKHAUL_ROUTE_TABLE_def
  BACKHAUL_ROUTE_TABLE_NAME_def TAILSCALE_SNAT_SUBNET_def UPLINK_INTERFACE_def HOST_INTERFACE_def

lemma adds_reply_rules: "adds (reply_rules H vm_ip gw_ip subnet ts_ip) (gateway_rules vm_ip gw_ip subnet ts_ip)"
proof -
  have t: "adds (if str_true ts_ip then ensure_ip_rule H GATEWAY_TS_RULE_PREF
        [''from'', the ts_ip @ ''/32'', ''lookup'', ''main''] else ret ())
      (if str_true ts_ip then [(''45'', [''from'', the ts_ip @ ''/32'', ''lookup'', ''main''])] else [])"
    by (simp add: GATEWAY_TS_RULE_PREF_def adds_ensure adds_ret)
  show ?thesis
    unfolding reply_rules_def gateway_rules_def
    using adds_thenM [OF adds_ensure adds_thenM [OF adds_ensure adds_thenM [OF adds_ensure t]]]
    by (simp add: routing_constants append_Cons)
qed

lemma adds_stale_hacks [adds_intros]: "adds (cleanup_stale_exit_hacks H) []"
proof -
  have "adds (forM [''ip gw_mangle'', ''ip gw_preroute'']
      (\<lambda>table. run_optional H ([''nft'', ''delete'', ''table''] @ py_words table))) (concat (map (\<lambda>_. []) [''ip gw_mangle'', ''ip gw_preroute'']))"
    by (intro adds_forM adds_intros) (simp add: append_Cons)
  then show ?thesis
    unfolding cleanup_stale_exit_hacks_def by (intro adds_intros) (simp_all del: forM.simps)
qed

lemma adds_dns: "adds (ensure_public_dns_bypass H) (take 4 path_rules)"
proof -
  have one: "adds (bypass_resolver H gw r) [(snd r, [''to'', fst r, ''lookup'', ''main''])]" for gw r
  proof -
    have "adds (case gw of Some g \<Rightarrow> run_optional H [''ip'', ''route'', ''replace'', fst r @ ''/32'', ''via'', g, ''dev'', HOST_INTERFACE]
            | None \<Rightarrow> ret ()) []"
      by (intro adds_intros) simp
    moreover have "adds (run_optional H [''ip'', ''route'', ''del'', fst r @ ''/32'', ''dev'', UPLINK_INTERFACE]) []"
      by (intro adds_intros) simp
    ultimately show ?thesis
      unfolding bypass_resolver_def using adds_thenM [of _ "[]", OF _ adds_thenM [of _ "[]", OF _ adds_ensure]] by simp
  qed
  have "adds (host_default_gw H) []" unfolding host_default_gw_def by (intro adds_intros) simp
  moreover have "adds (forM PUBLIC_DNS_RULE_PREFS (bypass_resolver H gw)) (take 4 path_rules)" for gw
    using adds_forM [of "bypass_resolver H gw", OF one, of PUBLIC_DNS_RULE_PREFS]
    by (simp add: PUBLIC_DNS_RULE_PREFS_def path_rules_def append_Cons del: forM.simps)
  ultimately show ?thesis
    unfolding ensure_public_dns_bypass_def by (rule adds_bindM [of _ "[]", simplified])
qed

lemma adds_tailnet: "adds (tailnet_rules H) (drop 4 path_rules)"
proof -
  have "adds (run_optional H [''ip'', ''route'', ''replace'', ''100.100.100.100'', ''dev'', ''tailscale0'', ''scope'', ''link'']) []"
    by (intro adds_intros) simp
  from adds_thenM [OF adds_ensure adds_thenM [OF this adds_thenM [OF adds_ensure adds_thenM [OF adds_ensure adds_ensure]]]]
  show ?thesis
    unfolding tailnet_rules_def by (simp add: routing_constants path_rules_def append_Cons)
qed

lemma adds_backhaul_table [adds_intros]: "adds (backhaul_table H) []"
  unfolding backhaul_table_def by (intro adds_intros) simp_all

lemma bindM_ret: "bindM (ret x) f = f x"
  by (rule ext) (simp add: bindM_def)

lemma adds_policy:
  assumes "str_true ts_ip"
  shows "adds (ensure_backhaul_policy_routing H vm_ip gw_ip subnet ts_ip)
           (gateway_rules vm_ip gw_ip subnet ts_ip @ path_rules)"
proof -
  have "adds (thenM (reply_rules H vm_ip gw_ip subnet ts_ip) (thenM (cleanup_stale_exit_hacks H)
      (thenM (ensure_public_dns_bypass H) (thenM (tailnet_rules H) (backhaul_table H)))))
      (gateway_rules vm_ip gw_ip subnet ts_ip @ [] @ take 4 path_rules @ drop 4 path_rules @ [])"
    by (intro adds_thenM adds_reply_rules adds_stale_hacks adds_dns adds_tailnet adds_backhaul_table)
  then show ?thesis
    using assms by (simp add: ensure_backhaul_policy_routing_def bindM_ret)
qed

lemma pref_values:
  "digits_val ''35'' = 35" "digits_val ''40'' = 40" "digits_val ''45'' = 45" "digits_val ''48'' = 48"
  "digits_val ''50'' = 50" "digits_val ''52'' = 52" "digits_val ''53'' = 53" "digits_val ''54'' = 54"
  "digits_val ''55'' = 55" "digits_val ''57'' = 57" "digits_val ''58'' = 58" "digits_val ''59'' = 59"
  by code_simp+

text \<open>What belongs to the gateway itself, the tailnet or a public resolver keeps to the main table.\<close>

definition local_traffic :: "str \<Rightarrow> str \<Rightarrow> str \<Rightarrow> str \<Rightarrow> packet \<Rightarrow> bool" where
  "local_traffic vm_ip gw_ip subnet ts_ip k \<longleftrightarrow>
     in_cidr (pk_dst k) subnet \<or> in_cidr (pk_src k) (gw_ip @ ''/32'') \<or> in_cidr (pk_src k) (ts_ip @ ''/32'') \<or>
     in_cidr (pk_dst k) ''100.64.0.0/10'' \<or> in_cidr (pk_src k) (vm_ip @ ''/32'') \<or>
     in_cidr (pk_dst k) ''8.8.8.8'' \<or> in_cidr (pk_dst k) ''8.8.4.4'' \<or> in_cidr (pk_dst k) ''1.1.1.1'' \<or>
     in_cidr (pk_dst k) ''1.0.0.1'' \<or> in_cidr (pk_dst k) ''100.100.100.100''"

lemma chosen_table_gateway:
  assumes "str_true (Some ts_ip)"
  shows "chosen_table (gateway_rules vm_ip gw_ip subnet (Some ts_ip) @ path_rules) k =
    (if local_traffic vm_ip gw_ip subnet ts_ip k then Some ''main''
     else if pk_iif k = ''tailscale0'' then Some ''200''
     else if pk_iif k = ''wg0'' then Some ''main'' else None)"
proof -
  have "sort_key (\<lambda>r. digits_val (fst r)) (gateway_rules vm_ip gw_ip subnet (Some ts_ip) @ path_rules) =
    [(''35'', [''to'', subnet, ''lookup'', ''main'']), (''40'', [''from'', gw_ip @ ''/32'', ''lookup'', ''main'']),
     (''45'', [''from'', ts_ip @ ''/32'', ''lookup'', ''main'']), (''48'', [''to'', ''100.64.0.0/10'', ''lookup'', ''main'']),
     (''50'', [''from'', vm_ip @ ''/32'', ''lookup'', ''main'']), (''52'', [''to'', ''8.8.8.8'', ''lookup'', ''main'']),
     (''53'', [''to'', ''8.8.4.4'', ''lookup'', ''main'']), (''54'', [''to'', ''1.1.1.1'', ''lookup'', ''main'']),
     (''55'', [''to'', ''1.0.0.1'', ''lookup'', ''main'']), (''57'', [''to'', ''100.100.100.100'', ''lookup'', ''main'']),
     (''58'', [''iif'', ''tailscale0'', ''lookup'', ''200'']), (''59'', [''iif'', ''wg0'', ''lookup'', ''main''])]"
    using assms by (simp add: gateway_rules_def path_rules_def pref_values append_Cons)
  then show ?thesis
    unfolding chosen_table_def by (simp add: selects_def local_traffic_def)
qed

text \<open>
  C19: When \<open>_ensure_backhaul_policy_routing\<close> returns, the rules it has added send exactly this traffic
  to the WireGuard uplink (table 200): what arrives on \<open>tailscale0\<close> and is neither for the tailnet, the
  WireGuard subnet or a public resolver, nor sent by the gateway itself. All other traffic of the two
  tunnels keeps to the main table, and the rules choose no table for packets of other interfaces.
\<close>

theorem policy_routing_tables:
  assumes "ensure_backhaul_policy_routing H vm_ip gw_ip subnet (Some ts_ip) w = (Inr u, w')" and "ts_ip \<noteq> []"
  shows "\<exists>rules. added_rules (h_trace w') = added_rules (h_trace w) @ rules \<and>
    (\<forall>k. chosen_table rules k =
      (if local_traffic vm_ip gw_ip subnet ts_ip k then Some ''main''
       else if pk_iif k = ''tailscale0'' then Some ''200''
       else if pk_iif k = ''wg0'' then Some ''main'' else None))"
proof -
  have ts: "str_true (Some ts_ip)" using assms(2) by (simp add: str_true_def)
  from adds_policy [OF ts, of H vm_ip gw_ip subnet] assms(1)
  have "added_rules (h_trace w') =
      added_rules (h_trace w) @ (gateway_rules vm_ip gw_ip subnet (Some ts_ip) @ path_rules)"
    by (simp add: adds_def)
  then show ?thesis using chosen_table_gateway [OF ts] by blast
qed

text \<open>A client of the exit reaches a public address through the uplink, and a resolver directly.\<close>

definition quiet_host :: host where
  "quiet_host = sample_host (\<lambda>h cmd. prints [])"

lemma in_cidr_split:
  "split_network net = Some (n, p) \<Longrightarrow>
   in_cidr a net \<longleftrightarrow> n div 2 ^ (32 - p) * 2 ^ (32 - p) \<le> a \<and>
     a \<le> n div 2 ^ (32 - p) * 2 ^ (32 - p) + 2 ^ (32 - p) - 1"
  by (simp add: in_cidr_def ip_network_def in_net_def broadcast_def net_size_def Let_def)

lemma sample_networks:
  "split_network ''10.64.2.0/24'' = Some (171966976, 24)"
  "split_network ''10.64.2.1/32'' = Some (171966977, 32)"
  "split_network ''100.64.0.7/32'' = Some (1681915911, 32)"
  "split_network ''100.64.0.0/10'' = Some (1681915904, 10)"
  "split_network ''10.10.1.10/32'' = Some (168427786, 32)"
  "split_network ''8.8.8.8'' = Some (134744072, 32)"
  "split_network ''8.8.4.4'' = Some (134743044, 32)"
  "split_network ''1.1.1.1'' = Some (16843009, 32)"
  "split_network ''1.0.0.1'' = Some (16777217, 32)"
  "split_network ''100.100.100.100'' = Some (1684300900, 32)"
  by code_simp+

lemma sample_traffic:
  "local_traffic ''10.10.1.10'' ''10.64.2.1'' ''10.64.2.0/24'' ''100.64.0.7''
     \<lparr>pk_iif = ''tailscale0'', pk_src = 1681915913, pk_dst = 3405803777\<rparr> = False"
  "local_traffic ''10.10.1.10'' ''10.64.2.1'' ''10.64.2.0/24'' ''100.64.0.7''
     \<lparr>pk_iif = ''tailscale0'', pk_src = 1681915913, pk_dst = 134744072\<rparr> = True"
  by (simp_all add: local_traffic_def append_Cons in_cidr_split [OF sample_networks(1)] in_cidr_split [OF sample_networks(2)]
      in_cidr_split [OF sample_networks(3)] in_cidr_split [OF sample_networks(4)] in_cidr_split [OF sample_networks(5)]
      in_cidr_split [OF sample_networks(6)] in_cidr_split [OF sample_networks(7)] in_cidr_split [OF sample_networks(8)]
      in_cidr_split [OF sample_networks(9)] in_cidr_split [OF sample_networks(10)])

text \<open>On a host whose commands all succeed the operations return.\<close>

definition answers :: "'a host_io \<Rightarrow> bool" where
  "answers m \<longleftrightarrow> (\<forall>w. \<exists>x w'. m w = (Inr x, w'))"

named_theorems answers_intros \<open>rules that a computation returns\<close>

lemma answers_base [answers_intros]:
  "answers (ret x)" "answers (subprocess_run quiet_host cmd)" "answers (host_fs quiet_host op args)"
  by (simp_all add: answers_def subprocess_run_def host_fs_def quiet_host_def sample_host_def prints_def)

lemma answers_thenM [answers_intros]: "answers m \<Longrightarrow> answers k \<Longrightarrow> answers (thenM m k)"
  unfolding answers_def thenM_returns by blast

lemma answers_bindM [answers_intros]: "answers m \<Longrightarrow> (\<And>x. answers (f x)) \<Longrightarrow> answers (bindM m f)"
  unfolding answers_def bindM_returns by blast

lemma answers_cases [answers_intros]:
  "answers m \<Longrightarrow> answers k \<Longrightarrow> answers (if b then m else k)"
  "answers m1 \<Longrightarrow> answers (whenM b m1)"
  "answers n \<Longrightarrow> (\<And>a. answers (l a)) \<Longrightarrow> answers (case x of None \<Rightarrow> n | Some a \<Rightarrow> l a)"
  by (auto simp: answers_def split: option.split)

lemma answers_forM [answers_intros]: "(\<And>x. answers (f x)) \<Longrightarrow> answers (forM xs f)"
  by (induction xs) (simp_all add: answers_thenM, simp add: answers_def)

lemma answers_cmd [answers_intros]: "answers (run_cmd quiet_host cmd)" "answers (run_optional quiet_host cmd)"
  by (auto simp: answers_def run_cmd_def run_optional_def subprocess_run_def bindM_def quiet_host_def sample_host_def
      prints_def)

lemma sample_routing_run: "answers (ensure_backhaul_policy_routing quiet_host vm_ip gw_ip subnet ts_ip)"
  unfolding ensure_backhaul_policy_routing_def tailscale_gateway_ip_def reply_rules_def ensure_ip_rule_def
    cleanup_stale_exit_hacks_def ensure_public_dns_bypass_def host_default_gw_def bypass_resolver_def tailnet_rules_def
    backhaul_table_def
  by (intro answers_intros)

theorem policy_routing_witness:
  "\<exists>rules. added_rules (h_trace (snd (ensure_backhaul_policy_routing quiet_host ''10.10.1.10'' ''10.64.2.1''
        ''10.64.2.0/24'' (Some ''100.64.0.7'') fresh_host))) = rules \<and>
     chosen_table rules \<lparr>pk_iif = ''tailscale0'', pk_src = 1681915913, pk_dst = 3405803777\<rparr> = Some ''200'' \<and>
     chosen_table rules \<lparr>pk_iif = ''tailscale0'', pk_src = 1681915913, pk_dst = 134744072\<rparr> = Some ''main''"
proof -
  let ?m = "ensure_backhaul_policy_routing quiet_host ''10.10.1.10'' ''10.64.2.1'' ''10.64.2.0/24''
    (Some ''100.64.0.7'') fresh_host"
  obtain w' where run: "?m = (Inr (), w')" using sample_routing_run unfolding answers_def by force
  from policy_routing_tables [OF run] sample_traffic show ?thesis
    using run by (auto simp: fresh_host_def added_rules_def)
qed

end
