(* ===== verification/AgentTime.thy ===== *)
theory AgentTime
  imports AgentClient
begin

declare append_Cons [simp del]

text \<open>
  The times in the answers of the gateway agent: \<open>isoformat\<close> prints them, and the orchestrator reads
  them back with \<open>fromisoformat\<close>.
\<close>

section \<open>Times\<close>

text \<open>
  \<open>datetime.isoformat()\<close> of a UTC time in whole seconds: the year, month and day of an ordinal, and
  their decimal digits.
\<close>

definition years_days :: "nat \<Rightarrow> nat" where
  "years_days y = y * 365 + y div 4 - y div 100 + y div 400"

lemma days_before_year_Suc: "days_before_year (Suc y) = years_days y"
  by (simp add: days_before_year_def years_days_def Let_def)

lemma century_le: "y div 100 \<le> (y :: nat) div 4"
  using div_le_mono2 [of 4 100 y] by simp

lemma leap_step:
  fixes a b c y :: nat
  assumes "b \<le> a" and "p400 \<Longrightarrow> p100" and "p100 \<Longrightarrow> p4"
  shows "Suc y * 365 + (a + of_bool p4) - (b + of_bool p100) + (c + of_bool p400) =
    (y * 365 + a - b + c) + (if p4 \<and> (\<not> p100 \<or> p400) then 366 else 365)"
  using assms by (cases p4; cases p100; cases p400) simp_all

lemma div_step: "Suc y div k = y div k + of_bool (Suc y mod k = 0)"
  by (simp add: div_Suc)

lemma years_days_Suc: "years_days (Suc y) = years_days y + (if is_leap (Suc y) then 366 else 365)"
proof -
  have "Suc y mod 400 = 0 \<Longrightarrow> Suc y mod 100 = 0" "Suc y mod 100 = 0 \<Longrightarrow> Suc y mod 4 = 0"
    using dvd_trans [of 100 400 "Suc y"] dvd_trans [of 4 100 "Suc y"] by (simp_all add: mod_eq_0_iff_dvd)
  from leap_step [OF century_le this] show ?thesis
    unfolding years_days_def is_leap_def div_step by simp
qed

lemma years_days_step: "years_days y + 365 \<le> years_days (Suc y)"
  by (simp add: years_days_Suc)

function year_from :: "nat \<Rightarrow> nat \<Rightarrow> nat" where
  "year_from y n = (if n \<le> years_days y then y else year_from (Suc y) n)"
  by pat_completeness auto
termination
proof (relation "measure (\<lambda>(y, n). n - years_days y)")
  show "((Suc y, n), y, n) \<in> measure (\<lambda>(y, n). n - years_days y)" if "\<not> n \<le> years_days y" for y n
    using that years_days_step [of y] by simp
qed simp

declare year_from.simps [simp del]

fun month_from :: "nat list \<Rightarrow> nat \<Rightarrow> nat \<Rightarrow> nat \<times> nat" where
  "month_from [] m d = (m, d)"
| "month_from (k # ks) m d = (if d \<le> k then (m, d) else month_from ks (Suc m) (d - k))"

definition ord_to_ymd :: "nat \<Rightarrow> nat \<times> nat \<times> nat" where
  "ord_to_ymd n =
     (let y = year_from ((n - 1) div 366 + 1) n; (m, d) = month_from (month_days y) 1 (n - days_before_year y)
      in (y, m, d))"

definition EPOCH_ORDINAL :: nat where
  "EPOCH_ORDINAL = 719163"

definition isoformat_utc :: "int \<Rightarrow> str" where
  "isoformat_utc t =
     (let (y, m, d) = ord_to_ymd (nat (t div 86400) + EPOCH_ORDINAL); s = nat (t mod 86400) in
      zero_pad 4 y @ ''-'' @ zero_pad 2 m @ ''-'' @ zero_pad 2 d @ ''T'' @
      zero_pad 2 (s div 3600) @ '':'' @ zero_pad 2 (s div 60 mod 60) @ '':'' @ zero_pad 2 (s mod 60) @ ''+00:00'')"

section \<open>Handshake times are read back\<close>

lemma year_from_spec:
  "years_days y0 < n \<Longrightarrow> y0 \<le> y \<Longrightarrow> years_days (y - 1) < n \<Longrightarrow> 0 < y \<Longrightarrow>
   years_days (year_from y n - 1) < n \<and> n \<le> years_days (year_from y n) \<and> 0 < year_from y n"
proof (induction y n rule: year_from.induct)
  case (1 y n)
  show ?case
  proof (cases "n \<le> years_days y")
    case True
    with 1 show ?thesis by (simp add: year_from.simps [of y n])
  next
    case False
    then have "years_days (year_from (Suc y) n - 1) < n \<and> n \<le> years_days (year_from (Suc y) n) \<and> 0 < year_from (Suc y) n"
      using 1 by simp
    with False show ?thesis by (simp add: year_from.simps [of y n])
  qed
qed

lemma years_days_bound: "years_days y \<le> y * 366"
  by (simp add: years_days_def)

lemma month_from_spec:
  assumes "month_from ks m d = (m', d')" and "0 < d" and "d \<le> sum_list ks"
  shows "m \<le> m' \<and> m' < m + length ks \<and> 0 < d' \<and> d' \<le> ks ! (m' - m) \<and> sum_list (take (m' - m) ks) + d' = d"
  using assms
proof (induction ks m d rule: month_from.induct)
  case (1 m d)
  then show ?case by simp
next
  case (2 k ks m d)
  show ?case
  proof (cases "d \<le> k")
    case True
    with 2 show ?thesis by auto
  next
    case False
    with 2 have "Suc m \<le> m' \<and> m' < Suc m + length ks \<and> 0 < d' \<and> d' \<le> ks ! (m' - Suc m) \<and>
        sum_list (take (m' - Suc m) ks) + d' = d - k" by simp
    moreover from this have "m' - m = Suc (m' - Suc m)" by linarith
    ultimately show ?thesis using False by (simp; linarith)
  qed
qed

lemma month_days_length: "length (month_days y) = 12"
  by (simp add: month_days_def)

lemma month_days_sum: "sum_list (month_days y) = (if is_leap y then 366 else 365)"
  by (simp add: month_days_def)

text \<open>The year, month and day of an ordinal are a valid date with this ordinal.\<close>

lemma ord_to_ymd_spec:
  assumes "0 < n" and "ord_to_ymd n = (y, m, d)"
  shows "0 < y \<and> years_days (y - 1) < n \<and> 1 \<le> m \<and> m \<le> 12 \<and> 1 \<le> d \<and> d \<le> month_days y ! (m - 1) \<and>
         ymd_ordinal y m d = n"
proof -
  let ?y0 = "(n - 1) div 366 + 1"
  have "years_days (?y0 - 1) \<le> (n - 1) div 366 * 366" using years_days_bound by simp
  also have "\<dots> < n" using assms(1) by (metis Suc_diff_1 div_times_less_eq_dividend le_imp_less_Suc)
  finally have lower: "years_days (?y0 - 1) < n" .
  have y: "y = year_from ?y0 n" and md: "month_from (month_days y) 1 (n - days_before_year y) = (m, d)"
    using assms(2) by (auto simp: ord_to_ymd_def Let_def split: prod.splits)
  have year: "years_days (y - 1) < n" "n \<le> years_days y" "0 < y"
    using year_from_spec [of "?y0 - 1" n ?y0] lower y by simp_all
  then obtain z where z: "y = Suc z" by (cases y) simp_all
  have "n - years_days z \<le> sum_list (month_days y)"
    using year years_days_Suc [of z] by (simp add: z month_days_sum split: if_splits)
  moreover have "0 < n - years_days z" using year z by simp
  ultimately have "1 \<le> m \<and> m < 1 + length (month_days y) \<and> 0 < d \<and> d \<le> month_days y ! (m - 1) \<and>
      sum_list (take (m - 1) (month_days y)) + d = n - years_days z"
    using month_from_spec [OF md] by (simp add: z days_before_year_Suc)
  then show ?thesis
    using year month_days_length [of y] by (auto simp: z ymd_ordinal_def days_before_year_Suc)
qed

lemma years_days_mono: "y \<le> z \<Longrightarrow> years_days y \<le> years_days z"
proof (induction z)
  case (Suc z)
  then show ?case using years_days_step [of z] by (cases "y = Suc z") auto
qed simp

lemma two_digits_pad: "k < 100 \<Longrightarrow> two_digits (zero_pad 2 k) = Some k"
  by (simp add: two_digits_def length_zero_pad zero_pad_digits)

lemma pad_no_Z: "CHR ''Z'' \<notin> set (zero_pad w k)"
  using zero_pad_digits [of w k] by (auto simp: list_all_iff is_digit_def code_def)

lemma replace_absent: "c \<notin> set s \<Longrightarrow> py_replace_char c new s = s"
  by (induction s) (auto simp: py_replace_char_def)

lemma length_pad2: "k < 100 \<Longrightarrow> length (zero_pad 2 k) = 2"
  by (simp add: length_zero_pad)

lemma two_chars: "length s = 2 \<Longrightarrow> \<exists>a b. s = [a, b]"
  by (auto simp: length_Suc_conv numeral_eq_Suc)

lemma four_chars: "length s = 4 \<Longrightarrow> \<exists>a b c d. s = [a, b, c, d]"
  by (auto simp: length_Suc_conv numeral_eq_Suc)

lemma iso_date_pad:
  assumes "0 < y" and "y < 10000" and "1 \<le> m" and "m \<le> 12" and "1 \<le> d" and "d \<le> month_days y ! (m - 1)"
  shows "iso_date (zero_pad 4 y @ ''-'' @ zero_pad 2 m @ ''-'' @ zero_pad 2 d) =
         Some (int (ymd_ordinal y m d) - 719163)"
proof -
  have "d \<le> 31" using assms(3-6) by (auto simp: month_days_def nth_Cons split: nat.splits if_splits)
  then have l: "length (zero_pad 4 y) = 4" "length (zero_pad 2 m) = 2" "length (zero_pad 2 d) = 2"
    using assms by (simp_all add: length_zero_pad)
  have "iso_date (Y @ ''-'' @ M @ ''-'' @ D) =
      (case (two_digits M, two_digits D) of
         (Some m, Some d) \<Rightarrow>
           (let y = digits_val Y in
            if 1 \<le> y \<and> 1 \<le> m \<and> m \<le> 12 \<and> 1 \<le> d \<and> d \<le> month_days y ! (m - 1)
            then Some (int (ymd_ordinal y m d) - 719163) else None)
       | _ \<Rightarrow> None)"
    if "length Y = 4" "length M = 2" "length D = 2" "list_all is_digit Y" for Y M D :: str
    using four_chars [OF that(1)] two_chars [OF that(2)] two_chars [OF that(3)] that(4)
    by (auto simp: iso_date_def append_Cons simp del: take_append drop_append cong: option.case_cong)
  from this [OF l zero_pad_digits] show ?thesis
    using assms \<open>d \<le> 31\<close> by (simp add: two_digits_pad zero_pad_digits)
qed

lemma iso_hms_pad:
  assumes "h < 24" and "m < 60" and "x < 60"
  shows "iso_hms (zero_pad 2 h @ '':'' @ zero_pad 2 m @ '':'' @ zero_pad 2 x) = Some (int (h * 3600 + m * 60 + x))"
proof -
  have l: "length (zero_pad 2 h) = 2" "length (zero_pad 2 m) = 2" "length (zero_pad 2 x) = 2"
    using assms by (simp_all add: length_zero_pad)
  have "iso_hms (H @ '':'' @ M @ '':'' @ X) =
      (case (two_digits H, two_digits M, two_digits X) of
         (Some h, Some m, Some x) \<Rightarrow>
           if h < 24 \<and> m < 60 \<and> x < 60 then Some (int (h * 3600 + m * 60 + x)) else None
       | _ \<Rightarrow> None)" if "length H = 2" "length M = 2" "length X = 2" for H M X :: str
    using two_chars [OF that(1)] two_chars [OF that(2)] two_chars [OF that(3)]
    by (auto simp: iso_hms_def append_Cons simp del: take_append drop_append cong: option.case_cong)
  from this [OF l] show ?thesis using assms by (simp add: two_digits_pad)
qed

lemma ordinal_range:
  assumes "0 \<le> t" and "t \<le> 253402300799"
  shows "nat (t div 86400) + EPOCH_ORDINAL \<le> 3652059"
proof -
  have "t div 86400 \<le> 253402300799 div 86400" using assms(2) by (intro zdiv_mono1) simp_all
  then show ?thesis by (simp add: EPOCH_ORDINAL_def)
qed

lemma hms_sum: "s div 3600 * 3600 + s div 60 mod 60 * 60 + s mod 60 = (s :: nat)"
proof -
  have "s div 3600 = s div 60 div 60" using div_mult2_eq [of s 60 60] by simp
  moreover have "q * 3600 + r * 60 = (q * 60 + r) * 60" for q r :: nat by simp
  ultimately have "s div 3600 * 3600 + s div 60 mod 60 * 60 + s mod 60 =
      (s div 60 div 60 * 60 + s div 60 mod 60) * 60 + s mod 60" by (simp only:)
  also have "\<dots> = s" by (simp only: div_mult_mod_eq)
  finally show ?thesis .
qed

lemma date_of_time:
  assumes "0 \<le> t" and "t \<le> 253402300799" and "ord_to_ymd (nat (t div 86400) + EPOCH_ORDINAL) = (y, m, d)"
  shows "0 < y" "y < 10000" "1 \<le> m" "m \<le> 12" "1 \<le> d" "d \<le> month_days y ! (m - 1)" "d \<le> 31"
    "ymd_ordinal y m d = nat (t div 86400) + EPOCH_ORDINAL"
proof -
  have date: "0 < y" "years_days (y - 1) < nat (t div 86400) + EPOCH_ORDINAL" "1 \<le> m" "m \<le> 12" "1 \<le> d"
    "d \<le> month_days y ! (m - 1)" "ymd_ordinal y m d = nat (t div 86400) + EPOCH_ORDINAL"
    using ord_to_ymd_spec [OF _ assms(3)] by (auto simp: EPOCH_ORDINAL_def)
  then show "0 < y" "1 \<le> m" "m \<le> 12" "1 \<le> d" "d \<le> month_days y ! (m - 1)"
    "ymd_ordinal y m d = nat (t div 86400) + EPOCH_ORDINAL" by simp_all
  show "d \<le> 31" using date(3-6) by (auto simp: month_days_def nth_Cons split: nat.splits if_splits)
  show "y < 10000"
  proof (rule ccontr)
    assume "\<not> y < 10000"
    then have "years_days 9999 \<le> years_days (y - 1)" by (intro years_days_mono) simp
    moreover have "years_days 9999 = 3652059" by (simp add: years_days_def)
    ultimately show False using date(2) ordinal_range [OF assms(1,2)] by linarith
  qed
qed

lemma text_parts:
  assumes "length a = 10" and "length b = 8"
  shows "take 10 (a @ ''T'' @ b @ c) = a" "take 8 (drop 11 (a @ ''T'' @ b @ c)) = b" "drop 19 (a @ ''T'' @ b @ c) = c"
  using assms by simp_all

text \<open>
  C39: A handshake time that the agent prints with \<open>isoformat\<close> is read back by the orchestrator as the
  same instant, for every second from 1970 to the end of the year 9999.
\<close>

theorem handshake_time_roundtrip:
  assumes "0 \<le> t" and "t \<le> 253402300799"
  shows "parse_handshake (JStr (isoformat_utc t)) = Inr (t * second)"
proof -
  let ?n = "nat (t div 86400) + EPOCH_ORDINAL" and ?s = "nat (t mod 86400)"
  obtain y m d where ymd: "ord_to_ymd ?n = (y, m, d)" by (cases "ord_to_ymd ?n")
  note date = date_of_time [OF assms ymd]
  have s: "?s < 86400" by simp
  let ?date = "zero_pad 4 y @ ''-'' @ zero_pad 2 m @ ''-'' @ zero_pad 2 d"
  let ?time = "zero_pad 2 (?s div 3600) @ '':'' @ zero_pad 2 (?s div 60 mod 60) @ '':'' @ zero_pad 2 (?s mod 60)"
  have shape: "isoformat_utc t = ?date @ ''T'' @ ?time @ ''+00:00''"
    using ymd by (simp add: isoformat_utc_def Let_def)
  have "?s div 3600 < 100" "?s div 60 mod 60 < 100" "?s mod 60 < 100" using s by simp_all
  then have len: "length ?date = 10" "length ?time = 8"
    using date(2,4,7) by (simp_all add: length_zero_pad)
  note parts = text_parts [OF len, of "''+00:00''", folded shape]
  have "iso_date ?date = Some (int ?n - 719163)"
    using iso_date_pad [OF date(1-6)] date(8) by simp
  moreover have "iso_hms ?time = Some (int (?s div 3600 * 3600 + ?s div 60 mod 60 * 60 + ?s mod 60))"
    using s by (intro iso_hms_pad) simp_all
  moreover have "iso_fraction ''+00:00'' = Some (0, ''+00:00'')" "iso_offset ''+00:00'' = Some 0"
    by code_simp+
  moreover have "?s div 3600 * 3600 + ?s div 60 mod 60 * 60 + ?s mod 60 = ?s" by (rule hms_sum)
  moreover have "(int ?n - 719163) * 86400 + int ?s = t"
    using pos_imp_zdiv_nonneg_iff [of 86400 t] assms(1) by (simp add: EPOCH_ORDINAL_def)
  ultimately have "fromisoformat (isoformat_utc t) = Inr (t * second)"
    by (simp add: fromisoformat_def parts Let_def del: of_nat_add of_nat_mult)
  moreover have "CHR ''Z'' \<notin> set (isoformat_utc t)"
    unfolding shape using pad_no_Z by auto
  ultimately show ?thesis
    by (simp add: parse_handshake_def json_str_def replace_absent)
qed

theorem handshake_time_witness:
  "parse_handshake (JStr (isoformat_utc 1767225599)) = Inr 1767225599000000"
  using handshake_time_roundtrip [of 1767225599] by (simp add: second_def)

end
