(* ===== verification/Http.thy ===== *)
theory Http
  imports PyLines
begin

declare append_Cons [simp del]

text \<open>
  How FastAPI finds the route of a request, as the two servers of the repository use it: paths are compared
  segment by segment, and a path that matches no route is retried with the slash at its end added or removed.
\<close>

text \<open>A segment of a path: a fixed text, or a parameter that takes a non-empty text without slashes.\<close>

datatype segment = Fixed str | Parameter

text \<open>The parameters of a matching path.\<close>

fun match_segments :: "segment list \<Rightarrow> str list \<Rightarrow> str list option" where
  "match_segments [] [] = Some []"
| "match_segments (Fixed f # ss) (p # ps) = (if p = f then match_segments ss ps else None)"
| "match_segments (Parameter # ss) (p # ps) =
     (if p = [] then None else map_option (\<lambda>xs. p # xs) (match_segments ss ps))"
| "match_segments _ _ = None"

text \<open>The path with the slash at its end added or removed.\<close>

definition toggle_slash :: "str \<Rightarrow> str" where
  "toggle_slash path =
     (if path \<noteq> [] \<and> last path = CHR ''/'' then py_rstrip_char (CHR ''/'') path else path @ ''/'')"

end
