(* ===== verification/ApiSchemas.thy ===== *)
theory ApiSchemas
  imports PeerGroups Metrics Http
begin

declare append_Cons [simp del]

text \<open>
  The bodies of the orchestrator's API (\<open>orchestrator/api/schemas/models.py\<close>): a record per schema, and
  for each request schema the validation of a JSON object with the bounds its fields declare. \<open>None\<close> is a
  422. What pydantic's lax mode takes a JSON value to (an \<open>int\<close> may be written as a text or as a float
  without fraction) is a parameter, \<open>pydantic\<close>; a \<open>str\<close> is only a text.
\<close>

record pydantic =
  pd_int :: "json \<Rightarrow> int option"
  pd_float :: "json \<Rightarrow> pyfloat option"

text \<open>A field with no default, and one whose type is \<open>... | None\<close> with the default \<open>None\<close>.\<close>

definition required :: "(json \<Rightarrow> 'a option) \<Rightarrow> jdict \<Rightarrow> str \<Rightarrow> 'a option" where
  "required v d name = (case map_of d name of None \<Rightarrow> None | Some j \<Rightarrow> v j)"

definition optional :: "(json \<Rightarrow> 'a option) \<Rightarrow> jdict \<Rightarrow> str \<Rightarrow> 'a option option" where
  "optional v d name =
     (case map_of d name of
        None \<Rightarrow> Some None
      | Some JNull \<Rightarrow> Some None
      | Some j \<Rightarrow> map_option Some (v j))"

fun text_within :: "nat \<Rightarrow> nat \<Rightarrow> json \<Rightarrow> str option" where
  "text_within lo hi (JStr s) = (if lo \<le> length s \<and> length s \<le> hi then Some s else None)"
| "text_within lo hi _ = None"

definition where_holds :: "('a \<Rightarrow> bool) \<Rightarrow> (json \<Rightarrow> 'a option) \<Rightarrow> json \<Rightarrow> 'a option" where
  "where_holds P v j = (case v j of None \<Rightarrow> None | Some x \<Rightarrow> if P x then Some x else None)"

definition is_port :: "int \<Rightarrow> bool" where
  "is_port n \<longleftrightarrow> 1 \<le> n \<and> n \<le> 65535"

abbreviation port_value :: "pydantic \<Rightarrow> json \<Rightarrow> int option" where
  "port_value V \<equiv> where_holds is_port (pd_int V)"

definition nonneg_int :: "pydantic \<Rightarrow> json \<Rightarrow> int option" where
  "nonneg_int V = where_holds (\<lambda>n. 0 \<le> n) (pd_int V)"

definition nonneg_float :: "pydantic \<Rightarrow> json \<Rightarrow> pyfloat option" where
  "nonneg_float V = where_holds (\<lambda>x. 0 \<le> x) (pd_float V)"

definition percent_float :: "pydantic \<Rightarrow> json \<Rightarrow> pyfloat option" where
  "percent_float V = where_holds (\<lambda>x. 0 \<le> x \<and> x \<le> 100) (pd_float V)"

section \<open>Requests\<close>

record gateway_update_request =
  gu_tailscale_hostname :: "str option"

definition read_gateway_update :: "jdict \<Rightarrow> gateway_update_request option" where
  "read_gateway_update d =
     map_option (\<lambda>h. \<lparr>gu_tailscale_hostname = h\<rparr>) (optional (text_within 1 128) d ''tailscale_hostname'')"

record gateway_create_request =
  gc_gateway_name :: "str option"
  gc_udp_port :: "int option"
  gc_worker_id :: "int option"

definition read_gateway_create :: "pydantic \<Rightarrow> jdict \<Rightarrow> gateway_create_request option" where
  "read_gateway_create V d =
     Option.bind (optional (text_within 1 128) d ''gateway_name'') (\<lambda>n.
     Option.bind (optional (port_value V) d ''udp_port'') (\<lambda>p.
     Option.bind (optional (pd_int V) d ''worker_id'') (\<lambda>w.
     Some \<lparr>gc_gateway_name = n, gc_udp_port = p, gc_worker_id = w\<rparr>)))"

text \<open>\<open>WorkerRegisterRequest\<close> has the fields of \<open>WorkerService.register_worker\<close>, which the route hands on.\<close>

definition read_worker_register :: "pydantic \<Rightarrow> jdict \<Rightarrow> register_worker_args option" where
  "read_worker_register V d =
     Option.bind (required (text_within 1 64) d ''name'') (\<lambda>name.
     Option.bind (optional (text_within 0 128) d ''display_name'') (\<lambda>display.
     Option.bind (required (text_within 7 45) d ''public_ip'') (\<lambda>ip.
     Option.bind (optional (text_within 0 128) d ''tailscale_hostname'') (\<lambda>host.
     Option.bind (optional (text_within 0 64) d ''incus_remote'') (\<lambda>remote.
     Option.bind (optional (text_within 0 512) d ''incus_url'') (\<lambda>url.
     Option.bind (optional (text_within 0 512) d ''incus_cert_path'') (\<lambda>cert.
     Option.bind (optional (text_within 0 512) d ''incus_key_path'') (\<lambda>key.
     Option.bind (optional (text_within 0 512) d ''incus_server_cert_path'') (\<lambda>server.
     Option.bind (optional (port_value V) d ''port_pool_start'') (\<lambda>first.
     Option.bind (optional (port_value V) d ''port_pool_end'') (\<lambda>last.
     Option.bind (optional (text_within 0 18) d ''ip_pool_network'') (\<lambda>net.
     Option.bind (optional (text_within 0 45) d ''ip_pool_start'') (\<lambda>start.
     Some \<lparr>ra_name = name, ra_display_name = display, ra_public_ip = ip, ra_tailscale_hostname = host,
           ra_incus_remote = remote, ra_incus_url = url, ra_incus_cert_path = cert, ra_incus_key_path = key,
           ra_incus_server_cert_path = server, ra_port_pool_start = first, ra_port_pool_end = last,
           ra_ip_pool_network = net, ra_ip_pool_start = start\<rparr>)))))))))))))"

definition read_worker_enroll :: "jdict \<Rightarrow> complete_enrollment_request option" where
  "read_worker_enroll d =
     Option.bind (required (text_within 1 128) d ''tailscale_hostname'') (\<lambda>host.
     Option.bind (required (text_within 7 45) d ''tailscale_ip'') (\<lambda>ts.
     Option.bind (required (text_within 8 4096) d ''incus_trust_token'') (\<lambda>trust.
     Option.bind (required (text_within 7 45) d ''public_ip'') (\<lambda>ip.
     Some \<lparr>ce_tailscale_hostname = host, ce_tailscale_ip = ts, ce_incus_trust_token = trust,
           ce_public_ip = ip\<rparr>))))"

record worker_heartbeat_request =
  wh_cpu_percent :: pyfloat
  wh_memory_total_mb :: int
  wh_memory_used_mb :: int
  wh_memory_percent :: pyfloat
  wh_network_rx_bytes_per_sec :: pyfloat
  wh_network_tx_bytes_per_sec :: pyfloat

definition read_worker_heartbeat :: "pydantic \<Rightarrow> jdict \<Rightarrow> worker_heartbeat_request option" where
  "read_worker_heartbeat V d =
     Option.bind (required (percent_float V) d ''cpu_percent'') (\<lambda>cpu.
     Option.bind (required (nonneg_int V) d ''memory_total_mb'') (\<lambda>total.
     Option.bind (required (nonneg_int V) d ''memory_used_mb'') (\<lambda>used.
     Option.bind (required (percent_float V) d ''memory_percent'') (\<lambda>mem.
     Option.bind (required (nonneg_float V) d ''network_rx_bytes_per_sec'') (\<lambda>rx.
     Option.bind (required (nonneg_float V) d ''network_tx_bytes_per_sec'') (\<lambda>tx.
     Some \<lparr>wh_cpu_percent = cpu, wh_memory_total_mb = total, wh_memory_used_mb = used,
           wh_memory_percent = mem, wh_network_rx_bytes_per_sec = rx, wh_network_tx_bytes_per_sec = tx\<rparr>))))))"

definition to_host_stats :: "worker_heartbeat_request \<Rightarrow> host_stats" where
  "to_host_stats b =
     \<lparr>hs_cpu_percent = wh_cpu_percent b, hs_memory_total_mb = wh_memory_total_mb b,
      hs_memory_used_mb = wh_memory_used_mb b, hs_memory_percent = wh_memory_percent b,
      hs_network_interface = [], hs_network_rx_bytes_per_sec = wh_network_rx_bytes_per_sec b,
      hs_network_tx_bytes_per_sec = wh_network_tx_bytes_per_sec b, hs_load_avg = []\<rparr>"

record peer_group_create_request =
  gg_name :: str
  gg_worker_id :: int
  gg_lan_start_ip :: str
  gg_lan_subnet :: "str option"
  gg_lan_gateway :: "str option"
  gg_parent_iface :: "str option"

definition read_peer_group_create :: "pydantic \<Rightarrow> jdict \<Rightarrow> peer_group_create_request option" where
  "read_peer_group_create V d =
     Option.bind (required (text_within 1 128) d ''name'') (\<lambda>name.
     Option.bind (required (pd_int V) d ''worker_id'') (\<lambda>wid.
     Option.bind (required (text_within 7 45) d ''lan_start_ip'') (\<lambda>start.
     Option.bind (optional (text_within 0 18) d ''lan_subnet'') (\<lambda>subnet.
     Option.bind (optional (text_within 0 45) d ''lan_gateway'') (\<lambda>gw.
     Option.bind (optional (text_within 0 64) d ''parent_iface'') (\<lambda>iface.
     Some \<lparr>gg_name = name, gg_worker_id = wid, gg_lan_start_ip = start, gg_lan_subnet = subnet,
           gg_lan_gateway = gw, gg_parent_iface = iface\<rparr>))))))"

definition read_group_gateways_count :: "pydantic \<Rightarrow> jdict \<Rightarrow> int option" where
  "read_group_gateways_count V d = required (where_holds (\<lambda>n. 1 \<le> n \<and> n \<le> 64) (pd_int V)) d ''count''"

definition read_peer_create :: "jdict \<Rightarrow> str option" where
  "read_peer_create d = required (text_within 1 128) d ''peer_name''"

section \<open>Responses\<close>

record gateway_response =
  gr_id :: int
  gr_name :: str
  gr_worker_id :: int
  gr_peer_group_id :: "int option"
  gr_lan_ip :: "str option"
  gr_macvlan_slot :: "int option"
  gr_status :: gateway_status
  gr_vm_ip :: str
  gr_udp_port :: int
  gr_wg_subnet :: str
  gr_wg_server_pubkey :: str
  gr_exit_node_id :: str
  gr_tailscale_hostname :: str
  gr_endpoint :: str
  gr_error_message :: "str option"
  gr_created_at :: int

record gateway_create_response =
  gcr_gateway :: gateway_response
  gcr_job_id :: int

record worker_register_response =
  wrr_id :: int
  wrr_name :: str
  wrr_worker_token :: str

record worker_response =
  wr_id :: int
  wr_name :: str
  wr_display_name :: str
  wr_public_ip :: str
  wr_tailscale_hostname :: "str option"
  wr_incus_remote :: "str option"
  wr_enabled :: bool
  wr_status :: worker_status
  wr_cpu_percent :: "pyfloat option"
  wr_memory_total_mb :: "int option"
  wr_memory_used_mb :: "int option"
  wr_memory_percent :: "pyfloat option"
  wr_network_rx_bps :: "pyfloat option"
  wr_network_tx_bps :: "pyfloat option"
  wr_last_seen_at :: "int option"
  wr_created_at :: int

record peer_group_response =
  pgr_id :: int
  pgr_name :: str
  pgr_worker_id :: int
  pgr_lan_subnet :: str
  pgr_lan_start_ip :: str
  pgr_lan_gateway :: "str option"
  pgr_parent_iface :: "str option"
  pgr_gateway_count :: nat
  pgr_created_at :: int

record peer_response_body =
  pr_id :: int
  pr_gateway_id :: int
  pr_name :: str
  pr_public_key :: str
  pr_allowed_ip :: str
  pr_suspended :: bool
  pr_created_at :: int

record job_response =
  jr_id :: int
  jr_type :: job_type
  jr_gateway_id :: "int option"
  jr_status :: job_status
  jr_error :: "str option"
  jr_created_at :: int

record gateway_monitoring_response =
  gmr_gateway_id :: int
  gmr_name :: str
  gmr_status :: gateway_status
  gmr_exit_node_id :: str
  gmr_vm_status :: "str option"
  gmr_tailscale_online :: "bool option"
  gmr_wg_online :: "bool option"
  gmr_exit_node_reachable :: "bool option"

record peer_monitoring_response =
  pmr_peer_id :: int
  pmr_gateway_id :: int
  pmr_name :: str
  pmr_suspended :: bool
  pmr_last_handshake :: "int option"
  pmr_rx_bytes :: "int option"
  pmr_tx_bytes :: "int option"

end
