(* ===== verification/OrchApi.thy ===== *)
theory OrchApi
  imports ApiSchemas Jobs
begin

declare append_Cons [simp del]

text \<open>
  The JSON API of the orchestrator (\<open>orchestrator/api/routes/\<close> and \<open>orchestrator/api/deps.py\<close>): its routes
  in the order \<open>orchestrator/main.py\<close> includes them, the session and the API key every route depends on, the
  validation of path and body, the handlers over the services, and the status code of every outcome. The text
  of a 422 answer, which is pydantic's, is left out.
\<close>

section \<open>Requests and answers\<close>

text \<open>The body of a request: none, a text that is not JSON, or a JSON value.\<close>

datatype payload = NoBody | BadJson | Payload json

record orch_request =
  oq_method :: str
  oq_path :: str
  oq_api_key :: "str option"
  oq_authorization :: "str option"
  oq_worker_token :: "str option"
  oq_enroll_token :: "str option"
  oq_body :: payload

datatype api_body =
    Nothing
  | Detail str
  | Plain str
  | OneGateway gateway_response
  | ManyGateways "gateway_response list"
  | GatewayCreated gateway_create_response
  | OneGroup peer_group_response
  | ManyGroups "peer_group_response list"
  | GroupGateways peer_group_response "gateway_create_response list"
  | OnePeer peer_response_body
  | ManyPeers "peer_response_body list"
  | PeerCreated peer_response_body str
  | OneJob job_response
  | GatewayStates "gateway_monitoring_response list"
  | PeerStates "peer_monitoring_response list"
  | ManyWorkers "worker_response list"
  | WorkerRegistered worker_register_response

type_synonym api_answer = "nat \<times> api_body"

text \<open>\<open>verify_api_key\<close>.\<close>

definition verify_api_key :: "env \<Rightarrow> orch_request \<Rightarrow> unit io" where
  "verify_api_key E rq =
     (if \<not> str_true (oq_api_key rq) \<or> oq_api_key rq \<noteq> Some (s_api_key E)
      then raise (HTTPException 401 ''Invalid API key'')
      else ret ())"

text \<open>\<open>except ValueError as exc: raise HTTPException(status_code=..., detail=str(exc))\<close>.\<close>

definition value_error_as :: "nat \<Rightarrow> 'a io \<Rightarrow> 'a io" where
  "value_error_as sc m =
     catchM m (\<lambda>e. if is_ValueError e then raise (HTTPException sc (exn_str e)) else raise e)"

text \<open>A row object that a service returned, read again after its commit.\<close>

definition row_of :: "(int \<Rightarrow> db \<Rightarrow> 'r option) \<Rightarrow> int \<Rightarrow> 'r io" where
  "row_of get i =
     bindM (get_db (get i)) (\<lambda>r.
     case r of Some x \<Rightarrow> ret x | None \<Rightarrow> raise (AttributeError ''row has been deleted''))"

definition required_row :: "(int \<Rightarrow> db \<Rightarrow> 'r option) \<Rightarrow> int \<Rightarrow> str \<Rightarrow> 'r io" where
  "required_row get i msg =
     bindM (get_db (get i)) (\<lambda>r.
     case r of Some x \<Rightarrow> ret x | None \<Rightarrow> raise (HTTPException 404 msg))"

section \<open>Gateways\<close>

definition gateway_to_response :: "gateway \<Rightarrow> str \<Rightarrow> gateway_response" where
  "gateway_to_response g endpoint =
     \<lparr>gr_id = gw_id g, gr_name = gw_name g, gr_worker_id = gw_worker_id g,
      gr_peer_group_id = gw_peer_group_id g, gr_lan_ip = gw_lan_ip g, gr_macvlan_slot = gw_macvlan_slot g,
      gr_status = gw_status g, gr_vm_ip = gw_vm_ip g, gr_udp_port = gw_udp_port g,
      gr_wg_subnet = gw_wg_subnet g, gr_wg_server_pubkey = gw_wg_server_pubkey g,
      gr_exit_node_id = gw_exit_node_id g, gr_tailscale_hostname = gw_tailscale_hostname g,
      gr_endpoint = endpoint, gr_error_message = gw_error_message g, gr_created_at = gw_created_at g\<rparr>"

definition gateway_answer :: "gateway \<Rightarrow> gateway_response io" where
  "gateway_answer g = bindM (get_endpoint g) (\<lambda>e. ret (gateway_to_response g e))"

definition created_answer :: "create_gateway_result \<Rightarrow> gateway_create_response io" where
  "created_answer res =
     bindM (row_of gateways_get_by_id (cr_gateway res)) (\<lambda>g.
     bindM (gateway_answer g) (\<lambda>a.
     ret \<lparr>gcr_gateway = a, gcr_job_id = cr_job res\<rparr>))"

definition route_create_gateway :: "env \<Rightarrow> gateway_create_request \<Rightarrow> api_answer io" where
  "route_create_gateway E b =
     bindM (value_error_as 400
              (create_gateway E \<lparr>cg_gateway_name = gc_gateway_name b, cg_udp_port = gc_udp_port b,
                 cg_worker_id = gc_worker_id b, cg_peer_group_id = None, cg_lan_ip = None,
                 cg_macvlan_slot = None\<rparr>)) (\<lambda>res.
     thenM (schedule_provisioning_after_request (cr_gateway res) (cr_job res))
    (bindM (created_answer res) (\<lambda>a. ret (202, GatewayCreated a))))"

definition route_list_gateways :: "api_answer io" where
  "route_list_gateways =
     bindM (get_db gateways_list_all) (\<lambda>gs.
     bindM (mapM gateway_answer gs) (\<lambda>as. ret (200, ManyGateways as)))"

definition route_get_gateway :: "int \<Rightarrow> api_answer io" where
  "route_get_gateway gid =
     bindM (required_row gateways_get_by_id gid ''Gateway not found'') (\<lambda>g.
     bindM (gateway_answer g) (\<lambda>a. ret (200, OneGateway a)))"

definition route_delete_gateway :: "env \<Rightarrow> int \<Rightarrow> api_answer io" where
  "route_delete_gateway E gid =
     value_error_as 404
       (bindM (request_delete_gateway E gid) (\<lambda>jid.
        thenM (schedule_deletion_after_request gid jid) (ret (204, Nothing))))"

definition route_update_gateway :: "env \<Rightarrow> int \<Rightarrow> gateway_update_request \<Rightarrow> api_answer io" where
  "route_update_gateway E gid b =
     bindM (required_row gateways_get_by_id gid ''Gateway not found'') (\<lambda>g.
     bindM (case gu_tailscale_hostname b of
              None \<Rightarrow> ret g
            | Some h \<Rightarrow>
                bindM (value_error_as 400 (rename_tailscale_display_name E gid h)) (row_of gateways_get_by_id)) (\<lambda>g'.
     bindM (gateway_answer g') (\<lambda>a. ret (200, OneGateway a))))"

section \<open>Peer groups\<close>

definition group_response :: "db \<Rightarrow> peer_group \<Rightarrow> peer_group_response" where
  "group_response d g =
     \<lparr>pgr_id = pg_id g, pgr_name = pg_name g, pgr_worker_id = pg_worker_id g,
      pgr_lan_subnet = pg_lan_subnet g, pgr_lan_start_ip = pg_lan_start_ip g,
      pgr_lan_gateway = pg_lan_gateway g, pgr_parent_iface = pg_parent_iface g,
      pgr_gateway_count = length (group_gateways (pg_id g) d), pgr_created_at = pg_created_at g\<rparr>"

definition group_answer :: "peer_group \<Rightarrow> peer_group_response io" where
  "group_answer g = get_db (\<lambda>d. group_response d g)"

definition route_create_group :: "env \<Rightarrow> peer_group_create_request \<Rightarrow> api_answer io" where
  "route_create_group E b =
     bindM (value_error_as 400
              (create_group E \<lparr>cp_name = gg_name b, cp_worker_id = gg_worker_id b,
                 cp_lan_start_ip = gg_lan_start_ip b, cp_lan_subnet = gg_lan_subnet b,
                 cp_lan_gateway = gg_lan_gateway b, cp_parent_iface = gg_parent_iface b\<rparr>)) (\<lambda>i.
     bindM (row_of groups_get_by_id i) (\<lambda>g.
     bindM (group_answer g) (\<lambda>a. ret (201, OneGroup a))))"

definition route_list_groups :: "api_answer io" where
  "route_list_groups = get_db (\<lambda>d. (200, ManyGroups (map (group_response d) (groups_list_all d))))"

definition route_get_group :: "int \<Rightarrow> api_answer io" where
  "route_get_group i =
     bindM (required_row groups_get_by_id i ''Peer group not found'') (\<lambda>g.
     bindM (group_answer g) (\<lambda>a. ret (200, OneGroup a)))"

fun schedule_created :: "create_gateway_result list \<Rightarrow> gateway_create_response list io" where
  "schedule_created [] = ret []"
| "schedule_created (res # rs) =
     thenM (schedule_provisioning_after_request (cr_gateway res) (cr_job res))
    (bindM (created_answer res) (\<lambda>a.
     bindM (schedule_created rs) (\<lambda>as. ret (a # as))))"

definition route_group_gateways :: "env \<Rightarrow> int \<Rightarrow> int \<Rightarrow> api_answer io" where
  "route_group_gateways E i count =
     bindM (value_error_as 400 (create_gateways E i count)) (\<lambda>res.
     bindM (schedule_created (gr_gateways res)) (\<lambda>created.
     bindM (row_of groups_get_by_id (gr_group res)) (\<lambda>g.
     bindM (group_answer g) (\<lambda>a. ret (202, GroupGateways a created)))))"

definition route_delete_group :: "env \<Rightarrow> int \<Rightarrow> api_answer io" where
  "route_delete_group E i = value_error_as 400 (thenM (delete_group E i) (ret (204, Nothing)))"

section \<open>Peers\<close>

definition peer_to_response :: "peer \<Rightarrow> peer_response_body" where
  "peer_to_response p =
     \<lparr>pr_id = peer_id p, pr_gateway_id = peer_gateway_id p, pr_name = peer_name p,
      pr_public_key = peer_public_key p, pr_allowed_ip = peer_allowed_ip p,
      pr_suspended = peer_suspended p, pr_created_at = peer_created_at p\<rparr>"

definition peer_created_answer :: "nat \<Rightarrow> create_peer_result \<Rightarrow> api_answer io" where
  "peer_created_answer sc res =
     bindM (row_of peers_get_by_id (pr_peer res)) (\<lambda>p.
     ret (sc, PeerCreated (peer_to_response p) (pr_client_conf res)))"

definition route_create_peer :: "env \<Rightarrow> int \<Rightarrow> str \<Rightarrow> api_answer io" where
  "route_create_peer E gid name =
     bindM (value_error_as 400 (create_peer E gid name)) (peer_created_answer 201)"

definition route_list_peers :: "int \<Rightarrow> api_answer io" where
  "route_list_peers gid =
     bindM (required_row gateways_get_by_id gid ''Gateway not found'') (\<lambda>_.
     get_db (\<lambda>d. (200, ManyPeers (map peer_to_response (peers_list_by_gateway gid d)))))"

definition route_export_config :: "env \<Rightarrow> int \<Rightarrow> api_answer io" where
  "route_export_config E pid = value_error_as 404 (bindM (export_config E pid) (\<lambda>c. ret (200, Plain c)))"

definition route_delete_peer :: "env \<Rightarrow> int \<Rightarrow> api_answer io" where
  "route_delete_peer E pid = value_error_as 404 (thenM (delete_peer E pid) (ret (204, Nothing)))"

definition route_regenerate_peer :: "env \<Rightarrow> int \<Rightarrow> api_answer io" where
  "route_regenerate_peer E pid =
     bindM (value_error_as 404 (regenerate_peer_keys E pid)) (peer_created_answer 200)"

definition peer_answer :: "int \<Rightarrow> api_answer io" where
  "peer_answer pid = bindM (row_of peers_get_by_id pid) (\<lambda>p. ret (200, OnePeer (peer_to_response p)))"

definition route_suspend_peer :: "env \<Rightarrow> int \<Rightarrow> api_answer io" where
  "route_suspend_peer E pid = bindM (value_error_as 404 (suspend_peer E pid)) peer_answer"

definition route_resume_peer :: "env \<Rightarrow> int \<Rightarrow> api_answer io" where
  "route_resume_peer E pid = bindM (value_error_as 404 (resume_peer E pid)) peer_answer"

section \<open>Monitoring and jobs\<close>

definition gateway_monitoring :: "db \<Rightarrow> gateway \<Rightarrow> gateway_monitoring_response" where
  "gateway_monitoring d g =
     (let m = latest_gateway_metric (gw_id g) d in
      \<lparr>gmr_gateway_id = gw_id g, gmr_name = gw_name g, gmr_status = gw_status g,
       gmr_exit_node_id = gw_exit_node_id g,
       gmr_vm_status = Option.bind m gm_vm_status, gmr_tailscale_online = Option.bind m gm_tailscale_online,
       gmr_wg_online = Option.bind m gm_wg_online,
       gmr_exit_node_reachable = Option.bind m gm_exit_node_reachable\<rparr>)"

definition peer_monitoring :: "db \<Rightarrow> peer \<Rightarrow> peer_monitoring_response" where
  "peer_monitoring d p =
     (let m = latest_peer_metric (peer_id p) d in
      \<lparr>pmr_peer_id = peer_id p, pmr_gateway_id = peer_gateway_id p, pmr_name = peer_name p,
       pmr_suspended = peer_suspended p, pmr_last_handshake = Option.bind m pm_last_handshake,
       pmr_rx_bytes = Option.bind m pm_rx_bytes, pmr_tx_bytes = Option.bind m pm_tx_bytes\<rparr>)"

definition monitoring_gateways :: "api_answer io" where
  "monitoring_gateways = get_db (\<lambda>d. (200, GatewayStates (map (gateway_monitoring d) (gateways_list_all d))))"

definition monitoring_peers :: "api_answer io" where
  "monitoring_peers =
     get_db (\<lambda>d. (200, PeerStates (concat (map (\<lambda>g. map (peer_monitoring d) (peers_list_by_gateway (gw_id g) d))
                                            (gateways_list_all d)))))"

definition route_get_job :: "int \<Rightarrow> api_answer io" where
  "route_get_job i =
     bindM (required_row jobs_get_by_id i ''Job not found'') (\<lambda>j.
     ret (200, OneJob \<lparr>jr_id = job_id j, jr_type = job_type j, jr_gateway_id = job_gateway_id j,
                       jr_status = job_status j, jr_error = job_error j, jr_created_at = job_created_at j\<rparr>))"

section \<open>Workers\<close>

text \<open>\<open>status or worker.status\<close>: every status is true.\<close>

definition worker_to_response :: "worker \<Rightarrow> worker_status option \<Rightarrow> worker_response" where
  "worker_to_response r st =
     \<lparr>wr_id = wk_id r, wr_name = wk_name r, wr_display_name = wk_display_name r,
      wr_public_ip = wk_public_ip r, wr_tailscale_hostname = wk_tailscale_hostname r,
      wr_incus_remote = wk_incus_remote r, wr_enabled = wk_enabled r,
      wr_status = (case st of Some s \<Rightarrow> s | None \<Rightarrow> wk_status r), wr_cpu_percent = wk_cpu_percent r,
      wr_memory_total_mb = wk_memory_total_mb r, wr_memory_used_mb = wk_memory_used_mb r,
      wr_memory_percent = wk_memory_percent r, wr_network_rx_bps = wk_network_rx_bps r,
      wr_network_tx_bps = wk_network_tx_bps r, wr_last_seen_at = wk_last_seen_at r,
      wr_created_at = wk_created_at r\<rparr>"

definition route_list_workers :: "env \<Rightarrow> api_answer io" where
  "route_list_workers E =
     bindM (dashboard_workers E) (\<lambda>rows.
     ret (200, ManyWorkers (map (\<lambda>row. worker_to_response (dr_worker row) (Some (dr_status row))) rows)))"

definition registered_answer :: "register_worker_result \<Rightarrow> api_answer io" where
  "registered_answer res =
     bindM (row_of workers_get_by_id (rwr_worker_id res)) (\<lambda>r.
     ret (201, WorkerRegistered \<lparr>wrr_id = wk_id r, wrr_name = wk_name r, wrr_worker_token = rwr_worker_token res\<rparr>))"

definition route_register_worker :: "env \<Rightarrow> register_worker_args \<Rightarrow> api_answer io" where
  "route_register_worker E b = bindM (value_error_as 400 (register_worker E b)) registered_answer"

definition complete_worker_enrollment ::
  "env \<Rightarrow> str option \<Rightarrow> complete_enrollment_request \<Rightarrow> api_answer io" where
  "complete_worker_enrollment E token b =
     (if \<not> str_true token then raise (HTTPException 401 ''Enrollment token required'')
      else bindM (value_error_as 400 (complete_enrollment E (the token) b)) registered_answer)"

definition heartbeat_token :: "str option \<Rightarrow> str option \<Rightarrow> str option" where
  "heartbeat_token authorization x_worker_token =
     (case authorization of
        Some a \<Rightarrow> if py_startswith (py_lower a) ''bearer '' then Some (py_strip (drop 7 a)) else x_worker_token
      | None \<Rightarrow> x_worker_token)"

definition worker_heartbeat ::
  "env \<Rightarrow> int \<Rightarrow> str option \<Rightarrow> str option \<Rightarrow> worker_heartbeat_request \<Rightarrow> api_answer io" where
  "worker_heartbeat E wid authorization x_worker_token b =
     (let token = heartbeat_token authorization x_worker_token in
      if \<not> str_true token then raise (HTTPException 401 ''Worker token required'')
      else
        bindM (value_error_as 401 (authenticate_worker E wid (the token))) (\<lambda>r.
        thenM (record_heartbeat E (wk_id r) (to_host_stats b)) (ret (204, Nothing))))"

section \<open>Routes\<close>

datatype orch_route =
    RGatewayCreate | RGatewayList | RGatewayGet | RGatewayDelete | RGatewayUpdate
  | RGroupCreate | RGroupList | RGroupGet | RGroupGateways | RGroupDelete
  | RPeerCreate | RPeerList | RPeerConfig | RPeerDelete | RPeerRegenerate | RPeerSuspend | RPeerResume
  | RMonitorGateways | RMonitorPeers | RJob
  | RWorkerList | RWorkerRegister | RWorkerEnroll | RWorkerHeartbeat

definition orch_routes :: "orch_route list" where
  "orch_routes =
     [RGatewayCreate, RGatewayList, RGatewayGet, RGatewayDelete, RGatewayUpdate,
      RGroupCreate, RGroupList, RGroupGet, RGroupGateways, RGroupDelete,
      RPeerCreate, RPeerList, RPeerConfig, RPeerDelete, RPeerRegenerate, RPeerSuspend, RPeerResume,
      RMonitorGateways, RMonitorPeers, RJob,
      RWorkerList, RWorkerRegister, RWorkerEnroll, RWorkerHeartbeat]"

fun orch_template :: "orch_route \<Rightarrow> str \<times> segment list" where
  "orch_template RGatewayCreate = (''POST'', [Fixed ''gateways''])"
| "orch_template RGatewayList = (''GET'', [Fixed ''gateways''])"
| "orch_template RGatewayGet = (''GET'', [Fixed ''gateways'', Parameter])"
| "orch_template RGatewayDelete = (''DELETE'', [Fixed ''gateways'', Parameter])"
| "orch_template RGatewayUpdate = (''PATCH'', [Fixed ''gateways'', Parameter])"
| "orch_template RGroupCreate = (''POST'', [Fixed ''peer-groups''])"
| "orch_template RGroupList = (''GET'', [Fixed ''peer-groups''])"
| "orch_template RGroupGet = (''GET'', [Fixed ''peer-groups'', Parameter])"
| "orch_template RGroupGateways = (''POST'', [Fixed ''peer-groups'', Parameter, Fixed ''gateways''])"
| "orch_template RGroupDelete = (''DELETE'', [Fixed ''peer-groups'', Parameter])"
| "orch_template RPeerCreate = (''POST'', [Fixed ''gateways'', Parameter, Fixed ''peers''])"
| "orch_template RPeerList = (''GET'', [Fixed ''gateways'', Parameter, Fixed ''peers''])"
| "orch_template RPeerConfig = (''GET'', [Fixed ''peers'', Parameter, Fixed ''config''])"
| "orch_template RPeerDelete = (''DELETE'', [Fixed ''peers'', Parameter])"
| "orch_template RPeerRegenerate = (''POST'', [Fixed ''peers'', Parameter, Fixed ''regenerate''])"
| "orch_template RPeerSuspend = (''POST'', [Fixed ''peers'', Parameter, Fixed ''suspend''])"
| "orch_template RPeerResume = (''POST'', [Fixed ''peers'', Parameter, Fixed ''resume''])"
| "orch_template RMonitorGateways = (''GET'', [Fixed ''monitoring'', Fixed ''gateways''])"
| "orch_template RMonitorPeers = (''GET'', [Fixed ''monitoring'', Fixed ''peers''])"
| "orch_template RJob = (''GET'', [Fixed ''jobs'', Parameter])"
| "orch_template RWorkerList = (''GET'', [Fixed ''workers''])"
| "orch_template RWorkerRegister = (''POST'', [Fixed ''workers'', Fixed ''register''])"
| "orch_template RWorkerEnroll = (''POST'', [Fixed ''workers'', Fixed ''enroll'', Fixed ''complete''])"
| "orch_template RWorkerHeartbeat = (''POST'', [Fixed ''workers'', Parameter, Fixed ''heartbeat''])"

text \<open>\<open>api_prefix\<close> of \<open>create_app\<close>.\<close>

definition api_prefix :: "env \<Rightarrow> str" where
  "api_prefix E = py_rstrip_char (CHR ''/'') (s_api_root E) @ ''/api/v1''"

definition match_orch :: "env \<Rightarrow> str \<Rightarrow> orch_route \<Rightarrow> str list option" where
  "match_orch E path r =
     match_segments (map Fixed (py_split (CHR ''/'') (api_prefix E)) @ snd (orch_template r))
       (py_split (CHR ''/'') path)"

text \<open>The routes with the dependency \<open>ApiAuth\<close>, and those whose handler takes a body.\<close>

definition needs_api_key :: "orch_route \<Rightarrow> bool" where
  "needs_api_key r \<longleftrightarrow> r \<noteq> RWorkerEnroll \<and> r \<noteq> RWorkerHeartbeat"

definition takes_body :: "orch_route \<Rightarrow> bool" where
  "takes_body r \<longleftrightarrow>
     r \<in> {RGatewayCreate, RGatewayUpdate, RGroupCreate, RGroupGateways, RPeerCreate, RWorkerRegister,
          RWorkerEnroll, RWorkerHeartbeat}"

section \<open>From the request to the handler\<close>

definition unprocessable :: exn where
  "unprocessable = HTTPException 422 []"

definition validated :: "'a option \<Rightarrow> ('a \<Rightarrow> 'b io) \<Rightarrow> 'b io" where
  "validated v f = (case v of None \<Rightarrow> raise unprocessable | Some x \<Rightarrow> f x)"

definition read_body :: "(jdict \<Rightarrow> 'a option) \<Rightarrow> payload \<Rightarrow> 'a option" where
  "read_body read b = (case b of Payload (JObj d) \<Rightarrow> read d | _ \<Rightarrow> None)"

definition run_orch_route ::
  "env \<Rightarrow> pydantic \<Rightarrow> orch_request \<Rightarrow> orch_route \<Rightarrow> str list \<Rightarrow> api_answer io" where
  "run_orch_route E V rq r ps =
     (let i = pd_int V (JStr (hd ps)); b = oq_body rq in
      case r of
        RGatewayCreate \<Rightarrow> validated (read_body (read_gateway_create V) b) (route_create_gateway E)
      | RGatewayList \<Rightarrow> route_list_gateways
      | RGatewayGet \<Rightarrow> validated i route_get_gateway
      | RGatewayDelete \<Rightarrow> validated i (route_delete_gateway E)
      | RGatewayUpdate \<Rightarrow>
          validated i (\<lambda>i. validated (read_body read_gateway_update b) (route_update_gateway E i))
      | RGroupCreate \<Rightarrow> validated (read_body (read_peer_group_create V) b) (route_create_group E)
      | RGroupList \<Rightarrow> route_list_groups
      | RGroupGet \<Rightarrow> validated i route_get_group
      | RGroupGateways \<Rightarrow>
          validated i (\<lambda>i. validated (read_body (read_group_gateways_count V) b) (route_group_gateways E i))
      | RGroupDelete \<Rightarrow> validated i (route_delete_group E)
      | RPeerCreate \<Rightarrow> validated i (\<lambda>i. validated (read_body read_peer_create b) (route_create_peer E i))
      | RPeerList \<Rightarrow> validated i route_list_peers
      | RPeerConfig \<Rightarrow> validated i (route_export_config E)
      | RPeerDelete \<Rightarrow> validated i (route_delete_peer E)
      | RPeerRegenerate \<Rightarrow> validated i (route_regenerate_peer E)
      | RPeerSuspend \<Rightarrow> validated i (route_suspend_peer E)
      | RPeerResume \<Rightarrow> validated i (route_resume_peer E)
      | RMonitorGateways \<Rightarrow> monitoring_gateways
      | RMonitorPeers \<Rightarrow> monitoring_peers
      | RJob \<Rightarrow> validated i route_get_job
      | RWorkerList \<Rightarrow> route_list_workers E
      | RWorkerRegister \<Rightarrow> validated (read_body (read_worker_register V) b) (route_register_worker E)
      | RWorkerEnroll \<Rightarrow>
          validated (read_body read_worker_enroll b) (complete_worker_enrollment E (oq_enroll_token rq))
      | RWorkerHeartbeat \<Rightarrow>
          validated i (\<lambda>i. validated (read_body (read_worker_heartbeat V) b)
            (worker_heartbeat E i (oq_authorization rq) (oq_worker_token rq))))"

text \<open>
  A body that is not JSON is refused before anything else; then the session opens and the key is
  checked; then path and body are validated. A request for which no route matches path and method opens
  no session.
\<close>

definition handle_orch :: "env \<Rightarrow> pydantic \<Rightarrow> orch_request \<Rightarrow> orch_route \<Rightarrow> str list \<Rightarrow> api_answer io" where
  "handle_orch E V rq r ps =
     (if takes_body r \<and> oq_body rq = BadJson then raise unprocessable
      else with_session E
             (thenM (if needs_api_key r then verify_api_key E rq else ret ()) (run_orch_route E V rq r ps)))"

definition orch_dispatch :: "env \<Rightarrow> pydantic \<Rightarrow> orch_request \<Rightarrow> api_answer io" where
  "orch_dispatch E V rq =
     (case find (\<lambda>r. fst (orch_template r) = oq_method rq \<and> match_orch E (oq_path rq) r \<noteq> None) orch_routes of
        Some r \<Rightarrow> handle_orch E V rq r (the (match_orch E (oq_path rq) r))
      | None \<Rightarrow>
          if list_ex (\<lambda>r. match_orch E (oq_path rq) r \<noteq> None) orch_routes
          then raise (HTTPException 405 ''Method Not Allowed'')
          else if oq_path rq \<noteq> ''/'' \<and> list_ex (\<lambda>r. match_orch E (toggle_slash (oq_path rq)) r \<noteq> None) orch_routes
          then raise (HTTPException 307 [])
          else raise (HTTPException 404 ''Not Found''))"

definition orch_serve :: "env \<Rightarrow> pydantic \<Rightarrow> orch_request \<Rightarrow> api_answer io" where
  "orch_serve E V rq =
     catchM (orch_dispatch E V rq)
       (\<lambda>e. case e of
              HTTPException sc d \<Rightarrow> ret (sc, Detail d)
            | Diverged \<Rightarrow> raise e
            | _ \<Rightarrow> ret (500, Plain ''Internal Server Error''))"

section \<open>Credentials\<close>

text \<open>
  What a request may carry to be let in, given the rows of the database: the API key, the token of a
  registered worker (for heartbeats), or the token of an enrollment.
\<close>

definition holds_credential :: "env \<Rightarrow> orch_request \<Rightarrow> db \<Rightarrow> bool" where
  "holds_credential E rq d \<longleftrightarrow>
     (str_true (oq_api_key rq) \<and> oq_api_key rq = Some (s_api_key E)) \<or>
     (\<exists>t. heartbeat_token (oq_authorization rq) (oq_worker_token rq) = Some t \<and>
          list_ex (\<lambda>r. wk_worker_token_hash r = hash_token E t) (workers d)) \<or>
     (\<exists>t. oq_enroll_token rq = Some t \<and> list_ex (\<lambda>e. en_token_hash e = hash_token E t) (enrollments d))"

definition refusal :: "nat set" where
  "refusal = {307, 400, 401, 404, 405, 422}"

lemma rollback_clean: "db w = stored w \<Longrightarrow> rollback_w w = w"
  by (simp add: rollback_w_def)

lemma session_raises:
  assumes "db w = stored w" and "m w = (Inl e, w)"
  shows "with_session E m w = (Inl e, w)"
  using assms by (simp add: with_session_def bindM_def thenM_def catchM_def rollback_def rollback_clean)

lemma no_key:
  "\<not> (str_true (oq_api_key rq) \<and> oq_api_key rq = Some (s_api_key E)) \<Longrightarrow>
   verify_api_key E rq w = (Inl (HTTPException 401 ''Invalid API key''), w)"
  by (simp add: verify_api_key_def)

lemma strange_worker:
  assumes "\<And>t r. heartbeat_token a x = Some t \<Longrightarrow> r \<in> set (workers (db w)) \<Longrightarrow> wk_worker_token_hash r \<noteq> hash_token E t"
  shows "\<exists>msg. worker_heartbeat E i a x b w = (Inl (HTTPException 401 msg), w)"
proof (cases "str_true (heartbeat_token a x)")
  case False
  then show ?thesis by (simp add: worker_heartbeat_def)
next
  case True
  then obtain t where t: "heartbeat_token a x = Some t" by (cases "heartbeat_token a x") auto
  show ?thesis
  proof (cases "workers_get_by_id i (db w)")
    case None
    with True show ?thesis
      by (simp add: worker_heartbeat_def value_error_as_def authenticate_worker_def get_worker_def bindM_def catchM_def)
  next
    case (Some r)
    then have "r \<in> set (workers (db w))" by (auto simp: workers_get_by_id_def dest: tbl_get_SomeD)
    then have "wk_worker_token_hash r \<noteq> hash_token E t" using assms t by blast
    with Some True t show ?thesis
      by (auto simp: worker_heartbeat_def value_error_as_def authenticate_worker_def get_worker_def verify_token_def
          bindM_def catchM_def)
  qed
qed

lemma strange_enrollment:
  assumes "\<And>t e. oq_enroll_token rq = Some t \<Longrightarrow> e \<in> set (enrollments (db w)) \<Longrightarrow> en_token_hash e \<noteq> hash_token E t"
  shows "\<exists>sc msg. complete_worker_enrollment E (oq_enroll_token rq) b w = (Inl (HTTPException sc msg), w) \<and> sc \<in> refusal"
proof (cases "oq_enroll_token rq")
  case None
  then show ?thesis by (simp add: complete_worker_enrollment_def refusal_def)
next
  case (Some t)
  then have "enrollments_get_by_token_hash (hash_token E t) (db w) = None"
    using assms by (auto simp: enrollments_get_by_token_hash_def find_None_iff)
  with Some show ?thesis
    by (simp add: complete_worker_enrollment_def value_error_as_def complete_enrollment_def bindM_def catchM_def
        refusal_def)
qed

lemma stranger_refused:
  assumes "\<not> holds_credential E rq (db w)" and "db w = stored w"
  shows "\<exists>sc msg. handle_orch E V rq r ps w = (Inl (HTTPException sc msg), w) \<and> sc \<in> refusal"
proof -
  let ?body = "thenM (if needs_api_key r then verify_api_key E rq else ret ()) (run_orch_route E V rq r ps)"
  have hb: "\<exists>sc msg. worker_heartbeat E i (oq_authorization rq) (oq_worker_token rq) b w = (Inl (HTTPException sc msg), w) \<and>
      sc \<in> refusal" for i b
    using strange_worker [of "oq_authorization rq" "oq_worker_token rq" w E i b] assms(1)
    by (fastforce simp: holds_credential_def list_ex_iff refusal_def)
  have en: "\<exists>sc msg. complete_worker_enrollment E (oq_enroll_token rq) b w = (Inl (HTTPException sc msg), w) \<and> sc \<in> refusal" for b
    by (rule strange_enrollment) (use assms(1) in \<open>auto simp: holds_credential_def list_ex_iff\<close>)
  have "\<exists>sc msg. ?body w = (Inl (HTTPException sc msg), w) \<and> sc \<in> refusal"
  proof (cases "needs_api_key r")
    case True
    then show ?thesis
      using assms(1) no_key [of rq E w] by (auto simp: thenM_def holds_credential_def refusal_def)
  next
    case False
    then show ?thesis
      using hb en
      by (auto simp: thenM_def needs_api_key_def run_orch_route_def validated_def unprocessable_def refusal_def
          Let_def split: option.split)
  qed
  then obtain sc msg where body: "?body w = (Inl (HTTPException sc msg), w)" "sc \<in> refusal" by blast
  show ?thesis
  proof (cases "takes_body r \<and> oq_body rq = BadJson")
    case True
    then show ?thesis by (simp add: handle_orch_def unprocessable_def refusal_def)
  next
    case False
    then have "handle_orch E V rq r ps = with_session E ?body" by (simp only: handle_orch_def if_False)
    moreover have "with_session E ?body w = (Inl (HTTPException sc msg), w)"
      by (rule session_raises) (rule assms(2), rule body(1))
    ultimately show ?thesis using body(2) by auto
  qed
qed


section \<open>Reading\<close>

text \<open>What reading leaves as it is: both views of the database, and the globals of the background workers.\<close>

definition same_data :: "world \<Rightarrow> world \<Rightarrow> bool" where
  "same_data w0 w \<longleftrightarrow>
     db w = db w0 \<and> stored w = stored w0 \<and> prov_active w = prov_active w0 \<and> del_active w = del_active w0 \<and>
     prov_queue w = prov_queue w0"

lemma stable_same_data: "stable (same_data w0)"
  by (simp add: stable_def same_data_def)

lemma keeps_value_error_as [keeps_intros]: "keeps J m \<Longrightarrow> keeps J (value_error_as sc m)"
  unfolding value_error_as_def by (intro keeps_intros)

lemma keeps_row_of [keeps_intros]: "keeps J (row_of get i)"
  unfolding row_of_def by (intro keeps_intros)

lemma keeps_required_row [keeps_intros]: "keeps J (required_row get i msg)"
  unfolding required_row_def by (intro keeps_intros)

lemma keeps_validated [keeps_intros]: "(\<And>x. v = Some x \<Longrightarrow> keeps J (f x)) \<Longrightarrow> keeps J (validated v f)"
  unfolding validated_def by (intro keeps_intros)

lemma keeps_get_endpoint [keeps_intros]: "keeps J (get_endpoint g)"
  unfolding get_endpoint_def resolve_worker_def by (intro keeps_intros)

lemma keeps_dashboard_workers [keeps_intros]: "stable J \<Longrightarrow> keeps J (dashboard_workers E)"
  unfolding dashboard_workers_def effective_status_def by (intro keeps_intros)

lemma keeps_export_config [keeps_intros]: "stable J \<Longrightarrow> keeps J (export_config E pid)"
  unfolding export_config_def by (intro keeps_intros)

lemma keeps_gateway_answer [keeps_intros]: "keeps J (gateway_answer g)"
  unfolding gateway_answer_def by (intro keeps_intros)

lemma keeps_group_answer [keeps_intros]: "keeps J (group_answer g)"
  unfolding group_answer_def by (intro keeps_intros)

lemma keeps_verify_api_key [keeps_intros]: "keeps J (verify_api_key E rq)"
  unfolding verify_api_key_def by (intro keeps_intros)

lemma keeps_reading_routes:
  assumes "stable J"
  shows "keeps J route_list_gateways" "keeps J (route_get_gateway i)" "keeps J route_list_groups"
    "keeps J (route_get_group i)" "keeps J (route_list_peers i)" "keeps J (route_export_config E i)"
    "keeps J monitoring_gateways" "keeps J monitoring_peers" "keeps J (route_get_job i)"
    "keeps J (route_list_workers E)"
  unfolding route_list_gateways_def route_get_gateway_def route_list_groups_def
    route_get_group_def route_list_peers_def route_export_config_def monitoring_gateways_def monitoring_peers_def
    route_get_job_def route_list_workers_def
  by (intro keeps_intros assms)+

lemma get_routes:
  "fst (orch_template r) = ''GET'' \<Longrightarrow>
   r \<in> {RGatewayList, RGatewayGet, RGroupList, RGroupGet, RPeerList, RPeerConfig, RMonitorGateways, RMonitorPeers,
        RJob, RWorkerList}"
  by (cases r) simp_all

lemma keeps_get_routes:
  assumes "stable J" and "fst (orch_template r) = ''GET''"
  shows "keeps J (run_orch_route E V rq r ps)"
  using get_routes [OF assms(2)] keeps_reading_routes [OF assms(1)]
  by (auto simp: run_orch_route_def Let_def intro!: keeps_validated)

lemma session_reads:
  assumes "keeps (same_data w) m" and "db w = stored w" and "with_session E m w = (r, w')"
  shows "same_data w w'"
proof -
  obtain r1 w1 where m: "m w = (r1, w1)" by fastforce
  have "same_data w w1"
    using keepsD [OF assms(1) _ m] by (simp add: same_data_def)
  with assms(2,3) show ?thesis
    by (cases r1) (auto simp: with_session_def m bindM_def thenM_def catchM_def commit_def rollback_def rollback_w_def
        same_data_def split: if_splits)
qed

text \<open>
  C40: The API's \<open>GET\<close> requests are safe: whatever their path, credentials and answer, they leave the
  database as committed and as seen by the session unchanged, and start no background work.
\<close>

theorem api_get_is_safe:
  assumes "oq_method rq = ''GET''" and "db w = stored w" and "orch_serve E V rq w = (a, w')"
  shows "db w' = db w \<and> stored w' = stored w \<and> prov_active w' = prov_active w \<and>
    del_active w' = del_active w \<and> prov_queue w' = prov_queue w"
proof -
  have handled: "same_data w (snd (handle_orch E V rq r ps w))" if get: "fst (orch_template r) = ''GET''" for r ps
  proof -
    have "keeps (same_data w) (thenM (if needs_api_key r then verify_api_key E rq else ret ()) (run_orch_route E V rq r ps))"
      by (intro keeps_intros keeps_get_routes stable_same_data get)
    from session_reads [OF this assms(2)] show ?thesis
      by (auto simp: handle_orch_def same_data_def prod_eq_iff)
  qed
  have "same_data w (snd (orch_dispatch E V rq w))"
    using handled assms(1) by (auto simp: orch_dispatch_def same_data_def find_Some_iff split: option.split)
  moreover have "snd (orch_serve E V rq w) = snd (orch_dispatch E V rq w)"
    by (auto simp: orch_serve_def catchM_def split: prod.splits sum.splits exn.splits)
  ultimately have "same_data w w'" using assms(3) by simp
  then show ?thesis by (simp add: same_data_def)
qed

section \<open>Heartbeats\<close>

lemma session_returns:
  "with_session E m w = (Inr x, w') \<longleftrightarrow> (\<exists>w1 y. m w = (Inr x, w1) \<and> commit E w1 = (Inr y, w'))"
  by (auto simp: with_session_def bindM_def thenM_def catchM_def rollback_def split: prod.splits sum.splits)

definition with_heartbeat :: "worker_heartbeat_request \<Rightarrow> int \<Rightarrow> worker \<Rightarrow> worker" where
  "with_heartbeat b t r =
     r\<lparr>wk_cpu_percent := Some (wh_cpu_percent b), wk_memory_total_mb := Some (wh_memory_total_mb b),
       wk_memory_used_mb := Some (wh_memory_used_mb b), wk_memory_percent := Some (wh_memory_percent b),
       wk_network_rx_bps := Some (wh_network_rx_bytes_per_sec b),
       wk_network_tx_bps := Some (wh_network_tx_bytes_per_sec b), wk_status := WOnline, wk_last_seen_at := Some t\<rparr>"

lemma worker_heartbeat_returns:
  assumes "worker_heartbeat E i a x b w = (Inr res, w')"
  shows "res = (204, Nothing) \<and> (\<exists>r. workers_get_by_id i (db w) = Some r \<and>
           db w' = upd_worker i (with_heartbeat b (o_now E (trace w))) (db w) \<and> prefix (trace w) (trace w'))"
proof -
  have id: "wk_id r = i" if "workers_get_by_id i (db w) = Some r" for r
    using that by (auto simp: workers_get_by_id_def dest: tbl_get_SomeD)
  from assms show ?thesis
    by (auto simp: worker_heartbeat_def Let_def value_error_as_def authenticate_worker_def get_worker_def
        record_heartbeat_def workers_update_stats_def commit_def bindM_def thenM_def catchM_def now_def
        to_host_stats_def with_heartbeat_def [abs_def] id split: if_splits option.splits sum.splits prod.splits)
qed

lemma effective_status_value:
  assumes "effective_status E r w = (Inr st, w')"
  shows "\<exists>h. prefix (trace w) h \<and> prefix h (trace w') \<and> st = status_at (o_now E h) r"
proof -
  have "prefix (trace w) (trace w) \<and> prefix (trace w) (trace w') \<and> st = status_at (o_now E (trace w)) r"
    using assms effective_status_db(3) [of w E r]
    by (auto simp: effective_status_def bindM_def now_def status_at_def split: if_splits)
  then show ?thesis by blast
qed

lemma status_rows_value:
  "mapM (status_row E count) rs w = (Inr rows, w') \<Longrightarrow> row \<in> set rows \<Longrightarrow>
   \<exists>h. prefix (trace w) h \<and> prefix h (trace w') \<and> dr_status row = status_at (o_now E h) (dr_worker row)"
proof (induction rs arbitrary: rows w)
  case Nil
  then show ?case by simp
next
  case (Cons r rs)
  obtain st w1 rest where st: "effective_status E r w = (Inr st, w1)"
    and rest: "mapM (status_row E count) rs w1 = (Inr rest, w')"
    and rows: "rows = \<lparr>dr_worker = r, dr_status = st, dr_gateway_count = count (wk_id r)\<rparr> # rest"
    using Cons.prems(1) by (auto simp: bindM_returns status_row_returns)
  have step: "prefix (trace w) (trace w1)" using effective_status_db(3) [of w E r] by (simp add: st)
  have later: "prefix (trace w1) (trace w')" using status_rows_returns [OF rest] by blast
  show ?case
  proof (cases "row \<in> set rest")
    case True
    from Cons.IH [OF rest True] step show ?thesis by (meson prefix_order.trans)
  next
    case False
    then have "row = \<lparr>dr_worker = r, dr_status = st, dr_gateway_count = count (wk_id r)\<rparr>"
      using Cons.prems(2) rows by simp
    with effective_status_value [OF st] later show ?thesis by auto
  qed
qed

text \<open>
  What a worker reports in a heartbeat is what \<open>GET /workers\<close> shows next: when a heartbeat of a
  registered, enabled worker is accepted and the list is read before the heartbeat is 120 seconds old,
  the list has an entry of this worker, with status online and the reported figures.
\<close>

theorem heartbeat_is_listed:
  assumes "handle_orch E V hb RWorkerHeartbeat [s] w = (Inr res, w1)" and "pd_int V (JStr s) = Some i"
    and "read_body (read_worker_heartbeat V) (oq_body hb) = Some b"
    and "workers_get_by_id i (db w) = Some r" and "wk_enabled r" and "\<not> wk_is_local r"
    and "handle_orch E V rq RWorkerList [] w1 = (Inr (sc, ManyWorkers rs), w2)"
    and "\<And>h. prefix (trace w1) h \<Longrightarrow> prefix h (trace w2) \<Longrightarrow> o_now E h \<le> o_now E (trace w) + 120 * second"
  shows "\<exists>x \<in> set rs. wr_id x = i \<and> wr_status x = WOnline \<and> wr_cpu_percent x = Some (wh_cpu_percent b) \<and>
    wr_memory_total_mb x = Some (wh_memory_total_mb b) \<and> wr_memory_used_mb x = Some (wh_memory_used_mb b) \<and>
    wr_memory_percent x = Some (wh_memory_percent b) \<and>
    wr_network_rx_bps x = Some (wh_network_rx_bytes_per_sec b) \<and>
    wr_network_tx_bps x = Some (wh_network_tx_bytes_per_sec b)"
proof -
  let ?r = "with_heartbeat b (o_now E (trace w)) r"
  have id: "wk_id r = i" and mem: "r \<in> set (workers (db w))"
    using assms(4) by (auto simp: workers_get_by_id_def dest: tbl_get_SomeD)
  obtain w0 y where beat: "worker_heartbeat E i (oq_authorization hb) (oq_worker_token hb) b w = (Inr res, w0)"
    and com: "commit E w0 = (Inr y, w1)"
    using assms(1-3)
    by (auto simp: handle_orch_def session_returns thenM_returns needs_api_key_def run_orch_route_def validated_def
        split: if_splits)
  have db1: "db w1 = upd_worker i (with_heartbeat b (o_now E (trace w))) (db w)"
    using worker_heartbeat_returns [OF beat] commit_returns [OF com] by auto
  then have "?r \<in> set (workers_list_all (db w1))"
    using mem id by (auto simp: workers_list_all_def tbl_upd_def)
  then have listed: "?r \<in> set (filter (\<lambda>r. \<not> wk_is_local r) (workers_list_all (db w1)))"
    using assms(6) by (simp add: wk_is_local_def with_heartbeat_def)
  obtain rows w2' z where rows: "mapM (status_row E (count_of (db w1))) (filter (\<lambda>r. \<not> wk_is_local r) (workers_list_all (db w1))) w1
        = (Inr rows, w2')"
    and rs: "rs = map (\<lambda>row. worker_to_response (dr_worker row) (Some (dr_status row))) rows"
    and com2: "commit E w2' = (Inr z, w2)"
    using assms(7)
    by (auto simp: handle_orch_def session_returns thenM_returns bindM_returns run_orch_route_def takes_body_def
        route_list_workers_def dashboard_workers_def verify_api_key_def status_row_def [abs_def] split: if_splits)
  obtain row where row: "row \<in> set rows" "dr_worker row = ?r"
    using listed status_rows_returns [OF rows] by (metis imageE list.set_map)
  obtain h where h: "prefix (trace w1) h" "prefix h (trace w2')" "dr_status row = status_at (o_now E h) ?r"
    using status_rows_value [OF rows row(1)] row(2) by auto
  have "prefix h (trace w2)" using h(2) commit_returns [OF com2] by (simp add: prefix_order.trans)
  with assms(8) [OF h(1)] have "dr_status row = WOnline"
    using assms(5) h(3) by (auto simp: status_at_def with_heartbeat_def HEARTBEAT_STALE_SECONDS_def)
  moreover have "worker_to_response (dr_worker row) (Some (dr_status row)) \<in> set rs" using row(1) by (simp add: rs)
  ultimately show ?thesis
    using id by (intro bexI) (simp_all add: worker_to_response_def with_heartbeat_def row(2))
qed

section \<open>Witnesses\<close>

fun sample_int :: "json \<Rightarrow> int option" where
  "sample_int (JInt n) = Some n"
| "sample_int (JStr s) = (if s \<noteq> [] \<and> list_all is_digit s then Some (int (digits_val s)) else None)"
| "sample_int _ = None"

fun sample_float :: "json \<Rightarrow> pyfloat option" where
  "sample_float (JInt n) = Some (of_int n)"
| "sample_float _ = None"

definition sample_pydantic :: pydantic where
  "sample_pydantic = \<lparr>pd_int = sample_int, pd_float = sample_float\<rparr>"

definition bare_request :: "str \<Rightarrow> str \<Rightarrow> orch_request" where
  "bare_request verb path =
     \<lparr>oq_method = verb, oq_path = path, oq_api_key = None, oq_authorization = None, oq_worker_token = None,
      oq_enroll_token = None, oq_body = NoBody\<rparr>"


theorem api_get_is_safe_witness:
  "db (snd (orch_serve sample_env sample_pydantic (bare_request ''GET'' ''http://orch/api/v1/workers'')
        (fresh_world sample_db))) = db (fresh_world sample_db)"
  using api_get_is_safe [of "bare_request ''GET'' ''http://orch/api/v1/workers''" "fresh_world sample_db" sample_env
      sample_pydantic "fst (orch_serve sample_env sample_pydantic (bare_request ''GET'' ''http://orch/api/v1/workers'')
        (fresh_world sample_db))" "snd (orch_serve sample_env sample_pydantic
        (bare_request ''GET'' ''http://orch/api/v1/workers'') (fresh_world sample_db))"]
  by (simp add: bare_request_def fresh_world_def)

definition sample_heartbeat :: orch_request where
  "sample_heartbeat = (bare_request ''POST'' ''http://orch/api/v1/workers/1/heartbeat'')
     \<lparr>oq_authorization := Some ''Bearer hsah'',
      oq_body := Payload (JObj [(''cpu_percent'', JInt 5), (''memory_total_mb'', JInt 100),
        (''memory_used_mb'', JInt 50), (''memory_percent'', JInt 50), (''network_rx_bytes_per_sec'', JInt 7),
        (''network_tx_bytes_per_sec'', JInt 9)])\<rparr>"

definition sample_listing :: orch_request where
  "sample_listing = (bare_request ''GET'' ''http://orch/api/v1/workers'')\<lparr>oq_api_key := Some ''key''\<rparr>"

definition heard_world :: world where
  "heard_world = snd (handle_orch sample_env sample_pydantic sample_heartbeat RWorkerHeartbeat [''1'']
     (fresh_world sample_db))"

definition listed_world :: world where
  "listed_world = snd (handle_orch sample_env sample_pydantic sample_listing RWorkerList [] heard_world)"

definition listed_rows :: "worker_response list" where
  "listed_rows =
     (case fst (handle_orch sample_env sample_pydantic sample_listing RWorkerList [] heard_world) of
        Inr (sc, ManyWorkers rs) \<Rightarrow> rs | _ \<Rightarrow> [])"

lemma heard: "fst (handle_orch sample_env sample_pydantic sample_heartbeat RWorkerHeartbeat [''1'']
     (fresh_world sample_db)) = Inr (204, Nothing)"
  by code_simp

lemma listed: "(case fst (handle_orch sample_env sample_pydantic sample_listing RWorkerList [] heard_world) of
     Inr (sc, ManyWorkers rs) \<Rightarrow> sc = 200 | _ \<Rightarrow> False)"
  by code_simp

lemma listed_trace: "length (trace listed_world) = 5"
  by code_simp

theorem heartbeat_is_listed_witness:
  "\<exists>x \<in> set listed_rows. wr_id x = 1 \<and> wr_status x = WOnline \<and> wr_cpu_percent x = Some 5"
proof -
  let ?b = "\<lparr>wh_cpu_percent = 5, wh_memory_total_mb = 100, wh_memory_used_mb = 50, wh_memory_percent = 50,
      wh_network_rx_bytes_per_sec = 7, wh_network_tx_bytes_per_sec = 9\<rparr>"
  have beat: "handle_orch sample_env sample_pydantic sample_heartbeat RWorkerHeartbeat [''1''] (fresh_world sample_db)
      = (Inr (204, Nothing), heard_world)"
    using heard by (simp add: heard_world_def prod_eq_iff)
  have list: "handle_orch sample_env sample_pydantic sample_listing RWorkerList [] heard_world
      = (Inr (200, ManyWorkers listed_rows), listed_world)"
    using listed by (auto simp: listed_world_def listed_rows_def prod_eq_iff split: sum.splits prod.splits api_body.splits)
  have path: "pd_int sample_pydantic (JStr ''1'') = Some 1" by code_simp
  have body: "read_body (read_worker_heartbeat sample_pydantic) (oq_body sample_heartbeat) = Some ?b" by code_simp
  have row: "workers_get_by_id 1 (db (fresh_world sample_db)) = Some sample_worker"
    "wk_enabled sample_worker" "\<not> wk_is_local sample_worker"
    by code_simp+
  have time: "o_now sample_env h \<le> o_now sample_env (trace (fresh_world sample_db)) + 120 * second"
    if "prefix (trace heard_world) h" "prefix h (trace listed_world)" for h
    using prefix_length_le [OF that(2)] by (simp add: listed_trace sample_env_def fresh_world_def second_def)
  from heartbeat_is_listed [OF beat path body row list time] show ?thesis by auto
qed

end
