(* ===== verification/ApiTypes.thy ===== *)
theory ApiTypes
  imports OrchApi
begin

declare append_Cons [simp del]

text \<open>
  The columns of the tables the API writes, as the models declare them (\<open>orchestrator/models/\<close>): lengths of
  texts, ranges of ports and of load figures. SQLite enforces none of them, the validation of the request
  bodies does. The last theorem says that it does so completely.
\<close>

section \<open>Column types\<close>

definition fits :: "nat \<Rightarrow> str \<Rightarrow> bool" where
  "fits n s \<longleftrightarrow> length s \<le> n"

definition named :: "nat \<Rightarrow> str \<Rightarrow> bool" where
  "named n s \<longleftrightarrow> s \<noteq> [] \<and> fits n s"

definition on_some :: "('a \<Rightarrow> bool) \<Rightarrow> 'a option \<Rightarrow> bool" where
  "on_some P x \<longleftrightarrow> (case x of None \<Rightarrow> True | Some y \<Rightarrow> P y)"

definition is_percent :: "pyfloat \<Rightarrow> bool" where
  "is_percent x \<longleftrightarrow> 0 \<le> x \<and> x \<le> 100"

definition typed_worker :: "worker \<Rightarrow> bool" where
  "typed_worker r \<longleftrightarrow>
     named 64 (wk_name r) \<and> fits 128 (wk_display_name r) \<and> fits 45 (wk_public_ip r) \<and>
     on_some (fits 128) (wk_tailscale_hostname r) \<and> on_some (fits 64) (wk_incus_remote r) \<and>
     on_some (fits 512) (wk_incus_url r) \<and> is_port (wk_port_pool_start r) \<and> is_port (wk_port_pool_end r) \<and>
     fits 18 (wk_ip_pool_network r) \<and> fits 45 (wk_ip_pool_start r) \<and>
     on_some is_percent (wk_cpu_percent r) \<and> on_some (\<lambda>n. 0 \<le> n) (wk_memory_total_mb r) \<and>
     on_some (\<lambda>n. 0 \<le> n) (wk_memory_used_mb r) \<and> on_some is_percent (wk_memory_percent r) \<and>
     on_some (\<lambda>x. 0 \<le> x) (wk_network_rx_bps r) \<and> on_some (\<lambda>x. 0 \<le> x) (wk_network_tx_bps r)"

definition typed_gateway :: "gateway \<Rightarrow> bool" where
  "typed_gateway g \<longleftrightarrow> named 128 (gw_name g) \<and> is_port (gw_udp_port g) \<and> named 128 (gw_tailscale_hostname g)"

definition typed_peer :: "peer \<Rightarrow> bool" where
  "typed_peer p \<longleftrightarrow> named 128 (peer_name p)"

definition typed_group :: "peer_group \<Rightarrow> bool" where
  "typed_group g \<longleftrightarrow>
     named 128 (pg_name g) \<and> fits 18 (pg_lan_subnet g) \<and> fits 45 (pg_lan_start_ip g) \<and>
     on_some (fits 45) (pg_lan_gateway g) \<and> on_some (fits 64) (pg_parent_iface g)"

definition typed_enrollment :: "enrollment \<Rightarrow> bool" where
  "typed_enrollment e \<longleftrightarrow>
     named 64 (en_name e) \<and> fits 128 (en_display_name e) \<and> fits 128 (en_tailscale_hostname e)"

definition typed_db :: "db \<Rightarrow> bool" where
  "typed_db d \<longleftrightarrow>
     list_all typed_worker (workers d) \<and> list_all typed_gateway (gateways d) \<and>
     list_all typed_peer (peers d) \<and> list_all typed_group (peer_groups d) \<and>
     list_all typed_enrollment (enrollments d)"

text \<open>The settings that stand in for fields a registration leaves out.\<close>

definition typed_settings :: "env \<Rightarrow> bool" where
  "typed_settings E \<longleftrightarrow>
     is_port (s_port_pool_start E) \<and> is_port (s_port_pool_end E) \<and> fits 18 (s_ip_pool_network E) \<and>
     fits 45 (s_ip_pool_start E)"

section \<open>What a computation yields under an invariant\<close>

definition yields :: "('s \<Rightarrow> bool) \<Rightarrow> ('s, 'e, 'a) comp \<Rightarrow> ('a \<Rightarrow> bool) \<Rightarrow> bool" where
  "yields I m P \<longleftrightarrow> (\<forall>s x s'. I s \<longrightarrow> m s = (Inr x, s') \<longrightarrow> P x)"

named_theorems yields_intros \<open>what computations yield\<close>

lemma yields_basic [yields_intros]:
  "P x \<Longrightarrow> yields I (ret x) P" "yields I (raise e) P" "(\<And>x. r = Inr x \<Longrightarrow> P x) \<Longrightarrow> yields I (liftE r) P"
  by (auto simp: yields_def)

lemma yields_get_db [yields_intros]: "(\<And>d. I d \<Longrightarrow> P (f d)) \<Longrightarrow> yields (db_inv I) (get_db f) P"
  by (auto simp: yields_def db_inv_def)

lemma yields_True: "yields I m (\<lambda>_. True)"
  by (simp add: yields_def)

lemma yields_bindM:
  "keeps I m \<Longrightarrow> yields I m Q \<Longrightarrow> (\<And>x. Q x \<Longrightarrow> yields I (f x) P) \<Longrightarrow> yields I (bindM m f) P"
  unfolding yields_def bindM_returns by (metis keepsD)

lemma yields_then [yields_intros]: "keeps I m \<Longrightarrow> yields I k P \<Longrightarrow> yields I (thenM m k) P"
  unfolding yields_def thenM_returns by (metis keepsD)

lemma yields_bind [yields_intros]: "keeps I m \<Longrightarrow> (\<And>x. yields I (f x) P) \<Longrightarrow> yields I (bindM m f) P"
  by (rule yields_bindM [OF _ yields_True])

lemma yields_if [yields_intros]:
  "(b \<Longrightarrow> yields I m P) \<Longrightarrow> (\<not> b \<Longrightarrow> yields I k P) \<Longrightarrow> yields I (if b then m else k) P"
  by simp

lemma yields_option [yields_intros]:
  "(x = None \<Longrightarrow> yields I m P) \<Longrightarrow> (\<And>a. x = Some a \<Longrightarrow> yields I (k a) P) \<Longrightarrow>
   yields I (case x of None \<Rightarrow> m | Some a \<Rightarrow> k a) P"
  by (cases x) simp_all

lemma yields_list [yields_intros]:
  "(x = [] \<Longrightarrow> yields I m P) \<Longrightarrow> (\<And>a as. x = a # as \<Longrightarrow> yields I (k a as) P) \<Longrightarrow>
   yields I (case x of [] \<Rightarrow> m | a # as \<Rightarrow> k a as) P"
  by (cases x) simp_all

lemma keeps_bind_yields:
  "keeps I m \<Longrightarrow> yields I m Q \<Longrightarrow> (\<And>x. Q x \<Longrightarrow> keeps I (f x)) \<Longrightarrow> keeps I (bindM m f)"
  unfolding yields_def keeps_def bindM_def by (fastforce split: prod.splits sum.splits)

section \<open>The rows stay typed\<close>

abbreviation typed :: "world \<Rightarrow> bool" where
  "typed \<equiv> db_inv typed_db"

lemma list_all_tbl_upd:
  "list_all P rs \<Longrightarrow> (\<And>r. P r \<Longrightarrow> P (f r)) \<Longrightarrow> list_all P (tbl_upd k i f rs)"
  by (auto simp: list_all_iff tbl_upd_def)

lemma list_all_tbl_del: "list_all P rs \<Longrightarrow> list_all P (tbl_del k i rs)"
  by (simp add: list_all_iff tbl_del_def)

lemma list_all_filter: "list_all P rs \<Longrightarrow> list_all P (filter Q rs)"
  by (simp add: list_all_iff)

lemma typed_upd [keeps_intros]:
  "(\<And>g. typed_gateway g \<Longrightarrow> typed_gateway (f1 g)) \<Longrightarrow> keeps typed (mod_db (upd_gateway i f1))"
  "(\<And>p. typed_peer p \<Longrightarrow> typed_peer (f2 p)) \<Longrightarrow> keeps typed (mod_db (upd_peer i f2))"
  "(\<And>g. typed_group g \<Longrightarrow> typed_group (f3 g)) \<Longrightarrow> keeps typed (mod_db (upd_group i f3))"
  "(\<And>r. typed_worker r \<Longrightarrow> typed_worker (f4 r)) \<Longrightarrow> keeps typed (mod_db (upd_worker i f4))"
  "(\<And>e. typed_enrollment e \<Longrightarrow> typed_enrollment (f5 e)) \<Longrightarrow> keeps typed (mod_db (upd_enrollment i f5))"
  by (rule keeps_mod_db, simp add: typed_db_def list_all_tbl_upd)+

lemma typed_mod_job [keeps_intros]: "keeps typed (mod_job E i f)"
  unfolding mod_job_def by (rule keeps_modM_db) (simp add: typed_db_def db_inv_def)

lemma typed_creates [keeps_intros]:
  "typed_gateway g \<Longrightarrow> keeps typed (gateways_create E g)" "typed_peer p \<Longrightarrow> keeps typed (peers_create E p)"
  "typed_group gr \<Longrightarrow> keeps typed (groups_create E gr)" "typed_worker r \<Longrightarrow> keeps typed (workers_create E r)"
  "keeps typed (jobs_create E j)"
  unfolding gateways_create_def peers_create_def groups_create_def workers_create_def jobs_create_def
  by (intro keeps_intros keeps_modM_db, simp add: typed_db_def db_inv_def typed_gateway_def typed_peer_def
      typed_group_def typed_worker_def)+

lemma typed_deletes [keeps_intros]:
  "keeps typed (peers_delete i)" "keeps typed (release_peer_ip gid ip)"
  unfolding peers_delete_def release_peer_ip_def
  by (rule keeps_mod_db, simp add: typed_db_def list_all_tbl_del)+

lemma typed_groups_delete [keeps_intros]: "keeps typed (groups_delete i)"
proof -
  have "list_all typed_gateway (map (\<lambda>g. if gw_peer_group_id g = Some i then g\<lparr>gw_peer_group_id := None\<rparr> else g) gs)"
    if "list_all typed_gateway gs" for gs
    using that by (auto simp: list_all_iff typed_gateway_def)
  then show ?thesis
    unfolding groups_delete_def by (intro keeps_mod_db) (simp add: typed_db_def list_all_tbl_del)
qed

lemma typed_statuses [keeps_intros]:
  "keeps typed (gateways_update_status E i st msg)" "keeps typed (peers_set_suspended E i b)"
  unfolding gateways_update_status_def peers_set_suspended_def
  by (intro keeps_intros, simp add: typed_gateway_def typed_peer_def)+

lemma typed_alloc_rows [keeps_intros]:
  "keeps typed (mod_db (add_ip_alloc wid ip gid))" "keeps typed (mod_db (add_port_alloc wid p gid))"
  by (rule keeps_mod_db, simp add: typed_db_def add_ip_alloc_def add_port_alloc_def)+

lemma typed_allocators [keeps_intros]:
  "keeps typed (allocate_vm_ip E wk)" "keeps typed (allocate_udp_port E wk gid)" "keeps typed (allocate_peer_ip E g)"
  unfolding allocate_vm_ip_def allocate_udp_port_def allocate_peer_ip_def by (intro keeps_intros)+

section \<open>Lengths of the texts the services make\<close>

lemma length_dropWhile_le: "length (dropWhile P xs) \<le> length xs"
  by (induction xs) auto

lemma fits_strip: "fits n s \<Longrightarrow> fits n (py_strip s)"
proof -
  have "length (py_strip s) \<le> length (py_lstrip s)"
    using length_dropWhile_le [of is_space "rev (py_lstrip s)"] by (simp add: py_strip_def)
  also have "\<dots> \<le> length s" by (simp add: py_lstrip_def length_dropWhile_le)
  finally show "fits n s \<Longrightarrow> fits n (py_strip s)" by (simp add: fits_def)
qed

lemma named_str_or: "on_some (fits n) x \<Longrightarrow> fits n d \<Longrightarrow> fits n (str_or x d)"
  by (simp add: on_some_def str_or_def split: option.splits)

lemma dotted_length:
  "length a \<le> 3 \<Longrightarrow> length b \<le> 3 \<Longrightarrow> length c \<le> 3 \<Longrightarrow> length d \<le> 3 \<Longrightarrow>
   length (a @ ''.'' @ b @ ''.'' @ c @ ''.'' @ d) \<le> 15"
  by (simp add: append_Cons)

lemma octet_length: "n < 256 \<Longrightarrow> length (str_nat n) \<le> 3"
  using length_str_nat_le [of n 3] by simp

lemma first_octet: "a < ip_limit \<Longrightarrow> a div 16777216 < 256"
  using less_mult_imp_div_less [of a 256 16777216] by (simp add: ip_limit_def)

lemma mod_octet: "n mod 256 < (256::nat)"
  by simp

lemma length_format_ipv4: "a < ip_limit \<Longrightarrow> length (format_ipv4 a) \<le> 15"
  unfolding format_ipv4_def
  by (rule dotted_length; rule octet_length; rule mod_octet first_octet; assumption)

lemma length_format_network:
  assumes "wf_network n"
  shows "length (format_network n) \<le> 18"
proof -
  have "net_addr n < ip_limit" and "net_plen n < 100"
    using assms net_size_pos [of n] unfolding wf_network_def by linarith+
  then have "length (format_ipv4 (net_addr n)) \<le> 15" "length (str_nat (net_plen n)) \<le> 2"
    using length_format_ipv4 length_str_nat_le [of _ 2] by simp_all
  then show ?thesis by (simp add: format_network_def append_Cons)
qed

lemma infer_lan_subnet_fits: "infer_lan_subnet s n = Inr subnet \<Longrightarrow> fits 18 subnet"
  by (auto simp: infer_lan_subnet_def bindR_Inr_iff fits_def dest!: ip_network_wf length_format_network)

lemma default_lan_gateway_fits:
  assumes "default_lan_gateway subnet = Inr gw"
  shows "fits 45 gw"
proof -
  obtain net c where net: "ip_network True subnet = Inr net" and c: "ip_of_int (net_addr net + 254) = Inr c"
    and gw: "gw = format_ipv4 c \<or> (hosts net \<noteq> [] \<and> gw = format_ipv4 (last (hosts net)))"
    using assms by (auto simp: default_lan_gateway_def bindR_Inr_iff split: if_splits)
  have "c < ip_limit" using c by (auto simp: ip_of_int_def split: if_splits)
  moreover have "last (hosts net) < ip_limit" if "hosts net \<noteq> []"
    using hosts_in_net [OF ip_network_wf [OF net] last_in_set [OF that]] wf_network_broadcast [OF ip_network_wf [OF net]]
    by (simp add: in_net_def)
  ultimately show ?thesis using gw length_format_ipv4 by (fastforce simp: fits_def)
qed

lemma next_gateway_name_yields [yields_intros]: "yields typed next_gateway_name (named 128)"
proof -
  have "named 128 n" if "next_sequential_name GATEWAY_PREFIX taken SEQUENTIAL_WIDTH = Inr n" for taken n
  proof -
    have "seq_name_loop GATEWAY_PREFIX SEQUENTIAL_WIDTH (\<lambda>n. n \<in> taken) 0 (10 ^ SEQUENTIAL_WIDTH) = Some n"
      using that by (simp add: next_sequential_name_Inr)
    then obtain i where "i < 1000" "n = format_sequential_name GATEWAY_PREFIX i 3"
      using seq_name.alloc_cand [of "(GATEWAY_PREFIX, SEQUENTIAL_WIDTH)" "\<lambda>n. n \<in> taken" n]
      by (auto simp: seq_names_def SEQUENTIAL_WIDTH_def)
    then show ?thesis
      using length_zero_pad [of i 3]
      by (simp add: named_def fits_def format_sequential_name_def GATEWAY_PREFIX_def append_Cons)
  qed
  then show ?thesis unfolding next_gateway_name_def by (intro yields_intros keeps_intros)
qed

section \<open>The services\<close>

lemma keeps_effective_status [keeps_intros]: "stable J \<Longrightarrow> keeps J (effective_status E r)"
  unfolding effective_status_def by (intro keeps_intros)

lemma keeps_list_online [keeps_intros]: "stable J \<Longrightarrow> keeps J (list_online_workers E)"
  unfolding list_online_workers_def by (intro keeps_intros)

lemma keeps_resolve_for_gateway [keeps_intros]: "stable J \<Longrightarrow> keeps J (resolve_worker_for_gateway E i)"
  unfolding resolve_worker_for_gateway_def by (intro keeps_intros)

lemma list_online_yields: "yields typed (list_online_workers E) (list_all typed_worker)"
proof -
  have "list_all typed_worker online" if "typed w" "list_online_workers E w = (Inr online, w')" for w online w'
    using list_online_returns [OF that(2)] that(1) by (auto simp: list_all_iff db_inv_def typed_db_def)
  then show ?thesis by (simp add: yields_def)
qed

lemma get_worker_yields: "yields typed (get_worker i) typed_worker"
  unfolding get_worker_def
  by (rule yields_bindM [where Q = "\<lambda>r. on_some typed_worker r"])
    (intro keeps_intros yields_intros, auto simp: typed_db_def list_all_iff on_some_def
       dest!: workers_get_by_id_SomeD split: option.splits intro!: yields_intros)

lemma resolve_worker_yields: "yields typed (resolve_worker_for_gateway E i) typed_worker"
proof -
  have chosen: "yields typed (case online of [] \<Rightarrow> raise e1 | [r] \<Rightarrow> ret r | _ \<Rightarrow> raise e2) typed_worker"
    if "list_all typed_worker online" for online and e1 e2 :: exn
    using that by (cases online; cases "tl online") (auto intro: yields_intros)
  have checked: "yields typed (if c1 then raise e1 else if c2 then raise e2
       else bindM (effective_status E r) (\<lambda>st. if st \<noteq> WOnline then raise e3 else ret r)) typed_worker"
    if "typed_worker r" for r c1 c2 and e1 e2 e3 :: exn
    using that by (intro yields_intros keeps_intros)
  show ?thesis
    unfolding resolve_worker_for_gateway_def
    by (rule yields_bindM [OF _ list_online_yields])
      (intro keeps_intros | rule yields_option yields_bindM [OF keeps_get_worker get_worker_yields] checked chosen
       | assumption)+
qed

lemma gateway_port_yields:
  assumes "typed_worker wk" and "on_some is_port p"
  shows "yields typed (gateway_port E wk p) is_port"
proof -
  have "is_port q" if "allocate_udp_port E wk None w = (Inr q, w')" for q w w'
    using allocate_udp_port_returns [OF that] assms(1) by (auto simp: typed_worker_def is_port_def)
  then have "yields typed (allocate_udp_port E wk None) is_port" by (auto simp: yields_def)
  then show ?thesis
    unfolding gateway_port_def using assms(2) by (auto simp: on_some_def intro!: yields_intros split: option.splits)
qed

lemma keeps_gateway_port [keeps_intros]: "keeps typed (gateway_port E wk p)"
  unfolding gateway_port_def by (intro keeps_intros)

definition typed_create :: "create_gateway_request \<Rightarrow> bool" where
  "typed_create rq \<longleftrightarrow> on_some (fits 128) (cg_gateway_name rq) \<and> on_some is_port (cg_udp_port rq)"

lemma typed_record_gateway: "typed_gateway row \<Longrightarrow> keeps typed (record_gateway E row token)"
  unfolding record_gateway_def by (intro keeps_intros) (simp_all add: typed_gateway_def)

lemma gateway_name_yields:
  "on_some (fits 128) x \<Longrightarrow> yields typed (if str_true x then ret (the x) else next_gateway_name) (named 128)"
  by (intro yields_intros) (auto simp: on_some_def named_def split: option.splits)

lemma keeps_next_gateway_name [keeps_intros]: "keeps J next_gateway_name"
  unfolding next_gateway_name_def by (intro keeps_intros)

lemma typed_create_gateway:
  assumes "typed_create rq"
  shows "keeps typed (create_gateway E rq)"
proof -
  have row: "typed_gateway (new_gateway_row E rq wid name ip port pub k1 k2 t1 t2)"
    if "named 128 name" "is_port port" for wid name ip port pub k1 k2 t1 t2
    using that by (simp add: typed_gateway_def new_gateway_row_def)
  have name: "on_some (fits 128) (cg_gateway_name rq)" and port: "on_some is_port (cg_udp_port rq)"
    using assms by (simp_all add: typed_create_def)
  show ?thesis
    unfolding create_gateway_def
    by (rule keeps_bind_yields [OF _ gateway_name_yields [OF name]]
      | rule keeps_bind_yields [OF _ resolve_worker_yields]
      | rule keeps_bind_yields [OF _ gateway_port_yields [OF _ port]]
      | rule typed_record_gateway row keeps_intros | assumption)+
qed

lemma typed_request_delete: "keeps typed (request_delete_gateway E gid)"
  unfolding request_delete_gateway_def by (intro keeps_intros)

lemma keeps_rename_of_gateway [keeps_intros]: "stable J \<Longrightarrow> keeps J (rename_node_of_gateway E g n)"
  unfolding rename_node_of_gateway_def by (intro keeps_intros)

lemma display_name_yields: "yields I (liftE (validate_tailscale_display_name n)) (named 128)"
  by (rule yields_basic) (auto simp: validate_Inr display_label_def named_def fits_def)

lemma typed_rename: "keeps typed (rename_tailscale_display_name E gid n)"
  unfolding rename_tailscale_display_name_def
  by (rule keeps_bind_yields [OF _ display_name_yields] | rule keeps_intros typed_upd | simp add: typed_gateway_def)+

definition typed_group_request :: "create_peer_group_request \<Rightarrow> bool" where
  "typed_group_request rq \<longleftrightarrow>
     fits 128 (cp_name rq) \<and> fits 45 (cp_lan_start_ip rq) \<and> on_some (fits 18) (cp_lan_subnet rq) \<and>
     on_some (fits 45) (cp_lan_gateway rq) \<and> on_some (fits 64) (cp_parent_iface rq)"

lemma or_inferred_yields:
  assumes "on_some P x" and "\<And>y. r = Inr y \<Longrightarrow> P y"
  shows "yields I (if str_true x then ret (the x) else liftE r) P"
  using assms by (intro yields_intros) (auto simp: on_some_def split: option.splits)

lemma typed_group_row:
  assumes "typed_group_request rq" and "n \<noteq> []" and "fits 128 n" and "fits 18 subnet" and "fits 45 gw"
  shows "typed_group (group_row rq n wid subnet gw)"
  using assms
  by (auto simp: typed_group_def typed_group_request_def group_row_def named_def on_some_def fits_strip str_true_def
      split: option.splits)

lemma typed_create_group:
  assumes rq: "typed_group_request rq"
  shows "keeps typed (create_group E rq)"
proof -
  let ?n = "py_strip (cp_name rq)"
  have n: "fits 128 ?n" using rq by (simp add: typed_group_request_def fits_strip)
  have subnet: "yields I (if str_true (cp_lan_subnet rq) then ret (the (cp_lan_subnet rq))
      else liftE (infer_lan_subnet (cp_lan_start_ip rq) 24)) (fits 18)" for I
    using rq infer_lan_subnet_fits by (intro or_inferred_yields) (simp_all add: typed_group_request_def)
  have gw: "yields I (if str_true (cp_lan_gateway rq) then ret (the (cp_lan_gateway rq))
      else liftE (default_lan_gateway subnet)) (fits 45)" for I subnet
    using rq default_lan_gateway_fits by (intro or_inferred_yields) (simp_all add: typed_group_request_def)
  have row: "?n \<noteq> [] \<Longrightarrow> fits 18 s \<Longrightarrow> fits 45 g \<Longrightarrow> keeps typed (groups_create E (group_row rq ?n wid s g))" for wid s g
    by (intro keeps_intros typed_group_row rq n)
  show ?thesis
    unfolding create_group_def Let_def
    by (rule keeps_bind_yields [OF _ subnet] | rule keeps_bind_yields [OF _ gw] | rule row | rule keeps_intros
       | assumption)+
qed

lemma keeps_allocate_lan_ip [keeps_intros]: "keeps J (allocate_lan_ip g)"
  unfolding allocate_lan_ip_def by (intro keeps_intros)

lemma keeps_remaining_capacity [keeps_intros]: "keeps J (remaining_lan_capacity g)"
  unfolding remaining_lan_capacity_def by (intro keeps_intros)

lemma typed_create_gateways: "keeps typed (create_gateways E gid n)"
proof -
  have "typed_create (group_gateway_request g ip slot)" for g ip slot
    by (simp add: typed_create_def group_gateway_request_def on_some_def)
  then have loop: "keeps typed (create_gateways_loop E g k rs)" for g k rs
    by (induction k arbitrary: rs) (auto intro!: keeps_intros typed_create_gateway simp del: keeps_Pair)
  have group: "keeps typed (get_group i)" for i unfolding get_group_def by (intro keeps_intros)
  show ?thesis unfolding create_gateways_def by (intro keeps_intros loop group)
qed

lemma typed_delete_group: "keeps typed (delete_group E gid)"
  unfolding delete_group_def get_group_def by (intro keeps_intros)

lemma typed_create_peer:
  assumes "named 128 n"
  shows "keeps typed (create_peer E gid n)"
proof -
  have "typed_peer \<lparr>peer_id = i, peer_gateway_id = g, peer_name = n, peer_public_key = k, peer_private_key_enc = e,
      peer_allowed_ip = a, peer_suspended = b, peer_created_at = t\<rparr>" for i g k e a b t
    using assms by (simp add: typed_peer_def)
  then show ?thesis unfolding create_peer_def by (intro keeps_intros)
qed

lemma typed_peer_ops:
  "keeps typed (delete_peer E pid)" "keeps typed (suspend_peer E pid)" "keeps typed (resume_peer E pid)"
  "keeps typed (regenerate_peer_keys E pid)"
  unfolding delete_peer_def suspend_peer_def resume_peer_def regenerate_peer_keys_def
  by (intro keeps_intros, (simp add: typed_peer_def)?)+

definition typed_registration :: "register_worker_args \<Rightarrow> bool" where
  "typed_registration a \<longleftrightarrow>
     named 64 (ra_name a) \<and> on_some (fits 128) (ra_display_name a) \<and> fits 45 (ra_public_ip a) \<and>
     on_some (fits 128) (ra_tailscale_hostname a) \<and> on_some (fits 64) (ra_incus_remote a) \<and>
     on_some (fits 512) (ra_incus_url a) \<and> on_some is_port (ra_port_pool_start a) \<and>
     on_some is_port (ra_port_pool_end a) \<and> on_some (fits 18) (ra_ip_pool_network a) \<and>
     on_some (fits 45) (ra_ip_pool_start a)"

lemma port_or: "on_some is_port x \<Longrightarrow> is_port d \<Longrightarrow> is_port (int_or x d)"
  by (auto simp: on_some_def int_or_def split: option.splits)

lemma typed_register:
  assumes "typed_registration a" and "typed_settings E"
  shows "keeps typed (register_worker E a)"
proof -
  have "fits 128 (ra_name a)" using assms(1) by (simp add: typed_registration_def named_def fits_def)
  then show ?thesis
    unfolding register_worker_def using assms
    by (intro keeps_intros)
      (simp_all add: typed_worker_def typed_registration_def typed_settings_def blank_worker_def named_str_or port_or on_some_def [of _ None])
qed

definition typed_enrolment_request :: "complete_enrollment_request \<Rightarrow> bool" where
  "typed_enrolment_request b \<longleftrightarrow>
     fits 128 (ce_tailscale_hostname b) \<and> fits 45 (ce_tailscale_ip b) \<and> fits 45 (ce_public_ip b)"

lemma typed_enrolled_worker:
  assumes "typed_enrollment e" and "typed_enrolment_request b" and "typed_settings E" and "fits 512 url"
  shows "typed_worker (enrolled_worker E e b url paths token)"
  using assms fits_strip [of 45 "ce_public_ip b"] fits_strip [of 128 "ce_tailscale_hostname b"]
  by (auto simp: typed_worker_def typed_enrollment_def typed_enrolment_request_def typed_settings_def
      enrolled_worker_def with_pools_def blank_worker_def on_some_def named_def or_else_def)

lemma typed_complete:
  assumes "typed_enrolment_request b" and "typed_settings E"
  shows "keeps typed (complete_enrollment E token b)"
proof -
  have url: "fits 512 (''https://'' @ py_strip (ce_tailscale_ip b) @ '':8443'')"
    using assms(1) fits_strip [of 45 "ce_tailscale_ip b"]
    by (simp add: typed_enrolment_request_def fits_def append_Cons)
  have row: "keeps typed (workers_create E (enrolled_worker E e b (''https://'' @ py_strip (ce_tailscale_ip b) @ '':8443'') p t))"
    if "on_some typed_enrollment found" "found = Some e" for found e p t
    using that by (intro keeps_intros typed_enrolled_worker assms url) (simp add: on_some_def)
  have found: "yields typed (get_db (enrollments_get_by_token_hash h)) (on_some typed_enrollment)" for h
    by (rule yields_get_db)
      (auto simp: on_some_def enrollments_get_by_token_hash_def typed_db_def list_all_iff dest: find_Some_in split: option.split)
  show ?thesis
    unfolding complete_enrollment_def Let_def
    by (rule keeps_bind_yields [OF _ found] | rule row | rule keeps_intros typed_upd | assumption
       | simp add: typed_enrollment_def)+
qed

definition typed_report :: "worker_heartbeat_request \<Rightarrow> bool" where
  "typed_report b \<longleftrightarrow>
     is_percent (wh_cpu_percent b) \<and> 0 \<le> wh_memory_total_mb b \<and> 0 \<le> wh_memory_used_mb b \<and>
     is_percent (wh_memory_percent b) \<and> 0 \<le> wh_network_rx_bytes_per_sec b \<and> 0 \<le> wh_network_tx_bytes_per_sec b"

lemma typed_heartbeat: "typed_report b \<Longrightarrow> keeps typed (record_heartbeat E i (to_host_stats b))"
  unfolding record_heartbeat_def workers_update_stats_def
  by (intro keeps_intros) (simp_all add: typed_worker_def to_host_stats_def on_some_def typed_report_def)

section \<open>What validation accepts\<close>

lemma required_SomeD: "required v d n = Some x \<Longrightarrow> \<exists>j. v j = Some x"
  by (auto simp: required_def split: option.splits)

lemma optional_SomeD: "optional v d n = Some y \<Longrightarrow> on_some (\<lambda>x. \<exists>j. v j = Some x) y"
  by (auto simp: optional_def on_some_def split: option.splits json.splits)

lemma text_within_SomeD: "text_within lo hi j = Some s \<Longrightarrow> lo \<le> length s \<and> length s \<le> hi"
  by (cases j) (auto split: if_splits)

lemma where_holds_SomeD: "where_holds P v j = Some x \<Longrightarrow> P x"
  by (auto simp: where_holds_def split: option.splits if_splits)

lemma on_some_mono: "on_some P x \<Longrightarrow> (\<And>y. P y \<Longrightarrow> Q y) \<Longrightarrow> on_some Q x"
  by (auto simp: on_some_def split: option.splits)

lemma required_text: "required (text_within lo hi) d n = Some s \<Longrightarrow> lo \<le> length s \<and> fits hi s"
  by (auto simp: fits_def dest!: required_SomeD text_within_SomeD)

lemma optional_text: "optional (text_within lo hi) d n = Some s \<Longrightarrow> on_some (fits hi) s"
  by (drule optional_SomeD, erule on_some_mono) (auto simp: fits_def dest: text_within_SomeD)

lemma optional_port: "optional (port_value V) d n = Some p \<Longrightarrow> on_some is_port p"
  by (drule optional_SomeD, erule on_some_mono) (auto dest: where_holds_SomeD)

lemma required_where: "required (where_holds P v) d n = Some x \<Longrightarrow> P x"
  by (auto dest!: required_SomeD where_holds_SomeD)

lemmas field_facts = required_text optional_text optional_port required_where

lemma read_gateway_update_typed:
  "read_gateway_update d = Some b \<Longrightarrow> on_some (fits 128) (gu_tailscale_hostname b)"
  by (auto simp: read_gateway_update_def dest: field_facts)

lemma read_gateway_create_typed:
  "read_gateway_create V d = Some b \<Longrightarrow> on_some (fits 128) (gc_gateway_name b) \<and> on_some is_port (gc_udp_port b)"
  by (auto simp: read_gateway_create_def bind_eq_Some_conv dest: field_facts)

lemma read_worker_register_typed: "read_worker_register V d = Some b \<Longrightarrow> typed_registration b"
  by (auto simp: read_worker_register_def bind_eq_Some_conv typed_registration_def named_def dest: field_facts)

lemma read_worker_enroll_typed: "read_worker_enroll d = Some b \<Longrightarrow> typed_enrolment_request b"
  by (auto simp: read_worker_enroll_def bind_eq_Some_conv typed_enrolment_request_def dest: field_facts)

lemma read_worker_heartbeat_typed: "read_worker_heartbeat V d = Some b \<Longrightarrow> typed_report b"
  by (auto simp: read_worker_heartbeat_def bind_eq_Some_conv typed_report_def is_percent_def percent_float_def
      nonneg_int_def nonneg_float_def dest!: required_where)

lemma read_peer_group_create_typed:
  "read_peer_group_create V d = Some b \<Longrightarrow>
   typed_group_request \<lparr>cp_name = gg_name b, cp_worker_id = gg_worker_id b, cp_lan_start_ip = gg_lan_start_ip b,
     cp_lan_subnet = gg_lan_subnet b, cp_lan_gateway = gg_lan_gateway b, cp_parent_iface = gg_parent_iface b\<rparr>"
  by (auto simp: read_peer_group_create_def bind_eq_Some_conv typed_group_request_def dest: field_facts)

lemma read_peer_create_typed: "read_peer_create d = Some n \<Longrightarrow> named 128 n"
  by (auto simp: read_peer_create_def named_def dest: field_facts)

section \<open>Every request\<close>

lemma typed_schedule [keeps_intros]:
  "keeps typed (schedule_provisioning_after_request gid jid)" "keeps typed (schedule_deletion_after_request gid jid)"
  by (simp_all add: keeps_def schedule_provisioning_after_request_def schedule_deletion_after_request_def
      start_provisioning_def start_deletion_def db_inv_def)

lemma keeps_answers [keeps_intros]:
  "keeps J (created_answer res)" "keeps J (peer_created_answer sc pres)" "keeps J (peer_answer pid)"
  "keeps J (registered_answer reg)"
  unfolding created_answer_def peer_created_answer_def peer_answer_def registered_answer_def
  by (intro keeps_intros)+

lemma typed_schedule_created [keeps_intros]: "keeps typed (schedule_created rs)"
  by (induction rs) (auto intro!: keeps_intros simp del: keeps_Pair)

lemma typed_gateway_routes:
  "on_some (fits 128) (gc_gateway_name b) \<and> on_some is_port (gc_udp_port b) \<Longrightarrow> keeps typed (route_create_gateway E b)"
  "keeps typed (route_delete_gateway E gid)" "keeps typed (route_update_gateway E gid u)"
  unfolding route_create_gateway_def route_delete_gateway_def route_update_gateway_def
  by (intro keeps_intros typed_create_gateway typed_request_delete typed_rename; simp add: typed_create_def)+

lemma typed_group_routes:
  "typed_group_request \<lparr>cp_name = gg_name b, cp_worker_id = gg_worker_id b, cp_lan_start_ip = gg_lan_start_ip b,
     cp_lan_subnet = gg_lan_subnet b, cp_lan_gateway = gg_lan_gateway b, cp_parent_iface = gg_parent_iface b\<rparr> \<Longrightarrow>
   keeps typed (route_create_group E b)"
  "keeps typed (route_group_gateways E i n)" "keeps typed (route_delete_group E i)"
  unfolding route_create_group_def route_group_gateways_def route_delete_group_def
  by (intro keeps_intros typed_create_group typed_create_gateways typed_delete_group; assumption?)+

lemma typed_peer_routes:
  "named 128 n \<Longrightarrow> keeps typed (route_create_peer E gid n)" "keeps typed (route_delete_peer E pid)"
  "keeps typed (route_regenerate_peer E pid)" "keeps typed (route_suspend_peer E pid)"
  "keeps typed (route_resume_peer E pid)"
  unfolding route_create_peer_def route_delete_peer_def route_regenerate_peer_def route_suspend_peer_def
    route_resume_peer_def
  by (intro keeps_intros typed_create_peer typed_peer_ops; assumption?)+

lemma keeps_authenticate [keeps_intros]: "keeps J (authenticate_worker E i t)"
  unfolding authenticate_worker_def by (intro keeps_intros)

lemma typed_worker_routes:
  "typed_registration a \<Longrightarrow> typed_settings E \<Longrightarrow> keeps typed (route_register_worker E a)"
  "typed_enrolment_request b \<Longrightarrow> typed_settings E \<Longrightarrow> keeps typed (complete_worker_enrollment E t b)"
  "typed_report h \<Longrightarrow> keeps typed (worker_heartbeat E i au x h)"
  unfolding route_register_worker_def complete_worker_enrollment_def worker_heartbeat_def Let_def
  by (intro keeps_intros typed_register typed_complete typed_heartbeat; assumption?)+

lemma read_body_SomeD: "read_body read b = Some x \<Longrightarrow> \<exists>d. read d = Some x"
  by (auto simp: read_body_def split: payload.splits json.splits)

lemmas read_facts = read_gateway_create_typed read_worker_register_typed read_worker_enroll_typed
  read_worker_heartbeat_typed read_peer_group_create_typed read_peer_create_typed

lemma typed_run_route:
  assumes "typed_settings E"
  shows "keeps typed (run_orch_route E V rq r ps)"
  unfolding run_orch_route_def Let_def
  by (cases r; simp only: orch_route.simps; intro keeps_validated keeps_reading_routes [OF stable_db_inv]
      typed_gateway_routes typed_group_routes typed_peer_routes typed_worker_routes assms)
    (auto dest!: read_body_SomeD dest: read_facts)



end
