(* ===== verification/HostStats.thy ===== *)
theory HostStats
  imports ApiTypes AgentHost
begin

declare append_Cons [simp del]

text \<open>
  The load figures of a worker (\<open>orchestrator/services/host_stats.py\<close>) and the program that posts them to the
  control plane (\<open>deploy/worker-heartbeat.py\<close>). The files of \<open>/proc\<close> are texts of the outside world; a float is
  the rational number it stands for, so sums and quotients are exact.
\<close>

section \<open>Reading /proc\<close>

text \<open>The lines a text file yields: there is none after the last line feed.\<close>

definition file_lines :: "str \<Rightarrow> str list" where
  "file_lines s = (let ls = py_split (CHR 0x0A) s in if last ls = [] then butlast ls else ls)"

definition split_once :: "char \<Rightarrow> str \<Rightarrow> (str \<times> str) option" where
  "split_once c s = (let a = takeWhile (\<lambda>x. x \<noteq> c) s in if a = s then None else Some (a, drop (length a + 1) s))"

definition item :: "'a list \<Rightarrow> nat \<Rightarrow> 'a result" where
  "item xs n = (if n < length xs then Inr (xs ! n) else Inl (IndexError ''list index out of range''))"

definition unpack_once :: "str \<Rightarrow> (str \<times> str) result" where
  "unpack_once line =
     (case split_once (CHR '':'') line of
        None \<Rightarrow> Inl (ValueError ''not enough values to unpack (expected 2, got 1)'')
      | Some p \<Rightarrow> Inr p)"

fun ints_of :: "str list \<Rightarrow> int list result" where
  "ints_of [] = Inr []"
| "ints_of (w # ws) = bindR (py_int_of w) (\<lambda>n. bindR (ints_of ws) (\<lambda>ns. Inr (n # ns)))"

definition cpu_times :: "str \<Rightarrow> (int \<times> int) result" where
  "cpu_times text =
     (let line = (case file_lines text of [] \<Rightarrow> [] | l # ls \<Rightarrow> l) in
      bindR (ints_of (tl (py_words line))) (\<lambda>vals.
      bindR (item vals 3) (\<lambda>idle.
      Inr (sum_list vals, idle + (if length vals > 4 then vals ! 4 else 0)))))"

fun mem_lines :: "(str \<rightharpoonup> int) \<Rightarrow> str list \<Rightarrow> (str \<rightharpoonup> int) result" where
  "mem_lines data [] = Inr data"
| "mem_lines data (line # ls) =
     bindR (unpack_once line) (\<lambda>(key, rest).
     bindR (item (py_words rest) 0) (\<lambda>w.
     bindR (py_int_of w) (\<lambda>n. mem_lines (data(key \<mapsto> n)) ls)))"

definition or_zero :: "int option \<Rightarrow> int" where
  "or_zero x = (case x of None \<Rightarrow> 0 | Some n \<Rightarrow> n)"

definition used_kb :: "(str \<rightharpoonup> int) \<Rightarrow> int \<Rightarrow> int" where
  "used_kb data total_kb =
     (if data ''MemFree'' \<noteq> None \<and> data ''Cached'' \<noteq> None
      then total_kb - or_zero (data ''MemFree'') - or_zero (data ''Buffers'') - or_zero (data ''Cached'') -
           or_zero (data ''SReclaimable'')
      else case data ''AnonPages'' of
             Some anon \<Rightarrow> anon + or_zero (data ''Shmem'')
           | None \<Rightarrow> total_kb - (case data ''MemAvailable'' of Some n \<Rightarrow> n | None \<Rightarrow> or_zero (data ''MemFree'')))"

definition mem_of :: "str \<Rightarrow> (int \<times> int) result" where
  "mem_of text =
     bindR (mem_lines Map.empty (file_lines text)) (\<lambda>data.
     case data ''MemTotal'' of
       None \<Rightarrow> Inl (KeyError ''MemTotal'')
     | Some total_kb \<Rightarrow>
         let total_mb = total_kb div 1024 in
         Inr (total_mb, max 0 (min (used_kb data total_kb div 1024) total_mb)))"

text \<open>The busiest interface so far: its name, its two counters, and their sum.\<close>

fun net_lines :: "str \<times> int \<times> int \<Rightarrow> int \<Rightarrow> str list \<Rightarrow> (str \<times> int \<times> int) result" where
  "net_lines best best_total [] = Inr best"
| "net_lines best best_total (line # ls) =
     (case split_once (CHR '':'') line of
        None \<Rightarrow> net_lines best best_total ls
      | Some (name, rest) \<Rightarrow>
          if py_strip name = ''lo'' then net_lines best best_total ls
          else
            bindR (item (py_words rest) 0) (\<lambda>a.
            bindR (py_int_of a) (\<lambda>rx.
            bindR (item (py_words rest) 8) (\<lambda>b.
            bindR (py_int_of b) (\<lambda>tx.
            if rx + tx \<ge> best_total then net_lines (py_strip name, rx, tx) (rx + tx) ls
            else net_lines best best_total ls)))))"

definition net_of :: "str \<Rightarrow> (str \<times> int \<times> int) result" where
  "net_of text = net_lines (''eth0'', 0, 0) (- 1) (drop 2 (file_lines text))"

section \<open>The figures\<close>

text \<open>\<open>round(x, n)\<close>: to the nearest, a tie to the even neighbour.\<close>

definition round_even :: "rat \<Rightarrow> int" where
  "round_even q =
     (let f = \<lfloor>q\<rfloor>; d = q - of_int f in
      if d < 1 / 2 then f else if d > 1 / 2 then f + 1 else if even f then f else f + 1)"

definition py_round :: "nat \<Rightarrow> rat \<Rightarrow> rat" where
  "py_round n x = of_int (round_even (x * 10 ^ n)) / 10 ^ n"

text \<open>The module globals \<open>_prev\<close> and \<open>_prev_ts\<close>; times are in microseconds.\<close>

record counters =
  ct_cpu_total :: int
  ct_cpu_idle :: int
  ct_rx :: int
  ct_tx :: int

record stats_state =
  ss_prev :: "counters option"
  ss_prev_ts :: int

definition fresh_stats :: stats_state where
  "fresh_stats = \<lparr>ss_prev = None, ss_prev_ts = 0\<rparr>"

definition rate :: "int \<Rightarrow> int \<Rightarrow> int \<Rightarrow> rat" where
  "rate now_value prev_value elapsed = max 0 (of_int (now_value - prev_value) / (of_int elapsed / of_int second))"

definition busy_percent :: "counters \<Rightarrow> counters \<Rightarrow> rat" where
  "busy_percent p c =
     (let dtotal = ct_cpu_total c - ct_cpu_total p; didle = ct_cpu_idle c - ct_cpu_idle p in
      if dtotal > 0 then max 0 (min 100 ((1 - of_int didle / of_int dtotal) * 100)) else 0)"

definition stats_of :: "stats_state \<Rightarrow> int \<Rightarrow> counters \<Rightarrow> int \<Rightarrow> int \<Rightarrow> str \<Rightarrow> rat list \<Rightarrow> host_stats" where
  "stats_of st t c total_mb used_mb iface load =
     (let elapsed = t - ss_prev_ts st;
          before = (if t > ss_prev_ts st then ss_prev st else None);
          cpu = (case before of None \<Rightarrow> 0 | Some p \<Rightarrow> busy_percent p c);
          rx = (case before of None \<Rightarrow> 0 | Some p \<Rightarrow> rate (ct_rx c) (ct_rx p) elapsed);
          tx = (case before of None \<Rightarrow> 0 | Some p \<Rightarrow> rate (ct_tx c) (ct_tx p) elapsed);
          mem = (if total_mb \<noteq> 0 then of_int used_mb / of_int total_mb * 100 else 0)
      in \<lparr>hs_cpu_percent = py_round 1 cpu, hs_memory_total_mb = total_mb, hs_memory_used_mb = used_mb,
          hs_memory_percent = py_round 1 mem, hs_network_interface = iface,
          hs_network_rx_bytes_per_sec = py_round 0 rx, hs_network_tx_bytes_per_sec = py_round 0 tx,
          hs_load_avg = map (py_round 2) load\<rparr>)"

text \<open>\<open>load\<close> is what \<open>os.getloadavg()\<close> gives.\<close>

definition collect_host_stats :: "env \<Rightarrow> rat list \<Rightarrow> stats_state \<Rightarrow> (host_stats \<times> stats_state) io" where
  "collect_host_stats E load st =
     bindM (now E) (\<lambda>t.
     bindM (read_text E ''/proc/stat'') (\<lambda>stat.
     bindM (liftE (cpu_times stat)) (\<lambda>(cpu_total, cpu_idle).
     bindM (read_text E ''/proc/meminfo'') (\<lambda>meminfo.
     bindM (liftE (mem_of meminfo)) (\<lambda>(total_mb, used_mb).
     bindM (read_text E ''/proc/net/dev'') (\<lambda>net.
     bindM (liftE (net_of net)) (\<lambda>(iface, rx, tx).
     let c = \<lparr>ct_cpu_total = cpu_total, ct_cpu_idle = cpu_idle, ct_rx = rx, ct_tx = tx\<rparr> in
     ret (stats_of st t c total_mb used_mb iface load, \<lparr>ss_prev = Some c, ss_prev_ts = t\<rparr>))))))))"

section \<open>The heartbeat program\<close>

fun env_lines :: "(str \<rightharpoonup> str) \<Rightarrow> str list \<Rightarrow> (str \<rightharpoonup> str)" where
  "env_lines data [] = data"
| "env_lines data (l # ls) =
     (let line = py_strip l in
      if line = [] \<or> py_startswith line ''#'' then env_lines data ls
      else case split_once (CHR ''='') line of
             None \<Rightarrow> env_lines data ls
           | Some (key, value) \<Rightarrow> env_lines (data(py_strip key \<mapsto> py_strip value)) ls)"

definition load_env :: "env \<Rightarrow> str \<Rightarrow> (str \<rightharpoonup> str) io" where
  "load_env E path =
     bindM (is_file E path) (\<lambda>there.
     if \<not> there then ret Map.empty
     else bindM (read_text E path) (\<lambda>text. ret (env_lines Map.empty (py_splitlines text))))"

text \<open>\<open>float_text\<close> is how \<open>json.dumps\<close> writes a float.\<close>

definition stats_payload :: "(rat \<Rightarrow> str) \<Rightarrow> host_stats \<Rightarrow> jdict" where
  "stats_payload float_text s =
     [(''cpu_percent'', JFloat (float_text (hs_cpu_percent s))),
      (''memory_total_mb'', JInt (hs_memory_total_mb s)),
      (''memory_used_mb'', JInt (hs_memory_used_mb s)),
      (''memory_percent'', JFloat (float_text (hs_memory_percent s))),
      (''network_rx_bytes_per_sec'', JFloat (float_text (hs_network_rx_bytes_per_sec s))),
      (''network_tx_bytes_per_sec'', JFloat (float_text (hs_network_tx_bytes_per_sec s)))]"

definition heartbeat_url :: "str \<Rightarrow> str \<Rightarrow> str" where
  "heartbeat_url api_url worker_id =
     py_rstrip_char (CHR ''/'') api_url @ ''/workers/'' @ worker_id @ ''/heartbeat''"

definition heartbeat_headers :: "str \<Rightarrow> (str \<times> str) list" where
  "heartbeat_headers token = [(''Content-Type'', ''application/json''), (''Authorization'', ''Bearer '' @ token)]"

text \<open>\<open>urlopen\<close> raises an \<open>HTTPError\<close> for the answers from 400 on.\<close>

definition post_heartbeat :: "env \<Rightarrow> str \<Rightarrow> str \<Rightarrow> jdict \<Rightarrow> unit io" where
  "post_heartbeat E api_url worker_id payload =
     bindM (http_request E ''POST'' (heartbeat_url api_url worker_id) (Some (JObj payload))) (\<lambda>(sc, text).
     if sc \<ge> 400 then raise (HTTPStatusError sc text)
     else if sc \<notin> {200, 204} then raise (RuntimeError (''heartbeat HTTP '' @ str_nat sc))
     else ret ())"

text \<open>\<open>except (urllib.error.URLError, OSError, RuntimeError)\<close>.\<close>

fun is_network_error :: "exn \<Rightarrow> bool" where
  "is_network_error (HTTPStatusError n m) = True"
| "is_network_error (TransportError m) = True"
| "is_network_error (OSError m) = True"
| "is_network_error e = is_RuntimeError e"

record beat =
  bt_api_url :: str
  bt_worker_id :: str
  bt_interval :: int

text \<open>\<open>installed\<close>: whether the directory of the application is there.\<close>

definition collect_stats :: "env \<Rightarrow> bool \<Rightarrow> rat list \<Rightarrow> stats_state \<Rightarrow> (host_stats \<times> stats_state) io" where
  "collect_stats E installed load st =
     (if installed then collect_host_stats E load st
      else raise (RuntimeError ''APP_DIR orchestrator not found - copy repo to /opt/deeporc''))"

definition heartbeat_round ::
  "env \<Rightarrow> bool \<Rightarrow> (rat \<Rightarrow> str) \<Rightarrow> rat list \<Rightarrow> beat \<Rightarrow> stats_state \<Rightarrow> stats_state io" where
  "heartbeat_round E installed float_text load b st =
     bindM (catchM (bindM (collect_stats E installed load st) (\<lambda>(s, st').
                    bindM (catchM (thenM (post_heartbeat E (bt_api_url b) (bt_worker_id b) (stats_payload float_text s))
                                   (ret st'))
                      (\<lambda>e. if is_network_error e then ret st' else raise e)) ret))
              (\<lambda>e. if is_network_error e then ret st else raise e)) (\<lambda>st'.
     thenM (sleep (bt_interval b * second)) (ret st'))"

text \<open>
  \<open>main\<close>: the exit code 1 without its three settings, or \<open>while True\<close>, of which \<open>n\<close> rounds are run; \<open>None\<close>
  stands for a loop still running.
\<close>

fun heartbeat_rounds ::
  "env \<Rightarrow> bool \<Rightarrow> (rat \<Rightarrow> str) \<Rightarrow> rat list \<Rightarrow> beat \<Rightarrow> nat \<Rightarrow> stats_state \<Rightarrow> int option io" where
  "heartbeat_rounds E installed float_text load b 0 st = ret None"
| "heartbeat_rounds E installed float_text load b (Suc n) st =
     bindM (heartbeat_round E installed float_text load b st) (heartbeat_rounds E installed float_text load b n)"

definition setting :: "(str \<rightharpoonup> str) \<Rightarrow> str \<Rightarrow> str" where
  "setting env name = str_or (env name) []"

definition heartbeat_main ::
  "env \<Rightarrow> bool \<Rightarrow> (rat \<Rightarrow> str) \<Rightarrow> rat list \<Rightarrow> str \<Rightarrow> (str \<rightharpoonup> str) \<Rightarrow> int \<Rightarrow> nat \<Rightarrow> int option io" where
  "heartbeat_main E installed float_text load env_path environ interval n =
     bindM (load_env E env_path) (\<lambda>file.
     let env = file ++ environ in
     if setting env ''WORKER_ID'' = [] \<or> setting env ''WORKER_TOKEN'' = [] \<or> setting env ''CP_API_URL'' = []
     then ret (Some 1)
     else heartbeat_rounds E installed float_text load
            \<lparr>bt_api_url = setting env ''CP_API_URL'', bt_worker_id = setting env ''WORKER_ID'', bt_interval = interval\<rparr>
            n fresh_stats)"

section \<open>What a worker posts is accepted\<close>

lemma round_even_ge: "of_int k \<le> q \<Longrightarrow> k \<le> round_even q"
  by (simp add: round_even_def Let_def le_floor_iff order_trans [of k "\<lfloor>q\<rfloor>"])

lemma round_even_le:
  assumes "q \<le> of_int k"
  shows "round_even q \<le> k"
proof (cases "\<lfloor>q\<rfloor> = k")
  case True
  with assms have "q - of_int k = 0" by linarith
  with True show ?thesis by (simp add: round_even_def)
next
  case False
  moreover have "\<lfloor>q\<rfloor> \<le> k" using assms by linarith
  ultimately show ?thesis by (simp add: round_even_def Let_def)
qed

lemma py_round_ge: "of_int k \<le> x \<Longrightarrow> of_int k \<le> py_round n x"
  using round_even_ge [of "k * 10 ^ n" "x * 10 ^ n"]
  by (simp add: py_round_def field_simps flip: of_int_le_iff [where 'a = rat])

lemma py_round_le: "x \<le> of_int k \<Longrightarrow> py_round n x \<le> of_int k"
  using round_even_le [of "x * 10 ^ n" "k * 10 ^ n"]
  by (simp add: py_round_def field_simps flip: of_int_le_iff [where 'a = rat])

lemma busy_percent_bounds: "0 \<le> busy_percent p c \<and> busy_percent p c \<le> 100"
  by (simp add: busy_percent_def Let_def)

lemma rate_nonneg: "0 \<le> rate a b t"
  by (simp add: rate_def)

lemma used_share:
  assumes "used = max 0 (min x tot)"
  shows "0 \<le> (of_int used / of_int tot * 100 :: rat) \<and> (of_int used / of_int tot * 100 :: rat) \<le> 100"
proof (cases "0 < tot")
  case True
  with assms have "0 \<le> used" "used \<le> tot" by simp_all
  with True show ?thesis by (simp add: divide_le_eq)
next
  case False
  with assms have "used = 0" by simp
  then show ?thesis by simp
qed

lemma mem_of_used: "mem_of text = Inr (tot, used) \<Longrightarrow> \<exists>x. used = max 0 (min x tot)"
  by (auto simp: mem_of_def bindR_Inr_iff Let_def split: option.splits)

text \<open>Every figure but the total memory is in the range its column has.\<close>

definition in_range :: "host_stats \<Rightarrow> bool" where
  "in_range s \<longleftrightarrow>
     is_percent (hs_cpu_percent s) \<and> is_percent (hs_memory_percent s) \<and> 0 \<le> hs_memory_used_mb s \<and>
     (0 \<le> hs_memory_total_mb s \<longrightarrow> hs_memory_used_mb s \<le> hs_memory_total_mb s) \<and>
     0 \<le> hs_network_rx_bytes_per_sec s \<and> 0 \<le> hs_network_tx_bytes_per_sec s"

lemma stats_in_range:
  assumes "used = max 0 (min x tot)"
  shows "in_range (stats_of st t c tot used iface load)"
proof -
  have percent: "is_percent (py_round 1 y)" if "0 \<le> y" "y \<le> 100" for y
    using that py_round_ge [of 0 y 1] py_round_le [of y 100 1] by (simp add: is_percent_def del: One_nat_def)
  have nonneg: "0 \<le> py_round 0 y" if "0 \<le> y" for y
    using that py_round_ge [of 0 y 0] by simp
  have cpu: "is_percent (hs_cpu_percent (stats_of st t c tot used iface load))"
    using busy_percent_bounds
    by (auto simp: stats_of_def Let_def simp del: One_nat_def intro!: percent split: option.split)
  have mem: "is_percent (hs_memory_percent (stats_of st t c tot used iface load))"
    using used_share [OF assms] by (auto simp: stats_of_def Let_def simp del: One_nat_def intro!: percent)
  show ?thesis
    using cpu mem assms
    by (auto simp: in_range_def stats_of_def Let_def rate_nonneg intro!: nonneg split: option.split)
qed

lemma collect_in_range:
  assumes "collect_host_stats E load st w = (Inr (s, st'), w')"
  shows "in_range s"
proof -
  obtain t c tot used iface meminfo where "s = stats_of st t c tot used iface load" "mem_of meminfo = Inr (tot, used)"
    using assms by (auto simp: collect_host_stats_def bindM_returns Let_def split: prod.splits)
  then show ?thesis using mem_of_used stats_in_range by blast
qed

text \<open>
  C26: What a worker posts is accepted: whatever its \<open>/proc\<close> holds, if the figures could be read and the total
  memory is not negative, the body of its heartbeat passes the validation of the API and reads back as the
  figures collected, each in the range of its column, and the header carries the worker's token; this for every
  reading of JSON numbers that takes integers as they are and the four floats back to what was written.
\<close>

theorem heartbeat_is_accepted:
  assumes "collect_host_stats E load st w = (Inr (s, st'), w')" and "0 \<le> hs_memory_total_mb s"
    and "\<And>n. pd_int V (JInt n) = Some n"
    and "\<And>x. x \<in> {hs_cpu_percent s, hs_memory_percent s, hs_network_rx_bytes_per_sec s, hs_network_tx_bytes_per_sec s} \<Longrightarrow>
           pd_float V (JFloat (float_text x)) = Some x"
  shows "(\<exists>b. read_worker_heartbeat V (stats_payload float_text s) = Some b \<and>
            to_host_stats b = s\<lparr>hs_network_interface := [], hs_load_avg := []\<rparr> \<and> typed_report b) \<and>
    hs_memory_used_mb s \<le> hs_memory_total_mb s \<and>
    heartbeat_token (map_of (heartbeat_headers token) ''Authorization'') None = Some (py_strip token)"
proof -
  let ?b = "\<lparr>wh_cpu_percent = hs_cpu_percent s, wh_memory_total_mb = hs_memory_total_mb s,
     wh_memory_used_mb = hs_memory_used_mb s, wh_memory_percent = hs_memory_percent s,
     wh_network_rx_bytes_per_sec = hs_network_rx_bytes_per_sec s, wh_network_tx_bytes_per_sec = hs_network_tx_bytes_per_sec s\<rparr>"
  have range: "in_range s" by (rule collect_in_range [OF assms(1)])
  then have report: "typed_report ?b" using assms(2) by (simp add: typed_report_def in_range_def)
  have "read_worker_heartbeat V (stats_payload float_text s) = Some ?b"
    using range assms(2-4)
    by (simp add: read_worker_heartbeat_def stats_payload_def required_def percent_float_def nonneg_int_def
        nonneg_float_def where_holds_def in_range_def is_percent_def)
  moreover have "to_host_stats ?b = s\<lparr>hs_network_interface := [], hs_load_avg := []\<rparr>"
    by (simp add: to_host_stats_def)
  moreover have "heartbeat_token (map_of (heartbeat_headers token) ''Authorization'') None = Some (py_strip token)"
    by (simp add: heartbeat_token_def heartbeat_headers_def py_startswith_def py_lower_def append_Cons) code_simp
  ultimately show ?thesis using report range assms(2) by (simp add: in_range_def)
qed

section \<open>Witness\<close>

definition proc_files :: "(str \<times> str) list" where
  "proc_files = [(''/proc/stat'', ''cpu  700 0 100 200 0 0 0 0 0 0'' @ [CHR 0x0A]),
     (''/proc/meminfo'', ''MemTotal: 4194304 kB'' @ CHR 0x0A # ''MemFree: 3145728 kB'' @ CHR 0x0A # ''Cached: 0 kB'' @ [CHR 0x0A]),
     (''/proc/net/dev'', ''Inter-|'' @ CHR 0x0A # '' face |'' @ CHR 0x0A # '' eth0: 10 0 0 0 0 0 0 0 20'' @ [CHR 0x0A])]"

definition proc_env :: env where
  "proc_env = sample_env\<lparr>o_file := (\<lambda>h p. map_of proc_files p)\<rparr>"

definition quarter_text :: "rat \<Rightarrow> str" where
  "quarter_text x = (if x = 25 then ''25.0'' else ''0.0'')"

fun quarter_float :: "json \<Rightarrow> pyfloat option" where
  "quarter_float (JFloat s) = Some (if s = ''25.0'' then 25 else 0)"
| "quarter_float _ = None"

definition quarter_pydantic :: pydantic where
  "quarter_pydantic = \<lparr>pd_int = sample_int, pd_float = quarter_float\<rparr>"

definition quarter_stats :: host_stats where
  "quarter_stats = \<lparr>hs_cpu_percent = 0, hs_memory_total_mb = 4096, hs_memory_used_mb = 1024, hs_memory_percent = 25,
     hs_network_interface = ''eth0'', hs_network_rx_bytes_per_sec = 0, hs_network_tx_bytes_per_sec = 0, hs_load_avg = []\<rparr>"

lemma proc_texts:
  "cpu_times (the (map_of proc_files ''/proc/stat'')) = Inr (1000, 200)"
  "mem_of (the (map_of proc_files ''/proc/meminfo'')) = Inr (4096, 1024)"
  "net_of (the (map_of proc_files ''/proc/net/dev'')) = Inr (''eth0'', 10, 20)"
  by code_simp+

lemma proc_read:
  "p \<in> fst ` set proc_files \<Longrightarrow> read_text proc_env p w = (Inr (the (map_of proc_files p)), w)"
  by (auto simp: read_text_def proc_env_def proc_files_def)

lemma quarter_run: "\<exists>st w'. collect_host_stats proc_env [] fresh_stats w = (Inr (quarter_stats, st), w')"
proof -
  have "stats_of fresh_stats t c 4096 1024 ''eth0'' [] = quarter_stats" for t c
    by (simp add: stats_of_def fresh_stats_def quarter_stats_def py_round_def round_even_def)
  moreover have "{''/proc/stat'', ''/proc/meminfo'', ''/proc/net/dev''} \<subseteq> fst ` set proc_files"
    by (simp add: proc_files_def)
  ultimately show ?thesis
    by (simp add: collect_host_stats_def comp_defs now_def proc_read proc_texts)
qed

theorem heartbeat_is_accepted_witness:
  "\<exists>b. read_worker_heartbeat quarter_pydantic (stats_payload quarter_text quarter_stats) = Some b \<and> typed_report b"
proof -
  obtain st w' where run: "collect_host_stats proc_env [] fresh_stats (fresh_world empty_db) = (Inr (quarter_stats, st), w')"
    using quarter_run by blast
  have "0 \<le> hs_memory_total_mb quarter_stats" "\<And>n. pd_int quarter_pydantic (JInt n) = Some n"
    by (simp_all add: quarter_stats_def quarter_pydantic_def)
  moreover have "pd_float quarter_pydantic (JFloat (quarter_text x)) = Some x"
    if "x \<in> {hs_cpu_percent quarter_stats, hs_memory_percent quarter_stats, hs_network_rx_bytes_per_sec quarter_stats,
        hs_network_tx_bytes_per_sec quarter_stats}" for x
    using that by (auto simp: quarter_stats_def quarter_pydantic_def quarter_text_def)
  ultimately show ?thesis using heartbeat_is_accepted [OF run, of quarter_pydantic quarter_text] by blast
qed

end
