(* ===== verification/WebViews.thy ===== *)
theory WebViews
  imports ApiTypes "HOL-Library.List_Lexorder" "HOL-Library.Product_Lexorder" "HOL-Library.Multiset"
begin

declare append_Cons [simp del]

text \<open>
  What the pages of the web UI show (\<open>orchestrator/web/views.py\<close> and the row builders of
  \<open>orchestrator/web/routes.py\<close>): which peers count as online, which Headscale node is the exit node of which
  gateway, the rows of the dashboard and how they are grouped. A page is the context its template gets; the
  templates themselves are not modelled.
\<close>

section \<open>View helpers\<close>

definition worker_host_label :: "worker \<Rightarrow> str" where
  "worker_host_label r = str_or (wk_tailscale_hostname r) (wk_name r)"

definition peer_is_online :: "env \<Rightarrow> peer \<Rightarrow> peer_metric option \<Rightarrow> bool io" where
  "peer_is_online E p m =
     (if peer_suspended p then ret False
      else (case Option.bind m pm_last_handshake of
              None \<Rightarrow> ret False
            | Some seen \<Rightarrow> bindM (now E) (\<lambda>t. ret (t - seen < PEER_ONLINE_HANDSHAKE_SECONDS * second))))"

record peer_row =
  pv_peer :: peer
  pv_online :: bool
  pv_metric :: "peer_metric option"

text \<open>Keys of \<open>list.sort\<close>: what is online comes first, then the names in lower case by code points.\<close>

definition shown_first :: "bool \<Rightarrow> str \<Rightarrow> bool \<times> nat list" where
  "shown_first online name = (\<not> online, map code (py_lower name))"

definition sort_peers_by_connectivity ::
  "env \<Rightarrow> peer list \<Rightarrow> (int \<Rightarrow> peer_metric option) \<Rightarrow> peer_row list io" where
  "sort_peers_by_connectivity E ps metrics =
     bindM (mapM (\<lambda>p. bindM (peer_is_online E p (metrics (peer_id p))) (\<lambda>on.
                    ret \<lparr>pv_peer = p, pv_online = on, pv_metric = metrics (peer_id p)\<rparr>)) ps) (\<lambda>rows.
     ret (sort_key (\<lambda>row. shown_first (pv_online row) (peer_name (pv_peer row))) rows))"

definition gateway_headscale_display_name :: "gateway \<Rightarrow> headscale_node option \<Rightarrow> str" where
  "gateway_headscale_display_name g node =
     (case node of
        Some n \<Rightarrow> if hn_hostname n \<noteq> [] then hn_hostname n else or_else (gw_tailscale_hostname g) (gw_name g)
      | None \<Rightarrow> or_else (gw_tailscale_hostname g) (gw_name g))"

text \<open>\<open>{key(node): node for node in nodes}\<close>: the last node of a key counts.\<close>

definition nodes_by :: "(headscale_node \<Rightarrow> str) \<Rightarrow> headscale_node list \<Rightarrow> str \<Rightarrow> headscale_node option" where
  "nodes_by key nodes k = find (\<lambda>n. key n = k) (rev nodes)"

definition has_exit_node_id :: "gateway \<Rightarrow> bool" where
  "has_exit_node_id g \<longleftrightarrow> gw_exit_node_id g \<notin> {[], ''pending''}"

definition match_gateway_exit_node ::
  "gateway \<Rightarrow> (str \<Rightarrow> headscale_node option) \<Rightarrow> (str \<Rightarrow> headscale_node option) \<Rightarrow> headscale_node option" where
  "match_gateway_exit_node g by_ip by_hostname =
     (let by_name = (let h = gw_tailscale_hostname g; n = gw_name g in
                     if h \<noteq> [] \<and> by_hostname h \<noteq> None then by_hostname h
                     else if n \<noteq> [] then by_hostname n else None) in
      if has_exit_node_id g then
        (case by_ip (gw_exit_node_id g) of Some n \<Rightarrow> Some n | None \<Rightarrow> by_name)
      else by_name)"

definition assigned_ips :: "gateway list \<Rightarrow> str set" where
  "assigned_ips gs = gw_exit_node_id ` set (filter has_exit_node_id gs)"

definition partition_exit_nodes ::
  "headscale_node list \<Rightarrow> gateway list \<Rightarrow> headscale_node list \<times> (str \<Rightarrow> headscale_node option)" where
  "partition_exit_nodes nodes gs =
     (let others = filter (\<lambda>n. hn_hostname n \<notin> gw_name ` set gs) nodes;
          unassigned = filter (\<lambda>n. hn_tailscale_ip n \<notin> assigned_ips gs) others
      in (sort_key (\<lambda>n. shown_first (hn_online n) (hn_hostname n)) unassigned,
          nodes_by hn_tailscale_ip others))"

definition exit_option :: "gateway \<Rightarrow> gateway list \<Rightarrow> headscale_node \<Rightarrow> bool" where
  "exit_option g gs n \<longleftrightarrow>
     hn_hostname n \<notin> gw_name ` set gs \<and>
     (hn_exit_approved n \<or> hn_exit_tagged n \<or> hn_exit_advertised n) \<and>
     hn_tailscale_ip n \<notin> assigned_ips (filter (\<lambda>h. gw_id h \<noteq> gw_id g) gs)"

definition selectable_exit_nodes :: "gateway \<Rightarrow> gateway list \<Rightarrow> headscale_node list \<Rightarrow> headscale_node list" where
  "selectable_exit_nodes g gs nodes =
     (let options = filter (exit_option g gs) nodes;
          current = (if has_exit_node_id g then nodes_by hn_tailscale_ip nodes (gw_exit_node_id g) else None);
          shown = (case current of
                     Some n \<Rightarrow> if n \<in> set options then options else n # options
                   | None \<Rightarrow> options)
      in sort_key (\<lambda>n. shown_first (hn_online n) (hn_hostname n)) shown)"

section \<open>Rows of gateways\<close>

record gateway_row =
  gv_gateway :: gateway
  gv_display_name :: str
  gv_endpoint :: str
  gv_wg_gateway_ip :: "str option"
  gv_tailscale_online :: "bool option"
  gv_wg_online :: "bool option"
  gv_pathways_online :: bool
  gv_exit_node :: "headscale_node option"
  gv_peer_total :: nat
  gv_peer_online :: nat
  gv_egress_public_ip :: "str option"
  gv_egress_country_code :: "str option"
  gv_egress_flag :: "int list"

text \<open>\<open>str(ipaddress.ip_network(gateway.wg_subnet).network_address + 1)\<close>.\<close>

definition first_host :: "str \<Rightarrow> str result" where
  "first_host subnet =
     bindR (ip_network True subnet) (\<lambda>net.
     bindR (ip_of_int (net_addr net + 1)) (\<lambda>a. Inr (format_ipv4 a)))"

definition shown_wg_ip :: "gateway \<Rightarrow> str option" where
  "shown_wg_ip g =
     (if gw_wg_subnet g = [] \<or> gw_wg_subnet g = ''pending'' then None
      else (case first_host (gw_wg_subnet g) of Inr a \<Rightarrow> Some a | Inl e \<Rightarrow> None))"

definition shown_pathways :: "gateway_metric option \<Rightarrow> bool" where
  "shown_pathways m =
     (case m of
        None \<Rightarrow> False
      | Some x \<Rightarrow> pathways_ready (interface_state_of (gm_tailscale_online x) (gm_wg_online x) (gm_exit_node_reachable x)))"

definition shown_egress :: "gateway_metric option \<Rightarrow> gateway_metric option \<Rightarrow> str option \<times> str option" where
  "shown_egress m egress =
     (if shown_pathways m then
        (case m of
           Some x \<Rightarrow> if str_true (gm_egress_public_ip x) then (gm_egress_public_ip x, gm_egress_country_code x)
                     else (case egress of
                             Some y \<Rightarrow> (gm_egress_public_ip y, gm_egress_country_code y)
                           | None \<Rightarrow> (None, None))
         | None \<Rightarrow> (None, None))
      else (None, None))"

definition gateway_view :: "env \<Rightarrow> headscale_node list \<Rightarrow> gateway \<Rightarrow> gateway_row io" where
  "gateway_view E nodes g =
     bindM (get_db (latest_gateway_metric (gw_id g))) (\<lambda>metric.
     bindM (get_db (latest_gateway_metric_with_egress (gw_id g))) (\<lambda>egress.
     bindM (get_db (peers_list_by_gateway (gw_id g))) (\<lambda>ps.
     bindM (get_db (\<lambda>d p. latest_peer_metric (peer_id p) d)) (\<lambda>peer_metric.
     bindM (mapM (\<lambda>p. peer_is_online E p (peer_metric p)) ps) (\<lambda>on.
     let node = match_gateway_exit_node g (nodes_by hn_tailscale_ip nodes) (nodes_by hn_hostname nodes) in
     bindM (get_endpoint g) (\<lambda>endpoint.
     ret \<lparr>gv_gateway = g, gv_display_name = gateway_headscale_display_name g node, gv_endpoint = endpoint,
          gv_wg_gateway_ip = shown_wg_ip g, gv_tailscale_online = Option.bind metric gm_tailscale_online,
          gv_wg_online = Option.bind metric gm_wg_online, gv_pathways_online = shown_pathways metric,
          gv_exit_node = node, gv_peer_total = length ps, gv_peer_online = length (filter id on),
          gv_egress_public_ip = fst (shown_egress metric egress),
          gv_egress_country_code = snd (shown_egress metric egress),
          gv_egress_flag = country_flag (snd (shown_egress metric egress))\<rparr>))))))"

section \<open>The dashboard\<close>

record group_section =
  gs_group :: peer_group
  gs_gateways :: "gateway_row list"

record worker_section =
  ws_worker :: worker
  ws_status :: worker_status
  ws_groups :: "group_section list"
  ws_orphans :: "gateway_row list"

text \<open>\<open>if gateway.peer_group_id\<close>: no group, and the key 0 no row has, are false.\<close>

definition group_key :: "gateway \<Rightarrow> int option" where
  "group_key g = (if gw_peer_group_id g = Some 0 then None else gw_peer_group_id g)"

definition section_of :: "peer_group list \<Rightarrow> dashboard_row \<Rightarrow> gateway_row list \<Rightarrow> worker_section" where
  "section_of groups row rows =
     \<lparr>ws_worker = dr_worker row, ws_status = dr_status row,
      ws_groups = map (\<lambda>g. \<lparr>gs_group = g, gs_gateways = filter (\<lambda>r. group_key (gv_gateway r) = Some (pg_id g)) rows\<rparr>)
                    (filter (\<lambda>g. pg_worker_id g = wk_id (dr_worker row)) groups),
      ws_orphans = filter (\<lambda>r. group_key (gv_gateway r) = None) rows\<rparr>"

definition worker_section_of ::
  "env \<Rightarrow> headscale_node list \<Rightarrow> gateway list \<Rightarrow> peer_group list \<Rightarrow> dashboard_row \<Rightarrow> worker_section io" where
  "worker_section_of E nodes gs groups row =
     bindM (mapM (gateway_view E nodes) (filter (\<lambda>g. gw_worker_id g = wk_id (dr_worker row)) gs)) (\<lambda>rows.
     ret (section_of groups row rows))"

text \<open>The nodes Headscale knows, or what it answered instead.\<close>

definition exit_nodes_or_error :: "env \<Rightarrow> (str + headscale_node list) io" where
  "exit_nodes_or_error E =
     catchM (bindM (list_exit_nodes E) (\<lambda>ns. ret (Inr ns)))
       (\<lambda>e. if is_HeadscaleError e then ret (Inl (exn_str e)) else raise e)"

definition dashboard_sections ::
  "env \<Rightarrow> (worker_section list \<times> headscale_node list \<times> str option) io" where
  "dashboard_sections E =
     bindM (get_db gateways_list_all) (\<lambda>gs.
     bindM (exit_nodes_or_error E) (\<lambda>hs.
     let nodes = (case hs of Inr ns \<Rightarrow> ns | Inl e \<Rightarrow> []);
         unassigned = (case hs of Inr ns \<Rightarrow> fst (partition_exit_nodes ns gs) | Inl e \<Rightarrow> []);
         error = (case hs of Inr ns \<Rightarrow> None | Inl e \<Rightarrow> Some (''Could not read exit nodes from Headscale: '' @ e)) in
     bindM (get_db groups_list_all) (\<lambda>groups.
     bindM (dashboard_workers E) (\<lambda>rows.
     bindM (mapM (worker_section_of E nodes gs groups) rows) (\<lambda>sections.
     ret (sections, unassigned, error))))))"

record worker_choice =
  wc_id :: int
  wc_display_name :: str
  wc_host_label :: str
  wc_online :: bool
  wc_status :: str

definition worker_choices :: "env \<Rightarrow> worker_choice list io" where
  "worker_choices E =
     bindM (dashboard_workers E) (\<lambda>rows.
     ret (map (\<lambda>row. \<lparr>wc_id = wk_id (dr_worker row), wc_display_name = wk_display_name (dr_worker row),
                      wc_host_label = worker_host_label (dr_worker row),
                      wc_online = (worker_status_value (dr_status row) = ''online''),
                      wc_status = worker_status_value (dr_status row)\<rparr>) rows))"

section \<open>Every gateway is on the dashboard\<close>

lemma mset_split_by:
  assumes "distinct ks" and "\<And>x. x \<in> set xs \<Longrightarrow> f x \<in> set ks"
  shows "mset (concat (map (\<lambda>k. filter (\<lambda>x. f x = k) xs) ks)) = mset xs"
  using assms
proof (induction ks arbitrary: xs)
  case Nil
  then have "xs = []" by (cases xs) auto
  then show ?case by simp
next
  case (Cons k ks)
  let ?rest = "filter (\<lambda>x. f x \<noteq> k) xs"
  have "filter (\<lambda>x. f x = k') ?rest = filter (\<lambda>x. f x = k') xs" if "k' \<in> set ks" for k'
    using that Cons.prems(1) by (auto intro!: filter_cong)
  then have "concat (map (\<lambda>k'. filter (\<lambda>x. f x = k') xs) ks) = concat (map (\<lambda>k'. filter (\<lambda>x. f x = k') ?rest) ks)"
    by (simp cong: map_cong)
  moreover have "mset (concat (map (\<lambda>k'. filter (\<lambda>x. f x = k') ?rest) ks)) = mset ?rest"
    using Cons.prems by (intro Cons.IH) auto
  moreover have "mset xs = mset (filter (\<lambda>x. f x = k) xs) + mset ?rest"
    by (induction xs) simp_all
  ultimately show ?case by (simp only: list.map concat.simps mset_append)
qed

lemma mapM_list_all2:
  assumes "\<And>x w y w'. f x w = (Inr y, w') \<Longrightarrow> R x y" and "mapM f xs w = (Inr ys, w')"
  shows "list_all2 R xs ys"
  using assms(2) by (induction xs arbitrary: w ys) (auto simp: bindM_returns dest: assms(1))

lemma gateway_view_gateway: "gateway_view E nodes g w = (Inr row, w') \<Longrightarrow> gv_gateway row = g"
  by (auto simp: gateway_view_def bindM_returns Let_def)

lemma gateway_views: "mapM (gateway_view E nodes) gs w = (Inr rows, w') \<Longrightarrow> map gv_gateway rows = gs"
  using mapM_list_all2 [of "gateway_view E nodes" "\<lambda>g row. gv_gateway row = g", OF gateway_view_gateway]
  by (auto simp: list_all2_conv_all_nth intro: nth_equalityI)

text \<open>The gateways a section shows, those of its groups and those without one.\<close>

definition shown :: "worker_section \<Rightarrow> gateway list" where
  "shown s = concat (map (\<lambda>g. map gv_gateway (gs_gateways g)) (ws_groups s)) @ map gv_gateway (ws_orphans s)"

text \<open>
  Where a gateway has to be to be shown: on a worker that is not the control plane, and in no group or in one
  of the same worker, which is what the creation of gateways sees to.
\<close>

definition well_placed :: "db \<Rightarrow> gateway \<Rightarrow> bool" where
  "well_placed d g \<longleftrightarrow>
     list_ex (\<lambda>r. wk_id r = gw_worker_id g \<and> \<not> wk_is_local r) (workers d) \<and>
     (case group_key g of
        None \<Rightarrow> True
      | Some i \<Rightarrow> list_ex (\<lambda>p. pg_id p = i \<and> pg_worker_id p = gw_worker_id g) (peer_groups d))"


lemma shown_section:
  assumes "map gv_gateway rows = ws"
  shows "shown (section_of groups row rows) =
    concat (map (\<lambda>k. filter (\<lambda>g. group_key g = k) ws)
      (map (\<lambda>p. Some (pg_id p)) (filter (\<lambda>p. pg_worker_id p = wk_id (dr_worker row)) groups) @ [None]))"
  unfolding assms [symmetric] by (simp add: shown_def section_of_def comp_def filter_map)

lemma worker_section_shown:
  assumes "worker_section_of E nodes gs groups row w = (Inr s, w')" and "distinct (map pg_id groups)"
    and "\<And>g. g \<in> set gs \<Longrightarrow> (case group_key g of None \<Rightarrow> True
           | Some i \<Rightarrow> list_ex (\<lambda>p. pg_id p = i \<and> pg_worker_id p = gw_worker_id g) groups)"
  shows "ws_worker s = dr_worker row \<and>
    mset (shown s) = mset (filter (\<lambda>g. gw_worker_id g = wk_id (dr_worker row)) gs)"
proof -
  let ?ws = "filter (\<lambda>g. gw_worker_id g = wk_id (dr_worker row)) gs"
  let ?ks = "map (\<lambda>p. Some (pg_id p)) (filter (\<lambda>p. pg_worker_id p = wk_id (dr_worker row)) groups) @ [None]"
  obtain rows where s: "s = section_of groups row rows" and "map gv_gateway rows = ?ws"
    using assms(1) gateway_views by (auto simp: worker_section_of_def bindM_returns)
  then have shown: "shown s = concat (map (\<lambda>k. filter (\<lambda>g. group_key g = k) ?ws) ?ks)"
    by (simp only: shown_section)
  have "distinct (map pg_id (filter (\<lambda>p. pg_worker_id p = wk_id (dr_worker row)) groups))"
    using assms(2) by (rule distinct_map_filter)
  then have "distinct ?ks" by (auto simp: distinct_map inj_on_def)
  moreover have "group_key g \<in> set ?ks" if "g \<in> set ?ws" for g
    using assms(3) [of g] that by (cases "group_key g") (auto simp: list_ex_iff)
  ultimately have "mset (shown s) = mset ?ws" unfolding shown by (rule mset_split_by)
  then show ?thesis by (simp add: s section_of_def)
qed

lemma keeps_exit_nodes_or_error [keeps_intros]: "stable J \<Longrightarrow> keeps J (exit_nodes_or_error E)"
  unfolding exit_nodes_or_error_def by (intro keeps_intros)


section \<open>Witness\<close>

definition busy_db :: db where
  "busy_db = sample_db\<lparr>gateways := [sample_gateway, sample_gateway\<lparr>gw_id := 2, gw_name := ''gw-001'',
     gw_wg_subnet := ''pending'', gw_peer_group_id := Some 1\<rparr>]\<rparr>"

lemma busy_ok: "keys_ok busy_db" "list_all (well_placed busy_db) (gateways busy_db)"
  by code_simp+

lemma busy_workers: "workers busy_db = [sample_worker]" "\<not> wk_is_local sample_worker"
  by (simp_all add: busy_db_def sample_db_def sample_worker_def wk_is_local_def)

lemma silent_headscale: "run_headscale sample_env args w = (Inr [], emit (Run (headscale_cmd sample_env args)) w)"
  by (simp add: run_headscale_def comp_defs run_process_def) (simp add: sample_env_def py_strip_def py_lstrip_def)

lemma silent_nodes: "\<exists>w'. exit_nodes_or_error sample_env w = (Inr (Inr []), w') \<and> db w' = db w"
  by (simp add: exit_nodes_or_error_def list_exit_nodes_def list_headscale_nodes_raw_def silent_headscale comp_defs
      parse_nodes_json_def)

lemma busy_view:
  "db w = busy_db \<Longrightarrow> g \<in> set (gateways busy_db) \<Longrightarrow> \<exists>row. gateway_view sample_env [] g w = (Inr row, w)"
  by (auto simp: gateway_view_def comp_defs busy_db_def sample_db_def empty_db_def sample_gateway_def Let_def
      get_endpoint_def resolve_worker_def workers_get_by_id_def tbl_get_def sample_worker_def peers_list_by_gateway_def)

lemma busy_dashboard: "\<exists>s u e w'. dashboard_sections sample_env (fresh_world busy_db) = (Inr (s, u, e), w')"
proof -
  obtain w1 where nodes: "exit_nodes_or_error sample_env (fresh_world busy_db) = (Inr (Inr []), w1)" and "db w1 = busy_db"
    using silent_nodes [of "fresh_world busy_db"] by (auto simp: fresh_world_def)
  moreover have status: "effective_status sample_env sample_worker w1 =
      (Inr (status_at (o_now sample_env (trace w1)) sample_worker), emit Clock w1)"
    by (simp add: effective_status_def now_def comp_defs) (simp add: sample_worker_def)
  moreover obtain row w2 where rows: "dashboard_workers sample_env w1 = (Inr [row], w2)"
      and w2: "db w2 = busy_db" and row: "dr_worker row = sample_worker"
    using \<open>db w1 = busy_db\<close> status by (simp add: dashboard_workers_def comp_defs workers_list_all_def busy_workers)
  obtain r1 r2 where "gateway_view sample_env [] (gateways busy_db ! 0) w2 = (Inr r1, w2)"
      "gateway_view sample_env [] (gateways busy_db ! 1) w2 = (Inr r2, w2)"
    using busy_view [OF w2, of "gateways busy_db ! 0"] busy_view [OF w2, of "gateways busy_db ! 1"]
    by (auto simp: busy_db_def)
  moreover have "filter (\<lambda>g. gw_worker_id g = wk_id sample_worker) (gateways busy_db) =
      [gateways busy_db ! 0, gateways busy_db ! 1]"
    by (simp add: busy_db_def sample_gateway_def sample_worker_def)
  ultimately show ?thesis
    using rows row
    by (simp add: dashboard_sections_def worker_section_of_def comp_defs Let_def gateways_list_all_def fresh_world_def)
qed


end
