(* ===== verification/WebRoutes.thy ===== *)
theory WebRoutes
  imports WebViews AgentTime
begin

declare append_Cons [simp del]

text \<open>
  The web UI (\<open>orchestrator/web/routes.py\<close>) and the public registration pages
  (\<open>orchestrator/web/register_routes.py\<close>): every route with its form fields and query parameters, the session,
  the services it calls, what it does with each exception, and what it answers. The UI has no authentication of
  its own.
\<close>

section \<open>Answers\<close>

record dashboard_page =
  dp_workers :: "worker_section list"
  dp_choices :: "worker_choice list"
  dp_choices_json :: "worker_choice list"
  dp_unassigned :: "headscale_node list"
  dp_pending :: "reg_request list"
  dp_headscale_error :: "str option"
  dp_flash_error :: "str option"
  dp_flash_ok :: "str option"
  dp_exit_node_tag :: str
  dp_login_server :: str

record logs_view =
  lp_unit :: str
  lp_unit_label :: "str option"
  lp_limit :: int
  lp_lines :: "str list"
  lp_flash_error :: "str option"

record group_page =
  gp_group :: peer_group
  gp_rows :: "gateway_row list"
  gp_lan_remaining :: int
  gp_script :: str
  gp_flash_error :: "str option"
  gp_flash_ok :: "str option"

record gateway_page =
  wp_gateway :: gateway
  wp_display_name :: str
  wp_endpoint :: str
  wp_wg_gateway_ip :: str
  wp_exit_node :: "headscale_node option"
  wp_headscale_error :: "str option"
  wp_peers_online :: "peer_row list"
  wp_peers_offline :: "peer_row list"
  wp_metrics :: "gateway_metric option"
  wp_progress :: "(str \<times> str) option"
  wp_peer_group :: "peer_group option"
  wp_tailscale_status :: "str option"
  wp_flash_error :: "str option"
  wp_flash_ok :: "str option"

record worker_stat =
  sx_id :: int
  sx_status :: str
  sx_cpu_percent :: "pyfloat option"
  sx_memory_total_mb :: "int option"
  sx_memory_used_mb :: "int option"
  sx_memory_percent :: "pyfloat option"
  sx_network_rx_bytes_per_sec :: "pyfloat option"
  sx_network_tx_bytes_per_sec :: "pyfloat option"

datatype web_answer =
    Redirect str
  | DashboardPage dashboard_page
  | LogsPage logs_view
  | GroupPage group_page
  | GatewayPage gateway_page
  | RegisterPage nat "str option" "str option" "str option" "str option"
  | JsonAnswer nat json
  | WorkerStats "worker_stat list"
  | TextAnswer nat str
  | Download str str
  | Archive "(str \<times> str) list" str
  | FileAnswer str

section \<open>URLs\<close>

text \<open>\<open>urllib.parse.quote\<close> with its default of a safe slash.\<close>

definition quote_char :: "char \<Rightarrow> str" where
  "quote_char c =
     (if is_ascii_alnum c \<or> c \<in> {CHR ''_'', CHR ''.'', CHR ''-'', CHR ''~'', CHR ''/''} then [c]
      else if code c < 128 then percent (code c)
      else percent (192 + code c div 64) @ percent (128 + code c mod 64))"

definition url_quote :: "str \<Rightarrow> str" where
  "url_quote s = concat (map quote_char s)"

definition UI :: str where
  "UI = ''/orchestrator/ui''"

definition gateway_url :: "int \<Rightarrow> str" where
  "gateway_url gid = UI @ ''/gateways/'' @ str_int gid"

definition group_url :: "int \<Rightarrow> str" where
  "group_url i = UI @ ''/peer-groups/'' @ str_int i"

definition gateway_detail_url :: "int \<Rightarrow> str option \<Rightarrow> str option \<Rightarrow> str" where
  "gateway_detail_url gid error ok =
     (let params = (if str_true error then [''error='' @ url_quote (the error)] else []) @
                   (if str_true ok then [''ok='' @ url_quote (the ok)] else []) in
      if params = [] then gateway_url gid else gateway_url gid @ ''?'' @ py_join ''&'' params)"

definition with_error :: "str \<Rightarrow> str \<Rightarrow> str" where
  "with_error url msg = url @ ''?error='' @ url_quote msg"

definition with_ok :: "str \<Rightarrow> str \<Rightarrow> str" where
  "with_ok url msg = url @ ''?ok='' @ url_quote msg"

text \<open>\<open>redirect_to.startswith("/orchestrator/ui") and "://" not in redirect_to\<close>.\<close>

definition own_page :: "str \<Rightarrow> bool" where
  "own_page redirect_to \<longleftrightarrow> py_startswith redirect_to UI \<and> \<not> py_contains redirect_to ''://''"

section \<open>The system journal\<close>

definition LOG_UNITS :: "(str \<times> str option) list" where
  "LOG_UNITS = [(''orchestrator'', Some ''orchestrator.service''), (''caddy'', Some ''caddy.service''),
     (''headscale'', Some ''headscale.service''), (''all'', None)]"

definition LOG_LIMITS :: "int set" where
  "LOG_LIMITS = {100, 200, 500}"

definition normalise_log_unit :: "str option \<Rightarrow> str" where
  "normalise_log_unit unit =
     (let key = py_lower (py_strip (str_or unit ''orchestrator'')) in
      if key \<notin> fst ` set LOG_UNITS then ''orchestrator'' else key)"

definition normalise_log_limit :: "str option \<Rightarrow> int" where
  "normalise_log_limit limit =
     (let value = (case limit of
                     None \<Rightarrow> 200
                   | Some s \<Rightarrow> (case py_int s of Some i \<Rightarrow> i | None \<Rightarrow> 200)) in
      if value \<in> LOG_LIMITS then value else 200)"

definition log_unit :: "str \<Rightarrow> str option" where
  "log_unit key = (case map_of LOG_UNITS key of Some u \<Rightarrow> u | None \<Rightarrow> None)"

definition journal_command :: "str \<Rightarrow> int \<Rightarrow> str list" where
  "journal_command unit_key limit =
     ''journalctl'' # (case log_unit unit_key of Some u \<Rightarrow> [''-u'', u] | None \<Rightarrow> []) @
     [''-n'', str_int limit, ''--no-pager'', ''--output'', ''short-iso'']"

fun is_missing_file :: "exn \<Rightarrow> bool" where
  "is_missing_file (OSError m) = py_startswith m ''[Errno 2]''"
| "is_missing_file _ = False"

fun is_TimeoutExpired :: "exn \<Rightarrow> bool" where
  "is_TimeoutExpired (TimeoutExpired m) = True"
| "is_TimeoutExpired _ = False"

definition journal_result :: "int \<Rightarrow> proc \<Rightarrow> str list \<times> str option" where
  "journal_result limit p =
     (let lines = py_splitlines (stdout p) in
      if returncode p \<noteq> 0 \<and> lines = [] then
        ([], Some (or_else (py_strip (stderr p)) (''journalctl exited with '' @ str_int (returncode p))))
      else (drop (length lines - nat limit) lines, None))"

definition read_journal_lines :: "env \<Rightarrow> str \<Rightarrow> int \<Rightarrow> (str list \<times> str option) io" where
  "read_journal_lines E unit_key limit =
     catchM (bindM (run_process E (journal_command unit_key limit)) (\<lambda>p. ret (journal_result limit p)))
       (\<lambda>e. if is_missing_file e then ret ([], Some ''journalctl is not available on this host'')
            else if is_TimeoutExpired e then ret ([], Some ''Timed out reading system journal'')
            else raise e)"

definition logs_page :: "env \<Rightarrow> str option \<Rightarrow> str option \<Rightarrow> web_answer io" where
  "logs_page E unit limit =
     (let unit_key = normalise_log_unit unit; line_limit = normalise_log_limit limit in
      bindM (read_journal_lines E unit_key line_limit) (\<lambda>(lines, error).
      ret (LogsPage \<lparr>lp_unit = unit_key,
        lp_unit_label = (if unit_key = ''all'' then Some ''All services'' else log_unit unit_key),
        lp_limit = line_limit, lp_lines = lines, lp_flash_error = error\<rparr>)))"

section \<open>Dashboard and workers\<close>

definition dashboard :: "env \<Rightarrow> str option \<Rightarrow> str option \<Rightarrow> web_answer io" where
  "dashboard E error ok =
     bindM (dashboard_sections E) (\<lambda>(sections, unassigned, headscale_error).
     bindM (get_db reg_list_pending) (\<lambda>pending.
     bindM (worker_choices E) (\<lambda>choices.
     bindM (worker_choices E) (\<lambda>choices_json.
     ret (DashboardPage \<lparr>dp_workers = sections, dp_choices = choices, dp_choices_json = choices_json,
        dp_unassigned = unassigned, dp_pending = pending, dp_headscale_error = headscale_error,
        dp_flash_error = error, dp_flash_ok = ok, dp_exit_node_tag = s_headscale_exit_node_tag E,
        dp_login_server = s_headscale_url E\<rparr>)))))"

definition worker_stats :: "env \<Rightarrow> web_answer io" where
  "worker_stats E =
     bindM (dashboard_workers E) (\<lambda>rows.
     ret (WorkerStats (map (\<lambda>row. let r = dr_worker row in
        \<lparr>sx_id = wk_id r, sx_status = worker_status_value (dr_status row), sx_cpu_percent = wk_cpu_percent r,
         sx_memory_total_mb = wk_memory_total_mb r, sx_memory_used_mb = wk_memory_used_mb r,
         sx_memory_percent = wk_memory_percent r, sx_network_rx_bytes_per_sec = wk_network_rx_bps r,
         sx_network_tx_bytes_per_sec = wk_network_tx_bps r\<rparr>) rows)))"

definition DEPLOY_DIR :: "env \<Rightarrow> str" where
  "DEPLOY_DIR E = s_repo_root E @ ''/deploy''"

definition worker_join_script :: "env \<Rightarrow> web_answer io" where
  "worker_join_script E =
     bindM (is_file E (DEPLOY_DIR E @ ''/join-worker.sh'')) (\<lambda>there.
     if \<not> there then raise (HTTPException 404 ''Join script not found'')
     else ret (FileAnswer (DEPLOY_DIR E @ ''/join-worker.sh'')))"

definition create_worker_enrollment :: "env \<Rightarrow> web_answer io" where
  "create_worker_enrollment E =
     bindM (value_error_as 400 (create_enrollment E)) (\<lambda>res.
     ret (JsonAnswer 200 (JObj [(''name'', JStr (ew_name res)), (''display_name'', JStr (ew_display_name res)),
        (''tailscale_hostname'', JStr (ew_tailscale_hostname res)),
        (''tailscale_auth_key'', JStr (ew_tailscale_auth_key res)), (''command'', JStr (ew_command res))])))"

section \<open>Exit nodes and registrations\<close>

definition create_exit_node_authkey :: "env \<Rightarrow> web_answer io" where
  "create_exit_node_authkey E =
     bindM (catchM (create_exit_node_preauth_key E)
              (\<lambda>e. if is_HeadscaleError e then raise (HTTPException 502 (exn_str e)) else raise e)) (\<lambda>preauth.
     ret (JsonAnswer 200 (JObj [(''key'', JStr (pak_key preauth)), (''tag'', JStr []),
        (''login_server'', JStr (s_headscale_url E)),
        (''command'', JStr (exit_node_registration_command E (pak_key preauth)))])))"

text \<open>\<open>datetime.isoformat()\<close> of a timestamp as SQLite gives it back: without an offset.\<close>

definition isoformat_naive :: "int \<Rightarrow> str" where
  "isoformat_naive t = (let s = isoformat_utc t in take (length s - 6) s)"

definition list_pending_registrations :: "web_answer io" where
  "list_pending_registrations =
     get_db (\<lambda>d. JsonAnswer 200 (JArr (map (\<lambda>r. JObj [(''registration_key'', JStr (rr_registration_key r)),
        (''display_code'', JStr (rr_display_code r)), (''created_at'', JStr (isoformat_naive (rr_created_at r)))])
        (reg_list_pending d))))"

definition approve_registration_ui :: "env \<Rightarrow> str \<Rightarrow> web_answer io" where
  "approve_registration_ui E registration_key =
     (let key = py_strip registration_key in
      thenM (catchM
          (bindM (approve_registration_request E key) (\<lambda>node.
           thenM (reg_mark_approved E key (rn_node_id node) (rn_tailscale_ip node)) (commit E)))
          (\<lambda>e. if is_HeadscaleError e then rollback else raise e))
      (ret (Redirect UI)))"

definition reject_registration_ui :: "env \<Rightarrow> str \<Rightarrow> web_answer io" where
  "reject_registration_ui E registration_key =
     thenM (reg_mark_rejected E (py_strip registration_key))
    (thenM (commit E) (ret (Redirect UI)))"

definition register_page :: "env \<Rightarrow> str \<Rightarrow> web_answer io" where
  "register_page E registration_key =
     (let key = normalize_registration_key registration_key in
      if \<not> is_valid_registration_key key then ret (RegisterPage 400 None None None (Some ''Invalid request''))
      else
        bindM (reg_touch_pending E key) (\<lambda>row.
        thenM (commit E)
        (ret (RegisterPage 200 (Some (rr_display_code row)) (Some key) (Some (reg_status_value (rr_status row))) None))))"

definition register_status :: "str \<Rightarrow> web_answer io" where
  "register_status registration_key =
     bindM (get_db (reg_get_by_key (py_strip registration_key))) (\<lambda>found.
     case found of
       None \<Rightarrow> ret (JsonAnswer 404 (JObj [(''status'', JStr ''unknown'')]))
     | Some r \<Rightarrow> ret (JsonAnswer 200 (JObj [(''status'', JStr (reg_status_value (rr_status r))),
         (''display_code'', JStr (rr_display_code r)),
         (''tailscale_ip'', (case rr_tailscale_ip r of Some ip \<Rightarrow> JStr ip | None \<Rightarrow> JNull))])))"

section \<open>Peer groups\<close>

text \<open>
  \<open>except ValueError as exc\<close> around a handler: \<open>on_value_error\<close> answers without a rollback, so the session's
  \<open>commit\<close> after the handler stores what was flushed before the error; \<open>on_value_error_rollback\<close> drops it first.
\<close>

definition on_value_error :: "(str \<Rightarrow> 'a) \<Rightarrow> 'a io \<Rightarrow> 'a io" where
  "on_value_error answer m = catchM m (\<lambda>e. if is_ValueError e then ret (answer (exn_str e)) else raise e)"

definition on_value_error_rollback :: "(str \<Rightarrow> 'a) \<Rightarrow> 'a io \<Rightarrow> 'a io" where
  "on_value_error_rollback answer m =
     catchM m (\<lambda>e. if is_ValueError e then thenM rollback (ret (answer (exn_str e))) else raise e)"

definition create_peer_group_ui :: "env \<Rightarrow> str \<Rightarrow> int \<Rightarrow> str \<Rightarrow> str \<Rightarrow> web_answer io" where
  "create_peer_group_ui E name worker_id lan_start_ip parent_iface =
     on_value_error (\<lambda>msg. Redirect (with_error UI msg))
       (bindM (create_group E \<lparr>cp_name = py_strip name, cp_worker_id = worker_id,
                 cp_lan_start_ip = py_strip lan_start_ip, cp_lan_subnet = None, cp_lan_gateway = None,
                 cp_parent_iface = (if py_strip parent_iface = [] then None else Some (py_strip parent_iface))\<rparr>) (\<lambda>i.
        ret (Redirect (group_url i))))"

definition rename_peer_group_ui :: "env \<Rightarrow> int \<Rightarrow> str \<Rightarrow> web_answer io" where
  "rename_peer_group_ui E i name =
     on_value_error_rollback (\<lambda>msg. Redirect (with_error UI msg))
       (bindM (rename_group E i name) (\<lambda>_. ret (Redirect (with_ok UI ''Peer group renamed''))))"

definition exit_nodes_or_none :: "env \<Rightarrow> headscale_node list io" where
  "exit_nodes_or_none E =
     bindM (exit_nodes_or_error E) (\<lambda>hs. ret (case hs of Inr ns \<Rightarrow> ns | Inl e \<Rightarrow> []))"

definition peer_group_detail :: "env \<Rightarrow> int \<Rightarrow> str option \<Rightarrow> str option \<Rightarrow> web_answer io" where
  "peer_group_detail E i error ok =
     bindM (get_db (groups_get_by_id i)) (\<lambda>found.
     case found of
       None \<Rightarrow> ret (Redirect UI)
     | Some g \<Rightarrow>
         bindM (get_db (\<lambda>d. filter (\<lambda>x. gw_peer_group_id x = Some i) (gateways_list_all d))) (\<lambda>gs.
         bindM (exit_nodes_or_none E) (\<lambda>nodes.
         bindM (mapM (gateway_view E nodes) gs) (\<lambda>rows.
         bindM (on_value_error (\<lambda>_. []) (bindM (build_setup_script E i) (\<lambda>(_, s). ret s))) (\<lambda>script.
         bindM (remaining_lan_capacity g) (\<lambda>left.
         ret (GroupPage \<lparr>gp_group = g, gp_rows = rows, gp_lan_remaining = left, gp_script = script,
            gp_flash_error = error, gp_flash_ok = ok\<rparr>)))))))"

definition download_peer_group_host_setup :: "env \<Rightarrow> int \<Rightarrow> web_answer io" where
  "download_peer_group_host_setup E i =
     on_value_error (TextAnswer 404)
       (bindM (build_setup_script E i) (\<lambda>(gid, script).
        bindM (row_of groups_get_by_id gid) (\<lambda>g.
        ret (Download script (pg_name g @ ''-host-setup.sh'')))))"

definition CLEANUP_SCRIPT :: "env \<Rightarrow> str" where
  "CLEANUP_SCRIPT E = s_repo_root E @ ''/orchestrator/host_setup/exit_host_cleanup.sh''"

definition render_exit_host_auto_cleanup_script :: "env \<Rightarrow> str io" where
  "render_exit_host_auto_cleanup_script E = read_text E (CLEANUP_SCRIPT E)"

definition download_exit_host_cleanup :: "env \<Rightarrow> web_answer io" where
  "download_exit_host_cleanup E =
     bindM (render_exit_host_auto_cleanup_script E) (\<lambda>s. ret (Download s ''exit-host-cleanup.sh''))"

definition start_created :: "create_gateway_result list \<Rightarrow> unit io" where
  "start_created rs = forM rs (\<lambda>r. schedule_provisioning_after_request (cr_gateway r) (cr_job r))"

definition create_group_gateways_ui :: "env \<Rightarrow> int \<Rightarrow> int \<Rightarrow> web_answer io" where
  "create_group_gateways_ui E i n =
     on_value_error (\<lambda>msg. Redirect (with_error (group_url i) msg))
       (bindM (create_gateways E i n) (\<lambda>res.
        thenM (start_created (gr_gateways res))
        (ret (Redirect (with_ok (group_url i)
                (''Created '' @ str_nat (length (gr_gateways res)) @ '' gateway(s)''))))))"

section \<open>Gateways\<close>

definition start_gateway_creation :: "env \<Rightarrow> int \<Rightarrow> web_answer io" where
  "start_gateway_creation E worker_id =
     bindM (on_value_error Inl
       (bindM (create_gateway E \<lparr>cg_gateway_name = None, cg_udp_port = None, cg_worker_id = Some worker_id,
                 cg_peer_group_id = None, cg_lan_ip = None, cg_macvlan_slot = None\<rparr>) (\<lambda>res. ret (Inr res)))) (\<lambda>r.
     case r of
       Inl msg \<Rightarrow> ret (Redirect (with_error UI msg))
     | Inr res \<Rightarrow>
         thenM (schedule_provisioning_after_request (cr_gateway res) (cr_job res))
         (ret (Redirect (gateway_url (cr_gateway res)))))"

definition job_to_enqueue :: "env \<Rightarrow> gateway \<Rightarrow> job option \<Rightarrow> job option io" where
  "job_to_enqueue E g latest =
     (if latest = None \<or> job_status (the latest) = JFailed \<or> gw_status g = GError then
        on_value_error (\<lambda>_. None)
          (thenM (prepare_provisioning E (gw_id g)) (get_db (jobs_get_pending_for_gateway (gw_id g))))
      else if job_status (the latest) = JRunning then
        thenM (prepare_provisioning E (gw_id g)) (get_db (jobs_get_pending_for_gateway (gw_id g)))
      else ret latest)"

definition maybe_enqueue_provisioning :: "env \<Rightarrow> int \<Rightarrow> unit io" where
  "maybe_enqueue_provisioning E gid =
     bindM (get_db (gateways_get_by_id gid)) (\<lambda>found.
     case found of
       None \<Rightarrow> ret ()
     | Some g \<Rightarrow>
         if \<not> needs_provisioning g then ret ()
         else
           bindM (get_db (jobs_get_latest_create_job gid)) (\<lambda>latest.
           bindM (job_to_enqueue E g latest) (\<lambda>next.
           case next of
             None \<Rightarrow> ret ()
           | Some j \<Rightarrow>
               if job_status j = JPending then schedule_provisioning_after_request gid (job_id j) else ret ())))"

definition retry_gateway_ui :: "env \<Rightarrow> int \<Rightarrow> web_answer io" where
  "retry_gateway_ui E gid = thenM (maybe_enqueue_provisioning E gid) (ret (Redirect (gateway_url gid)))"

definition gateway_detail :: "env \<Rightarrow> int \<Rightarrow> str option \<Rightarrow> str option \<Rightarrow> web_answer io" where
  "gateway_detail E gid error ok =
     bindM (get_db (gateways_get_by_id gid)) (\<lambda>found.
     case found of
       None \<Rightarrow> ret (Redirect UI)
     | Some g \<Rightarrow>
         thenM (if gw_status g = GReady
                then try_except (bindM (ensure_backhaul_peer E gid) (\<lambda>_. ret ())) (\<lambda>_. rollback)
                else ret ())
        (bindM (exit_nodes_or_error E) (\<lambda>hs.
         let node = (case hs of
                       Inr ns \<Rightarrow> match_gateway_exit_node g (nodes_by hn_tailscale_ip ns) (nodes_by hn_hostname ns)
                     | Inl e \<Rightarrow> None) in
         bindM (get_db (peers_list_by_gateway gid)) (\<lambda>ps.
         bindM (get_db (\<lambda>d i. latest_peer_metric i d)) (\<lambda>peer_metrics.
         bindM (sort_peers_by_connectivity E ps peer_metrics) (\<lambda>sorted.
         bindM (get_db (latest_gateway_metric gid)) (\<lambda>metrics.
         bindM (liftE (first_host (gw_wg_subnet g))) (\<lambda>wg_ip.
         bindM (get_db (jobs_get_latest_create_job gid)) (\<lambda>job.
         bindM (format_provision_progress E job) (\<lambda>progress.
         bindM (if gw_status g = GReady then fetch_tailscale_status E g else ret None) (\<lambda>status.
         bindM (get_endpoint g) (\<lambda>endpoint.
         bindM (get_db (\<lambda>d. Option.bind (gw_peer_group_id g) (\<lambda>i. groups_get_by_id i d))) (\<lambda>group.
         ret (GatewayPage \<lparr>wp_gateway = g, wp_display_name = gateway_headscale_display_name g node,
            wp_endpoint = endpoint, wp_wg_gateway_ip = wg_ip, wp_exit_node = node,
            wp_headscale_error = (case hs of Inr _ \<Rightarrow> None | Inl e \<Rightarrow> Some e),
            wp_peers_online = filter pv_online sorted, wp_peers_offline = filter (\<lambda>r. \<not> pv_online r) sorted,
            wp_metrics = metrics, wp_progress = progress, wp_peer_group = group,
            wp_tailscale_status = status, wp_flash_error = error, wp_flash_ok = ok\<rparr>))))))))))))))"

text \<open>The answer of a restart: JSON for a script, a redirect for a form.\<close>

definition back_to :: "str \<Rightarrow> str" where
  "back_to redirect_to = (if own_page redirect_to then redirect_to else UI)"

definition restart_failure :: "bool \<Rightarrow> str \<Rightarrow> nat \<Rightarrow> str \<Rightarrow> web_answer io" where
  "restart_failure wants_json redirect_to sc msg =
     thenM rollback (ret (if wants_json
       then JsonAnswer sc (JObj [(''ok'', JBool False), (''error'', JStr msg)])
       else Redirect (with_error (back_to redirect_to) msg)))"

definition restart_gateway_ui :: "env \<Rightarrow> bool \<Rightarrow> int \<Rightarrow> str \<Rightarrow> web_answer io" where
  "restart_gateway_ui E wants_json gid redirect_to =
     try_except
       (bindM (restart_gateway E gid) (\<lambda>i.
        bindM (row_of gateways_get_by_id i) (\<lambda>g.
        let message = ''Gateway '' @ gw_name g @ '' restarted'' in
        ret (if wants_json
             then JsonAnswer 200 (JObj [(''ok'', JBool True), (''gateway_id'', JInt gid), (''message'', JStr message)])
             else Redirect (with_ok (back_to redirect_to) message)))))
       (\<lambda>e. if is_ValueError e then restart_failure wants_json redirect_to 400 (exn_str e)
            else restart_failure wants_json redirect_to 500 (or_else (exn_str e) ''Gateway restart failed''))"

definition boot_status_json :: "boot_status \<Rightarrow> json" where
  "boot_status_json s =
     JObj [(''vm_status'', bs_vm_status s), (''wg_online'', JBool (bs_wg_online s)),
           (''tailscale_online'', JBool (bs_tailscale_online s)), (''ready'', JBool (bs_ready s))]"

definition gateway_boot_status_ui :: "env \<Rightarrow> int \<Rightarrow> web_answer io" where
  "gateway_boot_status_ui E gid =
     on_value_error (\<lambda>msg. JsonAnswer 404 (JObj [(''ok'', JBool False), (''error'', JStr msg)]))
       (bindM (gateway_boot_status E gid) (\<lambda>s. ret (JsonAnswer 200 (boot_status_json s))))"

definition delete_gateway_ui :: "env \<Rightarrow> int \<Rightarrow> web_answer io" where
  "delete_gateway_ui E gid =
     thenM (on_value_error (\<lambda>_. ())
              (bindM (request_delete_gateway E gid) (\<lambda>jid. schedule_deletion_after_request gid jid)))
     (ret (Redirect UI))"

definition rename_gateway_tailscale_ui :: "env \<Rightarrow> int \<Rightarrow> str \<Rightarrow> str \<Rightarrow> web_answer io" where
  "rename_gateway_tailscale_ui E gid tailscale_hostname redirect_to =
     on_value_error_rollback
       (\<lambda>msg. Redirect (if own_page redirect_to then with_error redirect_to msg
                        else gateway_detail_url gid (Some msg) None))
       (bindM (rename_tailscale_display_name E gid (py_strip tailscale_hostname)) (\<lambda>_.
        ret (Redirect (if own_page redirect_to then with_ok redirect_to ''Gateway renamed''
                       else gateway_detail_url gid None (Some ''Headscale name updated'')))))"

section \<open>Peers\<close>

definition peer_failed :: "int \<Rightarrow> str \<Rightarrow> web_answer io" where
  "peer_failed gid msg = thenM rollback (ret (Redirect (gateway_detail_url gid (Some msg) None)))"

definition create_peer_ui :: "env \<Rightarrow> int \<Rightarrow> str \<Rightarrow> web_answer io" where
  "create_peer_ui E gid peer_name_field =
     try_except
       (bindM (if py_strip peer_name_field \<noteq> [] then ret (py_strip peer_name_field) else next_peer_name gid) (\<lambda>name.
        bindM (create_peer E gid name) (\<lambda>res.
        bindM (row_of peers_get_by_id (pr_peer res)) (\<lambda>p.
        ret (Redirect (gateway_detail_url gid None (Some (''Peer '' @ peer_name p @ '' created'')))))))) 
       (\<lambda>e. if is_ValueError e then peer_failed gid (exn_str e)
            else peer_failed gid (or_else (exn_str e) ''Peer creation failed''))"

definition download_all_peer_configs :: "env \<Rightarrow> int \<Rightarrow> web_answer io" where
  "download_all_peer_configs E gid =
     bindM (get_db (gateways_get_by_id gid)) (\<lambda>found.
     case found of
       None \<Rightarrow> ret (TextAnswer 404 ''Gateway not found'')
     | Some g \<Rightarrow>
         bindM (get_db (peers_list_by_gateway gid)) (\<lambda>ps.
         if ps = [] then ret (TextAnswer 404 ''No peers'')
         else
           bindM (mapM (\<lambda>p. bindM (export_config E (peer_id p)) (\<lambda>c. ret (peer_name p @ ''.conf'', c))) ps) (\<lambda>files.
           ret (Archive files (gw_name g @ ''-peers.zip'')))))"

definition download_peer_config :: "env \<Rightarrow> int \<Rightarrow> web_answer io" where
  "download_peer_config E pid =
     on_value_error (\<lambda>_. TextAnswer 404 ''Peer not found'')
       (bindM (export_config E pid) (\<lambda>conf.
        bindM (get_db (peers_get_by_id pid)) (\<lambda>p.
        ret (Download conf (case p of Some x \<Rightarrow> peer_name x @ ''.conf'' | None \<Rightarrow> ''peer.conf'')))))"

definition regenerate_peer_ui :: "env \<Rightarrow> int \<Rightarrow> web_answer io" where
  "regenerate_peer_ui E pid =
     thenM (on_value_error (\<lambda>_. ()) (bindM (regenerate_peer_keys E pid) (\<lambda>_. ret ())))
     (ret (Redirect (UI @ ''/peers/'' @ str_int pid @ ''/config'')))"

text \<open>Where the page of a peer's gateway is: the peer was looked up before it changed.\<close>

definition page_of_peer :: "peer option \<Rightarrow> str" where
  "page_of_peer p = (case p of Some x \<Rightarrow> gateway_url (peer_gateway_id x) | None \<Rightarrow> UI)"

definition delete_peer_ui :: "env \<Rightarrow> int \<Rightarrow> web_answer io" where
  "delete_peer_ui E pid =
     bindM (get_db (peers_get_by_id pid)) (\<lambda>p.
     thenM (on_value_error (\<lambda>_. ()) (if p \<noteq> None then delete_peer E pid else ret ()))
     (ret (Redirect (if Option.bind p (\<lambda>x. Some (peer_gateway_id x)) = Some 0 then UI else page_of_peer p))))"

definition suspend_peer_ui :: "env \<Rightarrow> int \<Rightarrow> web_answer io" where
  "suspend_peer_ui E pid =
     bindM (get_db (peers_get_by_id pid)) (\<lambda>p.
     thenM (on_value_error (\<lambda>_. ()) (bindM (suspend_peer E pid) (\<lambda>_. ret ())))
     (ret (Redirect (page_of_peer p))))"

definition resume_peer_ui :: "env \<Rightarrow> int \<Rightarrow> web_answer io" where
  "resume_peer_ui E pid =
     bindM (get_db (peers_get_by_id pid)) (\<lambda>p.
     thenM (on_value_error (\<lambda>_. ()) (bindM (resume_peer E pid) (\<lambda>_. ret ())))
     (ret (Redirect (page_of_peer p))))"

section \<open>Routes\<close>

record ui_request =
  uq_method :: str
  uq_path :: str
  uq_query :: "str \<Rightarrow> str option"
  uq_form :: "str \<Rightarrow> str option"
  uq_accept :: "str option"

datatype ui_route =
    UDashboard | ULogs | UExitNodeKey | UPending | UApprove | UReject
  | UGroupCreate | UGroupRename | UGroupDetail | UGroupScript | UCleanup | UGroupGateways
  | UNewGateway | UWorkerStats | UJoinScript | UEnroll | UWorkerGateway | UGatewayCreate
  | UGatewayDetail | URetry | URestart | UBootStatus | UGatewayDelete | UGatewayRename
  | UPeerCreate | UPeerArchive | UPeerConfig | UPeerRegenerate | UPeerDelete | UPeerSuspend | UPeerResume

definition ui_routes :: "ui_route list" where
  "ui_routes =
     [UDashboard, ULogs, UExitNodeKey, UPending, UApprove, UReject, UGroupCreate, UGroupRename, UGroupDetail,
      UGroupScript, UCleanup, UGroupGateways, UNewGateway, UWorkerStats, UJoinScript, UEnroll, UWorkerGateway,
      UGatewayCreate, UGatewayDetail, URetry, URestart, UBootStatus, UGatewayDelete, UGatewayRename,
      UPeerCreate, UPeerArchive, UPeerConfig, UPeerRegenerate, UPeerDelete, UPeerSuspend, UPeerResume]"

fun ui_template :: "ui_route \<Rightarrow> str \<times> segment list" where
  "ui_template UDashboard = (''GET'', [])"
| "ui_template ULogs = (''GET'', [Fixed ''logs''])"
| "ui_template UExitNodeKey = (''POST'', [Fixed ''exit-nodes'', Fixed ''authkey''])"
| "ui_template UPending = (''GET'', [Fixed ''registrations'', Fixed ''pending''])"
| "ui_template UApprove = (''POST'', [Fixed ''registrations'', Parameter, Fixed ''approve''])"
| "ui_template UReject = (''POST'', [Fixed ''registrations'', Parameter, Fixed ''reject''])"
| "ui_template UGroupCreate = (''POST'', [Fixed ''peer-groups'', Fixed ''create''])"
| "ui_template UGroupRename = (''POST'', [Fixed ''peer-groups'', Parameter, Fixed ''rename''])"
| "ui_template UGroupDetail = (''GET'', [Fixed ''peer-groups'', Parameter])"
| "ui_template UGroupScript = (''GET'', [Fixed ''peer-groups'', Parameter, Fixed ''host-setup.sh''])"
| "ui_template UCleanup = (''GET'', [Fixed ''exit-host-cleanup.sh''])"
| "ui_template UGroupGateways = (''POST'', [Fixed ''peer-groups'', Parameter, Fixed ''gateways''])"
| "ui_template UNewGateway = (''GET'', [Fixed ''gateways'', Fixed ''new''])"
| "ui_template UWorkerStats = (''GET'', [Fixed ''workers'', Fixed ''stats''])"
| "ui_template UJoinScript = (''GET'', [Fixed ''workers'', Fixed ''join.sh''])"
| "ui_template UEnroll = (''POST'', [Fixed ''workers'', Fixed ''enroll''])"
| "ui_template UWorkerGateway = (''GET'', [Fixed ''workers'', Parameter, Fixed ''create-gateway''])"
| "ui_template UGatewayCreate = (''POST'', [Fixed ''gateways'', Fixed ''create''])"
| "ui_template UGatewayDetail = (''GET'', [Fixed ''gateways'', Parameter])"
| "ui_template URetry = (''POST'', [Fixed ''gateways'', Parameter, Fixed ''retry''])"
| "ui_template URestart = (''POST'', [Fixed ''gateways'', Parameter, Fixed ''restart''])"
| "ui_template UBootStatus = (''GET'', [Fixed ''gateways'', Parameter, Fixed ''boot-status''])"
| "ui_template UGatewayDelete = (''POST'', [Fixed ''gateways'', Parameter, Fixed ''delete''])"
| "ui_template UGatewayRename = (''POST'', [Fixed ''gateways'', Parameter, Fixed ''tailscale-name''])"
| "ui_template UPeerCreate = (''POST'', [Fixed ''gateways'', Parameter, Fixed ''peers''])"
| "ui_template UPeerArchive = (''GET'', [Fixed ''gateways'', Parameter, Fixed ''peers'', Fixed ''config''])"
| "ui_template UPeerConfig = (''GET'', [Fixed ''peers'', Parameter, Fixed ''config''])"
| "ui_template UPeerRegenerate = (''POST'', [Fixed ''peers'', Parameter, Fixed ''regenerate''])"
| "ui_template UPeerDelete = (''POST'', [Fixed ''peers'', Parameter, Fixed ''delete''])"
| "ui_template UPeerSuspend = (''POST'', [Fixed ''peers'', Parameter, Fixed ''suspend''])"
| "ui_template UPeerResume = (''POST'', [Fixed ''peers'', Parameter, Fixed ''resume''])"

text \<open>
  Form fields: FastAPI takes an empty field for a missing one, so a required field must have a text and
  \<open>Form("")\<close> gives the empty text for both.
\<close>

definition form_text :: "ui_request \<Rightarrow> str \<Rightarrow> str option" where
  "form_text rq name = (case uq_form rq name of Some s \<Rightarrow> if s = [] then None else Some s | None \<Rightarrow> None)"

definition form_or_empty :: "ui_request \<Rightarrow> str \<Rightarrow> str" where
  "form_or_empty rq name = str_or (form_text rq name) []"

definition form_int :: "pydantic \<Rightarrow> ui_request \<Rightarrow> str \<Rightarrow> int option" where
  "form_int V rq name = Option.bind (form_text rq name) (\<lambda>s. pd_int V (JStr s))"

definition wants_json :: "ui_request \<Rightarrow> bool" where
  "wants_json rq \<longleftrightarrow> py_contains (str_or (uq_accept rq) []) ''application/json''"

definition run_ui_route :: "env \<Rightarrow> pydantic \<Rightarrow> ui_request \<Rightarrow> ui_route \<Rightarrow> str list \<Rightarrow> web_answer io" where
  "run_ui_route E V rq r ps =
     (let i = pd_int V (JStr (hd ps)); q = uq_query rq in
      case r of
        UDashboard \<Rightarrow> dashboard E (q ''error'') (q ''ok'')
      | ULogs \<Rightarrow> logs_page E (case q ''unit'' of None \<Rightarrow> Some ''orchestrator'' | u \<Rightarrow> u)
                   (case q ''limit'' of None \<Rightarrow> Some ''200'' | l \<Rightarrow> l)
      | UExitNodeKey \<Rightarrow> create_exit_node_authkey E
      | UPending \<Rightarrow> list_pending_registrations
      | UApprove \<Rightarrow> approve_registration_ui E (hd ps)
      | UReject \<Rightarrow> reject_registration_ui E (hd ps)
      | UGroupCreate \<Rightarrow>
          validated (form_text rq ''name'') (\<lambda>name.
          validated (form_int V rq ''worker_id'') (\<lambda>wid.
          validated (form_text rq ''lan_start_ip'') (\<lambda>start.
          create_peer_group_ui E name wid start (form_or_empty rq ''parent_iface''))))
      | UGroupRename \<Rightarrow> validated i (\<lambda>i. validated (form_text rq ''name'') (rename_peer_group_ui E i))
      | UGroupDetail \<Rightarrow> validated i (\<lambda>i. peer_group_detail E i (q ''error'') (q ''ok''))
      | UGroupScript \<Rightarrow> validated i (download_peer_group_host_setup E)
      | UCleanup \<Rightarrow> download_exit_host_cleanup E
      | UGroupGateways \<Rightarrow> validated i (\<lambda>i. validated (form_int V rq ''count'') (create_group_gateways_ui E i))
      | UNewGateway \<Rightarrow> ret (Redirect UI)
      | UWorkerStats \<Rightarrow> worker_stats E
      | UJoinScript \<Rightarrow> worker_join_script E
      | UEnroll \<Rightarrow> create_worker_enrollment E
      | UWorkerGateway \<Rightarrow> validated i (start_gateway_creation E)
      | UGatewayCreate \<Rightarrow> validated (form_int V rq ''worker_id'') (start_gateway_creation E)
      | UGatewayDetail \<Rightarrow> validated i (\<lambda>i. gateway_detail E i (q ''error'') (q ''ok''))
      | URetry \<Rightarrow> validated i (retry_gateway_ui E)
      | URestart \<Rightarrow> validated i (\<lambda>i. restart_gateway_ui E (wants_json rq) i (form_or_empty rq ''redirect_to''))
      | UBootStatus \<Rightarrow> validated i (gateway_boot_status_ui E)
      | UGatewayDelete \<Rightarrow> validated i (delete_gateway_ui E)
      | UGatewayRename \<Rightarrow>
          validated i (\<lambda>i. validated (form_text rq ''tailscale_hostname'') (\<lambda>h.
          rename_gateway_tailscale_ui E i h (form_or_empty rq ''redirect_to'')))
      | UPeerCreate \<Rightarrow> validated i (\<lambda>i. create_peer_ui E i (form_or_empty rq ''peer_name''))
      | UPeerArchive \<Rightarrow> validated i (download_all_peer_configs E)
      | UPeerConfig \<Rightarrow> validated i (download_peer_config E)
      | UPeerRegenerate \<Rightarrow> validated i (regenerate_peer_ui E)
      | UPeerDelete \<Rightarrow> validated i (delete_peer_ui E)
      | UPeerSuspend \<Rightarrow> validated i (suspend_peer_ui E)
      | UPeerResume \<Rightarrow> validated i (resume_peer_ui E))"

text \<open>The routes without the parameter \<open>session\<close> run outside any session.\<close>

definition without_session :: "ui_route \<Rightarrow> bool" where
  "without_session r \<longleftrightarrow> r \<in> {ULogs, UExitNodeKey, UCleanup, UNewGateway, UJoinScript}"

definition handle_ui :: "env \<Rightarrow> pydantic \<Rightarrow> ui_request \<Rightarrow> ui_route \<Rightarrow> str list \<Rightarrow> web_answer io" where
  "handle_ui E V rq r ps =
     (if without_session r then run_ui_route E V rq r ps else with_session E (run_ui_route E V rq r ps))"

section \<open>Redirects\<close>

text \<open>What every answer of a computation satisfies.\<close>

abbreviation answers :: "'a io \<Rightarrow> ('a \<Rightarrow> bool) \<Rightarrow> bool" where
  "answers m P \<equiv> yields (\<lambda>_. True) m P"

definition stays :: "web_answer \<Rightarrow> bool" where
  "stays a \<longleftrightarrow> (case a of Redirect url \<Rightarrow> py_startswith url UI | _ \<Rightarrow> True)"

lemma keeps_always [keeps_intros]: "keeps (\<lambda>_. True) m"
  by (simp add: keeps_def)

lemma answers_catchM [yields_intros]:
  "answers m P \<Longrightarrow> (\<And>e. answers (h e) P) \<Longrightarrow> answers (catchM m h) P"
  by (fastforce simp: yields_def catchM_def split: prod.splits sum.splits)

lemma answers_try_except [yields_intros]:
  "answers m P \<Longrightarrow> (\<And>e. answers (h e) P) \<Longrightarrow> answers (try_except m h) P"
  unfolding try_except_def by (intro yields_intros)

lemma answers_on_value_error [yields_intros]:
  "answers m P \<Longrightarrow> (\<And>msg. P (f msg)) \<Longrightarrow> answers (on_value_error f m) P"
  "answers m P \<Longrightarrow> (\<And>msg. P (f msg)) \<Longrightarrow> answers (on_value_error_rollback f m) P"
  unfolding on_value_error_def on_value_error_rollback_def by (intro yields_intros keeps_always; assumption?)+

lemma answers_validated [yields_intros]: "(\<And>x. answers (f x) P) \<Longrightarrow> answers (validated v f) P"
  unfolding validated_def by (intro yields_intros)

lemma answers_prod [yields_intros]: "(\<And>a b. answers (f a b) P) \<Longrightarrow> answers (case x of (a, b) \<Rightarrow> f a b) P"
  by (cases x) simp

lemma answers_sum [yields_intros]:
  "(\<And>a. answers (f a) P) \<Longrightarrow> (\<And>b. answers (g b) P) \<Longrightarrow> answers (case x of Inl a \<Rightarrow> f a | Inr b \<Rightarrow> g b) P"
  by (cases x) simp_all

lemma answers_getter [yields_intros]: "(\<And>d. P (f d)) \<Longrightarrow> answers (get_db f) P"
  by (auto simp: yields_def)

lemma stays_other [simp]:
  "stays (DashboardPage d)" "stays (LogsPage l)" "stays (GroupPage g)" "stays (GatewayPage p)"
  "stays (RegisterPage n a b c e)" "stays (JsonAnswer n j)" "stays (WorkerStats xs)" "stays (TextAnswer n t)"
  "stays (Download s f)" "stays (Archive fs f)" "stays (FileAnswer f)"
  by (simp_all add: stays_def)

lemma startswith_append: "py_startswith s p \<Longrightarrow> py_startswith (s @ t) p"
  unfolding py_startswith_def by (metis append.assoc append_take_drop_id append_eq_conv_conj)

lemma startswith_own: "py_startswith UI UI" "py_startswith (UI @ t) UI"
  by (simp_all add: py_startswith_def)

lemma stays_redirect [simp]: "stays (Redirect url) \<longleftrightarrow> py_startswith url UI"
  by (simp add: stays_def)

lemma own_urls [simp]:
  "py_startswith UI UI" "py_startswith (gateway_url i) UI" "py_startswith (group_url i) UI"
  "py_startswith (gateway_detail_url i e k) UI" "py_startswith (page_of_peer p) UI"
  "py_startswith (back_to r) UI" "own_page r \<Longrightarrow> py_startswith r UI" "py_startswith (UI @ t) UI"
  by (auto simp: gateway_url_def group_url_def gateway_detail_url_def page_of_peer_def back_to_def own_page_def
      startswith_own startswith_append Let_def split: option.split)

lemma own_messages [simp]:
  "py_startswith url UI \<Longrightarrow> py_startswith (with_error url m) UI"
  "py_startswith url UI \<Longrightarrow> py_startswith (with_ok url m) UI"
  by (simp_all add: with_error_def with_ok_def startswith_append)

lemma stays_pages [yields_intros]:
  "answers (dashboard E e k) stays" "answers (logs_page E u l) stays" "answers (create_exit_node_authkey E) stays"
  "answers list_pending_registrations stays" "answers (approve_registration_ui E key) stays"
  "answers (reject_registration_ui E key) stays" "answers (worker_stats E) stays"
  "answers (worker_join_script E) stays" "answers (create_worker_enrollment E) stays"
  "answers (download_exit_host_cleanup E) stays"
  unfolding dashboard_def logs_page_def create_exit_node_authkey_def list_pending_registrations_def
    approve_registration_ui_def reject_registration_ui_def worker_stats_def worker_join_script_def
    create_worker_enrollment_def download_exit_host_cleanup_def Let_def
  by (intro yields_intros keeps_always; simp)+

lemma stays_groups [yields_intros]:
  "answers (create_peer_group_ui E n wid s f) stays" "answers (rename_peer_group_ui E i n) stays"
  "answers (peer_group_detail E i e k) stays" "answers (download_peer_group_host_setup E i) stays"
  "answers (create_group_gateways_ui E i c) stays"
  unfolding create_peer_group_ui_def rename_peer_group_ui_def peer_group_detail_def
    download_peer_group_host_setup_def create_group_gateways_ui_def
  by (intro yields_intros keeps_always; simp)+

lemma stays_gateways [yields_intros]:
  "answers (start_gateway_creation E wid) stays" "answers (gateway_detail E i e k) stays"
  "answers (retry_gateway_ui E i) stays" "answers (restart_gateway_ui E j i r) stays"
  "answers (gateway_boot_status_ui E i) stays" "answers (delete_gateway_ui E i) stays"
  "answers (rename_gateway_tailscale_ui E i h r) stays"
  unfolding start_gateway_creation_def gateway_detail_def retry_gateway_ui_def restart_gateway_ui_def
    restart_failure_def gateway_boot_status_ui_def delete_gateway_ui_def rename_gateway_tailscale_ui_def Let_def
  by (intro yields_intros keeps_always; simp)+

lemma stays_peers [yields_intros]:
  "answers (create_peer_ui E i n) stays" "answers (download_all_peer_configs E i) stays"
  "answers (download_peer_config E i) stays" "answers (regenerate_peer_ui E i) stays"
  "answers (delete_peer_ui E i) stays" "answers (suspend_peer_ui E i) stays" "answers (resume_peer_ui E i) stays"
  unfolding create_peer_ui_def peer_failed_def download_all_peer_configs_def download_peer_config_def
    regenerate_peer_ui_def delete_peer_ui_def suspend_peer_ui_def resume_peer_ui_def
  by (intro yields_intros keeps_always; simp)+

lemma route_stays: "answers (run_ui_route E V rq r ps) stays"
  unfolding run_ui_route_def Let_def
  by (cases r; simp only: ui_route.simps; intro yields_intros) simp_all

section \<open>From the request to the handler\<close>

definition ui_prefix :: "env \<Rightarrow> str" where
  "ui_prefix E = py_rstrip_char (CHR ''/'') (s_api_root E) @ ''/ui''"

definition match_ui :: "env \<Rightarrow> str \<Rightarrow> ui_route \<Rightarrow> str list option" where
  "match_ui E path r =
     match_segments (map Fixed (py_split (CHR ''/'') (ui_prefix E)) @ snd (ui_template r))
       (py_split (CHR ''/'') path)"

definition ui_dispatch :: "env \<Rightarrow> pydantic \<Rightarrow> ui_request \<Rightarrow> web_answer io" where
  "ui_dispatch E V rq =
     (case find (\<lambda>r. fst (ui_template r) = uq_method rq \<and> match_ui E (uq_path rq) r \<noteq> None) ui_routes of
        Some r \<Rightarrow> handle_ui E V rq r (the (match_ui E (uq_path rq) r))
      | None \<Rightarrow>
          if list_ex (\<lambda>r. match_ui E (uq_path rq) r \<noteq> None) ui_routes
          then raise (HTTPException 405 ''Method Not Allowed'')
          else raise (HTTPException 404 ''Not Found''))"

definition ui_serve :: "env \<Rightarrow> pydantic \<Rightarrow> ui_request \<Rightarrow> web_answer io" where
  "ui_serve E V rq =
     catchM (ui_dispatch E V rq)
       (\<lambda>e. case e of
              HTTPException sc d \<Rightarrow> ret (JsonAnswer sc (JObj [(''detail'', JStr d)]))
            | Diverged \<Rightarrow> raise e
            | _ \<Rightarrow> ret (TextAnswer 500 ''Internal Server Error''))"


section \<open>A failed creation\<close>

definition ui_creation :: "int \<Rightarrow> create_gateway_request" where
  "ui_creation wid = \<lparr>cg_gateway_name = None, cg_udp_port = None, cg_worker_id = Some wid,
     cg_peer_group_id = None, cg_lan_ip = None, cg_macvlan_slot = None\<rparr>"


section \<open>Witnesses\<close>

definition sample_ui :: "str \<Rightarrow> str \<Rightarrow> ui_request" where
  "sample_ui verb path =
     \<lparr>uq_method = verb, uq_path = path, uq_query = (\<lambda>_. None), uq_form = (\<lambda>_. None), uq_accept = None\<rparr>"


text \<open>A worker all of whose ports are taken, but with addresses left.\<close>

definition portless_worker :: worker where
  "portless_worker = sample_worker\<lparr>wk_port_pool_end := 51820\<rparr>"

definition portless_db :: db where
  "portless_db = sample_db\<lparr>workers := [portless_worker]\<rparr>"

lemma portless_resolve:
  assumes "db w = portless_db"
  shows "\<exists>w'. resolve_worker_for_gateway quiet_env (Some 1) w = (Inr portless_worker, w') \<and> db w' = portless_db \<and>
    stored w' = stored w"
proof -
  have "list_online_workers quiet_env w = (Inr [portless_worker], emit Clock w)"
    using assms
    by (simp add: list_online_workers_def dashboard_workers_def comp_defs effective_status_def now_def
        quiet_settings status_at_def sample_db_def sample_worker_def wk_is_local_def workers_list_all_def
        portless_db_def portless_worker_def empty_db_def HEARTBEAT_STALE_SECONDS_def second_def)
  then show ?thesis
    using assms
    by (simp add: resolve_worker_for_gateway_def comp_defs get_worker_def workers_get_by_id_def tbl_get_def
        sample_db_def sample_worker_def wk_is_local_def effective_status_def now_def quiet_settings status_at_def
        portless_db_def portless_worker_def HEARTBEAT_STALE_SECONDS_def second_def empty_db_def)
qed

lemma portless_facts:
  "vm_ip_loop (\<lambda>a. a \<in> set (used_vm_ips (wk_id portless_worker) portless_db))
     (broadcast \<lparr>net_addr = 167772160, net_plen = 24\<rparr>) 167772170 = Some ''10.0.0.11''"
  "unique_ok (add_ip_alloc 1 ''10.0.0.11'' None portless_db)"
  "fst (next_gateway_name (fresh_world portless_db)) = Inr ''gw-001''"
  "gateways_get_by_name ''gw-001'' portless_db = None"
  "51820 \<in> set (used_udp_ports 1 portless_db)"
  by code_simp+

lemma portless_creation:
  "\<exists>msg w1. create_gateway quiet_env (ui_creation 1) (fresh_world portless_db) = (Inl (ValueError msg), w1) \<and>
     db w1 = add_ip_alloc 1 ''10.0.0.11'' None portless_db"
proof -
  obtain w1 where w1: "gateway_preauth quiet_env (fresh_world portless_db) = (Inr \<lparr>pak_key = ''hskey'', pak_user_id = 1\<rparr>, w1)"
      "db w1 = portless_db"
    using quiet_preauth [of "fresh_world portless_db"] by (auto simp: fresh_world_def)
  obtain w2 where w2: "resolve_worker_for_gateway quiet_env (Some 1) (emit GenKeypair (emit GenToken w1)) = (Inr portless_worker, w2)"
      "db w2 = portless_db"
    using portless_resolve [of "emit GenKeypair (emit GenToken w1)"] w1 by auto
  have name: "next_gateway_name (fresh_world portless_db) = (Inr ''gw-001'', fresh_world portless_db)"
    using portless_facts(3) by (simp add: next_gateway_name_def comp_defs)
  have ports: "wk_port_pool_start portless_worker = 51820" "wk_port_pool_end portless_worker = 51820"
    "wk_id portless_worker = 1" "wk_ip_pool_network portless_worker = ''10.0.0.0/24''"
    "wk_ip_pool_start portless_worker = ''10.0.0.10''"
    by (simp_all add: portless_worker_def sample_worker_def)
  have ip: "allocate_vm_ip quiet_env portless_worker w2 =
      (Inr ''10.0.0.11'', emit Flush (w2\<lparr>db := add_ip_alloc 1 ''10.0.0.11'' None portless_db\<rparr>))"
    using w2(2) portless_facts(1,2) by (simp add: allocate_vm_ip_def comp_defs sample_parse flush_def quiet_settings ports)
  have "db (fresh_world portless_db) = portless_db" by (simp add: fresh_world_def)
  then show ?thesis
    using w1 w2 ip portless_facts(4,5)
    by (simp add: create_gateway_def comp_defs ui_creation_def name generate_token_def generate_keypair_def quiet_settings
        gateway_port_def allocate_udp_port_def ports)
qed

definition creation_request :: orch_request where
  "creation_request = (bare_request ''POST'' ''http://orch/api/v1/gateways'')
     \<lparr>oq_api_key := Some ''key'', oq_body := Payload (JObj [(''worker_id'', JInt 1)])\<rparr>"


end
