(* ===== verification/App.thy ===== *)
theory App
  imports WebRoutes Threads
begin

declare append_Cons [simp del]

text \<open>
  The orchestrator as one program (\<open>orchestrator/main.py\<close>): the routers in the order they are included, the
  middleware, the start of the server and the passes of its scheduler. The states of the running program are
  those of \<open>Threads\<close>: the world together with the threads that have not ended.
\<close>

section \<open>Requests and answers\<close>

text \<open>A request as the server receives it; the names of headers are in lower case.\<close>

record app_request =
  aq_method :: str
  aq_path :: str
  aq_header :: "str \<Rightarrow> str option"
  aq_query :: "str \<Rightarrow> str option"
  aq_body :: payload
  aq_form :: "str \<Rightarrow> str option"

definition api_request :: "app_request \<Rightarrow> orch_request" where
  "api_request rq =
     \<lparr>oq_method = aq_method rq, oq_path = aq_path rq, oq_api_key = aq_header rq ''x-api-key'',
      oq_authorization = aq_header rq ''authorization'', oq_worker_token = aq_header rq ''x-worker-token'',
      oq_enroll_token = aq_header rq ''x-enroll-token'', oq_body = aq_body rq\<rparr>"

definition web_request :: "app_request \<Rightarrow> ui_request" where
  "web_request rq =
     \<lparr>uq_method = aq_method rq, uq_path = aq_path rq, uq_query = aq_query rq, uq_form = aq_form rq,
      uq_accept = aq_header rq ''accept''\<rparr>"

text \<open>
  \<open>Foreign\<close> is an answer of the pages FastAPI brings along or of the mounted static files, with its status
  and whether it is HTML; \<open>Moved\<close> is the redirect for the slash at the end of a path.
\<close>

datatype app_answer =
    Api api_answer
  | Ui web_answer
  | Healthy
  | Home str
  | Moved str
  | Problem nat str
  | Crashed
  | Foreign nat bool

section \<open>Routers\<close>

datatype app_route = ARegister | ARegisterStatus | AUi ui_route | AApi orch_route | AHealth | ARoot

definition app_routes :: "app_route list" where
  "app_routes =
     [ARegister, ARegisterStatus] @ map AUi ui_routes @ map AApi orch_routes @ [AHealth, ARoot]"

text \<open>\<open>settings.api_root.rstrip("/")\<close>.\<close>

definition root_prefix :: "env \<Rightarrow> str" where
  "root_prefix E = py_rstrip_char (CHR ''/'') (s_api_root E)"

definition fixed_path :: "str \<Rightarrow> segment list" where
  "fixed_path p = map Fixed (py_split (CHR ''/'') p)"

fun app_template :: "env \<Rightarrow> app_route \<Rightarrow> str \<times> segment list" where
  "app_template E ARegister = (''GET'', fixed_path ''/register'' @ [Parameter])"
| "app_template E ARegisterStatus = (''GET'', fixed_path ''/register'' @ [Parameter, Fixed ''status''])"
| "app_template E (AUi r) = (fst (ui_template r), fixed_path (ui_prefix E) @ snd (ui_template r))"
| "app_template E (AApi r) = (fst (orch_template r), fixed_path (api_prefix E) @ snd (orch_template r))"
| "app_template E AHealth = (''GET'', fixed_path (root_prefix E @ ''/health''))"
| "app_template E ARoot = (''GET'', fixed_path (or_else (root_prefix E) ''/''))"

definition match_app :: "env \<Rightarrow> str \<Rightarrow> app_route \<Rightarrow> str list option" where
  "match_app E path r = match_segments (snd (app_template E r)) (py_split (CHR ''/'') path)"

definition run_app_route :: "env \<Rightarrow> pydantic \<Rightarrow> app_request \<Rightarrow> app_route \<Rightarrow> str list \<Rightarrow> app_answer io" where
  "run_app_route E V rq r ps =
     (case r of
        ARegister \<Rightarrow> bindM (with_session E (register_page E (hd ps))) (\<lambda>a. ret (Ui a))
      | ARegisterStatus \<Rightarrow> bindM (with_session E (register_status (hd ps))) (\<lambda>a. ret (Ui a))
      | AUi u \<Rightarrow> bindM (handle_ui E V (web_request rq) u ps) (\<lambda>a. ret (Ui a))
      | AApi o' \<Rightarrow> bindM (handle_orch E V (api_request rq) o' ps) (\<lambda>a. ret (Api a))
      | AHealth \<Rightarrow> ret Healthy
      | ARoot \<Rightarrow> ret (Home (ui_prefix E @ ''/'')))"

text \<open>
  \<open>other\<close> answers for the pages of FastAPI and for the static files, which come first; it neither reads nor
  changes the state.
\<close>

definition app_dispatch ::
  "env \<Rightarrow> pydantic \<Rightarrow> (app_request \<Rightarrow> app_answer option) \<Rightarrow> app_request \<Rightarrow> app_answer io" where
  "app_dispatch E V other rq =
     (case other rq of
        Some a \<Rightarrow> ret a
      | None \<Rightarrow>
          (case find (\<lambda>r. fst (app_template E r) = aq_method rq \<and> match_app E (aq_path rq) r \<noteq> None) app_routes of
             Some r \<Rightarrow> run_app_route E V rq r (the (match_app E (aq_path rq) r))
           | None \<Rightarrow>
               let toggled = toggle_slash (aq_path rq) in
               if list_ex (\<lambda>r. match_app E (aq_path rq) r \<noteq> None) app_routes
               then raise (HTTPException 405 ''Method Not Allowed'')
               else if aq_path rq \<noteq> ''/'' \<and>
                       (other (rq\<lparr>aq_path := toggled\<rparr>) \<noteq> None \<or>
                        list_ex (\<lambda>r. match_app E toggled r \<noteq> None) app_routes)
               then ret (Moved toggled)
               else raise (HTTPException 404 ''Not Found'')))"

section \<open>The middleware\<close>

fun is_page :: "web_answer \<Rightarrow> bool" where
  "is_page (DashboardPage d) = True"
| "is_page (LogsPage l) = True"
| "is_page (GroupPage g) = True"
| "is_page (GatewayPage g) = True"
| "is_page (RegisterPage sc a b c d) = True"
| "is_page _ = False"

text \<open>Whether the content type of an answer is \<open>text/html\<close>.\<close>

fun is_html :: "app_answer \<Rightarrow> bool" where
  "is_html (Ui a) = is_page a"
| "is_html (Foreign sc html) = html"
| "is_html _ = False"

text \<open>\<open>NoCacheHtmlMiddleware\<close> sets its three headers on HTML, and on nothing else.\<close>

record served =
  sv_answer :: app_answer
  sv_no_cache :: bool

definition no_cache_html :: "app_answer \<Rightarrow> served" where
  "no_cache_html a = \<lparr>sv_answer = a, sv_no_cache = is_html a\<rparr>"

definition app_serve ::
  "env \<Rightarrow> pydantic \<Rightarrow> (app_request \<Rightarrow> app_answer option) \<Rightarrow> app_request \<Rightarrow> served io" where
  "app_serve E V other rq =
     bindM (catchM (app_dispatch E V other rq)
              (\<lambda>e. case e of
                     HTTPException sc d \<Rightarrow> ret (Problem sc d)
                   | Diverged \<Rightarrow> raise e
                   | _ \<Rightarrow> ret Crashed)) (\<lambda>a.
     ret (no_cache_html a))"

section \<open>Static files\<close>

text \<open>\<open>VersionedStaticFiles\<close>: the header \<open>Cache-Control\<close> of a file, by its status and the query of its URL.\<close>

definition static_cache_control :: "nat \<Rightarrow> str \<Rightarrow> str option" where
  "static_cache_control sc query =
     (if sc \<noteq> 200 then None
      else if py_contains query ''v='' then Some ''public, max-age=31536000, immutable''
      else Some ''no-cache, must-revalidate'')"

text \<open>The version is the environment variable, or the start of a digest over all files.\<close>

definition static_asset_version :: "str \<Rightarrow> str \<Rightarrow> str" where
  "static_asset_version override digest =
     (if py_strip override \<noteq> [] then py_strip override else take 12 digest)"

definition static_url :: "str \<Rightarrow> str \<Rightarrow> str \<Rightarrow> str" where
  "static_url version filename api_root =
     py_rstrip_char (CHR ''/'') api_root @ ''/static/'' @ dropWhile (\<lambda>c. c = CHR ''/'') filename @ ''?v='' @ version"

section \<open>The scheduler and the start of the server\<close>

definition run_metrics_collection :: "env \<Rightarrow> unit io" where
  "run_metrics_collection E =
     own_session (try_except (bindM (collect_metrics E) (\<lambda>_. ret ())) (\<lambda>_. ret ()))"

definition run_headscale_sync :: "env \<Rightarrow> unit io" where
  "run_headscale_sync E = bindM (sync_headscale_exit_nodes E None) (\<lambda>_. ret ())"

definition run_provisioning_sweep :: "env \<Rightarrow> unit io" where
  "run_provisioning_sweep E =
     bindM (resume_incomplete_provisioning E) (\<lambda>_. bindM (resume_incomplete_deletions E) (\<lambda>_. ret ()))"

text \<open>\<open>lifespan\<close> up to its \<open>yield\<close>; \<open>init_db\<close> concerns the schema, not the rows.\<close>

definition lifespan_start :: "env \<Rightarrow> unit io" where
  "lifespan_start E =
     bindM (own_session (ensure_default_local_worker E)) (\<lambda>_.
     thenM (run_headscale_sync E)
     (run_provisioning_sweep E))"

text \<open>
  What happens to the running server: requests, the three passes of the scheduler, and the ends of background
  threads, in any order. Each runs as one step, as the sessions are serialised by the lock of the database.
\<close>

inductive app_step ::
  "env \<Rightarrow> pydantic \<Rightarrow> (app_request \<Rightarrow> app_answer option) \<Rightarrow> system \<Rightarrow> system \<Rightarrow> bool" for E V other where
  request: "app_serve E V other rq w = (r, w') \<Longrightarrow> app_step E V other (w, ts) (w', ts @ started w w')"
| metrics: "run_metrics_collection E w = (r, w') \<Longrightarrow> app_step E V other (w, ts) (w', ts @ started w w')"
| sync: "run_headscale_sync E w = (r, w') \<Longrightarrow> app_step E V other (w, ts) (w', ts @ started w w')"
| sweep: "run_provisioning_sweep E w = (r, w') \<Longrightarrow> app_step E V other (w, ts) (w', ts @ started w w')"
| provisioned: "(PROVISION, gid, jid) \<in> set ts \<Longrightarrow> provisioning_thread E gid jid w = (r, w') \<Longrightarrow>
    app_step E V other (w, ts) (w', remove1 (PROVISION, gid, jid) ts)"
| deleted: "(DELETE, gid, jid) \<in> set ts \<Longrightarrow> deletion_thread E gid jid w = (r, w') \<Longrightarrow>
    app_step E V other (w, ts) (w', remove1 (DELETE, gid, jid) ts)"

text \<open>The server runs from the database \<open>d\<close> it finds, once its start has returned.\<close>

inductive app_reachable ::
  "env \<Rightarrow> pydantic \<Rightarrow> (app_request \<Rightarrow> app_answer option) \<Rightarrow> db \<Rightarrow> system \<Rightarrow> bool" for E V other d where
  up: "lifespan_start E (fresh_world d) = (Inr u, w) \<Longrightarrow> app_reachable E V other d (w, started (fresh_world d) w)"
| runs: "app_reachable E V other d s \<Longrightarrow> app_step E V other s s' \<Longrightarrow> app_reachable E V other d s'"

end
