(* ===== verification/SystemLaws.thy ===== *)
theory SystemLaws
  imports App
begin

declare append_Cons [simp del]

text \<open>
  What holds in every state of the running orchestrator. The locale \<open>discipline\<close> is the contract between a
  predicate on worlds and the operations of the repositories: a predicate that each of them keeps is kept by
  every request, every pass of the scheduler and every thread, which is proved once, inside it. Its
  interpretations are the rows of the database (one peer per gateway, egress data only on open pathways, primary
  keys) and the threads (one per gateway).
\<close>

section \<open>The contract\<close>

definition open_egress :: "gateway_metric \<Rightarrow> bool" where
  "open_egress m \<longleftrightarrow>
     (gm_egress_public_ip m \<noteq> None \<longrightarrow> gm_tailscale_online m = Some True \<and> gm_wg_online m = Some True)"

lemma keeps_sum [keeps_intros]:
  "(\<And>a. keeps I (f a)) \<Longrightarrow> (\<And>b. keeps I (g b)) \<Longrightarrow> keeps I (case x of Inl a \<Rightarrow> f a | Inr b \<Rightarrow> g b)"
  by (cases x) simp_all

lemma open_metric_row: "open_egress (metric_row gid vm p ex)"
  using metric_row_ok [of gid vm p ex] by (simp add: open_egress_def)

locale discipline =
  fixes E :: env and J :: "world \<Rightarrow> bool"
  assumes stable [keeps_intros]: "stable J"
    and flush [keeps_intros]: "keeps J (flush E)"
    and commit [keeps_intros]: "keeps J (commit E)"
    and rollback [keeps_intros]: "keeps J rollback"
    and gateway_row [keeps_intros]: "(\<And>g. gw_id (f1 g) = gw_id g) \<Longrightarrow> keeps J (mod_db (upd_gateway i f1))"
    and peer_row [keeps_intros]:
      "(\<And>p. peer_id (f2 p) = peer_id p) \<Longrightarrow> (\<And>p. peer_gateway_id (f2 p) = peer_gateway_id p) \<Longrightarrow>
       keeps J (mod_db (upd_peer i f2))"
    and group_row [keeps_intros]: "(\<And>g. pg_id (f3 g) = pg_id g) \<Longrightarrow> keeps J (mod_db (upd_group i f3))"
    and worker_row [keeps_intros]: "(\<And>r. wk_id (f4 r) = wk_id r) \<Longrightarrow> keeps J (mod_db (upd_worker i f4))"
    and enrollment_row [keeps_intros]: "(\<And>e. en_id (f5 e) = en_id e) \<Longrightarrow> keeps J (mod_db (upd_enrollment i f5))"
    and registration_row [keeps_intros]: "(\<And>r. rr_id (f6 r) = rr_id r) \<Longrightarrow> keeps J (mod_db (upd_reg i f6))"
    and job_row [keeps_intros]: "(\<And>j. job_id (f7 j) = job_id j) \<Longrightarrow> keeps J (mod_job E i f7)"
    and gateway_new [keeps_intros]: "keeps J (gateways_create E g)"
    and job_new [keeps_intros]: "keeps J (jobs_create E j)"
    and group_new [keeps_intros]: "keeps J (groups_create E gr)"
    and worker_new [keeps_intros]: "keeps J (workers_create E r)"
    and enrollment_new [keeps_intros]: "keeps J (enrollments_create E e)"
    and registration_new [keeps_intros]: "keeps J (reg_touch_pending E key)"
    and peer_new [keeps_intros]: "keeps J (create_peer E gid n)"
    and gateway_metric_new: "open_egress m \<Longrightarrow> keeps J (metrics_add_gateway E m)"
    and peer_metric_new [keeps_intros]: "keeps J (metrics_add_peer E pid hs rx tx)"
    and ip_new [keeps_intros]: "keeps J (mod_db (add_ip_alloc wid ip gid'))"
    and port_new [keeps_intros]: "keeps J (mod_db (add_port_alloc wid port gid'))"
    and gateway_gone [keeps_intros]: "keeps J (gateways_delete i)"
    and group_gone [keeps_intros]: "keeps J (groups_delete i)"
    and peer_gone [keeps_intros]: "keeps J (peers_delete i)"
    and ip_gone [keeps_intros]: "keeps J (mod_db (\<lambda>d. d\<lparr>ip_allocs := delete_first P (ip_allocs d)\<rparr>))"
    and port_gone [keeps_intros]: "keeps J (mod_db (\<lambda>d. d\<lparr>port_allocs := delete_first Q (port_allocs d)\<rparr>))"
    and geo [keeps_intros]: "keeps J (cache_put ip geo t)"
    and provisioning_started [keeps_intros]: "keeps J (start_provisioning gid jid)"
    and deletion_started [keeps_intros]: "keeps J (start_deletion gid jid)"

context discipline
begin

section \<open>Services\<close>

lemma keeps_own_session [keeps_intros]:
  assumes "keeps J m"
  shows "keeps J (own_session m)"
proof (rule keepsI)
  fix w assume "J w"
  have undone: "J (rollback_w v)" if "J v" for v
    using keepsD [OF rollback that] by (simp add: rollback_def)
  obtain r v where run: "m (rollback_w w) = (r, v)" by (cases "m (rollback_w w)")
  with keepsD [OF assms undone [OF \<open>J w\<close>]] undone show "J (snd (own_session m w))" by (simp add: own_session_def)
qed

lemma keeps_session_of_request [keeps_intros]: "keeps J m \<Longrightarrow> keeps J (with_session E m)"
  unfolding with_session_def by (intro keeps_intros)

lemma keeps_rows [keeps_intros]:
  "keeps J (gateways_update_status E i st msg)" "keeps J (jobs_update_status E i js err)"
  "keeps J (jobs_update_stage E i sg b)" "keeps J (set_provision_stage E jid s b)"
  "keeps J (jobs_reset_failed_job E gid)" "keeps J (peers_set_suspended E i b)" "keeps J (workers_update_stats E i hs)"
  "keeps J (reg_mark_approved E key nid ip)" "keeps J (reg_mark_rejected E key)"
  unfolding gateways_update_status_def jobs_update_status_def jobs_update_stage_def set_provision_stage_def
    jobs_reset_failed_job_def peers_set_suspended_def workers_update_stats_def reg_mark_approved_def reg_mark_rejected_def
  by ((intro keeps_intros; simp)+)

lemma keeps_allocations [keeps_intros]:
  "keeps J (allocate_vm_ip E wk)" "keeps J (allocate_udp_port E wk gid)" "keeps J (allocate_peer_ip E g)"
  "keeps J (release_vm_ip wid ip)" "keeps J (release_udp_port wid port)" "keeps J (release_peer_ip gid' ip)"
  unfolding allocate_vm_ip_def allocate_udp_port_def allocate_peer_ip_def release_vm_ip_def release_udp_port_def
    release_peer_ip_def
  by (intro keeps_intros)+

lemma keeps_gateway_ops [keeps_intros]:
  "keeps J (create_gateway E rq)" "keeps J (prepare_provisioning E gid)" "keeps J (execute_delete_gateway E gid jid)"
  "keeps J (request_delete_gateway E gid)" "keeps J (rename_tailscale_display_name E gid n)"
  "keeps J (finalize_exit_node E gid agent)" "keeps J (restart_gateway E gid)" "keeps J (gateway_boot_status E gid)"
  "keeps J (fetch_tailscale_status E g)" "keeps J (get_endpoint g)"
  unfolding create_gateway_def record_gateway_def prepare_provisioning_def reopen_gateway_def
    execute_delete_gateway_def remove_gateway_rows_def request_delete_gateway_def rename_tailscale_display_name_def
    finalize_exit_node_def restart_gateway_def gateway_boot_status_def fetch_tailscale_status_def get_endpoint_def
    gateway_port_def Let_def
  by ((intro keeps_intros; simp?)+)

lemma keeps_peer_ops [keeps_intros]:
  "keeps J (ensure_backhaul_peer E gid)" "keeps J (resync_gateway_peers E gid)" "keeps J (delete_peer E pid)"
  "keeps J (suspend_peer E pid)" "keeps J (resume_peer E pid)" "keeps J (regenerate_peer_keys E pid)"
  "keeps J (export_config E pid)" "keeps J (next_peer_name gid)"
  unfolding ensure_backhaul_peer_def resync_gateway_peers_def delete_peer_def suspend_peer_def resume_peer_def
    regenerate_peer_keys_def export_config_def next_peer_name_def Let_def
  by ((intro keeps_intros; simp?)+)

lemma keeps_provision [keeps_intros]:
  "keeps J (stage E jid s)" "keeps J (launch_instance E jid' g wk p)" "keeps J (wait_cloud_init E jid agent)"
  "keeps J (fail_gateway E gid msg)" "keeps J (setup_peer E gid agent)" "keeps J (complete_gateway E jid' g agent)"
  "keeps J (bring_up_gateway E jid' g token)" "keeps J (provision_gateway E gid jid)"
  unfolding stage_def launch_instance_def wait_cloud_init_def fail_gateway_def setup_peer_def
    complete_gateway_def bring_up_gateway_def provision_gateway_def
  by (intro keeps_intros)+

lemma keeps_worker_ops [keeps_intros]:
  "keeps J (ensure_default_local_worker E)" "keeps J (register_worker E a)" "keeps J (create_enrollment E)"
  "keeps J (complete_enrollment E token b)" "keeps J (record_heartbeat E i hs)"
  "keeps J (authenticate_worker E i token)"
  unfolding ensure_default_local_worker_def register_worker_def create_enrollment_def complete_enrollment_def
    next_worker_identity_def refresh_enrollment_def
    record_heartbeat_def authenticate_worker_def with_pools_def Let_def
  by ((intro keeps_intros; simp?)+)

lemma keeps_group_ops [keeps_intros]:
  "keeps J (create_group E rq)" "keeps J (create_gateways E gid n)" "keeps J (delete_group E gid)"
  "keeps J (rename_group E gid name)" "keeps J (build_setup_script E gid)"
proof -
  have loop: "keeps J (create_gateways_loop E g k rs)" for g k rs
    by (induction k arbitrary: rs) (auto intro!: keeps_intros simp del: keeps_Pair)
  show "keeps J (create_group E rq)" "keeps J (create_gateways E gid n)" "keeps J (delete_group E gid)"
    "keeps J (rename_group E gid name)" "keeps J (build_setup_script E gid)"
    unfolding create_group_def create_gateways_def delete_group_def rename_group_def get_group_def
      build_setup_script_def wg_conf_for_gateway_def Let_def
    by ((intro keeps_intros loop; simp?)+)
qed

section \<open>Background work\<close>

lemma keeps_stale [keeps_intros]: "keeps J (is_stale_running_job E j)"
  unfolding is_stale_running_job_def by (intro keeps_intros)

lemma keeps_once [keeps_intros]:
  "keeps J (provisioning_failed E i gid e)" "keeps J (process_provisioning_job E i gid)"
  "keeps J (job_to_provision E gid jid)" "keeps J (run_gateway_provisioning_once E gid jid)"
  "keeps J (deletion_failed E i gid e)" "keeps J (process_deletion_job E i gid)"
  "keeps J (finish_orphan_job E jid)" "keeps J (delete_with_job E gid j)" "keeps J (run_gateway_deletion_once E gid jid)"
  unfolding provisioning_failed_def process_provisioning_job_def job_to_provision_def
    run_gateway_provisioning_once_def deletion_failed_def process_deletion_job_def finish_orphan_job_def
    delete_with_job_def run_gateway_deletion_once_def
  by (intro keeps_intros)+

lemma keeps_retry [keeps_intros]: "keeps J m \<Longrightarrow> keeps J (retry_locked m n a)"
  by (induction n arbitrary: a) (auto intro!: keeps_intros simp del: keeps_Pair)

lemma keeps_runs [keeps_intros]:
  "keeps J (run_gateway_provisioning E gid jid)" "keeps J (run_gateway_deletion E gid jid)"
  unfolding run_gateway_provisioning_def run_gateway_deletion_def by (intro keeps_intros)+

lemma keeps_recovery [keeps_intros]:
  "keeps J (resume_incomplete_provisioning E)" "keeps J (resume_incomplete_deletions E)"
  unfolding resume_incomplete_provisioning_def resume_incomplete_deletions_def resume_provisioning_of_def
    job_to_resume_def start_resumed_def resume_deletion_of_def
  by (intro keeps_intros live_inv_resume_loop)+

lemma keeps_schedule [keeps_intros]:
  "keeps J (schedule_provisioning_after_request gid j)" "keeps J (schedule_deletion_after_request gid j)"
  unfolding schedule_provisioning_after_request_def schedule_deletion_after_request_def by (intro keeps_intros)+

lemma keeps_metric_stages [keeps_intros]:
  "keeps J (health_stage E g wk p)" "keeps J (peers_stage E g p)" "keeps J (wg_stage E p)"
  "keeps J (tailscale_stage E p)" "keeps J (peer_metrics_stage E p)" "keeps J (egress_stage E l m t p)"
proof -
  have peers: "keeps J (peer_metrics_loop E st qs)" for st qs
    by (induction qs) (auto intro!: keeps_intros simp del: keeps_Pair split: option.split)
  have geo: "keeps J (lookup_geo E ip)" for ip
    unfolding lookup_geo_def lookup_geo_uncached_def try_geo_def Let_def by (intro keeps_intros)
  show "keeps J (health_stage E g wk p)" "keeps J (peers_stage E g p)" "keeps J (wg_stage E p)"
    "keeps J (tailscale_stage E p)" "keeps J (peer_metrics_stage E p)" "keeps J (egress_stage E l m t p)"
    unfolding health_stage_def peers_stage_def wg_stage_def tailscale_stage_def peer_metrics_stage_def egress_stage_def
      resolve_egress_def egress_geo_from_agent_def Let_def wg_uplink_connected_def agent_tailscale_connected_def
      tailscale_connected_via_incus_def
    by (intro keeps_intros peers geo)+
qed

lemma keeps_collect [keeps_intros]: "keeps J (collect_metrics E)"
proof -
  have gateway: "keeps J (collect_gateway E t g)" for t g
    unfolding collect_gateway_def
    by (intro keeps_intros gateway_metric_new open_metric_row) (auto intro: keeps_metric_stages)
  have "keeps J (collect_loop E t gs n)" for t gs n
    by (induction gs arbitrary: n) (auto intro!: keeps_intros gateway simp del: keeps_Pair)
  then show ?thesis unfolding collect_metrics_def by (intro keeps_intros)
qed

lemma keeps_passes [keeps_intros]:
  "keeps J (run_metrics_collection E)" "keeps J (run_headscale_sync E)" "keeps J (run_provisioning_sweep E)"
  "keeps J (lifespan_start E)"
proof -
  have sync: "keeps J (sync_headscale_exit_nodes E ns)" for ns
    unfolding sync_headscale_exit_nodes_def
    by (intro keeps_intros) (simp add: keeps_def gateway_names_from_db_def)
  show "keeps J (run_metrics_collection E)" "keeps J (run_headscale_sync E)" "keeps J (run_provisioning_sweep E)"
    "keeps J (lifespan_start E)"
    unfolding run_metrics_collection_def run_headscale_sync_def run_provisioning_sweep_def lifespan_start_def
    by (intro keeps_intros sync)+
qed

section \<open>Requests\<close>

lemma keeps_api_routes [keeps_intros]:
  "keeps J (route_create_gateway E b)" "keeps J (route_delete_gateway E gid)" "keeps J (route_update_gateway E gid u)"
  "keeps J (route_create_group E gb)" "keeps J (route_group_gateways E i n)" "keeps J (route_delete_group E i)"
  "keeps J (route_create_peer E gid name)" "keeps J (route_delete_peer E pid)" "keeps J (route_regenerate_peer E pid)"
  "keeps J (route_suspend_peer E pid)" "keeps J (route_resume_peer E pid)"
  "keeps J (route_register_worker E a)" "keeps J (complete_worker_enrollment E t eb)" "keeps J (worker_heartbeat E i au x h)"
proof -
  have created: "keeps J (schedule_created rs)" for rs
    by (induction rs) (auto intro!: keeps_intros simp del: keeps_Pair)
  show "keeps J (route_create_gateway E b)" "keeps J (route_delete_gateway E gid)" "keeps J (route_update_gateway E gid u)"
    "keeps J (route_create_group E gb)" "keeps J (route_group_gateways E i n)" "keeps J (route_delete_group E i)"
    unfolding route_create_gateway_def route_delete_gateway_def route_update_gateway_def route_create_group_def
      route_group_gateways_def route_delete_group_def
    by (intro keeps_intros created)+
  show "keeps J (route_create_peer E gid name)" "keeps J (route_delete_peer E pid)" "keeps J (route_regenerate_peer E pid)"
    "keeps J (route_suspend_peer E pid)" "keeps J (route_resume_peer E pid)"
    "keeps J (route_register_worker E a)" "keeps J (complete_worker_enrollment E t eb)" "keeps J (worker_heartbeat E i au x h)"
    unfolding route_create_peer_def route_delete_peer_def route_regenerate_peer_def route_suspend_peer_def
      route_resume_peer_def route_register_worker_def complete_worker_enrollment_def worker_heartbeat_def Let_def
    by (intro keeps_intros)+
qed

lemma keeps_handle_orch [keeps_intros]: "keeps J (handle_orch E V rq r ps)"
proof -
  have "keeps J (run_orch_route E V rq r ps)"
    unfolding run_orch_route_def Let_def
    by (cases r; simp only: orch_route.simps; intro keeps_validated keeps_reading_routes [OF stable] keeps_api_routes)
  then show ?thesis unfolding handle_orch_def by (intro keeps_intros)
qed

lemma keeps_value_errors [keeps_intros]:
  "keeps J m \<Longrightarrow> keeps J (on_value_error f m)" "keeps J m \<Longrightarrow> keeps J (on_value_error_rollback f m)"
  unfolding on_value_error_def on_value_error_rollback_def by (intro keeps_intros; assumption?)+

lemma keeps_page_parts [keeps_intros]:
  "keeps J (peer_is_online E p m)" "keeps J (gateway_view E nodes g)" "keeps J (exit_nodes_or_error E)"
  "keeps J (sort_peers_by_connectivity E ps metrics)" "keeps J (dashboard_sections E)" "keeps J (worker_choices E)"
  unfolding peer_is_online_def gateway_view_def exit_nodes_or_error_def sort_peers_by_connectivity_def
    dashboard_sections_def worker_section_of_def worker_choices_def Let_def
  by (intro keeps_intros)+

lemma keeps_pages:
  "keeps J (dashboard E e k)" "keeps J (logs_page E u l)" "keeps J (create_exit_node_authkey E)"
  "keeps J list_pending_registrations" "keeps J (approve_registration_ui E key)" "keeps J (reject_registration_ui E key)"
  "keeps J (worker_stats E)" "keeps J (worker_join_script E)" "keeps J (create_worker_enrollment E)"
  "keeps J (download_exit_host_cleanup E)" "keeps J (register_page E key)" "keeps J (register_status key)"
  unfolding dashboard_def logs_page_def read_journal_lines_def create_exit_node_authkey_def list_pending_registrations_def
    approve_registration_ui_def reject_registration_ui_def worker_stats_def worker_join_script_def
    create_worker_enrollment_def download_exit_host_cleanup_def render_exit_host_auto_cleanup_script_def
    register_page_def register_status_def Let_def
  by (intro keeps_intros)+

lemma keeps_group_pages:
  "keeps J (create_peer_group_ui E n wid s f)" "keeps J (rename_peer_group_ui E i n)"
  "keeps J (peer_group_detail E i e k)" "keeps J (download_peer_group_host_setup E i)"
  "keeps J (create_group_gateways_ui E i c)"
  unfolding create_peer_group_ui_def rename_peer_group_ui_def peer_group_detail_def exit_nodes_or_none_def
    download_peer_group_host_setup_def create_group_gateways_ui_def start_created_def row_of_def
  by (intro keeps_intros)+

lemma keeps_gateway_pages:
  "keeps J (start_gateway_creation E wid)" "keeps J (gateway_detail E i e k)" "keeps J (retry_gateway_ui E i)"
  "keeps J (restart_gateway_ui E wj i r)" "keeps J (gateway_boot_status_ui E i)" "keeps J (delete_gateway_ui E i)"
  "keeps J (rename_gateway_tailscale_ui E i h r)"
  unfolding start_gateway_creation_def gateway_detail_def retry_gateway_ui_def maybe_enqueue_provisioning_def
    job_to_enqueue_def restart_gateway_ui_def restart_failure_def gateway_boot_status_ui_def delete_gateway_ui_def
    rename_gateway_tailscale_ui_def row_of_def format_provision_progress_def format_time_ago_def Let_def
  by (intro keeps_intros)+

lemma keeps_peer_pages:
  "keeps J (create_peer_ui E i n)" "keeps J (download_all_peer_configs E i)" "keeps J (download_peer_config E i)"
  "keeps J (regenerate_peer_ui E i)" "keeps J (delete_peer_ui E i)" "keeps J (suspend_peer_ui E i)"
  "keeps J (resume_peer_ui E i)"
  unfolding create_peer_ui_def peer_failed_def download_all_peer_configs_def download_peer_config_def
    regenerate_peer_ui_def delete_peer_ui_def suspend_peer_ui_def resume_peer_ui_def row_of_def
  by (intro keeps_intros)+

lemma keeps_handle_ui [keeps_intros]: "keeps J (handle_ui E V rq r ps)"
proof -
  have "keeps J (run_ui_route E V rq r ps)"
    unfolding run_ui_route_def Let_def
    by (cases r; simp only: ui_route.simps; intro keeps_validated keeps_pages keeps_group_pages keeps_gateway_pages
        keeps_peer_pages keeps_ret)
  then show ?thesis unfolding handle_ui_def by (intro keeps_intros)
qed

lemma keeps_serve: "keeps J (app_serve E V other rq)"
proof -
  have "keeps J (run_app_route E V rq r ps)" for r ps
    unfolding run_app_route_def by (cases r; simp only: app_route.simps; intro keeps_intros keeps_pages)
  then have "keeps J (app_dispatch E V other rq)"
    unfolding app_dispatch_def Let_def by (intro keeps_intros)
  moreover have "keeps J (case e of HTTPException sc d \<Rightarrow> ret (Problem sc d) | Diverged \<Rightarrow> raise e | _ \<Rightarrow> ret Crashed)" for e
    by (cases e; simp only: exn.simps; intro keeps_intros)
  ultimately show ?thesis unfolding app_serve_def by (intro keeps_intros)
qed

lemma keeps_thread_ends:
  assumes "\<And>gid. keeps J (discard_provisioning gid)" and "\<And>gid. keeps J (discard_deletion gid)"
  shows "keeps J (provisioning_thread E gid jid)" "keeps J (deletion_thread E gid jid)"
  unfolding provisioning_thread_def deletion_thread_def by (intro keeps_intros assms)+

lemma reachable_keeps:
  assumes "\<And>gid. keeps J (discard_provisioning gid)" and "\<And>gid. keeps J (discard_deletion gid)"
    and "app_reachable E V other d s" and "J (fresh_world d)"
  shows "J (fst s)"
  using assms(3)
proof (induction rule: app_reachable.induct)
  case (up u w)
  then show ?case using keepsD [OF keeps_passes(4) assms(4)] by simp
next
  case (runs s s')
  note thread_ends = keeps_thread_ends [OF assms(1,2)]
  from runs(2,3) show ?case
    by (cases rule: app_step.cases)
      (auto dest: keepsD [OF keeps_serve] keepsD [OF keeps_passes(1)] keepsD [OF keeps_passes(2)]
        keepsD [OF keeps_passes(3)] keepsD [OF thread_ends(1)] keepsD [OF thread_ends(2)])
qed

end

section \<open>What keeps the contract\<close>

lemma started_database [keeps_intros]:
  "keeps (db_inv I) (start_provisioning gid jid)" "keeps (db_inv I) (start_deletion gid jid)"
  "keeps (db_inv I) (discard_provisioning gid)" "keeps (db_inv I) (discard_deletion gid)"
  "keeps (db_inv I) (cache_put ip geo t)"
  by (simp_all add: keeps_def start_provisioning_def start_deletion_def discard_provisioning_def
      discard_deletion_def cache_put_def db_inv_def)

lemma keyed_delete_first: "keyed k rs \<Longrightarrow> keyed k (delete_first P rs)"
  using delete_first_subset [of P rs] by (auto simp: keyed_def delete_first_distinct)

lemma keys_rows:
  "keys_ok d \<Longrightarrow> keys_ok (add_ip_alloc wid ip gid d)" "keys_ok d \<Longrightarrow> keys_ok (add_port_alloc wid p gid d)"
  "keys_ok d \<Longrightarrow> keys_ok (d\<lparr>ip_allocs := delete_first P (ip_allocs d)\<rparr>)"
  "keys_ok d \<Longrightarrow> keys_ok (d\<lparr>port_allocs := delete_first Q (port_allocs d)\<rparr>)"
  by (simp_all add: keys_ok_def add_ip_alloc_def add_port_alloc_def keyed_new keyed_delete_first)

lemma keys_upd [keeps_intros]:
  "(\<And>g. gw_id (f1 g) = gw_id g) \<Longrightarrow> keeps (db_inv keys_ok) (mod_db (upd_gateway i f1))"
  "(\<And>p. peer_id (f2 p) = peer_id p) \<Longrightarrow> keeps (db_inv keys_ok) (mod_db (upd_peer i f2))"
  "(\<And>g. pg_id (f3 g) = pg_id g) \<Longrightarrow> keeps (db_inv keys_ok) (mod_db (upd_group i f3))"
  "(\<And>r. wk_id (f4 r) = wk_id r) \<Longrightarrow> keeps (db_inv keys_ok) (mod_db (upd_worker i f4))"
  "(\<And>e. en_id (f5 e) = en_id e) \<Longrightarrow> keeps (db_inv keys_ok) (mod_db (upd_enrollment i f5))"
  "(\<And>r. rr_id (f6 r) = rr_id r) \<Longrightarrow> keeps (db_inv keys_ok) (mod_db (upd_reg i f6))"
  by (rule keeps_mod_db, erule keys_ok_mod, assumption)+

text \<open>A new row: its key is read, then the row is appended under this key; nothing happens in between.\<close>

lemma keeps_new:
  assumes "\<And>w. I (db w) \<Longrightarrow> I (f (read w) w)"
  shows "keeps (db_inv I) (bindM (getM read) (\<lambda>x. thenM (modM (\<lambda>w. w\<lparr>db := f x w\<rparr>)) (thenM (flush E) (ret x))))"
proof (rule keepsI)
  fix w assume w: "db_inv I w"
  have "keeps (db_inv I) (thenM (flush E) (ret (read w)))" by (intro keeps_intros)
  moreover have "db_inv I (w\<lparr>db := f (read w) w\<rparr>)" using w assms by (simp add: db_inv_def)
  ultimately show "db_inv I
      (snd (bindM (getM read) (\<lambda>x. thenM (modM (\<lambda>w. w\<lparr>db := f x w\<rparr>)) (thenM (flush E) (ret x))) w))"
    by (simp add: bindM_def [of "getM _"] keeps_def thenM_def [of "modM _"] del: bindM_Inr)
qed

lemma keys_creates [keeps_intros]:
  "keeps (db_inv keys_ok) (gateways_create E g)" "keeps (db_inv keys_ok) (jobs_create E j)"
  "keeps (db_inv keys_ok) (groups_create E gr)" "keeps (db_inv keys_ok) (workers_create E r)"
  "keeps (db_inv keys_ok) (enrollments_create E e)" "keeps (db_inv keys_ok) (peers_create E p)"
  unfolding gateways_create_def jobs_create_def groups_create_def workers_create_def enrollments_create_def
    peers_create_def
  by (rule keeps_new [where read = "\<lambda>w. _ (db w)", folded get_db_def], simp add: keys_ok_def keyed_new)+

lemma keys_deletes [keeps_intros]:
  "keeps (db_inv keys_ok) (gateways_delete i)" "keeps (db_inv keys_ok) (groups_delete i)" "keeps (db_inv keys_ok) (peers_delete i)"
proof -
  have "map gw_id (map (\<lambda>g. if gw_peer_group_id g = Some i then g\<lparr>gw_peer_group_id := None\<rparr> else g) gs) = map gw_id gs" for gs :: "gateway list"
    by (induction gs) simp_all
  then have "keyed gw_id (map (\<lambda>g. if gw_peer_group_id g = Some i then g\<lparr>gw_peer_group_id := None\<rparr> else g) gs) = keyed gw_id gs" for gs :: "gateway list"
    by (simp only: keyed_iff)
  then have groups: "keys_ok d \<Longrightarrow> keys_ok (d\<lparr>peer_groups := tbl_del pg_id i (peer_groups d), gateways := map (\<lambda>g.
      if gw_peer_group_id g = Some i then g\<lparr>gw_peer_group_id := None\<rparr> else g) (gateways d)\<rparr>)" for d
    by (simp add: keys_ok_def keyed_del)
  show "keeps (db_inv keys_ok) (gateways_delete i)" "keeps (db_inv keys_ok) (groups_delete i)"
    "keeps (db_inv keys_ok) (peers_delete i)"
    unfolding gateways_delete_def groups_delete_def peers_delete_def
    by (rule keeps_mod_db, erule keys_ok_delete_gateway_rows groups | rule keeps_mod_db, simp add: keys_ok_def keyed_del keyed_filter)+
qed

lemma keys_metrics [keeps_intros]:
  "keeps (db_inv keys_ok) (metrics_add_gateway E m)" "keeps (db_inv keys_ok) (metrics_add_peer E pid hs rx tx)"
  unfolding metrics_add_gateway_def metrics_add_peer_def
  by (intro keeps_intros keeps_mod_db, simp add: keys_ok_def keyed_new)+

lemma keys_touch [keeps_intros]: "keeps (db_inv keys_ok) (reg_touch_pending E key)"
proof -
  have codes: "keeps J (allocate_display_code E k)" if "stable J" for k J
    by (induction k) (auto intro!: keeps_intros that simp del: keeps_Pair split: option.split)
  have row: "keeps (db_inv keys_ok) (bindM (getM R)
      (\<lambda>row. thenM (mod_db (\<lambda>d. d\<lparr>reg_requests := reg_requests d @ [row]\<rparr>)) (thenM (flush E) (ret row))))"
    if "\<And>w. rr_id (R w) = next_id rr_id (reg_requests (db w))" for R
    unfolding mod_db_def using that by (intro keeps_new) (simp add: keys_ok_def keyed_new)
  show ?thesis
    unfolding reg_touch_pending_def by (rule row codes stable_db_inv keeps_intros | simp)+
qed

lemma keys_create_peer: "keeps (db_inv keys_ok) (create_peer E gid n)"
  unfolding create_peer_def allocate_peer_ip_def
  by (intro keeps_intros keeps_mod_db) (simp_all add: keys_rows)

interpretation keys_law: discipline E "db_inv keys_ok" for E
  by unfold_locales (intro keeps_intros keys_create_peer keeps_mod_db keys_rows; assumption?)+

lemma db_inv_db: "db_inv I w \<Longrightarrow> I (db w)"
  by (simp add: db_inv_def)

text \<open>What looks only at peers and metrics of gateways is untouched by the other tables.\<close>

lemma other_tables:
  assumes "\<And>d d'. I d \<Longrightarrow> peers d' = peers d \<Longrightarrow> gateway_metrics d' = gateway_metrics d \<Longrightarrow> I d'"
  shows "keeps (db_inv I) (mod_db (upd_gateway i f1))" "keeps (db_inv I) (mod_db (upd_group i f3))"
    "keeps (db_inv I) (mod_db (upd_worker i f4))" "keeps (db_inv I) (mod_db (upd_enrollment i f5))"
    "keeps (db_inv I) (mod_db (upd_reg i f6))" "keeps (db_inv I) (mod_job E i f7)"
    "keeps (db_inv I) (gateways_create E g)" "keeps (db_inv I) (jobs_create E j)" "keeps (db_inv I) (groups_create E gr)"
    "keeps (db_inv I) (workers_create E r)" "keeps (db_inv I) (enrollments_create E e)"
    "keeps (db_inv I) (mod_db (add_ip_alloc wid ip gid))" "keeps (db_inv I) (mod_db (add_port_alloc wid p gid))"
    "keeps (db_inv I) (mod_db (\<lambda>d. d\<lparr>ip_allocs := delete_first A (ip_allocs d)\<rparr>))"
    "keeps (db_inv I) (mod_db (\<lambda>d. d\<lparr>port_allocs := delete_first B (port_allocs d)\<rparr>))"
    "keeps (db_inv I) (groups_delete i)" "keeps (db_inv I) (metrics_add_peer E pid hs rx tx)"
  unfolding mod_job_def gateways_create_def jobs_create_def groups_create_def workers_create_def
    enrollments_create_def groups_delete_def metrics_add_peer_def
  by (intro keeps_intros keeps_mod_db keeps_modM_db; (drule db_inv_db)?; erule assms;
      simp add: add_ip_alloc_def add_port_alloc_def)+

lemma other_tables_touch:
  assumes "\<And>d d'. I d \<Longrightarrow> peers d' = peers d \<Longrightarrow> gateway_metrics d' = gateway_metrics d \<Longrightarrow> I d'"
  shows "keeps (db_inv I) (reg_touch_pending E key)"
proof -
  have codes: "keeps J (allocate_display_code E k)" if "stable J" for k J
    by (induction k) (auto intro!: keeps_intros that simp del: keeps_Pair split: option.split)
  show ?thesis
    unfolding reg_touch_pending_def
    by (intro keeps_intros codes keeps_mod_db; erule assms; simp)
qed

lemma one_peer_table: "one_peer d \<Longrightarrow> peers d' = peers d \<Longrightarrow> gateway_metrics d' = gateway_metrics d \<Longrightarrow> one_peer d'"
  using one_peer_cong by blast

lemma egress_table: "egress_ok d \<Longrightarrow> peers d' = peers d \<Longrightarrow> gateway_metrics d' = gateway_metrics d \<Longrightarrow> egress_ok d'"
  by (simp add: egress_ok_def)

lemma one_peer_gateway_gone: "keeps (db_inv one_peer) (gateways_delete i)"
  unfolding gateways_delete_def
  by (rule keeps_mod_db) (erule one_peer_filter, simp add: delete_gateway_rows_def)

lemma one_peer_metric: "keeps (db_inv one_peer) (metrics_add_gateway E m)"
  unfolding metrics_add_gateway_def
  by (intro keeps_intros keeps_mod_db) (simp add: one_peer_def peers_list_by_gateway_def)

interpretation one_peer_law: discipline E "db_inv one_peer" for E
  by unfold_locales
    (intro keeps_intros one_peer_create one_peer_gateway_gone one_peer_metric
      other_tables [OF one_peer_table] other_tables_touch [OF one_peer_table]; assumption?)+

lemma egress_rows:
  "keeps (db_inv egress_ok) (mod_db (upd_peer i f))" "keeps (db_inv egress_ok) (peers_create E p)"
  "keeps (db_inv egress_ok) (peers_delete i)" "keeps (db_inv egress_ok) (gateways_delete i)"
  unfolding peers_create_def peers_delete_def gateways_delete_def
  by (intro keeps_intros keeps_mod_db keeps_modM_db; simp add: egress_ok_def delete_gateway_rows_def db_inv_def)+

lemma egress_create_peer: "keeps (db_inv egress_ok) (create_peer E gid n)"
  unfolding create_peer_def allocate_peer_ip_def
  by (intro keeps_intros egress_rows other_tables [OF egress_table])

lemma egress_metric: "open_egress m \<Longrightarrow> keeps (db_inv egress_ok) (metrics_add_gateway E m)"
  by (rule egress_ok_add_gateway) (simp add: open_egress_def)

interpretation egress_law: discipline E "db_inv egress_ok" for E
  by unfold_locales
    (intro keeps_intros egress_create_peer egress_rows egress_metric
      other_tables [OF egress_table] other_tables_touch [OF egress_table]; assumption?)+

lemma live_inv_cache: "keeps (live_inv ts n) (cache_put ip geo t)"
  by (simp add: keeps_def cache_put_def live_inv_def consistent_def)

lemma detached_rows:
  assumes "detached J"
  shows "keeps J (gateways_create E g)" "keeps J (jobs_create E j)" "keeps J (groups_create E gr)"
    "keeps J (workers_create E r)" "keeps J (enrollments_create E e)" "keeps J (mod_job E i f)"
    "keeps J (groups_delete i)" "keeps J (peers_delete i)" "keeps J (metrics_add_peer E pid hs rx tx)"
    "keeps J (metrics_add_gateway E m)" "keeps J (reg_touch_pending E key)"
proof -
  have codes: "keeps J (allocate_display_code E k)" for k
    by (induction k) (auto intro!: keeps_intros detached_stable assms simp del: keeps_Pair split: option.split)
  show "keeps J (gateways_create E g)" "keeps J (jobs_create E j)" "keeps J (groups_create E gr)"
    "keeps J (workers_create E r)" "keeps J (enrollments_create E e)" "keeps J (mod_job E i f)"
    "keeps J (groups_delete i)" "keeps J (peers_delete i)" "keeps J (metrics_add_peer E pid hs rx tx)"
    "keeps J (metrics_add_gateway E m)" "keeps J (reg_touch_pending E key)"
    unfolding gateways_create_def jobs_create_def groups_create_def workers_create_def enrollments_create_def
      mod_job_def groups_delete_def peers_delete_def metrics_add_peer_def metrics_add_gateway_def reg_touch_pending_def
    by (intro detached_intros keeps_intros codes assms)+
qed

interpretation threads_law: discipline E "live_inv ts n" for E ts n
  by unfold_locales
    (intro detached_intros keeps_intros detached_rows [OF live_inv_detached] live_inv_cache; assumption?)+

section \<open>The running server\<close>

lemma app_reachable_consistent:
  assumes "app_reachable E V other d s"
  shows "consistent (snd s) (fst s)"
  using assms
proof (induction rule: app_reachable.induct)
  case (up u w)
  have "consistent [] (fresh_world d)" by (simp add: consistent_def gateways_of_def fresh_world_def)
  from consistent_started [OF this up threads_law.keeps_passes(4)] show ?case by simp
next
  case (runs s s')
  from runs(2,3) show ?case
  proof (cases rule: app_step.cases)
    case (provisioned gid jid ts w r w')
    then have "step E (w, ts) (w', remove1 (PROVISION, gid, jid) ts)" by (auto intro: step.intros)
    with provisioned runs(3) show ?thesis by (auto dest: consistent_step)
  next
    case (deleted gid jid ts w r w')
    then have "step E (w, ts) (w', remove1 (DELETE, gid, jid) ts)" by (auto intro: step.intros)
    with deleted runs(3) show ?thesis by (auto dest: consistent_step)
  qed (auto intro: consistent_started threads_law.keeps_serve threads_law.keeps_passes)
qed


section \<open>Witness\<close>

lemma silent_sync: "run_headscale_sync sample_env w =
    (Inr (), emit (Run (headscale_cmd sample_env [''nodes'', ''list'', ''-o'', ''json''])) w)"
  by (simp add: run_headscale_sync_def sync_headscale_exit_nodes_def gateway_names_from_db_def try_except_def
      approve_exit_routes_for_tagged_nodes_def list_headscale_nodes_raw_def silent_headscale comp_defs parse_nodes_json_def)

text \<open>The server starts on a database with a gateway whose provisioning was cut off, and takes it up again.\<close>

definition first_world :: world where
  "first_world = emit (Run (headscale_cmd sample_env [''nodes'', ''list'', ''-o'', ''json'']))
     (snd (own_session (ensure_default_local_worker sample_env) (fresh_world stopped_db)))"

definition swept_world :: world where
  "swept_world = snd (run_provisioning_sweep sample_env first_world)"

lemma first_runs:
  "fst (own_session (ensure_default_local_worker sample_env) (fresh_world stopped_db)) = Inr 2"
  "fst (run_provisioning_sweep sample_env first_world) = Inr ()"
  "started (fresh_world stopped_db) swept_world \<noteq> []"
  "egress_ok stopped_db" "keys_ok stopped_db"
  by code_simp+


end
