(* ===== verification/Schema.thy ===== *)
theory Schema
  imports Prelude
begin

text \<open>
  Database schemas: tables with their columns, keys, indexes and rows, and the operations on them that
  the Alembic revisions are made of (those of \<open>alembic.op\<close> and the SQL the revisions write out). An
  operation the database refuses is an error value. What the two kinds of backend do differently
  (SQLite and the others) is selected by a \<open>dialect\<close>.
\<close>

section \<open>Tables\<close>

datatype coltype =
    TInteger | TBigInteger | TString nat | TText | TBoolean | TFloat | TDateTime
  | TEnum "string list"

datatype sqlval = VNull | VInt int | VText string | VTime int

datatype sqldefault = DNow | DLit sqlval

record column =
  cl_name :: string
  cl_type :: coltype
  cl_nullable :: bool
  cl_default :: "sqldefault option"

record fkey =
  fk_name :: "string option"
  fk_columns :: "string list"
  fk_table :: string
  fk_refers :: "string list"
  fk_ondelete :: "string option"

record uniq =
  uq_name :: "string option"
  uq_columns :: "string list"

record tabindex =
  ix_name :: string
  ix_columns :: "string list"
  ix_unique :: bool

text \<open>A row gives a value to every column name; a name that is no column of the table reads as NULL.\<close>

type_synonym row = "string \<Rightarrow> sqlval"

record dbtable =
  tb_name :: string
  tb_columns :: "column list"
  tb_fkeys :: "fkey list"
  tb_uniques :: "uniq list"
  tb_indexes :: "tabindex list"
  tb_rows :: "row list"

type_synonym tables = "dbtable list"

text \<open>
  The backend: whether it is SQLite, how it names a unique constraint declared without a name (SQLite
  leaves it unnamed), and the clock behind CURRENT_TIMESTAMP.
\<close>

record dialect =
  dl_sqlite :: bool
  dl_constraint_name :: "string \<Rightarrow> string list \<Rightarrow> string"
  dl_now :: int

datatype mig_error =
    TableExists string
  | NoSuchTable string
  | NoSuchColumn string string
  | DuplicateColumn string string
  | ColumnInUse string string
  | NoSuchIndex string
  | IndexExists string
  | NoSuchConstraint string
  | StillReferenced string
  | ConstraintViolated string
  | NotImplementedErr string

type_synonym 'a ddl = "(tables, mig_error, 'a) comp"

section \<open>Declaring columns and keys\<close>

definition column :: "string \<Rightarrow> coltype \<Rightarrow> column" where
  "column n t = \<lparr>cl_name = n, cl_type = t, cl_nullable = False, cl_default = None\<rparr>"

definition null_column :: "string \<Rightarrow> coltype \<Rightarrow> column" where
  "null_column n t = \<lparr>cl_name = n, cl_type = t, cl_nullable = True, cl_default = None\<rparr>"

definition default_column :: "string \<Rightarrow> coltype \<Rightarrow> sqldefault \<Rightarrow> column" where
  "default_column n t d = \<lparr>cl_name = n, cl_type = t, cl_nullable = False, cl_default = Some d\<rparr>"

definition stamp_column :: "string \<Rightarrow> column" where
  "stamp_column n = default_column n TDateTime DNow"

definition id_column :: column where
  "id_column = column ''id'' TInteger"

definition foreign_key ::
  "string option \<Rightarrow> string \<Rightarrow> string \<Rightarrow> string option \<Rightarrow> fkey" where
  "foreign_key n c t od =
     \<lparr>fk_name = n, fk_columns = [c], fk_table = t, fk_refers = [''id''], fk_ondelete = od\<rparr>"

definition unique_on :: "string option \<Rightarrow> string list \<Rightarrow> uniq" where
  "unique_on n cs = \<lparr>uq_name = n, uq_columns = cs\<rparr>"

definition index_on :: "string \<Rightarrow> string list \<Rightarrow> tabindex" where
  "index_on n cs = \<lparr>ix_name = n, ix_columns = cs, ix_unique = False\<rparr>"

definition unique_index_on :: "string \<Rightarrow> string list \<Rightarrow> tabindex" where
  "unique_index_on n cs = \<lparr>ix_name = n, ix_columns = cs, ix_unique = True\<rparr>"

definition new_table ::
  "string \<Rightarrow> column list \<Rightarrow> fkey list \<Rightarrow> uniq list \<Rightarrow> dbtable" where
  "new_table n cs fks uqs =
     \<lparr>tb_name = n, tb_columns = cs, tb_fkeys = fks, tb_uniques = uqs, tb_indexes = [], tb_rows = []\<rparr>"

lemmas schema_defs = column_def null_column_def default_column_def stamp_column_def id_column_def
  foreign_key_def unique_on_def index_on_def unique_index_on_def new_table_def

section \<open>The operations of a revision\<close>

definition find_table :: "string \<Rightarrow> tables \<Rightarrow> dbtable option" where
  "find_table n db = find (\<lambda>t. tb_name t = n) db"

definition table_names :: "tables \<Rightarrow> string list" where
  "table_names db = map tb_name db"

definition rows_of :: "string \<Rightarrow> tables \<Rightarrow> row list" where
  "rows_of n db = (case find_table n db of None \<Rightarrow> [] | Some t \<Rightarrow> tb_rows t)"

definition column_names :: "dbtable \<Rightarrow> string list" where
  "column_names t = map cl_name (tb_columns t)"

definition replace_table :: "string \<Rightarrow> dbtable \<Rightarrow> tables \<Rightarrow> tables" where
  "replace_table n t' db = map (\<lambda>t. if tb_name t = n then t' else t) db"

definition on_table :: "string \<Rightarrow> (dbtable \<Rightarrow> mig_error + dbtable) \<Rightarrow> unit ddl" where
  "on_table n f db =
     (case find_table n db of
        None \<Rightarrow> (Inl (NoSuchTable n), db)
      | Some t \<Rightarrow>
          (case f t of
             Inl e \<Rightarrow> (Inl e, db)
           | Inr t' \<Rightarrow> (Inr (), replace_table n t' db)))"

definition name_unique :: "dialect \<Rightarrow> string \<Rightarrow> uniq \<Rightarrow> uniq" where
  "name_unique D n u =
     (if dl_sqlite D \<or> uq_name u \<noteq> None then u
      else u\<lparr>uq_name := Some (dl_constraint_name D n (uq_columns u))\<rparr>)"

text \<open>\<open>op.create_table\<close>: except on SQLite a foreign key needs its table.\<close>

definition create_table :: "dialect \<Rightarrow> dbtable \<Rightarrow> unit ddl" where
  "create_table D t db =
     (if tb_name t \<in> set (table_names db) then (Inl (TableExists (tb_name t)), db)
      else if \<not> dl_sqlite D
              \<and> list_ex (\<lambda>fk. fk_table fk \<notin> set (tb_name t # table_names db)) (tb_fkeys t)
      then (Inl (NoSuchTable (tb_name t)), db)
      else (Inr (), db @ [t\<lparr>tb_uniques := map (name_unique D (tb_name t)) (tb_uniques t)\<rparr>]))"

text \<open>
  \<open>op.drop_table\<close>: except on SQLite, whose foreign keys are not enforced, a table other tables refer
  to cannot be dropped.
\<close>

definition drop_table :: "dialect \<Rightarrow> string \<Rightarrow> unit ddl" where
  "drop_table D n db =
     (if n \<notin> set (table_names db) then (Inl (NoSuchTable n), db)
      else if \<not> dl_sqlite D
              \<and> list_ex (\<lambda>t. tb_name t \<noteq> n \<and> list_ex (\<lambda>fk. fk_table fk = n) (tb_fkeys t)) db
      then (Inl (StillReferenced n), db)
      else (Inr (), filter (\<lambda>t. tb_name t \<noteq> n) db))"

definition rename_fkey :: "string \<Rightarrow> string \<Rightarrow> fkey \<Rightarrow> fkey" where
  "rename_fkey a b fk = (if fk_table fk = a then fk\<lparr>fk_table := b\<rparr> else fk)"

text \<open>\<open>ALTER TABLE a RENAME TO b\<close> also renames the table in the foreign keys that refer to it.\<close>

definition rename_table :: "string \<Rightarrow> string \<Rightarrow> unit ddl" where
  "rename_table a b db =
     (if a \<notin> set (table_names db) then (Inl (NoSuchTable a), db)
      else if b \<in> set (table_names db) then (Inl (TableExists b), db)
      else (Inr (), map (\<lambda>t. t\<lparr>tb_name := if tb_name t = a then b else tb_name t,
                               tb_fkeys := map (rename_fkey a b) (tb_fkeys t)\<rparr>) db))"

definition create_index :: "string \<Rightarrow> tabindex \<Rightarrow> unit ddl" where
  "create_index n ix db =
     (if list_ex (\<lambda>t. list_ex (\<lambda>i. ix_name i = ix_name ix) (tb_indexes t)) db
      then (Inl (IndexExists (ix_name ix)), db)
      else on_table n (\<lambda>t. Inr (t\<lparr>tb_indexes := tb_indexes t @ [ix]\<rparr>)) db)"

definition drop_index :: "string \<Rightarrow> string \<Rightarrow> unit ddl" where
  "drop_index n i =
     on_table n (\<lambda>t. if i \<in> set (map ix_name (tb_indexes t))
                     then Inr (t\<lparr>tb_indexes := filter (\<lambda>x. ix_name x \<noteq> i) (tb_indexes t)\<rparr>)
                     else Inl (NoSuchIndex i))"

definition default_value :: "dialect \<Rightarrow> column \<Rightarrow> sqlval" where
  "default_value D c =
     (case cl_default c of None \<Rightarrow> VNull | Some DNow \<Rightarrow> VTime (dl_now D) | Some (DLit v) \<Rightarrow> v)"

text \<open>
  \<open>op.add_column\<close>: every row gets the default. A column that may not be NULL needs a default, on
  SQLite always and elsewhere when the table has rows.
\<close>

definition add_column :: "dialect \<Rightarrow> string \<Rightarrow> column \<Rightarrow> unit ddl" where
  "add_column D n c =
     on_table n (\<lambda>t.
       if cl_name c \<in> set (column_names t) then Inl (DuplicateColumn n (cl_name c))
       else if \<not> cl_nullable c \<and> default_value D c = VNull \<and> (dl_sqlite D \<or> tb_rows t \<noteq> [])
       then Inl (ConstraintViolated n)
       else Inr (t\<lparr>tb_columns := tb_columns t @ [c],
                   tb_rows := map (\<lambda>r. r(cl_name c := default_value D c)) (tb_rows t)\<rparr>))"

definition column_used :: "string \<Rightarrow> dbtable \<Rightarrow> bool" where
  "column_used c t =
     (list_ex (\<lambda>fk. c \<in> set (fk_columns fk)) (tb_fkeys t)
      \<or> list_ex (\<lambda>u. c \<in> set (uq_columns u)) (tb_uniques t)
      \<or> list_ex (\<lambda>i. c \<in> set (ix_columns i)) (tb_indexes t))"

text \<open>
  \<open>op.drop_column\<close>: SQLite refuses a column that a key or an index uses; the other backends drop
  these with it.
\<close>

definition drop_column :: "dialect \<Rightarrow> string \<Rightarrow> string \<Rightarrow> unit ddl" where
  "drop_column D n c =
     on_table n (\<lambda>t.
       if c \<notin> set (column_names t) then Inl (NoSuchColumn n c)
       else if dl_sqlite D \<and> column_used c t then Inl (ColumnInUse n c)
       else Inr (t\<lparr>tb_columns := filter (\<lambda>x. cl_name x \<noteq> c) (tb_columns t),
                   tb_fkeys := filter (\<lambda>fk. c \<notin> set (fk_columns fk)) (tb_fkeys t),
                   tb_uniques := filter (\<lambda>u. c \<notin> set (uq_columns u)) (tb_uniques t),
                   tb_indexes := filter (\<lambda>i. c \<notin> set (ix_columns i)) (tb_indexes t),
                   tb_rows := map (\<lambda>r. r(c := VNull)) (tb_rows t)\<rparr>))"

definition set_not_null :: "string \<Rightarrow> string \<Rightarrow> unit ddl" where
  "set_not_null n c =
     on_table n (\<lambda>t.
       if c \<notin> set (column_names t) then Inl (NoSuchColumn n c)
       else if list_ex (\<lambda>r. r c = VNull) (tb_rows t) then Inl (ConstraintViolated n)
       else Inr (t\<lparr>tb_columns :=
                     map (\<lambda>x. if cl_name x = c then x\<lparr>cl_nullable := False\<rparr> else x) (tb_columns t)\<rparr>))"

text \<open>
  Adding a foreign key: except on SQLite, which copies the rows unchecked, its table must exist and
  every row must refer to a row of it.
\<close>

definition refers_to :: "row list \<Rightarrow> fkey \<Rightarrow> row \<Rightarrow> bool" where
  "refers_to target fk r =
     (list_ex (\<lambda>c. r c = VNull) (fk_columns fk)
      \<or> list_ex (\<lambda>r'. map r (fk_columns fk) = map r' (fk_refers fk)) target)"

definition create_foreign_key :: "dialect \<Rightarrow> string \<Rightarrow> fkey \<Rightarrow> unit ddl" where
  "create_foreign_key D n fk db =
     (if \<not> dl_sqlite D \<and> fk_table fk \<notin> set (table_names db)
      then (Inl (NoSuchTable (fk_table fk)), db)
      else if \<not> dl_sqlite D
              \<and> \<not> list_all (refers_to (rows_of (fk_table fk) db) fk) (rows_of n db)
      then (Inl (ConstraintViolated n), db)
      else on_table n (\<lambda>t. Inr (t\<lparr>tb_fkeys := tb_fkeys t @ [fk]\<rparr>)) db)"

definition drop_foreign_key :: "string \<Rightarrow> string \<Rightarrow> unit ddl" where
  "drop_foreign_key n k =
     on_table n (\<lambda>t. if Some k \<in> set (map fk_name (tb_fkeys t))
                     then Inr (t\<lparr>tb_fkeys := filter (\<lambda>fk. fk_name fk \<noteq> Some k) (tb_fkeys t)\<rparr>)
                     else Inl (NoSuchConstraint k))"

definition drop_unique :: "string \<Rightarrow> string \<Rightarrow> unit ddl" where
  "drop_unique n k =
     on_table n (\<lambda>t. if Some k \<in> set (map uq_name (tb_uniques t))
                     then Inr (t\<lparr>tb_uniques := filter (\<lambda>u. uq_name u \<noteq> Some k) (tb_uniques t)\<rparr>)
                     else Inl (NoSuchConstraint k))"

text \<open>Two rows clash on a key when they agree on it and none of its values is NULL.\<close>

definition clash :: "string list \<Rightarrow> row \<Rightarrow> row \<Rightarrow> bool" where
  "clash cs r r' = list_all (\<lambda>c. r c \<noteq> VNull \<and> r c = r' c) cs"

definition create_unique :: "string \<Rightarrow> uniq \<Rightarrow> unit ddl" where
  "create_unique n u =
     on_table n (\<lambda>t. if sorted_wrt (\<lambda>r r'. \<not> clash (uq_columns u) r r') (tb_rows t)
                     then Inr (t\<lparr>tb_uniques := tb_uniques t @ [u]\<rparr>)
                     else Inl (ConstraintViolated n))"

subsection \<open>Rows\<close>

text \<open>The keys of a table: its primary key, its unique constraints and its unique indexes.\<close>

definition keys_of :: "dbtable \<Rightarrow> string list list" where
  "keys_of t = [''id''] # map uq_columns (tb_uniques t)
                 @ map ix_columns (filter ix_unique (tb_indexes t))"

definition not_null_ok :: "dbtable \<Rightarrow> row \<Rightarrow> bool" where
  "not_null_ok t r = list_all (\<lambda>c. cl_nullable c \<or> r (cl_name c) \<noteq> VNull) (tb_columns t)"

definition insert_row :: "dbtable \<Rightarrow> row \<Rightarrow> mig_error + dbtable" where
  "insert_row t r =
     (if not_null_ok t r \<and> list_all (\<lambda>cs. \<not> list_ex (\<lambda>r'. clash cs r' r) (tb_rows t)) (keys_of t)
      then Inr (t\<lparr>tb_rows := tb_rows t @ [r]\<rparr>)
      else Inl (ConstraintViolated (tb_name t)))"

definition row_id :: "row \<Rightarrow> int" where
  "row_id r = (case r ''id'' of VInt i \<Rightarrow> i | _ \<Rightarrow> 0)"

text \<open>The row of \<open>INSERT INTO t (columns) VALUES (values)\<close>: the other columns get their defaults.\<close>

definition values_row :: "dialect \<Rightarrow> dbtable \<Rightarrow> (string \<times> sqlval) list \<Rightarrow> row" where
  "values_row D t vs =
     (\<lambda>n. case map_of vs n of
            Some v \<Rightarrow> v
          | None \<Rightarrow>
              (if n = ''id'' then VInt (next_id row_id (tb_rows t))
               else (case find (\<lambda>c. cl_name c = n) (tb_columns t) of
                       None \<Rightarrow> VNull
                     | Some c \<Rightarrow> default_value D c)))"

definition insert_values :: "dialect \<Rightarrow> string \<Rightarrow> (string \<times> sqlval) list \<Rightarrow> unit ddl" where
  "insert_values D n vs = on_table n (\<lambda>t. insert_row t (values_row D t vs))"

text \<open>The items of a SELECT list: a column of the source or a literal.\<close>

datatype selitem = SCol string | SLit sqlval

fun sel_value :: "selitem \<Rightarrow> row \<Rightarrow> sqlval" where
  "sel_value (SCol c) r = r c"
| "sel_value (SLit v) r = v"

definition select_row :: "(string \<times> selitem) list \<Rightarrow> row \<Rightarrow> row" where
  "select_row sel r = (\<lambda>n. case map_of sel n of None \<Rightarrow> VNull | Some e \<Rightarrow> sel_value e r)"

fun insert_rows :: "dbtable \<Rightarrow> row list \<Rightarrow> mig_error + dbtable" where
  "insert_rows t [] = Inr t"
| "insert_rows t (r # rs) =
     (case insert_row t r of Inl e \<Rightarrow> Inl e | Inr t' \<Rightarrow> insert_rows t' rs)"

text \<open>\<open>INSERT INTO n (columns) SELECT items FROM source\<close>.\<close>

definition insert_select :: "string \<Rightarrow> string list \<Rightarrow> selitem list \<Rightarrow> string \<Rightarrow> unit ddl" where
  "insert_select n cs items source db =
     (if source \<notin> set (table_names db) then (Inl (NoSuchTable source), db)
      else on_table n (\<lambda>t. insert_rows t (map (select_row (zip cs items)) (rows_of source db))) db)"

text \<open>\<open>UPDATE n SET c = v WHERE c IS NULL\<close>.\<close>

definition update_where_null :: "string \<Rightarrow> string \<Rightarrow> sqlval \<Rightarrow> unit ddl" where
  "update_where_null n c v =
     on_table n (\<lambda>t. Inr (t\<lparr>tb_rows := map (\<lambda>r. if r c = VNull then r(c := v) else r) (tb_rows t)\<rparr>))"

lemmas ddl_defs = find_table_def table_names_def rows_of_def column_names_def replace_table_def
  on_table_def name_unique_def create_table_def drop_table_def rename_fkey_def rename_table_def
  create_index_def drop_index_def default_value_def add_column_def column_used_def drop_column_def
  set_not_null_def create_foreign_key_def drop_foreign_key_def drop_unique_def create_unique_def
  insert_values_def update_where_null_def

section \<open>Comparing two schemas\<close>

text \<open>
  An enumeration is stored in a text column as long as its longest name; this is how it is rendered
  for SQLite.
\<close>

fun stored_type :: "coltype \<Rightarrow> coltype" where
  "stored_type (TEnum ns) = TString (foldr (\<lambda>n m. max (length n) m) ns 0)"
| "stored_type t = t"

definition column_shape :: "column \<Rightarrow> string \<times> coltype \<times> bool" where
  "column_shape c = (cl_name c, stored_type (cl_type c), cl_nullable c)"

definition fkey_shape :: "fkey \<Rightarrow> string list \<times> string \<times> string list \<times> string option" where
  "fkey_shape fk = (fk_columns fk, fk_table fk, fk_refers fk, fk_ondelete fk)"

text \<open>What two tables do not have in common: columns, foreign keys, keys and indexed columns.\<close>

datatype difference =
    DifferentColumn string string
  | DifferentFKey string "string list"
  | DifferentKey string "string list"
  | DifferentIndex string "string list"
  | MissingTable string

definition missing :: "'a list \<Rightarrow> 'a list \<Rightarrow> 'a list" where
  "missing xs ys = filter (\<lambda>x. x \<notin> set ys) xs"

definition table_lacks :: "dbtable \<Rightarrow> dbtable \<Rightarrow> difference list" where
  "table_lacks t t' =
     map (\<lambda>s. DifferentColumn (tb_name t) (fst s))
       (missing (map column_shape (tb_columns t)) (map column_shape (tb_columns t')))
     @ map (\<lambda>s. DifferentFKey (tb_name t) (fst s))
         (missing (map fkey_shape (tb_fkeys t)) (map fkey_shape (tb_fkeys t')))
     @ map (DifferentKey (tb_name t)) (missing (keys_of t) (keys_of t'))
     @ map (DifferentIndex (tb_name t))
         (missing (map ix_columns (tb_indexes t)) (map ix_columns (tb_indexes t')))"

definition schema_lacks :: "tables \<Rightarrow> tables \<Rightarrow> difference list" where
  "schema_lacks db db' =
     concat (map (\<lambda>t. case find_table (tb_name t) db' of
                        None \<Rightarrow> [MissingTable (tb_name t)]
                      | Some t' \<Rightarrow> table_lacks t t') db)"

end
