(* ===== verification/Revisions.thy ===== *)
theory Revisions
  imports Schema
begin

text \<open>
  The Alembic revisions 001 to 008 (\<open>alembic/versions\<close>), the chain they form, the tables the ORM
  declares (\<open>orchestrator/models\<close>) and \<open>init_db\<close> (\<open>orchestrator/models/base.py\<close>).
\<close>

section \<open>Revision 001: the initial schema\<close>

definition gateway_status_names :: "string list" where
  "gateway_status_names = [''PENDING'', ''PROVISIONING'', ''READY'', ''ERROR'', ''DELETING'']"

definition gateways_001 :: dbtable where
  "gateways_001 = new_table ''gateways''
     [id_column,
      column ''name'' (TString 128),
      column ''incus_instance'' (TString 128),
      column ''vm_ip'' (TString 45),
      column ''udp_port'' TInteger,
      column ''wg_subnet'' (TString 18),
      column ''wg_server_pubkey'' (TString 64),
      column ''wg_server_privkey_enc'' TText,
      column ''exit_node_id'' (TString 128),
      column ''tailscale_auth_key_enc'' TText,
      column ''tailscale_hostname'' (TString 128),
      column ''agent_token_hash'' (TString 128),
      column ''agent_token_enc'' TText,
      column ''status'' (TEnum gateway_status_names),
      null_column ''error_message'' TText,
      stamp_column ''created_at'',
      stamp_column ''updated_at'']
     [] [unique_on None [''name''], unique_on None [''udp_port'']]"

definition jobs_001 :: dbtable where
  "jobs_001 = new_table ''jobs''
     [id_column,
      column ''type'' (TEnum [''CREATE_GATEWAY'', ''DELETE_GATEWAY'']),
      null_column ''gateway_id'' TInteger,
      column ''status'' (TEnum [''PENDING'', ''RUNNING'', ''COMPLETED'', ''FAILED'']),
      null_column ''error'' TText,
      stamp_column ''created_at'',
      stamp_column ''updated_at'']
     [foreign_key None ''gateway_id'' ''gateways'' (Some ''SET NULL'')] []"

definition peers_001 :: dbtable where
  "peers_001 = new_table ''peers''
     [id_column,
      column ''gateway_id'' TInteger,
      column ''name'' (TString 128),
      column ''public_key'' (TString 64),
      column ''private_key_enc'' TText,
      column ''allowed_ip'' (TString 45),
      column ''suspended'' TBoolean,
      stamp_column ''created_at'']
     [foreign_key None ''gateway_id'' ''gateways'' (Some ''CASCADE'')]
     [unique_on None [''public_key'']]"

definition port_allocations_001 :: dbtable where
  "port_allocations_001 = new_table ''port_allocations''
     [id_column,
      column ''udp_port'' TInteger,
      null_column ''gateway_id'' TInteger,
      stamp_column ''allocated_at'']
     [foreign_key None ''gateway_id'' ''gateways'' (Some ''SET NULL'')]
     [unique_on None [''udp_port'']]"

definition ip_allocations_001 :: dbtable where
  "ip_allocations_001 = new_table ''ip_allocations''
     [id_column,
      column ''address'' (TString 45),
      null_column ''gateway_id'' TInteger,
      null_column ''peer_id'' TInteger,
      stamp_column ''allocated_at'']
     [foreign_key None ''gateway_id'' ''gateways'' (Some ''SET NULL''),
      foreign_key None ''peer_id'' ''peers'' (Some ''SET NULL'')]
     [unique_on None [''address'']]"

definition gateway_metrics_001 :: dbtable where
  "gateway_metrics_001 = new_table ''gateway_metrics''
     [id_column,
      column ''gateway_id'' TInteger,
      null_column ''vm_status'' (TString 32),
      null_column ''tailscale_online'' TBoolean,
      null_column ''wg_online'' TBoolean,
      null_column ''exit_node_reachable'' TBoolean,
      stamp_column ''polled_at'']
     [foreign_key None ''gateway_id'' ''gateways'' (Some ''CASCADE'')] []"

definition peer_metrics_001 :: dbtable where
  "peer_metrics_001 = new_table ''peer_metrics''
     [id_column,
      column ''peer_id'' TInteger,
      null_column ''last_handshake'' TDateTime,
      null_column ''rx_bytes'' TBigInteger,
      null_column ''tx_bytes'' TBigInteger,
      stamp_column ''polled_at'']
     [foreign_key None ''peer_id'' ''peers'' (Some ''CASCADE'')] []"

definition upgrade_001 :: "dialect \<Rightarrow> unit ddl" where
  "upgrade_001 D =
     thenM (create_table D gateways_001)
     (thenM (create_index ''gateways'' (index_on ''ix_gateways_name'' [''name'']))
     (thenM (create_table D jobs_001)
     (thenM (create_table D peers_001)
     (thenM (create_table D port_allocations_001)
     (thenM (create_table D ip_allocations_001)
     (thenM (create_table D gateway_metrics_001)
     (thenM (create_index ''gateway_metrics''
               (index_on ''ix_gateway_metrics_gateway_id'' [''gateway_id'']))
     (thenM (create_table D peer_metrics_001)
       (create_index ''peer_metrics''
          (index_on ''ix_peer_metrics_peer_id'' [''peer_id'']))))))))))"

definition downgrade_001 :: "dialect \<Rightarrow> unit ddl" where
  "downgrade_001 D =
     thenM (drop_index ''peer_metrics'' ''ix_peer_metrics_peer_id'')
     (thenM (drop_table D ''peer_metrics'')
     (thenM (drop_index ''gateway_metrics'' ''ix_gateway_metrics_gateway_id'')
     (thenM (drop_table D ''gateway_metrics'')
     (thenM (drop_table D ''ip_allocations'')
     (thenM (drop_table D ''port_allocations'')
     (thenM (drop_table D ''peers'')
     (thenM (drop_table D ''jobs'')
     (thenM (drop_index ''gateways'' ''ix_gateways_name'')
       (drop_table D ''gateways'')))))))))"

section \<open>Revision 002: workers\<close>

definition workers_002 :: dbtable where
  "workers_002 = new_table ''workers''
     [id_column,
      column ''name'' (TString 64),
      column ''display_name'' (TString 128),
      column ''public_ip'' (TString 45),
      null_column ''tailscale_hostname'' (TString 128),
      null_column ''incus_remote'' (TString 64),
      null_column ''incus_url'' (TString 512),
      null_column ''incus_cert_path'' (TString 512),
      null_column ''incus_key_path'' (TString 512),
      column ''worker_token_hash'' (TString 128),
      column ''port_pool_start'' TInteger,
      column ''port_pool_end'' TInteger,
      column ''ip_pool_network'' (TString 18),
      column ''ip_pool_start'' (TString 45),
      default_column ''enabled'' TBoolean (DLit (VInt 1)),
      default_column ''status'' (TString 16) (DLit (VText ''offline'')),
      null_column ''cpu_percent'' TFloat,
      null_column ''memory_total_mb'' TInteger,
      null_column ''memory_used_mb'' TInteger,
      null_column ''memory_percent'' TFloat,
      null_column ''network_rx_bps'' TFloat,
      null_column ''network_tx_bps'' TFloat,
      null_column ''last_seen_at'' TDateTime,
      stamp_column ''created_at'',
      stamp_column ''updated_at'']
     [] [unique_on None [''name'']]"

definition local_worker_values :: "(string \<times> sqlval) list" where
  "local_worker_values =
     [(''name'', VText ''local''), (''display_name'', VText ''Local (control plane)''),
      (''public_ip'', VText ''127.0.0.1''), (''worker_token_hash'', VText ''unset-local-worker''),
      (''port_pool_start'', VInt 51001), (''port_pool_end'', VInt 52000),
      (''ip_pool_network'', VText ''10.10.0.0/16''), (''ip_pool_start'', VText ''10.10.1.10''),
      (''enabled'', VInt 1), (''status'', VText ''offline'')]"

definition gateways_new_002 :: dbtable where
  "gateways_new_002 = new_table ''gateways_new''
     [id_column,
      column ''worker_id'' TInteger,
      column ''name'' (TString 128),
      column ''incus_instance'' (TString 128),
      column ''vm_ip'' (TString 45),
      column ''udp_port'' TInteger,
      column ''wg_subnet'' (TString 18),
      column ''wg_server_pubkey'' (TString 64),
      column ''wg_server_privkey_enc'' TText,
      column ''exit_node_id'' (TString 128),
      column ''tailscale_auth_key_enc'' TText,
      column ''tailscale_hostname'' (TString 128),
      column ''agent_token_hash'' (TString 128),
      column ''agent_token_enc'' TText,
      column ''status'' (TString 12),
      null_column ''error_message'' TText,
      stamp_column ''created_at'',
      stamp_column ''updated_at'']
     [foreign_key None ''worker_id'' ''workers'' None]
     [unique_on None [''name''], unique_on None [''worker_id'', ''udp_port'']]"

definition upgrade_gateways_sqlite :: "dialect \<Rightarrow> unit ddl" where
  "upgrade_gateways_sqlite D =
     thenM (create_table D gateways_new_002)
     (thenM (insert_select ''gateways_new''
        [''id'', ''worker_id'', ''name'', ''incus_instance'', ''vm_ip'', ''udp_port'', ''wg_subnet'',
         ''wg_server_pubkey'', ''wg_server_privkey_enc'', ''exit_node_id'',
         ''tailscale_auth_key_enc'', ''tailscale_hostname'', ''agent_token_hash'',
         ''agent_token_enc'', ''status'', ''error_message'', ''created_at'', ''updated_at'']
        [SCol ''id'', SLit (VInt 1), SCol ''name'', SCol ''incus_instance'', SCol ''vm_ip'',
         SCol ''udp_port'', SCol ''wg_subnet'', SCol ''wg_server_pubkey'',
         SCol ''wg_server_privkey_enc'', SCol ''exit_node_id'', SCol ''tailscale_auth_key_enc'',
         SCol ''tailscale_hostname'', SCol ''agent_token_hash'', SCol ''agent_token_enc'',
         SCol ''status'', SCol ''error_message'', SCol ''created_at'', SCol ''updated_at'']
        ''gateways'')
     (thenM (drop_table D ''gateways'')
     (thenM (rename_table ''gateways_new'' ''gateways'')
     (thenM (create_index ''gateways'' (index_on ''ix_gateways_name'' [''name'']))
       (create_index ''gateways'' (index_on ''ix_gateways_worker_id'' [''worker_id'']))))))"

definition port_allocations_new_002 :: dbtable where
  "port_allocations_new_002 = new_table ''port_allocations_new''
     [id_column,
      column ''worker_id'' TInteger,
      column ''udp_port'' TInteger,
      null_column ''gateway_id'' TInteger,
      stamp_column ''allocated_at'']
     [foreign_key None ''worker_id'' ''workers'' (Some ''CASCADE''),
      foreign_key None ''gateway_id'' ''gateways'' (Some ''SET NULL'')]
     [unique_on None [''worker_id'', ''udp_port'']]"

definition upgrade_port_allocations_sqlite :: "dialect \<Rightarrow> unit ddl" where
  "upgrade_port_allocations_sqlite D =
     thenM (create_table D port_allocations_new_002)
     (thenM (insert_select ''port_allocations_new''
        [''id'', ''worker_id'', ''udp_port'', ''gateway_id'', ''allocated_at'']
        [SCol ''id'', SLit (VInt 1), SCol ''udp_port'', SCol ''gateway_id'', SCol ''allocated_at'']
        ''port_allocations'')
     (thenM (drop_table D ''port_allocations'')
       (rename_table ''port_allocations_new'' ''port_allocations'')))"

definition ip_allocations_new_002 :: dbtable where
  "ip_allocations_new_002 = new_table ''ip_allocations_new''
     [id_column,
      column ''worker_id'' TInteger,
      column ''address'' (TString 45),
      null_column ''gateway_id'' TInteger,
      null_column ''peer_id'' TInteger,
      stamp_column ''allocated_at'']
     [foreign_key None ''worker_id'' ''workers'' (Some ''CASCADE''),
      foreign_key None ''gateway_id'' ''gateways'' (Some ''SET NULL''),
      foreign_key None ''peer_id'' ''peers'' (Some ''SET NULL'')]
     [unique_on None [''worker_id'', ''address'']]"

definition upgrade_ip_allocations_sqlite :: "dialect \<Rightarrow> unit ddl" where
  "upgrade_ip_allocations_sqlite D =
     thenM (create_table D ip_allocations_new_002)
     (thenM (insert_select ''ip_allocations_new''
        [''id'', ''worker_id'', ''address'', ''gateway_id'', ''peer_id'', ''allocated_at'']
        [SCol ''id'', SLit (VInt 1), SCol ''address'', SCol ''gateway_id'', SCol ''peer_id'',
         SCol ''allocated_at'']
        ''ip_allocations'')
     (thenM (drop_table D ''ip_allocations'')
       (rename_table ''ip_allocations_new'' ''ip_allocations'')))"

text \<open>The first unique constraint on exactly these columns; an unnamed one is passed over.\<close>

definition find_unique_constraint :: "string \<Rightarrow> string list \<Rightarrow> string option ddl" where
  "find_unique_constraint n cs =
     getM (\<lambda>db. case find_table n db of
                  None \<Rightarrow> None
                | Some t \<Rightarrow>
                    (case find (\<lambda>u. uq_columns u = cs \<and> uq_name u \<notin> {None, Some ''''})
                             (tb_uniques t) of
                       None \<Rightarrow> None | Some u \<Rightarrow> uq_name u))"

definition upgrade_table_with_worker ::
  "dialect \<Rightarrow> string \<Rightarrow> string \<Rightarrow> string list \<Rightarrow> string \<Rightarrow> string list \<Rightarrow> string option
     \<Rightarrow> unit ddl" where
  "upgrade_table_with_worker D n fk old_cols new_name new_cols ondelete =
     thenM (add_column D n (null_column ''worker_id'' TInteger))
     (thenM (update_where_null n ''worker_id'' (VInt 1))
     (thenM (set_not_null n ''worker_id'')
     (thenM (create_foreign_key D n (foreign_key (Some fk) ''worker_id'' ''workers'' ondelete))
     (bindM (find_unique_constraint n old_cols) (\<lambda>old_name.
        thenM (case old_name of None \<Rightarrow> ret () | Some k \<Rightarrow> drop_unique n k)
          (create_unique n (unique_on (Some new_name) new_cols)))))))"

definition upgrade_002 :: "dialect \<Rightarrow> unit ddl" where
  "upgrade_002 D =
     thenM (create_table D workers_002)
     (thenM (create_index ''workers'' (index_on ''ix_workers_name'' [''name'']))
     (thenM (insert_values D ''workers'' local_worker_values)
     (if dl_sqlite D then
        thenM (upgrade_gateways_sqlite D)
        (thenM (upgrade_port_allocations_sqlite D) (upgrade_ip_allocations_sqlite D))
      else
        thenM (upgrade_table_with_worker D ''gateways'' ''fk_gateways_worker_id'' [''udp_port'']
                 ''uq_gateway_worker_udp_port'' [''worker_id'', ''udp_port''] None)
        (thenM (create_index ''gateways'' (index_on ''ix_gateways_worker_id'' [''worker_id'']))
        (thenM (upgrade_table_with_worker D ''port_allocations'' ''fk_port_alloc_worker_id''
                  [''udp_port''] ''uq_port_worker_udp'' [''worker_id'', ''udp_port'']
                  (Some ''CASCADE''))
          (upgrade_table_with_worker D ''ip_allocations'' ''fk_ip_alloc_worker_id''
             [''address''] ''uq_ip_worker_address'' [''worker_id'', ''address'']
             (Some ''CASCADE'')))))))"

definition downgrade_002 :: "unit ddl" where
  "downgrade_002 = raise (NotImplementedErr ''002 downgrade not supported'')"

section \<open>Revisions 003 to 008\<close>

definition upgrade_003 :: "dialect \<Rightarrow> unit ddl" where
  "upgrade_003 D = add_column D ''workers'' (null_column ''incus_server_cert_path'' (TString 512))"

definition downgrade_003 :: "unit ddl" where
  "downgrade_003 = raise (NotImplementedErr ''003 downgrade not supported'')"

definition worker_enrollments_004 :: dbtable where
  "worker_enrollments_004 = new_table ''worker_enrollments''
     [id_column,
      column ''token_hash'' (TString 128),
      column ''name'' (TString 64),
      column ''display_name'' (TString 128),
      column ''public_ip'' (TString 45),
      column ''tailscale_hostname'' (TString 128),
      column ''expires_at'' TDateTime,
      null_column ''used_at'' TDateTime,
      null_column ''worker_id'' TInteger,
      stamp_column ''created_at'']
     [] [unique_on None [''token_hash'']]"

definition upgrade_004 :: "dialect \<Rightarrow> unit ddl" where
  "upgrade_004 D =
     thenM (create_table D worker_enrollments_004)
       (create_index ''worker_enrollments''
          (index_on ''ix_worker_enrollments_token_hash'' [''token_hash'']))"

definition downgrade_004 :: "dialect \<Rightarrow> unit ddl" where
  "downgrade_004 D =
     thenM (drop_index ''worker_enrollments'' ''ix_worker_enrollments_token_hash'')
       (drop_table D ''worker_enrollments'')"

definition upgrade_005 :: "dialect \<Rightarrow> unit ddl" where
  "upgrade_005 D =
     thenM (add_column D ''worker_enrollments'' (null_column ''enroll_token_enc'' TText))
       (add_column D ''worker_enrollments'' (null_column ''headscale_auth_key_enc'' TText))"

definition downgrade_005 :: "dialect \<Rightarrow> unit ddl" where
  "downgrade_005 D =
     thenM (drop_column D ''worker_enrollments'' ''headscale_auth_key_enc'')
       (drop_column D ''worker_enrollments'' ''enroll_token_enc'')"

definition peer_groups_006 :: dbtable where
  "peer_groups_006 = new_table ''peer_groups''
     [id_column,
      column ''name'' (TString 128),
      column ''worker_id'' TInteger,
      column ''lan_subnet'' (TString 18),
      column ''lan_start_ip'' (TString 45),
      null_column ''lan_gateway'' (TString 45),
      null_column ''parent_iface'' (TString 64),
      stamp_column ''created_at'',
      stamp_column ''updated_at'']
     [foreign_key None ''worker_id'' ''workers'' None]
     [unique_on None [''name'']]"

definition create_peer_groups_006 :: "dialect \<Rightarrow> unit ddl" where
  "create_peer_groups_006 D =
     thenM (create_table D peer_groups_006)
     (thenM (create_index ''peer_groups'' (index_on ''ix_peer_groups_name'' [''name'']))
       (create_index ''peer_groups'' (index_on ''ix_peer_groups_worker_id'' [''worker_id''])))"

text \<open>The batch for SQLite and the separate operations of the other backends make the same changes.\<close>

definition add_peer_group_columns_006 :: "dialect \<Rightarrow> unit ddl" where
  "add_peer_group_columns_006 D =
     thenM (add_column D ''gateways'' (null_column ''peer_group_id'' TInteger))
     (thenM (add_column D ''gateways'' (null_column ''lan_ip'' (TString 45)))
     (thenM (add_column D ''gateways'' (null_column ''macvlan_slot'' TInteger))
     (thenM (create_foreign_key D ''gateways''
               (foreign_key (Some ''fk_gateways_peer_group_id'') ''peer_group_id'' ''peer_groups''
                  (Some ''SET NULL'')))
       (create_index ''gateways'' (index_on ''ix_gateways_peer_group_id'' [''peer_group_id''])))))"

definition has_table :: "string \<Rightarrow> tables \<Rightarrow> bool" where
  "has_table n db = (n \<in> set (table_names db))"

definition has_column :: "string \<Rightarrow> string \<Rightarrow> tables \<Rightarrow> bool" where
  "has_column n c db =
     (case find_table n db of None \<Rightarrow> False | Some t \<Rightarrow> c \<in> set (column_names t))"

text \<open>Inspecting the columns of a missing table raises.\<close>

definition upgrade_006 :: "dialect \<Rightarrow> unit ddl" where
  "upgrade_006 D =
     bindM (getM (has_table ''peer_groups'')) (\<lambda>present.
     thenM (whenM (\<not> present) (create_peer_groups_006 D))
     (bindM (getM (has_table ''gateways'')) (\<lambda>gateways_present.
      if \<not> gateways_present then raise (NoSuchTable ''gateways'')
      else bindM (getM (has_column ''gateways'' ''peer_group_id'')) (\<lambda>extended.
        whenM (\<not> extended) (add_peer_group_columns_006 D)))))"

definition downgrade_006 :: "dialect \<Rightarrow> unit ddl" where
  "downgrade_006 D =
     thenM (drop_index ''gateways'' ''ix_gateways_peer_group_id'')
     (thenM (drop_foreign_key ''gateways'' ''fk_gateways_peer_group_id'')
     (thenM (drop_column D ''gateways'' ''macvlan_slot'')
     (thenM (drop_column D ''gateways'' ''lan_ip'')
     (thenM (drop_column D ''gateways'' ''peer_group_id'')
     (thenM (drop_index ''peer_groups'' ''ix_peer_groups_worker_id'')
     (thenM (drop_index ''peer_groups'' ''ix_peer_groups_name'')
       (drop_table D ''peer_groups'')))))))"

definition upgrade_007 :: "dialect \<Rightarrow> unit ddl" where
  "upgrade_007 D =
     thenM (add_column D ''gateway_metrics'' (null_column ''egress_public_ip'' (TString 45)))
       (add_column D ''gateway_metrics'' (null_column ''egress_country_code'' (TString 2)))"

definition downgrade_007 :: "dialect \<Rightarrow> unit ddl" where
  "downgrade_007 D =
     thenM (drop_column D ''gateway_metrics'' ''egress_country_code'')
       (drop_column D ''gateway_metrics'' ''egress_public_ip'')"

definition upgrade_008 :: "dialect \<Rightarrow> unit ddl" where
  "upgrade_008 D =
     add_column D ''gateway_metrics'' (null_column ''egress_updated_at'' TDateTime)"

definition downgrade_008 :: "dialect \<Rightarrow> unit ddl" where
  "downgrade_008 D = drop_column D ''gateway_metrics'' ''egress_updated_at''"

section \<open>The chain of revisions\<close>

record revision =
  rv_id :: string
  rv_down :: "string option"
  rv_upgrade :: "unit ddl"
  rv_downgrade :: "unit ddl"

definition a_revision :: "string \<Rightarrow> string option \<Rightarrow> unit ddl \<Rightarrow> unit ddl \<Rightarrow> revision" where
  "a_revision i d u w = \<lparr>rv_id = i, rv_down = d, rv_upgrade = u, rv_downgrade = w\<rparr>"

definition revision_001 :: "dialect \<Rightarrow> revision" where
  "revision_001 D = a_revision ''001'' None (upgrade_001 D) (downgrade_001 D)"

definition revision_002 :: "dialect \<Rightarrow> revision" where
  "revision_002 D = a_revision ''002'' (Some ''001'') (upgrade_002 D) downgrade_002"

definition revision_003 :: "dialect \<Rightarrow> revision" where
  "revision_003 D = a_revision ''003'' (Some ''002'') (upgrade_003 D) downgrade_003"

definition revision_004 :: "dialect \<Rightarrow> revision" where
  "revision_004 D = a_revision ''004_worker_enrollment'' (Some ''003'') (upgrade_004 D) (downgrade_004 D)"

definition revision_005 :: "dialect \<Rightarrow> revision" where
  "revision_005 D = a_revision ''005_worker_enrollment_secrets'' (Some ''004_worker_enrollment'')
     (upgrade_005 D) (downgrade_005 D)"

definition revision_006 :: "dialect \<Rightarrow> revision" where
  "revision_006 D = a_revision ''006_peer_groups'' (Some ''005_worker_enrollment_secrets'')
     (upgrade_006 D) (downgrade_006 D)"

definition revision_007 :: "dialect \<Rightarrow> revision" where
  "revision_007 D = a_revision ''007_gateway_egress_geo'' (Some ''006_peer_groups'')
     (upgrade_007 D) (downgrade_007 D)"

definition revision_008 :: "dialect \<Rightarrow> revision" where
  "revision_008 D = a_revision ''008_egress_updated_at'' (Some ''007_gateway_egress_geo'')
     (upgrade_008 D) (downgrade_008 D)"

text \<open>The files of \<open>alembic/versions\<close>, in the order of their names.\<close>

definition revisions :: "dialect \<Rightarrow> revision list" where
  "revisions D = [revision_001 D, revision_002 D, revision_003 D, revision_004 D, revision_005 D,
                  revision_006 D, revision_007 D, revision_008 D]"

text \<open>
  Alembic orders the revisions by \<open>down_revision\<close> alone: the next one is the one whose
  \<open>down_revision\<close> is the current one. The fuel is the number of files, which is enough since a
  revision occurs once in the chain.
\<close>

fun upgrade_path :: "nat \<Rightarrow> revision list \<Rightarrow> string option \<Rightarrow> revision list" where
  "upgrade_path 0 rs cur = []"
| "upgrade_path (Suc n) rs cur =
     (case find (\<lambda>r. rv_down r = cur) rs of
        None \<Rightarrow> []
      | Some r \<Rightarrow> r # upgrade_path n rs (Some (rv_id r)))"

fun downgrade_path :: "nat \<Rightarrow> revision list \<Rightarrow> string option \<Rightarrow> string option \<Rightarrow> revision list" where
  "downgrade_path 0 rs cur target = []"
| "downgrade_path (Suc n) rs cur target =
     (if cur = target then []
      else (case find (\<lambda>r. Some (rv_id r) = cur) rs of
              None \<Rightarrow> []
            | Some r \<Rightarrow> r # downgrade_path n rs (rv_down r) target))"

definition upgrade_head :: "dialect \<Rightarrow> string option \<Rightarrow> unit ddl" where
  "upgrade_head D cur =
     forM (upgrade_path (length (revisions D)) (revisions D) cur) rv_upgrade"

definition downgrade_to :: "dialect \<Rightarrow> string option \<Rightarrow> string option \<Rightarrow> unit ddl" where
  "downgrade_to D cur target =
     forM (downgrade_path (length (revisions D)) (revisions D) cur target) rv_downgrade"

lemmas revision_defs = revision_001_def revision_002_def revision_003_def revision_004_def
  revision_005_def revision_006_def revision_007_def revision_008_def a_revision_def

section \<open>The tables the ORM declares\<close>

definition indexed :: "dbtable \<Rightarrow> tabindex list \<Rightarrow> dbtable" where
  "indexed t ixs = t\<lparr>tb_indexes := ixs\<rparr>"

definition orm_workers :: dbtable where
  "orm_workers = indexed (new_table ''workers''
     [id_column,
      column ''name'' (TString 64),
      column ''display_name'' (TString 128),
      column ''public_ip'' (TString 45),
      null_column ''tailscale_hostname'' (TString 128),
      null_column ''incus_remote'' (TString 64),
      null_column ''incus_url'' (TString 512),
      null_column ''incus_cert_path'' (TString 512),
      null_column ''incus_key_path'' (TString 512),
      null_column ''incus_server_cert_path'' (TString 512),
      column ''worker_token_hash'' (TString 128),
      column ''port_pool_start'' TInteger,
      column ''port_pool_end'' TInteger,
      column ''ip_pool_network'' (TString 18),
      column ''ip_pool_start'' (TString 45),
      column ''enabled'' TBoolean,
      column ''status'' (TEnum [''online'', ''offline'', ''disabled'']),
      null_column ''cpu_percent'' TFloat,
      null_column ''memory_total_mb'' TInteger,
      null_column ''memory_used_mb'' TInteger,
      null_column ''memory_percent'' TFloat,
      null_column ''network_rx_bps'' TFloat,
      null_column ''network_tx_bps'' TFloat,
      null_column ''last_seen_at'' TDateTime,
      stamp_column ''created_at'',
      stamp_column ''updated_at''] [] [])
     [unique_index_on ''ix_workers_name'' [''name'']]"

definition orm_worker_enrollments :: dbtable where
  "orm_worker_enrollments = indexed (new_table ''worker_enrollments''
     [id_column,
      column ''token_hash'' (TString 128),
      column ''name'' (TString 64),
      column ''display_name'' (TString 128),
      column ''public_ip'' (TString 45),
      column ''tailscale_hostname'' (TString 128),
      column ''expires_at'' TDateTime,
      null_column ''enroll_token_enc'' TText,
      null_column ''headscale_auth_key_enc'' TText,
      null_column ''used_at'' TDateTime,
      null_column ''worker_id'' TInteger,
      stamp_column ''created_at''] [] [])
     [unique_index_on ''ix_worker_enrollments_token_hash'' [''token_hash'']]"

definition orm_registration_requests :: dbtable where
  "orm_registration_requests = indexed (new_table ''registration_requests''
     [id_column,
      column ''registration_key'' (TString 128),
      column ''display_code'' (TString 6),
      column ''status'' (TEnum [''PENDING'', ''APPROVED'', ''REJECTED'']),
      null_column ''headscale_node_id'' TInteger,
      null_column ''tailscale_ip'' (TString 45),
      stamp_column ''created_at'',
      null_column ''resolved_at'' TDateTime] [] [])
     [unique_index_on ''ix_registration_requests_registration_key'' [''registration_key''],
      index_on ''ix_registration_requests_display_code'' [''display_code'']]"

definition orm_peer_groups :: dbtable where
  "orm_peer_groups = indexed (new_table ''peer_groups''
     [id_column,
      column ''name'' (TString 128),
      column ''worker_id'' TInteger,
      column ''lan_subnet'' (TString 18),
      column ''lan_start_ip'' (TString 45),
      null_column ''lan_gateway'' (TString 45),
      null_column ''parent_iface'' (TString 64),
      stamp_column ''created_at'',
      stamp_column ''updated_at'']
     [foreign_key None ''worker_id'' ''workers'' None] [])
     [unique_index_on ''ix_peer_groups_name'' [''name''],
      index_on ''ix_peer_groups_worker_id'' [''worker_id'']]"

definition orm_gateways :: dbtable where
  "orm_gateways = indexed (new_table ''gateways''
     [id_column,
      column ''worker_id'' TInteger,
      null_column ''peer_group_id'' TInteger,
      null_column ''lan_ip'' (TString 45),
      null_column ''macvlan_slot'' TInteger,
      column ''name'' (TString 128),
      column ''incus_instance'' (TString 128),
      column ''vm_ip'' (TString 45),
      column ''udp_port'' TInteger,
      column ''wg_subnet'' (TString 18),
      column ''wg_server_pubkey'' (TString 64),
      column ''wg_server_privkey_enc'' TText,
      column ''exit_node_id'' (TString 128),
      column ''tailscale_auth_key_enc'' TText,
      column ''tailscale_hostname'' (TString 128),
      column ''agent_token_hash'' (TString 128),
      column ''agent_token_enc'' TText,
      column ''status'' (TEnum gateway_status_names),
      null_column ''error_message'' TText,
      stamp_column ''created_at'',
      stamp_column ''updated_at'']
     [foreign_key None ''worker_id'' ''workers'' None,
      foreign_key None ''peer_group_id'' ''peer_groups'' None]
     [unique_on (Some ''uq_gateway_worker_udp_port'') [''worker_id'', ''udp_port'']])
     [index_on ''ix_gateways_worker_id'' [''worker_id''],
      index_on ''ix_gateways_peer_group_id'' [''peer_group_id''],
      unique_index_on ''ix_gateways_name'' [''name'']]"

definition orm_jobs :: dbtable where
  "orm_jobs = new_table ''jobs''
     [id_column,
      column ''type'' (TEnum [''CREATE_GATEWAY'', ''DELETE_GATEWAY'']),
      null_column ''gateway_id'' TInteger,
      column ''status'' (TEnum [''PENDING'', ''RUNNING'', ''COMPLETED'', ''FAILED'']),
      null_column ''error'' TText,
      null_column ''stage'' (TString 32),
      null_column ''stage_updated_at'' TDateTime,
      stamp_column ''created_at'',
      stamp_column ''updated_at'']
     [foreign_key None ''gateway_id'' ''gateways'' (Some ''SET NULL'')] []"

definition orm_peers :: dbtable where
  "orm_peers = new_table ''peers''
     [id_column,
      column ''gateway_id'' TInteger,
      column ''name'' (TString 128),
      column ''public_key'' (TString 64),
      column ''private_key_enc'' TText,
      column ''allowed_ip'' (TString 45),
      column ''suspended'' TBoolean,
      stamp_column ''created_at'']
     [foreign_key None ''gateway_id'' ''gateways'' (Some ''CASCADE'')]
     [unique_on None [''public_key'']]"

definition orm_gateway_metrics :: dbtable where
  "orm_gateway_metrics = indexed (new_table ''gateway_metrics''
     [id_column,
      column ''gateway_id'' TInteger,
      null_column ''vm_status'' (TString 32),
      null_column ''tailscale_online'' TBoolean,
      null_column ''wg_online'' TBoolean,
      null_column ''exit_node_reachable'' TBoolean,
      null_column ''egress_public_ip'' (TString 45),
      null_column ''egress_country_code'' (TString 2),
      null_column ''egress_updated_at'' TDateTime,
      stamp_column ''polled_at'']
     [foreign_key None ''gateway_id'' ''gateways'' (Some ''CASCADE'')] [])
     [index_on ''ix_gateway_metrics_gateway_id'' [''gateway_id'']]"

definition orm_peer_metrics :: dbtable where
  "orm_peer_metrics = indexed (new_table ''peer_metrics''
     [id_column,
      column ''peer_id'' TInteger,
      null_column ''last_handshake'' TDateTime,
      null_column ''rx_bytes'' TBigInteger,
      null_column ''tx_bytes'' TBigInteger,
      stamp_column ''polled_at'']
     [foreign_key None ''peer_id'' ''peers'' (Some ''CASCADE'')] [])
     [index_on ''ix_peer_metrics_peer_id'' [''peer_id'']]"

definition orm_port_allocations :: dbtable where
  "orm_port_allocations = new_table ''port_allocations''
     [id_column,
      column ''worker_id'' TInteger,
      column ''udp_port'' TInteger,
      null_column ''gateway_id'' TInteger,
      stamp_column ''allocated_at'']
     [foreign_key None ''worker_id'' ''workers'' (Some ''CASCADE''),
      foreign_key None ''gateway_id'' ''gateways'' (Some ''SET NULL'')]
     [unique_on (Some ''uq_port_worker_udp'') [''worker_id'', ''udp_port'']]"

definition orm_ip_allocations :: dbtable where
  "orm_ip_allocations = new_table ''ip_allocations''
     [id_column,
      column ''worker_id'' TInteger,
      column ''address'' (TString 45),
      null_column ''gateway_id'' TInteger,
      null_column ''peer_id'' TInteger,
      stamp_column ''allocated_at'']
     [foreign_key None ''worker_id'' ''workers'' (Some ''CASCADE''),
      foreign_key None ''gateway_id'' ''gateways'' (Some ''SET NULL''),
      foreign_key None ''peer_id'' ''peers'' (Some ''SET NULL'')]
     [unique_on (Some ''uq_ip_worker_address'') [''worker_id'', ''address'']]"

text \<open>The tables in an order in which every foreign key finds its table.\<close>

definition orm_tables :: tables where
  "orm_tables =
     [orm_registration_requests, orm_worker_enrollments, orm_workers, orm_peer_groups,
      orm_gateways, orm_gateway_metrics, orm_jobs, orm_peers, orm_port_allocations,
      orm_ip_allocations, orm_peer_metrics]"

lemmas orm_defs = orm_workers_def orm_worker_enrollments_def orm_registration_requests_def
  orm_peer_groups_def orm_gateways_def orm_jobs_def orm_peers_def orm_gateway_metrics_def
  orm_peer_metrics_def orm_port_allocations_def orm_ip_allocations_def indexed_def

section \<open>Starting the orchestrator on a database\<close>

text \<open>\<open>Base.metadata.create_all\<close>: the missing tables are created, the present ones left alone.\<close>

definition create_missing :: "dialect \<Rightarrow> dbtable \<Rightarrow> unit ddl" where
  "create_missing D t =
     bindM (getM (has_table (tb_name t))) (\<lambda>present. whenM (\<not> present) (create_table D t))"

definition create_all :: "dialect \<Rightarrow> unit ddl" where
  "create_all D = forM orm_tables (create_missing D)"

definition init_db :: "dialect \<Rightarrow> unit ddl" where
  "init_db D =
     thenM (create_all D)
     (thenM (bindM (getM (has_table ''registration_requests'')) (\<lambda>present.
        whenM present
          (bindM (getM (has_column ''registration_requests'' ''display_code'')) (\<lambda>coded.
             whenM (\<not> coded)
               (add_column D ''registration_requests''
                  (default_column ''display_code'' (TString 6) (DLit (VText ''000000''))))))))
     (bindM (getM (has_table ''jobs'')) (\<lambda>present.
        whenM present
          (bindM (getM (has_column ''jobs'' ''stage'')) (\<lambda>staged.
           bindM (getM (has_column ''jobs'' ''stage_updated_at'')) (\<lambda>stamped.
             thenM (whenM (\<not> staged) (add_column D ''jobs'' (null_column ''stage'' (TString 32))))
               (whenM (\<not> stamped)
                  (add_column D ''jobs'' (null_column ''stage_updated_at'' TDateTime)))))))))"

end
