(* ===== verification/WorkerMigration.thy ===== *)
theory WorkerMigration
  imports Revisions
begin

text \<open>
  Revision 002, which puts the existing gateways, ports and addresses under a first worker: both of its
  paths, the rebuilding of the tables on SQLite and the altering of them elsewhere, keep every row.
\<close>

section \<open>Running the operations\<close>

definition schema_of :: "tables \<Rightarrow> tables" where
  "schema_of db = map (\<lambda>t. t\<lparr>tb_rows := []\<rparr>) db"

text \<open>A table whose rows keep to its columns, its NOT NULL marks and its keys.\<close>

definition rows_apart :: "string list \<Rightarrow> row list \<Rightarrow> bool" where
  "rows_apart cs rs = sorted_wrt (\<lambda>r r'. \<not> clash cs r r') rs"

definition within_columns :: "dbtable \<Rightarrow> row \<Rightarrow> bool" where
  "within_columns t r = (\<forall>n. n \<notin> set (column_names t) \<longrightarrow> r n = VNull)"

definition sound_table :: "dbtable \<Rightarrow> bool" where
  "sound_table t =
     (list_all (not_null_ok t) (tb_rows t) \<and> list_all (within_columns t) (tb_rows t)
      \<and> list_all (\<lambda>cs. rows_apart cs (tb_rows t)) (keys_of t))"

lemma find_table_names: "n \<in> set (table_names db) \<longleftrightarrow> find_table n db \<noteq> None"
  by (induction db) (auto simp: find_table_def table_names_def)

lemma find_table_name: "find_table n db = Some t \<Longrightarrow> tb_name t = n"
  by (auto simp: find_table_def find_Some_iff)

lemma find_replace_same:
  "find_table n db = Some t \<Longrightarrow> tb_name t' = n \<Longrightarrow> find_table n (replace_table n t' db) = Some t'"
  by (induction db) (auto simp: find_table_def replace_table_def split: if_splits)

lemma find_replace_other:
  "m \<noteq> n \<Longrightarrow> tb_name t' = n \<Longrightarrow> find_table m (replace_table n t' db) = find_table m db"
  by (induction db) (auto simp: find_table_def replace_table_def)

lemma replace_replace:
  "tb_name a = n \<Longrightarrow> replace_table n b (replace_table n a db) = replace_table n b db"
  by (auto simp: replace_table_def)

lemma rows_of_replace_other:
  "m \<noteq> n \<Longrightarrow> tb_name t' = n \<Longrightarrow> rows_of m (replace_table n t' db) = rows_of m db"
  by (simp add: rows_of_def find_replace_other)

lemma on_table_run:
  assumes "find_table n db = Some t" and "f t = Inr t'"
  shows "on_table n f db = (Inr (), replace_table n t' db)"
  using assms by (simp add: on_table_def)

lemma clash_sym: "clash cs r r' = clash cs r' r"
  by (auto simp: clash_def list_all_iff)

lemma keys_of_rows [simp]: "keys_of (t\<lparr>tb_rows := rs\<rparr>) = keys_of t"
  by (simp add: keys_of_def)

lemma not_null_ok_rows [simp]: "not_null_ok (t\<lparr>tb_rows := rs\<rparr>) = not_null_ok t"
  by (rule ext) (simp add: not_null_ok_def)

lemma insert_rows_run:
  assumes "list_all (not_null_ok t) rs" and "list_all (\<lambda>cs. rows_apart cs (tb_rows t @ rs)) (keys_of t)"
  shows "insert_rows t rs = Inr (t\<lparr>tb_rows := tb_rows t @ rs\<rparr>)"
  using assms
proof (induction rs arbitrary: t)
  case Nil
  then show ?case by simp
next
  case (Cons r rs)
  have "insert_row t r = Inr (t\<lparr>tb_rows := tb_rows t @ [r]\<rparr>)"
    using Cons.prems
    by (auto simp: insert_row_def rows_apart_def list_all_iff list_ex_iff sorted_wrt_append)
  with Cons.IH [of "t\<lparr>tb_rows := tb_rows t @ [r]\<rparr>"] Cons.prems show ?case
    by simp
qed

lemma map_of_zip_columns:
  "map_of (zip cs (map SCol cs)) n = (if n \<in> set cs then Some (SCol n) else None)"
  by (induction cs) auto

text \<open>Copying every column and filling in one new column.\<close>

lemma select_row_fill:
  assumes "w \<notin> set (i # cs)" and "\<And>n. n \<notin> set (i # cs) \<Longrightarrow> r n = VNull"
  shows "select_row (zip (i # w # cs) (SCol i # SLit v # map SCol cs)) r = r(w := v)"
  using assms by (auto simp: select_row_def map_of_zip_columns fun_eq_iff)

lemma rows_apart_fill:
  assumes "rows_apart cs rs" and "w \<notin> set cs" and "v \<noteq> VNull"
  shows "rows_apart (w # cs) (map (\<lambda>r. r(w := v)) rs)"
  using assms
  by (auto simp: rows_apart_def clash_def sorted_wrt_map list_all_iff elim!: sorted_wrt_mono_rel [rotated])

lemma rows_apart_other:
  assumes "rows_apart cs rs" and "w \<notin> set cs"
  shows "rows_apart cs (map (\<lambda>r. r(w := v)) rs)"
  using assms
  by (auto simp: rows_apart_def clash_def sorted_wrt_map list_all_iff elim!: sorted_wrt_mono_rel [rotated])

lemma find_append_table:
  "find_table n (db @ [t]) = (case find_table n db of None \<Rightarrow> (if tb_name t = n then Some t else None) | Some x \<Rightarrow> Some x)"
  by (induction db) (auto simp: find_table_def)

lemma replace_appended:
  "find_table n db = None \<Longrightarrow> tb_name t = n \<Longrightarrow> replace_table n t' (db @ [t]) = db @ [t']"
  by (induction db) (auto simp: find_table_def replace_table_def split: if_splits)

lemma name_unique_sqlite: "dl_sqlite D \<Longrightarrow> map (name_unique D n) us = us"
  by (induction us) (auto simp: name_unique_def)

text \<open>
  The SQLite way to change a table: create the new one under another name, copy the rows, drop the
  old one.
\<close>

lemma rebuild_run:
  assumes sql: "dl_sqlite D" and old: "find_table n db = Some t"
    and tmp: "find_table (tb_name t') db = None" and empty: "tb_rows t' = []"
    and sel: "\<And>r. r \<in> set (tb_rows t) \<Longrightarrow> select_row (zip cs items) r = r(w := v)"
    and ok: "list_all (not_null_ok t') (map (\<lambda>r. r(w := v)) (tb_rows t))"
    and apart: "list_all (\<lambda>cs. rows_apart cs (map (\<lambda>r. r(w := v)) (tb_rows t))) (keys_of t')"
  shows "thenM (create_table D t')
           (thenM (insert_select (tb_name t') cs items n) (thenM (drop_table D n) k)) db
         = k (filter (\<lambda>x. tb_name x \<noteq> n) db @ [t'\<lparr>tb_rows := map (\<lambda>r. r(w := v)) (tb_rows t)\<rparr>])"
proof -
  let ?new = "t'\<lparr>tb_rows := map (\<lambda>r. r(w := v)) (tb_rows t)\<rparr>"
  have other: "tb_name t' \<noteq> n"
    using old tmp by auto
  have created: "create_table D t' db = (Inr (), db @ [t'])"
    using tmp sql by (simp add: create_table_def find_table_names name_unique_sqlite)
  have "map (select_row (zip cs items)) (rows_of n (db @ [t'])) = map (\<lambda>r. r(w := v)) (tb_rows t)"
    using sel by (auto simp: rows_of_def find_append_table old)
  moreover have "insert_rows t' (map (\<lambda>r. r(w := v)) (tb_rows t)) = Inr ?new"
    using insert_rows_run [of t' "map (\<lambda>r. r(w := v)) (tb_rows t)"] ok apart empty by simp
  ultimately have copied: "insert_select (tb_name t') cs items n (db @ [t']) = (Inr (), db @ [?new])"
    using old tmp by (simp add: insert_select_def find_table_names find_append_table on_table_def replace_appended)
  have dropped: "drop_table D n (db @ [?new]) = (Inr (), filter (\<lambda>x. tb_name x \<noteq> n) db @ [?new])"
    using old other sql by (simp add: drop_table_def find_table_names find_append_table)
  show ?thesis
    by (simp add: thenM_def created copied dropped)
qed

lemma rename_run:
  assumes "find_table a db = None" and "find_table b db = None" and "tb_name t = a" and "a \<noteq> b"
    and "list_all (\<lambda>x. list_all (\<lambda>fk. fk_table fk \<noteq> a) (tb_fkeys x)) (db @ [t])"
  shows "rename_table a b (db @ [t]) = (Inr (), db @ [t\<lparr>tb_name := b\<rparr>])"
proof -
  have keep: "map (rename_fkey a b) fks = fks" if "list_all (\<lambda>fk. fk_table fk \<noteq> a) fks" for fks
    using that by (induction fks) (auto simp: rename_fkey_def)
  have "map (\<lambda>t. t\<lparr>tb_name := if tb_name t = a then b else tb_name t,
                    tb_fkeys := map (rename_fkey a b) (tb_fkeys t)\<rparr>) db = db"
    using assms(1,5) by (induction db) (auto simp: keep find_table_def split: if_splits)
  with assms show ?thesis
    by (simp add: rename_table_def find_table_names find_append_table keep)
qed

lemma refers_to_filled:
  assumes "r' \<in> set target" and "r' ''id'' = VInt 1"
  shows "refers_to target (foreign_key k w tab od) (r(w := VInt 1))"
  using assms by (auto simp: refers_to_def foreign_key_def list_ex_iff intro!: bexI [of _ r'])

text \<open>The other way: the column is added and filled, and the constraints are exchanged; each change is made
  to the table the previous one left.\<close>

lemma add_null_column_run:
  assumes "find_table n db = Some t" and "c \<notin> set (column_names t)"
  shows "add_column D n (null_column c ty) db =
    (Inr (), replace_table n (t\<lparr>tb_columns := tb_columns t @ [null_column c ty],
                                tb_rows := map (\<lambda>r. r(c := VNull)) (tb_rows t)\<rparr>) db)"
  using assms by (simp add: add_column_def on_table_def null_column_def default_value_def)

lemma fill_column_run:
  assumes "find_table n db = Some t"
    and "tb_rows t = map (\<lambda>r. r(c := VNull)) rs"
  shows "update_where_null n c v db =
    (Inr (), replace_table n (t\<lparr>tb_rows := map (\<lambda>r. r(c := v)) rs\<rparr>) db)"
  using assms by (simp add: update_where_null_def on_table_def comp_def)

lemma set_not_null_run:
  assumes "find_table n db = Some t" and "tb_columns t = cs @ [null_column c ty]"
    and "c \<notin> set (map cl_name cs)" and "list_all (\<lambda>r. r c \<noteq> VNull) (tb_rows t)"
  shows "set_not_null n c db = (Inr (), replace_table n (t\<lparr>tb_columns := cs @ [column c ty]\<rparr>) db)"
proof -
  have "map (\<lambda>x. if cl_name x = c then x\<lparr>cl_nullable := False\<rparr> else x) cs = cs"
    using assms(3) by (induction cs) auto
  moreover have "\<not> list_ex (\<lambda>r. r c = VNull) (tb_rows t)"
    using assms(4) by (auto simp: list_ex_iff list_all_iff)
  ultimately show ?thesis
    using assms(1,2)
    by (simp add: set_not_null_def on_table_def column_names_def null_column_def column_def)
qed

lemma worker_key_run:
  assumes "find_table n db = Some t" and "find_table ''workers'' db = Some w"
    and one: "r1 \<in> set (tb_rows w)" "r1 ''id'' = VInt 1"
    and "tb_rows t = map (\<lambda>r. r(''worker_id'' := VInt 1)) rs"
  shows "create_foreign_key D n (foreign_key k ''worker_id'' ''workers'' ondelete) db =
    (Inr (), replace_table n
       (t\<lparr>tb_fkeys := tb_fkeys t @ [foreign_key k ''worker_id'' ''workers'' ondelete]\<rparr>) db)"
proof -
  let ?fk = "foreign_key k ''worker_id'' ''workers'' ondelete"
  have "fk_table ?fk = ''workers''"
    by (simp add: foreign_key_def)
  moreover have "list_all (refers_to (tb_rows w) ?fk) (tb_rows t)"
    using refers_to_filled [OF one] by (simp add: list_all_iff assms(5))
  ultimately show ?thesis
    using assms(1,2) by (simp add: create_foreign_key_def on_table_def rows_of_def find_table_names)
qed

text \<open>The constraint looked up is the one dropped, if there is one.\<close>

definition unique_to_drop :: "dbtable \<Rightarrow> string list \<Rightarrow> string option" where
  "unique_to_drop t cs =
     (case find (\<lambda>u. uq_columns u = cs \<and> uq_name u \<notin> {None, Some ''''}) (tb_uniques t) of
        None \<Rightarrow> None | Some u \<Rightarrow> uq_name u)"

definition without_unique :: "dbtable \<Rightarrow> string option \<Rightarrow> uniq list" where
  "without_unique t old =
     (if old = None then tb_uniques t else filter (\<lambda>u. uq_name u \<noteq> old) (tb_uniques t))"

lemma unique_to_drop_present:
  "unique_to_drop t cs = Some k \<Longrightarrow> Some k \<in> set (map uq_name (tb_uniques t))"
  by (auto simp: unique_to_drop_def find_Some_iff split: option.splits) (metis imageI nth_mem)

lemma swap_unique_run:
  assumes found: "find_table n db = Some t" and "rows_apart new_cols (tb_rows t)"
  shows "bindM (find_unique_constraint n old_cols) (\<lambda>old_name.
           thenM (case old_name of None \<Rightarrow> ret () | Some k \<Rightarrow> drop_unique n k)
             (create_unique n (unique_on new_name new_cols))) db =
         (Inr (), replace_table n
           (t\<lparr>tb_uniques := without_unique t (unique_to_drop t old_cols) @ [unique_on new_name new_cols]\<rparr>) db)"
proof -
  let ?old = "unique_to_drop t old_cols" and ?u = "unique_on new_name new_cols"
  have looked: "find_unique_constraint n old_cols db = (Inr ?old, db)"
    by (simp add: find_unique_constraint_def found unique_to_drop_def)
  have added: "create_unique n ?u (replace_table n x db) =
      (Inr (), replace_table n (x\<lparr>tb_uniques := tb_uniques x @ [?u]\<rparr>) db)"
    if "tb_name x = n" "tb_rows x = tb_rows t" for x
    using assms(2) that
    by (simp add: create_unique_def on_table_def find_replace_same [OF found] replace_replace
        rows_apart_def unique_on_def)
  have plain: "create_unique n ?u db =
      (Inr (), replace_table n (t\<lparr>tb_uniques := tb_uniques t @ [?u]\<rparr>) db)"
    using assms by (simp add: create_unique_def on_table_def rows_apart_def unique_on_def)
  show ?thesis
  proof (cases ?old)
    case None
    then show ?thesis
      by (simp add: bindM_def thenM_def looked plain without_unique_def)
  next
    case (Some k)
    then have "drop_unique n k db =
        (Inr (), replace_table n (t\<lparr>tb_uniques := without_unique t (Some k)\<rparr>) db)"
      using unique_to_drop_present [OF Some]
      by (simp add: drop_unique_def on_table_def found without_unique_def)
    then show ?thesis
      using find_table_name [OF found]
      by (simp add: bindM_def thenM_def looked Some added)
  qed
qed

definition with_worker ::
  "dbtable \<Rightarrow> string \<Rightarrow> string option \<Rightarrow> string list \<Rightarrow> string \<Rightarrow> string list \<Rightarrow> dbtable" where
  "with_worker t fk ondelete old_cols new_name new_cols =
     t\<lparr>tb_columns := tb_columns t @ [column ''worker_id'' TInteger],
       tb_fkeys := tb_fkeys t @ [foreign_key (Some fk) ''worker_id'' ''workers'' ondelete],
       tb_uniques := without_unique t (unique_to_drop t old_cols) @ [unique_on (Some new_name) new_cols],
       tb_rows := map (\<lambda>r. r(''worker_id'' := VInt 1)) (tb_rows t)\<rparr>"

lemma upgrade_table_with_worker_run:
  assumes db: "find_table n db = Some t" and workers: "find_table ''workers'' db = Some w"
    and n: "n \<noteq> ''workers''" and one: "r1 \<in> set (tb_rows w)" "r1 ''id'' = VInt 1"
    and new: "''worker_id'' \<notin> set (column_names t)"
    and apart: "rows_apart new_cols (map (\<lambda>r. r(''worker_id'' := VInt 1)) (tb_rows t))"
  shows "upgrade_table_with_worker D n fk old_cols new_name new_cols ondelete db
         = (Inr (), replace_table n (with_worker t fk ondelete old_cols new_name new_cols) db)"
proof -
  let ?rows = "map (\<lambda>r. r(''worker_id'' := VInt 1)) (tb_rows t)"
  let ?fk = "foreign_key (Some fk) ''worker_id'' ''workers'' ondelete"
  define t1 where "t1 = t\<lparr>tb_columns := tb_columns t @ [null_column ''worker_id'' TInteger],
                          tb_rows := map (\<lambda>r. r(''worker_id'' := VNull)) (tb_rows t)\<rparr>"
  define t2 where "t2 = t1\<lparr>tb_rows := ?rows\<rparr>"
  define t3 where "t3 = t2\<lparr>tb_columns := tb_columns t @ [column ''worker_id'' TInteger]\<rparr>"
  define t4 where "t4 = t3\<lparr>tb_fkeys := tb_fkeys t3 @ [?fk]\<rparr>"
  note t_defs = t4_def t3_def t2_def t1_def
  have names: "tb_name t1 = n" "tb_name t2 = n" "tb_name t3 = n" "tb_name t4 = n"
    by (simp_all add: t_defs find_table_name [OF db])
  note found = find_replace_same [OF db] and again = replace_replace names
  have s1: "add_column D n (null_column ''worker_id'' TInteger) db = (Inr (), replace_table n t1 db)"
    using add_null_column_run [OF db new] by (simp add: t1_def)
  have "tb_rows t1 = map (\<lambda>r. r(''worker_id'' := VNull)) (tb_rows t)"
    by (simp add: t1_def)
  from fill_column_run [OF found [OF names(1)] this]
  have s2: "update_where_null n ''worker_id'' (VInt 1) (replace_table n t1 db)
            = (Inr (), replace_table n t2 db)"
    by (simp add: again t2_def)
  have "tb_columns t2 = tb_columns t @ [null_column ''worker_id'' TInteger]" "tb_rows t2 = ?rows"
    by (simp_all add: t_defs)
  then have s3: "set_not_null n ''worker_id'' (replace_table n t2 db) = (Inr (), replace_table n t3 db)"
    using set_not_null_run [OF found [OF names(2)], of "tb_columns t" "''worker_id''" TInteger] new
    by (simp add: again t3_def column_names_def list_all_iff)
  have "find_table ''workers'' (replace_table n t3 db) = Some w" "tb_rows t3 = ?rows"
    using n by (simp_all add: find_replace_other names workers t3_def t2_def)
  from worker_key_run [OF found [OF names(3)] this(1) one this(2)]
  have s4: "create_foreign_key D n ?fk (replace_table n t3 db) = (Inr (), replace_table n t4 db)"
    by (simp add: again t4_def)
  have "tb_uniques t4 = tb_uniques t" and rows: "tb_rows t4 = ?rows"
    by (simp_all add: t_defs)
  then have "without_unique t4 (unique_to_drop t4 old_cols) = without_unique t (unique_to_drop t old_cols)"
    by (simp add: without_unique_def unique_to_drop_def)
  then have "t4\<lparr>tb_uniques := without_unique t4 (unique_to_drop t4 old_cols)
                  @ [unique_on (Some new_name) new_cols]\<rparr>
      = with_worker t fk ondelete old_cols new_name new_cols"
    by (cases t) (simp add: t_defs with_worker_def)
  with swap_unique_run [OF found [OF names(4)], of new_cols old_cols "Some new_name"] apart
  have "bindM (find_unique_constraint n old_cols) (\<lambda>old_name.
           thenM (case old_name of None \<Rightarrow> ret () | Some k \<Rightarrow> drop_unique n k)
             (create_unique n (unique_on (Some new_name) new_cols))) (replace_table n t4 db)
      = (Inr (), replace_table n (with_worker t fk ondelete old_cols new_name new_cols) db)"
    by (simp only: rows again)
  then show ?thesis
    by (simp only: upgrade_table_with_worker_def thenM_def s1 s2 s3 s4 prod.case sum.case)
qed

section \<open>Revision 001\<close>

definition created :: "dialect \<Rightarrow> dbtable \<Rightarrow> tabindex list \<Rightarrow> dbtable" where
  "created D t ixs = t\<lparr>tb_uniques := map (name_unique D (tb_name t)) (tb_uniques t), tb_indexes := ixs\<rparr>"

definition tables_001 :: "dialect \<Rightarrow> tables" where
  "tables_001 D =
     [created D gateways_001 [index_on ''ix_gateways_name'' [''name'']],
      created D jobs_001 [], created D peers_001 [], created D port_allocations_001 [],
      created D ip_allocations_001 [],
      created D gateway_metrics_001 [index_on ''ix_gateway_metrics_gateway_id'' [''gateway_id'']],
      created D peer_metrics_001 [index_on ''ix_peer_metrics_peer_id'' [''peer_id'']]]"

lemmas tables_001_defs = gateways_001_def jobs_001_def peers_001_def port_allocations_001_def
  ip_allocations_001_def gateway_metrics_001_def peer_metrics_001_def

lemma names_001 [simp]:
  "tb_name gateways_001 = ''gateways''" "tb_name jobs_001 = ''jobs''" "tb_name peers_001 = ''peers''"
  "tb_name port_allocations_001 = ''port_allocations''" "tb_name ip_allocations_001 = ''ip_allocations''"
  "tb_name gateway_metrics_001 = ''gateway_metrics''" "tb_name peer_metrics_001 = ''peer_metrics''"
  "tb_name workers_002 = ''workers''" "tb_name gateways_new_002 = ''gateways_new''"
  "tb_name port_allocations_new_002 = ''port_allocations_new''"
  "tb_name ip_allocations_new_002 = ''ip_allocations_new''"
  by (simp_all add: tables_001_defs workers_002_def gateways_new_002_def port_allocations_new_002_def
      ip_allocations_new_002_def new_table_def)

lemma rows_001 [simp]:
  "tb_rows gateways_001 = []" "tb_rows jobs_001 = []" "tb_rows peers_001 = []"
  "tb_rows port_allocations_001 = []" "tb_rows ip_allocations_001 = []"
  "tb_rows gateway_metrics_001 = []" "tb_rows peer_metrics_001 = []"
  "tb_rows workers_002 = []" "tb_rows gateways_new_002 = []"
  "tb_rows port_allocations_new_002 = []" "tb_rows ip_allocations_new_002 = []"
  by (simp_all add: tables_001_defs workers_002_def gateways_new_002_def port_allocations_new_002_def
      ip_allocations_new_002_def new_table_def)

lemma indexes_001 [simp]:
  "tb_indexes gateways_001 = []" "tb_indexes jobs_001 = []" "tb_indexes peers_001 = []"
  "tb_indexes port_allocations_001 = []" "tb_indexes ip_allocations_001 = []"
  "tb_indexes gateway_metrics_001 = []" "tb_indexes peer_metrics_001 = []"
  "tb_indexes workers_002 = []" "tb_indexes gateways_new_002 = []"
  "tb_indexes port_allocations_new_002 = []" "tb_indexes ip_allocations_new_002 = []"
  by (simp_all add: tables_001_defs workers_002_def gateways_new_002_def port_allocations_new_002_def
      ip_allocations_new_002_def new_table_def)

definition fkey_tables :: "dbtable \<Rightarrow> string list" where
  "fkey_tables t = map fk_table (tb_fkeys t)"

lemma fkey_tables_001 [simp]:
  "fkey_tables gateways_001 = []"
  "fkey_tables jobs_001 = [''gateways'']"
  "fkey_tables peers_001 = [''gateways'']"
  "fkey_tables port_allocations_001 = [''gateways'']"
  "fkey_tables ip_allocations_001 = [''gateways'', ''peers'']"
  "fkey_tables gateway_metrics_001 = [''gateways'']"
  "fkey_tables peer_metrics_001 = [''peers'']"
  "fkey_tables workers_002 = []"
  "fkey_tables gateways_new_002 = [''workers'']"
  "fkey_tables port_allocations_new_002 = [''workers'', ''gateways'']"
  "fkey_tables ip_allocations_new_002 = [''workers'', ''gateways'', ''peers'']"
  by (simp_all add: tables_001_defs workers_002_def gateways_new_002_def port_allocations_new_002_def
      ip_allocations_new_002_def new_table_def foreign_key_def fkey_tables_def)

lemma created_simps [simp]:
  "tb_name (created D t ixs) = tb_name t" "tb_columns (created D t ixs) = tb_columns t"
  "tb_fkeys (created D t ixs) = tb_fkeys t" "tb_indexes (created D t ixs) = ixs"
  "tb_rows (created D t ixs) = tb_rows t"
  "tb_uniques (created D t ixs) = map (name_unique D (tb_name t)) (tb_uniques t)"
  by (simp_all add: created_def)

lemma create_table_run:
  assumes "find_table (tb_name t) db = None" and "tb_indexes t = []"
    and "list_all (\<lambda>n. n \<in> set (tb_name t # table_names db)) (fkey_tables t)"
  shows "create_table D t db = (Inr (), db @ [created D t []])"
  using assms by (cases t) (auto simp: create_table_def find_table_names created_def fkey_tables_def list_all_iff list_ex_iff)

lemma create_index_run:
  assumes "find_table n db = Some t"
    and "list_all (\<lambda>t. list_all (\<lambda>i. ix_name i \<noteq> ix_name ix) (tb_indexes t)) db"
  shows "create_index n ix db = (Inr (), replace_table n (t\<lparr>tb_indexes := tb_indexes t @ [ix]\<rparr>) db)"
  using assms by (auto simp: create_index_def on_table_def list_all_iff list_ex_iff)

lemma created_indexed: "(created D t ixs)\<lparr>tb_indexes := ixs'\<rparr> = created D t ixs'"
  by (cases t) (simp add: created_def)

lemma upgrade_001_run: "upgrade_001 D [] = (Inr (), tables_001 D)"
  by (simp add: upgrade_001_def thenM_def create_table_run create_index_run find_table_def
      table_names_def replace_table_def created_indexed index_on_def tables_001_def)

section \<open>Revision 002 keeps the rows\<close>

lemma same_shape:
  assumes "t\<lparr>tb_rows := []\<rparr> = c"
  shows "tb_name t = tb_name c" "tb_columns t = tb_columns c" "tb_fkeys t = tb_fkeys c"
    "tb_uniques t = tb_uniques c" "tb_indexes t = tb_indexes c" "fkey_tables t = fkey_tables c"
    "keys_of t = keys_of c" "column_names t = column_names c"
  using assms by (auto simp: fkey_tables_def keys_of_def column_names_def)

definition workers_after_002 :: "dialect \<Rightarrow> dbtable" where
  "workers_after_002 D =
     (created D workers_002 [index_on ''ix_workers_name'' [''name'']])
       \<lparr>tb_rows := [values_row D workers_002 local_worker_values]\<rparr>"

lemma keys_created: "keys_of (created D t ixs) = [''id''] # map uq_columns (tb_uniques t)
    @ map ix_columns (filter ix_unique ixs)"
  by (simp add: keys_of_def name_unique_def comp_def)

lemma local_worker_fits: "not_null_ok workers_002 (values_row D workers_002 local_worker_values)"
  by (simp add: not_null_ok_def values_row_def workers_002_def local_worker_values_def schema_defs
      default_value_def)

lemma local_worker_id: "values_row D workers_002 local_worker_values ''id'' = VInt 1"
  by (simp add: values_row_def local_worker_values_def next_id_def)

lemma local_worker_name: "values_row D workers_002 local_worker_values ''name'' = VText ''local''"
  by (simp add: values_row_def local_worker_values_def)

lemma workers_002_run:
  assumes "find_table ''workers'' db = None"
    and "list_all (\<lambda>t. list_all (\<lambda>i. ix_name i \<noteq> ''ix_workers_name'') (tb_indexes t)) db"
  shows "thenM (create_table D workers_002)
           (thenM (create_index ''workers'' (index_on ''ix_workers_name'' [''name'']))
           (thenM (insert_values D ''workers'' local_worker_values) k)) db
         = k (db @ [workers_after_002 D])"
proof -
  let ?w = "created D workers_002 [index_on ''ix_workers_name'' [''name'']]"
  have c: "create_table D workers_002 db = (Inr (), db @ [created D workers_002 []])"
    using assms(1) by (simp add: create_table_run)
  have i: "create_index ''workers'' (index_on ''ix_workers_name'' [''name'']) (db @ [created D workers_002 []])
           = (Inr (), db @ [?w])"
    using assms by (simp add: create_index_run find_append_table replace_appended created_indexed index_on_def)
  have r: "values_row D ?w local_worker_values = values_row D workers_002 local_worker_values"
    unfolding values_row_def created_simps by (rule refl)
  have f: "not_null_ok ?w = not_null_ok workers_002"
    by (rule ext) (simp add: not_null_ok_def)
  have v: "insert_values D ''workers'' local_worker_values (db @ [?w]) = (Inr (), db @ [workers_after_002 D])"
    using assms(1) local_worker_fits [of D]
    by (simp add: insert_values_def on_table_def find_append_table insert_row_def f r
        replace_appended workers_after_002_def list_all_iff)
  show ?thesis
    by (simp only: thenM_def c i v prod.case sum.case)
qed

text \<open>A table rebuilt with a new column \<open>worker_id\<close>, as the SQLite path leaves it.\<close>

definition rebuilt :: "dbtable \<Rightarrow> string \<Rightarrow> row list \<Rightarrow> dbtable" where
  "rebuilt t' n rs = t'\<lparr>tb_name := n, tb_rows := map (\<lambda>r. r(''worker_id'' := VInt 1)) rs\<rparr>"

definition other_tables_of :: "string \<Rightarrow> tables \<Rightarrow> tables" where
  "other_tables_of n db = filter (\<lambda>t. tb_name t \<noteq> n) db"

lemma other_tables_find:
  "find_table m (other_tables_of n db) = (if m = n then None else find_table m db)"
  by (induction db) (auto simp: find_table_def other_tables_of_def)

lemma not_null_filled:
  assumes "list_all (not_null_ok t) rs"
    and "list_all (\<lambda>c. cl_nullable c \<or> cl_name c = ''worker_id''
             \<or> list_ex (\<lambda>x. cl_name x = cl_name c \<and> \<not> cl_nullable x) (tb_columns t)) (tb_columns t')"
  shows "list_all (not_null_ok t') (map (\<lambda>r. r(''worker_id'' := VInt 1)) rs)"
proof -
  have "not_null_ok t' (r(''worker_id'' := VInt 1))" if "r \<in> set rs" for r
    using assms that by (fastforce simp: list_all_iff list_ex_iff not_null_ok_def)
  then show ?thesis
    by (simp add: list_all_iff)
qed

lemma sqlite_rebuild_run:
  assumes sql: "dl_sqlite D" and found: "find_table n db = Some t" and sound: "sound_table t"
    and tmp: "tb_name t' = tmp" "tmp \<noteq> n" and free: "find_table tmp db = None" and empty: "tb_rows t' = []"
    and refs: "list_all (\<lambda>x. tmp \<notin> set (fkey_tables x)) (t' # db)"
    and cols: "column_names t' = ''id'' # ''worker_id'' # cs" "set (column_names t) = set (''id'' # cs)"
              "''worker_id'' \<notin> set (''id'' # cs)"
    and nulls: "list_all (\<lambda>c. cl_nullable c \<or> cl_name c = ''worker_id''
             \<or> list_ex (\<lambda>x. cl_name x = cl_name c \<and> \<not> cl_nullable x) (tb_columns t)) (tb_columns t')"
    and keys: "list_all (\<lambda>k. ''worker_id'' \<notin> set k \<and> k \<in> set (keys_of t)
                              \<or> (k \<noteq> [] \<and> hd k = ''worker_id'' \<and> ''worker_id'' \<notin> set (tl k) \<and> tl k \<in> set (keys_of t)))
                 (keys_of t')"
  shows "thenM (create_table D t')
           (thenM (insert_select tmp (''id'' # ''worker_id'' # cs)
                     (SCol ''id'' # SLit (VInt 1) # map SCol cs) n)
           (thenM (drop_table D n) k)) db
         = k (other_tables_of n db @ [rebuilt t' tmp (tb_rows t)])"
    and "rename_table tmp n (other_tables_of n db @ [rebuilt t' tmp (tb_rows t)])
         = (Inr (), other_tables_of n db @ [rebuilt t' n (tb_rows t)])"
proof -
  let ?fill = "\<lambda>r::row. r(''worker_id'' := VInt 1)"
  have sel: "select_row (zip (''id'' # ''worker_id'' # cs) (SCol ''id'' # SLit (VInt 1) # map SCol cs)) r = ?fill r"
    if "r \<in> set (tb_rows t)" for r
    using sound that cols(2)
    by (intro select_row_fill [OF cols(3)]) (auto simp: sound_table_def within_columns_def list_all_iff)
  have ok: "list_all (not_null_ok t') (map ?fill (tb_rows t))"
    using sound by (intro not_null_filled [OF _ nulls]) (simp add: sound_table_def)
  have old: "rows_apart k (tb_rows t)" if "k \<in> set (keys_of t)" for k
    using sound that by (simp add: sound_table_def list_all_iff)
  have "rows_apart k (map ?fill (tb_rows t))" if "k \<in> set (keys_of t')" for k
  proof (cases "''worker_id'' \<in> set k")
    case False
    with keys that show ?thesis
      by (cases k) (auto simp: list_all_iff intro!: rows_apart_other old)
  next
    case True
    with keys that have "k = ''worker_id'' # tl k" "''worker_id'' \<notin> set (tl k)" "tl k \<in> set (keys_of t)"
      by (cases k; force simp: list_all_iff)+
    then show ?thesis
      using rows_apart_fill [OF old, of "tl k" "''worker_id''" "VInt 1"] by simp
  qed
  then have apart: "list_all (\<lambda>k. rows_apart k (map ?fill (tb_rows t))) (keys_of t')"
    by (simp add: list_all_iff)
  show "thenM (create_table D t')
           (thenM (insert_select tmp (''id'' # ''worker_id'' # cs)
                     (SCol ''id'' # SLit (VInt 1) # map SCol cs) n)
           (thenM (drop_table D n) k)) db
         = k (other_tables_of n db @ [rebuilt t' tmp (tb_rows t)])"
    using rebuild_run [OF sql found, of t' "''id'' # ''worker_id'' # cs"
        "SCol ''id'' # SLit (VInt 1) # map SCol cs" "''worker_id''" "VInt 1" k, OF _ empty sel ok apart] free tmp
    by (cases t') (simp add: other_tables_of_def rebuilt_def)
  have "list_all (\<lambda>x. list_all (\<lambda>fk. fk_table fk \<noteq> tmp) (tb_fkeys x)) (other_tables_of n db @ [rebuilt t' tmp (tb_rows t)])"
    using refs by (auto simp: list_all_iff other_tables_of_def rebuilt_def fkey_tables_def)
  then show "rename_table tmp n (other_tables_of n db @ [rebuilt t' tmp (tb_rows t)])
         = (Inr (), other_tables_of n db @ [rebuilt t' n (tb_rows t)])"
    using rename_run [of tmp "other_tables_of n db" n "rebuilt t' tmp (tb_rows t)"] free tmp(2)
    by (simp add: other_tables_find) (simp add: rebuilt_def)
qed

lemma other_tables_Cons:
  "other_tables_of n (t # db) = (if tb_name t = n then other_tables_of n db else t # other_tables_of n db)"
  "other_tables_of n [] = []"
  by (simp_all add: other_tables_of_def)

lemma find_table_Cons:
  "find_table n (t # db) = (if tb_name t = n then Some t else find_table n db)"
  "find_table n [] = None"
  by (simp_all add: find_table_def)

lemma replace_table_Cons:
  "replace_table n t' (t # db) = (if tb_name t = n then t' else t) # replace_table n t' db"
  "replace_table n t' [] = []"
  by (simp_all add: replace_table_def)

lemmas table_list_simps = other_tables_Cons find_table_Cons replace_table_Cons

lemma rebuilt_simps [simp]:
  "tb_name (rebuilt t n rs) = n" "tb_columns (rebuilt t n rs) = tb_columns t"
  "tb_indexes (rebuilt t n rs) = tb_indexes t" "fkey_tables (rebuilt t n rs) = fkey_tables t"
  "tb_rows (rebuilt t n rs) = map (\<lambda>r. r(''worker_id'' := VInt 1)) rs"
  by (simp_all add: rebuilt_def fkey_tables_def)

lemma workers_after_simps [simp]:
  "tb_name (workers_after_002 D) = ''workers''"
  "tb_rows (workers_after_002 D) = [values_row D workers_002 local_worker_values]"
  "tb_indexes (workers_after_002 D) = [index_on ''ix_workers_name'' [''name'']]"
  "fkey_tables (workers_after_002 D) = []"
  by (simp_all add: workers_after_002_def) (simp add: fkey_tables_def, simp add: workers_002_def new_table_def)

lemma fkey_tables_created [simp]: "fkey_tables (created D t ixs) = fkey_tables t"
  by (simp add: fkey_tables_def)

lemma fkey_tables_indexes [simp]: "fkey_tables (t\<lparr>tb_indexes := ixs\<rparr>) = fkey_tables t"
  by (simp add: fkey_tables_def)

definition gateways_rebuilt :: "row list \<Rightarrow> dbtable" where
  "gateways_rebuilt rs = (rebuilt gateways_new_002 ''gateways'' rs)\<lparr>tb_indexes :=
     [index_on ''ix_gateways_name'' [''name''], index_on ''ix_gateways_worker_id'' [''worker_id'']]\<rparr>"

lemma gateways_sqlite_run:
  assumes sql: "dl_sqlite D" and found: "find_table ''gateways'' db = Some g"
    and shape: "g\<lparr>tb_rows := []\<rparr> = created D gateways_001 ixs" "filter ix_unique ixs = []" and sound: "sound_table g"
    and free: "find_table ''gateways_new'' db = None"
    and refs: "list_all (\<lambda>x. ''gateways_new'' \<notin> set (fkey_tables x)) db"
    and ixs: "list_all (\<lambda>t. list_all (\<lambda>i. ix_name i \<noteq> ''ix_gateways_name'' \<and> ix_name i \<noteq> ''ix_gateways_worker_id'')
                (tb_indexes t)) (other_tables_of ''gateways'' db)"
  shows "upgrade_gateways_sqlite D db =
    (Inr (), other_tables_of ''gateways'' db @ [gateways_rebuilt (tb_rows g)])"
proof -
  let ?others = "other_tables_of ''gateways'' db" and ?g = "rebuilt gateways_new_002 ''gateways'' (tb_rows g)"
  let ?cs = "[''name'', ''incus_instance'', ''vm_ip'', ''udp_port'', ''wg_subnet'',
         ''wg_server_pubkey'', ''wg_server_privkey_enc'', ''exit_node_id'',
         ''tailscale_auth_key_enc'', ''tailscale_hostname'', ''agent_token_hash'',
         ''agent_token_enc'', ''status'', ''error_message'', ''created_at'', ''updated_at'']"
  note g = same_shape [OF shape(1)]
  have cols: "column_names gateways_new_002 = ''id'' # ''worker_id'' # ?cs"
    "set (column_names g) = set (''id'' # ?cs)" "''worker_id'' \<notin> set (''id'' # ?cs)"
    by (simp_all add: g) (simp_all add: column_names_def created_def gateways_new_002_def gateways_001_def schema_defs)
  have nulls: "list_all (\<lambda>c. cl_nullable c \<or> cl_name c = ''worker_id''
      \<or> list_ex (\<lambda>x. cl_name x = cl_name c \<and> \<not> cl_nullable x) (tb_columns g)) (tb_columns gateways_new_002)"
    by (simp add: g) (simp add: gateways_new_002_def gateways_001_def schema_defs)
  have keys: "list_all (\<lambda>k. ''worker_id'' \<notin> set k \<and> k \<in> set (keys_of g)
      \<or> (k \<noteq> [] \<and> hd k = ''worker_id'' \<and> ''worker_id'' \<notin> set (tl k) \<and> tl k \<in> set (keys_of g)))
      (keys_of gateways_new_002)"
    by (simp add: g keys_created shape(2)) (simp add: keys_of_def gateways_new_002_def gateways_001_def schema_defs)
  note run = sqlite_rebuild_run [OF sql found sound names_001(9) _ free rows_001(9) _ cols nulls keys]
  have i1: "create_index ''gateways'' (index_on ''ix_gateways_name'' [''name'']) (?others @ [?g])
    = (Inr (), ?others @ [?g\<lparr>tb_indexes := [index_on ''ix_gateways_name'' [''name'']]\<rparr>])"
    using ixs by (subst create_index_run [where t = ?g])
      (auto simp: find_append_table other_tables_find index_on_def list_all_iff replace_appended)
  have i2: "create_index ''gateways'' (index_on ''ix_gateways_worker_id'' [''worker_id''])
      (?others @ [?g\<lparr>tb_indexes := [index_on ''ix_gateways_name'' [''name'']]\<rparr>])
    = (Inr (), ?others @ [gateways_rebuilt (tb_rows g)])"
    using ixs by (subst create_index_run [where t = "?g\<lparr>tb_indexes := [index_on ''ix_gateways_name'' [''name'']]\<rparr>"])
      (auto simp: find_append_table other_tables_find index_on_def list_all_iff replace_appended gateways_rebuilt_def)
  show ?thesis
    using refs run(1) [of "thenM (rename_table ''gateways_new'' ''gateways'')
       (thenM (create_index ''gateways'' (index_on ''ix_gateways_name'' [''name'']))
       (create_index ''gateways'' (index_on ''ix_gateways_worker_id'' [''worker_id''])))"] run(2)
    by (simp add: upgrade_gateways_sqlite_def) (simp add: thenM_def i1 i2)
qed

lemma port_allocations_sqlite_run:
  assumes sql: "dl_sqlite D" and found: "find_table ''port_allocations'' db = Some t"
    and shape: "t\<lparr>tb_rows := []\<rparr> = created D port_allocations_001 []" and sound: "sound_table t"
    and free: "find_table ''port_allocations_new'' db = None"
    and refs: "list_all (\<lambda>x. ''port_allocations_new'' \<notin> set (fkey_tables x)) db"
  shows "upgrade_port_allocations_sqlite D db =
    (Inr (), other_tables_of ''port_allocations'' db
             @ [rebuilt port_allocations_new_002 ''port_allocations'' (tb_rows t)])"
proof -
  let ?cs = "[''udp_port'', ''gateway_id'', ''allocated_at'']"
  note t = same_shape [OF shape]
  have cols: "column_names port_allocations_new_002 = ''id'' # ''worker_id'' # ?cs"
    "set (column_names t) = set (''id'' # ?cs)" "''worker_id'' \<notin> set (''id'' # ?cs)"
    by (simp_all add: t)
      (simp_all add: column_names_def created_def port_allocations_new_002_def port_allocations_001_def schema_defs)
  have nulls: "list_all (\<lambda>c. cl_nullable c \<or> cl_name c = ''worker_id''
      \<or> list_ex (\<lambda>x. cl_name x = cl_name c \<and> \<not> cl_nullable x) (tb_columns t)) (tb_columns port_allocations_new_002)"
    by (simp add: t) (simp add: port_allocations_new_002_def port_allocations_001_def schema_defs)
  have keys: "list_all (\<lambda>k. ''worker_id'' \<notin> set k \<and> k \<in> set (keys_of t)
      \<or> (k \<noteq> [] \<and> hd k = ''worker_id'' \<and> ''worker_id'' \<notin> set (tl k) \<and> tl k \<in> set (keys_of t)))
      (keys_of port_allocations_new_002)"
    by (simp add: t keys_created) (simp add: keys_of_def port_allocations_new_002_def port_allocations_001_def schema_defs)
  note run = sqlite_rebuild_run [OF sql found sound names_001(10) _ free rows_001(10) _ cols nulls keys]
  show ?thesis
    using refs run(1) [of "rename_table ''port_allocations_new'' ''port_allocations''"] run(2)
    by (simp add: upgrade_port_allocations_sqlite_def)
qed

lemma ip_allocations_sqlite_run:
  assumes sql: "dl_sqlite D" and found: "find_table ''ip_allocations'' db = Some t"
    and shape: "t\<lparr>tb_rows := []\<rparr> = created D ip_allocations_001 []" and sound: "sound_table t"
    and free: "find_table ''ip_allocations_new'' db = None"
    and refs: "list_all (\<lambda>x. ''ip_allocations_new'' \<notin> set (fkey_tables x)) db"
  shows "upgrade_ip_allocations_sqlite D db =
    (Inr (), other_tables_of ''ip_allocations'' db
             @ [rebuilt ip_allocations_new_002 ''ip_allocations'' (tb_rows t)])"
proof -
  let ?cs = "[''address'', ''gateway_id'', ''peer_id'', ''allocated_at'']"
  note t = same_shape [OF shape]
  have cols: "column_names ip_allocations_new_002 = ''id'' # ''worker_id'' # ?cs"
    "set (column_names t) = set (''id'' # ?cs)" "''worker_id'' \<notin> set (''id'' # ?cs)"
    by (simp_all add: t)
      (simp_all add: column_names_def created_def ip_allocations_new_002_def ip_allocations_001_def schema_defs)
  have nulls: "list_all (\<lambda>c. cl_nullable c \<or> cl_name c = ''worker_id''
      \<or> list_ex (\<lambda>x. cl_name x = cl_name c \<and> \<not> cl_nullable x) (tb_columns t)) (tb_columns ip_allocations_new_002)"
    by (simp add: t) (simp add: ip_allocations_new_002_def ip_allocations_001_def schema_defs)
  have keys: "list_all (\<lambda>k. ''worker_id'' \<notin> set k \<and> k \<in> set (keys_of t)
      \<or> (k \<noteq> [] \<and> hd k = ''worker_id'' \<and> ''worker_id'' \<notin> set (tl k) \<and> tl k \<in> set (keys_of t)))
      (keys_of ip_allocations_new_002)"
    by (simp add: t keys_created) (simp add: keys_of_def ip_allocations_new_002_def ip_allocations_001_def schema_defs)
  note run = sqlite_rebuild_run [OF sql found sound names_001(11) _ free rows_001(11) _ cols nulls keys]
  show ?thesis
    using refs run(1) [of "rename_table ''ip_allocations_new'' ''ip_allocations''"] run(2)
    by (simp add: upgrade_ip_allocations_sqlite_def)
qed

text \<open>A database at revision 001: its tables are the ones the revision creates, with sound rows.\<close>

definition at_001 :: "dialect \<Rightarrow> tables \<Rightarrow> bool" where
  "at_001 D db \<longleftrightarrow> upgrade_001 D [] = (Inr (), schema_of db) \<and> list_all sound_table db"

lemma at_001_tables:
  assumes "at_001 D db"
  obtains g j p pa ia gm pm where "db = [g, j, p, pa, ia, gm, pm]"
    and "sound_table g" "sound_table pa" "sound_table ia"
    and "g\<lparr>tb_rows := []\<rparr> = created D gateways_001 [index_on ''ix_gateways_name'' [''name'']]"
    "j\<lparr>tb_rows := []\<rparr> = created D jobs_001 []" "p\<lparr>tb_rows := []\<rparr> = created D peers_001 []"
    "pa\<lparr>tb_rows := []\<rparr> = created D port_allocations_001 []"
    "ia\<lparr>tb_rows := []\<rparr> = created D ip_allocations_001 []"
    "gm\<lparr>tb_rows := []\<rparr> = created D gateway_metrics_001
       [index_on ''ix_gateway_metrics_gateway_id'' [''gateway_id'']]"
    "pm\<lparr>tb_rows := []\<rparr> = created D peer_metrics_001 [index_on ''ix_peer_metrics_peer_id'' [''peer_id'']]"
proof -
  have tables: "map (\<lambda>t. t\<lparr>tb_rows := []\<rparr>) db = tables_001 D"
    using assms by (simp add: at_001_def upgrade_001_run schema_of_def)
  then obtain g j p pa ia gm pm where "db = [g, j, p, pa, ia, gm, pm]"
    by (auto simp: tables_001_def map_eq_Cons_conv)
  with tables assms show thesis
    by (intro that [of g j p pa ia gm pm]) (simp_all add: tables_001_def at_001_def)
qed

definition moved_rows :: "tables \<Rightarrow> tables \<Rightarrow> bool" where
  "moved_rows db db' \<longleftrightarrow>
     list_all (\<lambda>n. rows_of n db' = map (\<lambda>r. r(''worker_id'' := VInt 1)) (rows_of n db))
       [''gateways'', ''port_allocations'', ''ip_allocations'']
     \<and> list_all (\<lambda>n. find_table n db' = find_table n db)
         [''jobs'', ''peers'', ''gateway_metrics'', ''peer_metrics'']
     \<and> map (\<lambda>r. (r ''id'', r ''name'')) (rows_of ''workers'' db') = [(VInt 1, VText ''local'')]"

lemma upgrade_002_sqlite:
  assumes sql: "dl_sqlite D" and at: "at_001 D db"
  shows "\<exists>db'. upgrade_002 D db = (Inr (), db') \<and> moved_rows db db'"
  using at
proof (rule at_001_tables)
  fix g j p pa ia gm pm
  assume db: "db = [g, j, p, pa, ia, gm, pm]"
    and sound: "sound_table g" "sound_table pa" "sound_table ia"
    and shapes: "g\<lparr>tb_rows := []\<rparr> = created D gateways_001 [index_on ''ix_gateways_name'' [''name'']]"
    "j\<lparr>tb_rows := []\<rparr> = created D jobs_001 []" "p\<lparr>tb_rows := []\<rparr> = created D peers_001 []"
    "pa\<lparr>tb_rows := []\<rparr> = created D port_allocations_001 []"
    "ia\<lparr>tb_rows := []\<rparr> = created D ip_allocations_001 []"
    "gm\<lparr>tb_rows := []\<rparr> = created D gateway_metrics_001
       [index_on ''ix_gateway_metrics_gateway_id'' [''gateway_id'']]"
    "pm\<lparr>tb_rows := []\<rparr> = created D peer_metrics_001 [index_on ''ix_peer_metrics_peer_id'' [''peer_id'']]"
  note fields = shapes [THEN same_shape(1)] shapes [THEN same_shape(5)] shapes [THEN same_shape(6)]
  let ?w = "workers_after_002 D"
  let ?g = "gateways_rebuilt (tb_rows g)"
  let ?pa = "rebuilt port_allocations_new_002 ''port_allocations'' (tb_rows pa)"
  let ?ia = "rebuilt ip_allocations_new_002 ''ip_allocations'' (tb_rows ia)"
  have names: "tb_name ?g = ''gateways''" "fkey_tables ?g = [''workers'']"
    by (simp_all add: gateways_rebuilt_def)
  have gateways: "upgrade_gateways_sqlite D [g, j, p, pa, ia, gm, pm, ?w]
      = (Inr (), [j, p, pa, ia, gm, pm, ?w, ?g])"
    by (subst gateways_sqlite_run [OF sql _ shapes(1) _ sound(1)])
      (simp_all add: table_list_simps fields index_on_def)
  have ports: "upgrade_port_allocations_sqlite D [j, p, pa, ia, gm, pm, ?w, ?g]
      = (Inr (), [j, p, ia, gm, pm, ?w, ?g, ?pa])"
    by (subst port_allocations_sqlite_run [OF sql _ shapes(4) sound(2)])
      (simp_all add: table_list_simps fields names)
  have ips: "upgrade_ip_allocations_sqlite D [j, p, ia, gm, pm, ?w, ?g, ?pa]
      = (Inr (), [j, p, gm, pm, ?w, ?g, ?pa, ?ia])"
    by (subst ip_allocations_sqlite_run [OF sql _ shapes(5) sound(3)])
      (simp_all add: table_list_simps fields names)
  have "upgrade_002 D db = (Inr (), [j, p, gm, pm, ?w, ?g, ?pa, ?ia])"
    unfolding upgrade_002_def db
    by (subst workers_002_run) (simp_all add: table_list_simps fields index_on_def sql thenM_def gateways ports ips)
  moreover have "moved_rows db [j, p, gm, pm, ?w, ?g, ?pa, ?ia]"
    by (simp add: moved_rows_def db rows_of_def table_list_simps fields names local_worker_id local_worker_name)
      (simp add: gateways_rebuilt_def)
  ultimately show ?thesis
    by blast
qed

lemma key_apart:
  assumes "sound_table t" and "[c] \<in> set (keys_of t)" and "c \<noteq> ''worker_id''"
  shows "rows_apart [''worker_id'', c] (map (\<lambda>r. r(''worker_id'' := VInt 1)) (tb_rows t))"
  using assms by (intro rows_apart_fill) (auto simp: sound_table_def list_all_iff)

lemma with_worker_simps [simp]:
  "tb_name (with_worker t fk od oc nn nc) = tb_name t"
  "tb_indexes (with_worker t fk od oc nn nc) = tb_indexes t"
  "tb_rows (with_worker t fk od oc nn nc) = map (\<lambda>r. r(''worker_id'' := VInt 1)) (tb_rows t)"
  by (simp_all add: with_worker_def)

text \<open>The tables as the other backends leave them, altered in place.\<close>

definition gateways_altered :: "dbtable \<Rightarrow> dbtable" where
  "gateways_altered g =
     (with_worker g ''fk_gateways_worker_id'' None [''udp_port''] ''uq_gateway_worker_udp_port''
        [''worker_id'', ''udp_port''])
       \<lparr>tb_indexes := tb_indexes g @ [index_on ''ix_gateways_worker_id'' [''worker_id'']]\<rparr>"

definition port_allocations_altered :: "dbtable \<Rightarrow> dbtable" where
  "port_allocations_altered t =
     with_worker t ''fk_port_alloc_worker_id'' (Some ''CASCADE'') [''udp_port''] ''uq_port_worker_udp''
       [''worker_id'', ''udp_port'']"

definition ip_allocations_altered :: "dbtable \<Rightarrow> dbtable" where
  "ip_allocations_altered t =
     with_worker t ''fk_ip_alloc_worker_id'' (Some ''CASCADE'') [''address''] ''uq_ip_worker_address''
       [''worker_id'', ''address'']"

lemma altered_simps [simp]:
  "tb_name (gateways_altered t) = tb_name t" "tb_name (port_allocations_altered t) = tb_name t"
  "tb_name (ip_allocations_altered t) = tb_name t"
  "tb_rows (gateways_altered t) = map (\<lambda>r. r(''worker_id'' := VInt 1)) (tb_rows t)"
  "tb_rows (port_allocations_altered t) = map (\<lambda>r. r(''worker_id'' := VInt 1)) (tb_rows t)"
  "tb_rows (ip_allocations_altered t) = map (\<lambda>r. r(''worker_id'' := VInt 1)) (tb_rows t)"
  by (simp_all add: gateways_altered_def port_allocations_altered_def ip_allocations_altered_def)

lemma upgrade_002_generic_run:
  assumes gen: "\<not> dl_sqlite D" and sound: "sound_table g" "sound_table pa" "sound_table ia"
    and shapes: "g\<lparr>tb_rows := []\<rparr> = created D gateways_001 [index_on ''ix_gateways_name'' [''name'']]"
    "j\<lparr>tb_rows := []\<rparr> = created D jobs_001 []" "p\<lparr>tb_rows := []\<rparr> = created D peers_001 []"
    "pa\<lparr>tb_rows := []\<rparr> = created D port_allocations_001 []"
    "ia\<lparr>tb_rows := []\<rparr> = created D ip_allocations_001 []"
    "gm\<lparr>tb_rows := []\<rparr> = created D gateway_metrics_001
       [index_on ''ix_gateway_metrics_gateway_id'' [''gateway_id'']]"
    "pm\<lparr>tb_rows := []\<rparr> = created D peer_metrics_001 [index_on ''ix_peer_metrics_peer_id'' [''peer_id'']]"
  shows "upgrade_002 D [g, j, p, pa, ia, gm, pm] =
    (Inr (), [gateways_altered g, j, p, port_allocations_altered pa, ip_allocations_altered ia, gm, pm,
              workers_after_002 D])"
proof -
  note fields = shapes [THEN same_shape(1)] shapes [THEN same_shape(5)]
  let ?w = "workers_after_002 D" and ?g = "gateways_altered g" and ?pa = "port_allocations_altered pa"
  have one: "values_row D workers_002 local_worker_values \<in> set (tb_rows ?w)"
    by simp
  have new: "''worker_id'' \<notin> set (column_names g)" "''worker_id'' \<notin> set (column_names pa)"
    "''worker_id'' \<notin> set (column_names ia)"
    by (simp_all add: shapes [THEN same_shape(8)])
      (simp_all add: column_names_def gateways_001_def port_allocations_001_def ip_allocations_001_def schema_defs)
  have keys: "[''udp_port''] \<in> set (keys_of g)" "[''udp_port''] \<in> set (keys_of pa)"
    "[''address''] \<in> set (keys_of ia)"
    by (simp_all add: shapes [THEN same_shape(7)] keys_created)
      (simp_all add: gateways_001_def port_allocations_001_def ip_allocations_001_def schema_defs)
  note run = upgrade_table_with_worker_run [OF _ _ _ one local_worker_id]
  define g1 where "g1 = with_worker g ''fk_gateways_worker_id'' None [''udp_port'']
    ''uq_gateway_worker_udp_port'' [''worker_id'', ''udp_port'']"
  have g1: "tb_name g1 = ''gateways''" "tb_indexes g1 = [index_on ''ix_gateways_name'' [''name'']]"
    by (simp_all add: g1_def fields)
  have gateways: "upgrade_table_with_worker D ''gateways'' ''fk_gateways_worker_id'' [''udp_port'']
      ''uq_gateway_worker_udp_port'' [''worker_id'', ''udp_port''] None [g, j, p, pa, ia, gm, pm, ?w]
      = (Inr (), [g1, j, p, pa, ia, gm, pm, ?w])"
    by (subst run [OF _ _ _ new(1) key_apart [OF sound(1) keys(1)]]) (simp_all add: table_list_simps fields g1_def)
  have indexed: "create_index ''gateways'' (index_on ''ix_gateways_worker_id'' [''worker_id''])
      [g1, j, p, pa, ia, gm, pm, ?w] = (Inr (), [?g, j, p, pa, ia, gm, pm, ?w])"
    by (subst create_index_run [where t = g1])
      (simp_all add: table_list_simps fields g1, simp_all add: index_on_def gateways_altered_def g1_def fields)
  have ports: "upgrade_table_with_worker D ''port_allocations'' ''fk_port_alloc_worker_id'' [''udp_port'']
      ''uq_port_worker_udp'' [''worker_id'', ''udp_port''] (Some ''CASCADE'') [?g, j, p, pa, ia, gm, pm, ?w]
      = (Inr (), [?g, j, p, ?pa, ia, gm, pm, ?w])"
    by (subst run [OF _ _ _ new(2) key_apart [OF sound(2) keys(2)]])
      (simp_all add: table_list_simps fields port_allocations_altered_def)
  have ips: "upgrade_table_with_worker D ''ip_allocations'' ''fk_ip_alloc_worker_id'' [''address'']
      ''uq_ip_worker_address'' [''worker_id'', ''address''] (Some ''CASCADE'') [?g, j, p, ?pa, ia, gm, pm, ?w]
      = (Inr (), [?g, j, p, ?pa, ip_allocations_altered ia, gm, pm, ?w])"
    by (subst run [OF _ _ _ new(3) key_apart [OF sound(3) keys(3)]])
      (simp_all add: table_list_simps fields ip_allocations_altered_def)
  show ?thesis
    unfolding upgrade_002_def
    by (subst workers_002_run)
      (simp_all add: table_list_simps fields gen thenM_def gateways indexed ports ips, simp_all add: index_on_def)
qed

lemma upgrade_002_generic:
  assumes gen: "\<not> dl_sqlite D" and at: "at_001 D db"
  shows "\<exists>db'. upgrade_002 D db = (Inr (), db') \<and> moved_rows db db'"
  using at
proof (rule at_001_tables)
  fix g j p pa ia gm pm
  assume db: "db = [g, j, p, pa, ia, gm, pm]"
    and sound: "sound_table g" "sound_table pa" "sound_table ia"
    and shapes: "g\<lparr>tb_rows := []\<rparr> = created D gateways_001 [index_on ''ix_gateways_name'' [''name'']]"
    "j\<lparr>tb_rows := []\<rparr> = created D jobs_001 []" "p\<lparr>tb_rows := []\<rparr> = created D peers_001 []"
    "pa\<lparr>tb_rows := []\<rparr> = created D port_allocations_001 []"
    "ia\<lparr>tb_rows := []\<rparr> = created D ip_allocations_001 []"
    "gm\<lparr>tb_rows := []\<rparr> = created D gateway_metrics_001
       [index_on ''ix_gateway_metrics_gateway_id'' [''gateway_id'']]"
    "pm\<lparr>tb_rows := []\<rparr> = created D peer_metrics_001 [index_on ''ix_peer_metrics_peer_id'' [''peer_id'']]"
  show ?thesis
    unfolding db
    by (simp add: upgrade_002_generic_run [OF gen sound shapes] moved_rows_def rows_of_def table_list_simps
        shapes [THEN same_shape(1)] local_worker_id local_worker_name)
qed


definition row_with :: "(string \<times> sqlval) list \<Rightarrow> row" where
  "row_with vs = (\<lambda>n. case map_of vs n of None \<Rightarrow> VNull | Some v \<Rightarrow> v)"

definition sample_dialect :: dialect where
  "sample_dialect = \<lparr>dl_sqlite = False,
     dl_constraint_name = (\<lambda>t cs. t @ ''_'' @ concat cs @ ''_key''), dl_now = 0\<rparr>"

definition sample_gateway :: row where
  "sample_gateway = row_with
     [(''id'', VInt 1), (''name'', VText ''gw''), (''incus_instance'', VText ''i''), (''vm_ip'', VText ''10.10.1.10''),
      (''udp_port'', VInt 51001), (''wg_subnet'', VText ''s''), (''wg_server_pubkey'', VText ''k''),
      (''wg_server_privkey_enc'', VText ''e''), (''exit_node_id'', VText ''x''),
      (''tailscale_auth_key_enc'', VText ''a''), (''tailscale_hostname'', VText ''h''),
      (''agent_token_hash'', VText ''t''), (''agent_token_enc'', VText ''u''), (''status'', VText ''READY''),
      (''created_at'', VTime 1), (''updated_at'', VTime 1)]"

definition sample_001 :: tables where
  "sample_001 = map (\<lambda>t. if tb_name t = ''gateways'' then t\<lparr>tb_rows := [sample_gateway]\<rparr> else t)
     (tables_001 sample_dialect)"

lemma sample_at_001: "at_001 sample_dialect sample_001"
proof -
  have "not_null_ok gateways_001 sample_gateway"
    by (simp add: not_null_ok_def gateways_001_def schema_defs sample_gateway_def row_with_def)
  moreover have "within_columns gateways_001 sample_gateway"
    by (auto simp: within_columns_def column_names_def gateways_001_def schema_defs sample_gateway_def row_with_def)
  ultimately show ?thesis
    by (simp add: at_001_def upgrade_001_run schema_of_def sample_001_def tables_001_def sound_table_def
        rows_apart_def) (simp add: not_null_ok_def within_columns_def column_names_def created_def list_all_iff)
qed


end
