(* ===== verification/MigrationLaws.thy ===== *)
theory MigrationLaws
  imports WorkerMigration
begin

text \<open>
  The chain of revisions as a whole: downgrading undoes upgrading, and the upgrades with \<open>init_db\<close> reach
  the tables the ORM declares.
\<close>

section \<open>Downgrading undoes upgrading\<close>

text \<open>One computation takes \<open>a\<close> to \<open>b\<close> and the other takes it back.\<close>

definition undoes :: "unit ddl \<Rightarrow> unit ddl \<Rightarrow> tables \<Rightarrow> tables \<Rightarrow> bool" where
  "undoes up down a b \<longleftrightarrow> up a = (Inr (), b) \<and> down b = (Inr (), a)"

lemma undoes_then:
  "undoes u d a b \<Longrightarrow> undoes u' d' b c \<Longrightarrow> undoes (thenM u u') (thenM d' d) a c"
  by (simp add: undoes_def thenM_def)

lemma thenM_assoc: "thenM (thenM a b) c = thenM a (thenM b c)"
  by (rule ext) (auto simp: thenM_def split: prod.splits sum.splits)

definition lacks_index :: "string \<Rightarrow> tables \<Rightarrow> bool" where
  "lacks_index i db \<longleftrightarrow> list_all (\<lambda>t. list_all (\<lambda>x. ix_name x \<noteq> i) (tb_indexes t)) db"

definition lacks_references :: "string \<Rightarrow> tables \<Rightarrow> bool" where
  "lacks_references n db \<longleftrightarrow> list_all (\<lambda>t. n \<notin> set (fkey_tables t)) db"

lemma names_replace: "tb_name t' = n \<Longrightarrow> table_names (replace_table n t' db) = table_names db"
  by (induction db) (auto simp: table_names_def replace_table_def)

lemma replace_self:
  "find_table n db = Some t \<Longrightarrow> distinct (table_names db) \<Longrightarrow> replace_table n t db = db"
proof (induction db)
  case (Cons x db)
  have "map (\<lambda>u. if tb_name u = n then t else u) db = db" if "n \<notin> set (table_names db)"
    using that by (intro map_idI) (auto simp: table_names_def)
  with Cons show ?case
    by (auto simp: find_table_def replace_table_def table_names_def split: if_splits)
qed (simp add: find_table_def)

lemma lacks_index_replace:
  "lacks_index i db \<Longrightarrow> list_all (\<lambda>x. ix_name x \<noteq> i) (tb_indexes t') \<Longrightarrow> lacks_index i (replace_table n t' db)"
  by (auto simp: lacks_index_def replace_table_def list_all_iff)

lemma lacks_index_found:
  "lacks_index i db \<Longrightarrow> find_table n db = Some t \<Longrightarrow> list_all (\<lambda>x. ix_name x \<noteq> i) (tb_indexes t)"
  by (auto simp: lacks_index_def list_all_iff find_table_def find_Some_iff)

lemma undoes_table:
  assumes "find_table (tb_name t) db = None" and "tb_indexes t = []"
    and "list_all (\<lambda>n. n \<in> set (tb_name t # table_names db)) (fkey_tables t)"
    and "lacks_references (tb_name t) db"
  shows "undoes (create_table D t) (drop_table D (tb_name t)) db (db @ [created D t []])"
proof -
  have "filter (\<lambda>x. tb_name x \<noteq> tb_name t) db = db"
    using assms(1) by (auto simp: find_table_def find_None_iff filter_id_conv)
  moreover have "\<not> list_ex (\<lambda>x. tb_name x \<noteq> tb_name t \<and> list_ex (\<lambda>fk. fk_table fk = tb_name t) (tb_fkeys x)) db"
    using assms(4) by (force simp: lacks_references_def fkey_tables_def list_ex_iff list_all_iff)
  ultimately show ?thesis
    using assms(1-3)
    by (simp add: undoes_def create_table_run drop_table_def find_table_names find_append_table)
qed

lemma undoes_index:
  assumes found: "find_table n db = Some t" and "lacks_index (ix_name ix) db" and "distinct (table_names db)"
  shows "undoes (create_index n ix) (drop_index n (ix_name ix)) db
           (replace_table n (t\<lparr>tb_indexes := tb_indexes t @ [ix]\<rparr>) db)"
proof -
  have "filter (\<lambda>x. ix_name x \<noteq> ix_name ix) (tb_indexes t) = tb_indexes t"
    using lacks_index_found [OF assms(2) found] by (simp add: filter_id_conv list_all_iff)
  moreover have "list_all (\<lambda>t. list_all (\<lambda>i. ix_name i \<noteq> ix_name ix) (tb_indexes t)) db"
    using assms(2) by (simp add: lacks_index_def)
  ultimately show ?thesis
    using find_table_name [OF found]
    by (simp add: undoes_def create_index_run [OF found] drop_index_def on_table_def
        find_replace_same [OF found] replace_replace replace_self [OF found assms(3)])
qed

definition plus_column :: "dbtable \<Rightarrow> string \<Rightarrow> coltype \<Rightarrow> dbtable" where
  "plus_column t c ty = t\<lparr>tb_columns := tb_columns t @ [null_column c ty]\<rparr>"

definition lacks_column :: "string \<Rightarrow> dbtable \<Rightarrow> bool" where
  "lacks_column c t \<longleftrightarrow> c \<notin> set (column_names t) \<and> \<not> column_used c t \<and> list_all (\<lambda>r. r c = VNull) (tb_rows t)"

lemma undoes_column:
  assumes found: "find_table n db = Some t" and lacks: "lacks_column c t" and "distinct (table_names db)"
  shows "undoes (add_column D n (null_column c ty)) (drop_column D n c) db (replace_table n (plus_column t c ty) db)"
proof -
  have rows: "map (\<lambda>r. r(c := VNull)) (tb_rows t) = tb_rows t"
    using lacks by (intro map_idI) (auto simp: lacks_column_def list_all_iff fun_upd_idem)
  have cols: "filter (\<lambda>x. cl_name x \<noteq> c) (tb_columns t) = tb_columns t"
    using lacks by (auto simp: lacks_column_def column_names_def filter_id_conv)
  have keys: "filter (\<lambda>fk. c \<notin> set (fk_columns fk)) (tb_fkeys t) = tb_fkeys t"
    "filter (\<lambda>u. c \<notin> set (uq_columns u)) (tb_uniques t) = tb_uniques t"
    "filter (\<lambda>i. c \<notin> set (ix_columns i)) (tb_indexes t) = tb_indexes t"
    using lacks by (auto simp: lacks_column_def column_used_def filter_id_conv list_ex_iff)
  have up: "add_column D n (null_column c ty) db = (Inr (), replace_table n (plus_column t c ty) db)"
    using add_null_column_run [OF found, of c] lacks by (simp add: rows plus_column_def lacks_column_def)
  have "\<not> column_used c (plus_column t c ty)" "c \<in> set (column_names (plus_column t c ty))"
    using lacks by (simp_all add: lacks_column_def column_used_def plus_column_def column_names_def null_column_def)
  moreover have "(plus_column t c ty)\<lparr>tb_columns := filter (\<lambda>x. cl_name x \<noteq> c) (tb_columns (plus_column t c ty)),
                   tb_fkeys := filter (\<lambda>fk. c \<notin> set (fk_columns fk)) (tb_fkeys (plus_column t c ty)),
                   tb_uniques := filter (\<lambda>u. c \<notin> set (uq_columns u)) (tb_uniques (plus_column t c ty)),
                   tb_indexes := filter (\<lambda>i. c \<notin> set (ix_columns i)) (tb_indexes (plus_column t c ty)),
                   tb_rows := map (\<lambda>r. r(c := VNull)) (tb_rows (plus_column t c ty))\<rparr> = t"
    by (cases t) (use rows cols keys in \<open>simp add: plus_column_def null_column_def\<close>)
  moreover have "tb_name (plus_column t c ty) = n"
    by (simp add: plus_column_def find_table_name [OF found])
  ultimately have "drop_column D n c (replace_table n (plus_column t c ty) db) = (Inr (), db)"
    using find_table_name [OF found]
    by (simp add: drop_column_def on_table_def find_replace_same [OF found] replace_replace
        replace_self [OF found assms(3)])
  with up show ?thesis
    by (simp add: undoes_def)
qed

lemma undoes_fkey:
  assumes found: "find_table n db = Some t" and "distinct (table_names db)"
    and name: "fk_name fk = Some k" "list_all (\<lambda>x. fk_name x \<noteq> Some k) (tb_fkeys t)"
    and target: "fk_table fk \<in> set (table_names db)"
    and empty: "list_all (\<lambda>r. list_ex (\<lambda>c. r c = VNull) (fk_columns fk)) (tb_rows t)"
  shows "undoes (create_foreign_key D n fk) (drop_foreign_key n k) db
           (replace_table n (t\<lparr>tb_fkeys := tb_fkeys t @ [fk]\<rparr>) db)"
proof -
  have "list_all (refers_to target fk) (tb_rows t)" for target
    using empty by (auto simp: refers_to_def list_all_iff)
  moreover have "filter (\<lambda>x. fk_name x \<noteq> Some k) (tb_fkeys t) = tb_fkeys t"
    using name(2) by (auto simp: filter_id_conv list_all_iff)
  ultimately show ?thesis
    using find_table_name [OF found] target name(1)
    by (simp add: undoes_def create_foreign_key_def drop_foreign_key_def on_table_def rows_of_def found
        find_replace_same [OF found] replace_replace replace_self [OF found assms(2)])
qed

lemma plus_column_simps [simp]:
  "tb_name (plus_column t c ty) = tb_name t" "tb_indexes (plus_column t c ty) = tb_indexes t"
  "tb_fkeys (plus_column t c ty) = tb_fkeys t" "tb_rows (plus_column t c ty) = tb_rows t"
  by (simp_all add: plus_column_def)

lemma lacks_plus_column:
  "lacks_column c t \<Longrightarrow> c' \<noteq> c \<Longrightarrow> lacks_column c (plus_column t c' ty)"
  by (simp add: lacks_column_def plus_column_def column_names_def column_used_def null_column_def)

lemma undoes_two_columns:
  assumes "find_table n db = Some t" and "lacks_column c t" "lacks_column c' t" "c \<noteq> c'"
    and "distinct (table_names db)"
  shows "undoes (thenM (add_column D n (null_column c ty)) (add_column D n (null_column c' ty')))
           (thenM (drop_column D n c') (drop_column D n c)) db
           (replace_table n (plus_column (plus_column t c ty) c' ty') db)"
proof -
  let ?t = "plus_column t c ty"
  have name: "tb_name ?t = n"
    using find_table_name [OF assms(1)] by simp
  from undoes_column [OF find_replace_same [OF assms(1) name] lacks_plus_column [OF assms(3,4)]]
  have "undoes (add_column D n (null_column c' ty')) (drop_column D n c') (replace_table n ?t db)
          (replace_table n (plus_column ?t c' ty') db)"
    using assms(5) name by (simp add: names_replace replace_replace)
  with undoes_column [OF assms(1,2,5)] show ?thesis
    by (rule undoes_then)
qed

lemma undoes_004:
  assumes "find_table ''worker_enrollments'' db = None" and "lacks_references ''worker_enrollments'' db"
    and "lacks_index ''ix_worker_enrollments_token_hash'' db" and "distinct (table_names db)"
  shows "undoes (upgrade_004 D) (downgrade_004 D) db
    (db @ [created D worker_enrollments_004 [index_on ''ix_worker_enrollments_token_hash'' [''token_hash'']]])"
proof -
  let ?t = worker_enrollments_004 and ?ix = "index_on ''ix_worker_enrollments_token_hash'' [''token_hash'']"
  have t: "tb_name ?t = ''worker_enrollments''" "tb_indexes ?t = []" "fkey_tables ?t = []"
    by (simp_all add: worker_enrollments_004_def new_table_def fkey_tables_def)
  have names: "distinct (map tb_name db)" "''worker_enrollments'' \<notin> tb_name ` set db"
    using assms(1,4) by (auto simp: table_names_def find_table_def find_None_iff)
  have "undoes (create_table D ?t) (drop_table D ''worker_enrollments'') db (db @ [created D ?t []])"
    using undoes_table [of ?t db D] assms by (simp add: t)
  moreover have "undoes (create_index ''worker_enrollments'' ?ix)
      (drop_index ''worker_enrollments'' ''ix_worker_enrollments_token_hash'') (db @ [created D ?t []])
      (db @ [created D ?t [?ix]])"
    using undoes_index [of "''worker_enrollments''" "db @ [created D ?t []]" "created D ?t []" ?ix] assms names
    by (simp add: find_append_table t lacks_index_def index_on_def replace_appended created_indexed
        table_names_def)
  ultimately show ?thesis
    unfolding upgrade_004_def downgrade_004_def by (rule undoes_then)
qed

lemma undoes_peer_groups:
  assumes "find_table ''peer_groups'' db = None" and "lacks_references ''peer_groups'' db"
    and "lacks_index ''ix_peer_groups_name'' db" "lacks_index ''ix_peer_groups_worker_id'' db"
    and "distinct (table_names db)" and "''workers'' \<in> set (table_names db)"
  shows "undoes (create_peer_groups_006 D)
      (thenM (thenM (drop_index ''peer_groups'' ''ix_peer_groups_worker_id'')
        (drop_index ''peer_groups'' ''ix_peer_groups_name'')) (drop_table D ''peer_groups''))
      db (db @ [created D peer_groups_006
        [index_on ''ix_peer_groups_name'' [''name''], index_on ''ix_peer_groups_worker_id'' [''worker_id'']]])"
proof -
  let ?t = peer_groups_006
  let ?i1 = "index_on ''ix_peer_groups_name'' [''name'']" and ?i2 = "index_on ''ix_peer_groups_worker_id'' [''worker_id'']"
  have t: "tb_name ?t = ''peer_groups''" "tb_indexes ?t = []" "fkey_tables ?t = [''workers'']"
    by (simp_all add: peer_groups_006_def new_table_def fkey_tables_def foreign_key_def)
  have names: "distinct (map tb_name db)" "''peer_groups'' \<notin> tb_name ` set db"
    using assms(1,5) by (auto simp: table_names_def find_table_def find_None_iff)
  have "undoes (create_table D ?t) (drop_table D ''peer_groups'') db (db @ [created D ?t []])"
    using undoes_table [of ?t db D] assms by (simp add: t)
  moreover have "undoes (create_index ''peer_groups'' ?i1) (drop_index ''peer_groups'' ''ix_peer_groups_name'')
      (db @ [created D ?t []]) (db @ [created D ?t [?i1]])"
    using undoes_index [of "''peer_groups''" "db @ [created D ?t []]" "created D ?t []" ?i1] assms names
    by (simp add: find_append_table t lacks_index_def index_on_def replace_appended created_indexed table_names_def)
  moreover have "undoes (create_index ''peer_groups'' ?i2) (drop_index ''peer_groups'' ''ix_peer_groups_worker_id'')
      (db @ [created D ?t [?i1]]) (db @ [created D ?t [?i1, ?i2]])"
    using undoes_index [of "''peer_groups''" "db @ [created D ?t [?i1]]" "created D ?t [?i1]" ?i2] assms names
    by (simp add: find_append_table t lacks_index_def index_on_def replace_appended created_indexed table_names_def)
  ultimately show ?thesis
    unfolding create_peer_groups_006_def by (blast intro: undoes_then)
qed

lemma undoes_peer_group_columns:
  assumes found: "find_table ''gateways'' db = Some g" and dist: "distinct (table_names db)"
    and lacks: "lacks_column ''peer_group_id'' g" "lacks_column ''lan_ip'' g" "lacks_column ''macvlan_slot'' g"
    and fk: "list_all (\<lambda>x. fk_name x \<noteq> Some ''fk_gateways_peer_group_id'') (tb_fkeys g)"
    and ix: "lacks_index ''ix_gateways_peer_group_id'' db" and pg: "''peer_groups'' \<in> set (table_names db)"
  shows "\<exists>g'. tb_name g' = ''gateways'' \<and> undoes (add_peer_group_columns_006 D)
      (thenM (drop_index ''gateways'' ''ix_gateways_peer_group_id'')
      (thenM (drop_foreign_key ''gateways'' ''fk_gateways_peer_group_id'')
      (thenM (drop_column D ''gateways'' ''macvlan_slot'')
      (thenM (drop_column D ''gateways'' ''lan_ip'') (drop_column D ''gateways'' ''peer_group_id'')))))
      db (replace_table ''gateways'' g' db)"
proof -
  let ?fk = "foreign_key (Some ''fk_gateways_peer_group_id'') ''peer_group_id'' ''peer_groups'' (Some ''SET NULL'')"
  define g2 where "g2 = plus_column (plus_column g ''peer_group_id'' TInteger) ''lan_ip'' (TString 45)"
  define g3 where "g3 = plus_column g2 ''macvlan_slot'' TInteger"
  define g4 where "g4 = g3\<lparr>tb_fkeys := tb_fkeys g3 @ [?fk]\<rparr>"
  define g5 where "g5 = g4\<lparr>tb_indexes := tb_indexes g4 @ [index_on ''ix_gateways_peer_group_id'' [''peer_group_id'']]\<rparr>"
  note g_defs = g5_def g4_def g3_def g2_def
  have names: "tb_name g2 = ''gateways''" "tb_name g3 = ''gateways''" "tb_name g4 = ''gateways''" "tb_name g5 = ''gateways''"
    by (simp_all add: g_defs find_table_name [OF found])
  note step = names_replace [OF names(1)] names_replace [OF names(2)] names_replace [OF names(3)]
    replace_replace [OF names(1)] replace_replace [OF names(2)] replace_replace [OF names(3)]
  note at = find_replace_same [OF found names(1)] find_replace_same [OF found names(2)] find_replace_same [OF found names(3)]
  have u2: "undoes (thenM (add_column D ''gateways'' (null_column ''peer_group_id'' TInteger))
        (add_column D ''gateways'' (null_column ''lan_ip'' (TString 45))))
      (thenM (drop_column D ''gateways'' ''lan_ip'') (drop_column D ''gateways'' ''peer_group_id''))
      db (replace_table ''gateways'' g2 db)"
    using undoes_two_columns [OF found lacks(1,2) _ dist] by (simp add: g2_def)
  have "lacks_column ''macvlan_slot'' g2"
    using lacks(3) by (simp add: g2_def lacks_plus_column)
  then have u3: "undoes (add_column D ''gateways'' (null_column ''macvlan_slot'' TInteger))
      (drop_column D ''gateways'' ''macvlan_slot'') (replace_table ''gateways'' g2 db) (replace_table ''gateways'' g3 db)"
    using undoes_column [OF at(1), of "''macvlan_slot''" D TInteger] dist
    by (simp add: step g3_def)
  have u4: "undoes (create_foreign_key D ''gateways'' ?fk)
      (drop_foreign_key ''gateways'' ''fk_gateways_peer_group_id'')
      (replace_table ''gateways'' g3 db) (replace_table ''gateways'' g4 db)"
    using undoes_fkey [OF at(2), of ?fk "''fk_gateways_peer_group_id''" D] dist fk pg lacks(1)
    by (simp add: step g4_def) (simp add: g3_def g2_def foreign_key_def lacks_column_def)
  have "list_all (\<lambda>x. ix_name x \<noteq> ''ix_gateways_peer_group_id'') (tb_indexes g4)"
    using lacks_index_found [OF ix found] by (simp add: g_defs)
  then have u5: "undoes (create_index ''gateways'' (index_on ''ix_gateways_peer_group_id'' [''peer_group_id'']))
      (drop_index ''gateways'' ''ix_gateways_peer_group_id'')
      (replace_table ''gateways'' g4 db) (replace_table ''gateways'' g5 db)"
    using undoes_index [OF at(3), of "index_on ''ix_gateways_peer_group_id'' [''peer_group_id'']"] dist
      lacks_index_replace [OF ix]
    by (simp add: step g5_def) (simp add: index_on_def)
  from undoes_then [OF u2 undoes_then [OF u3 undoes_then [OF u4 u5]]] names(4)
  show ?thesis
    by (auto simp: add_peer_group_columns_006_def thenM_assoc)
qed

text \<open>A database that holds nothing of what revisions 004 to 008 add.\<close>

definition unextended :: "tables \<Rightarrow> bool" where
  "unextended db \<longleftrightarrow>
     distinct (table_names db) \<and> ''workers'' \<in> set (table_names db)
     \<and> list_all (\<lambda>n. n \<notin> set (table_names db) \<and> lacks_references n db) [''worker_enrollments'', ''peer_groups'']
     \<and> list_all (\<lambda>i. lacks_index i db)
         [''ix_worker_enrollments_token_hash'', ''ix_peer_groups_name'', ''ix_peer_groups_worker_id'',
          ''ix_gateways_peer_group_id'']
     \<and> (case find_table ''gateways'' db of
          None \<Rightarrow> False
        | Some g \<Rightarrow> list_all (\<lambda>c. lacks_column c g) [''peer_group_id'', ''lan_ip'', ''macvlan_slot'']
                    \<and> list_all (\<lambda>x. fk_name x \<noteq> Some ''fk_gateways_peer_group_id'') (tb_fkeys g))
     \<and> (case find_table ''gateway_metrics'' db of
          None \<Rightarrow> False
        | Some m \<Rightarrow> list_all (\<lambda>c. lacks_column c m)
                      [''egress_public_ip'', ''egress_country_code'', ''egress_updated_at''])"

lemma upgrade_006_fresh:
  assumes "find_table ''peer_groups'' db = None" and "find_table ''gateways'' db = Some g"
    and "''peer_group_id'' \<notin> set (column_names g)"
    and "create_peer_groups_006 D db = (Inr (), db @ [p])"
  shows "upgrade_006 D db = thenM (create_peer_groups_006 D) (add_peer_group_columns_006 D) db"
  using assms
  by (simp add: upgrade_006_def bindM_def thenM_def has_table_def has_column_def find_table_names find_append_table)

lemma undoes_006:
  assumes pg: "find_table ''peer_groups'' db = None" "lacks_references ''peer_groups'' db"
      "lacks_index ''ix_peer_groups_name'' db" "lacks_index ''ix_peer_groups_worker_id'' db"
    and dist: "distinct (table_names db)" and w: "''workers'' \<in> set (table_names db)"
    and found: "find_table ''gateways'' db = Some g"
    and lacks: "lacks_column ''peer_group_id'' g" "lacks_column ''lan_ip'' g" "lacks_column ''macvlan_slot'' g"
    and fk: "list_all (\<lambda>x. fk_name x \<noteq> Some ''fk_gateways_peer_group_id'') (tb_fkeys g)"
    and ix: "lacks_index ''ix_gateways_peer_group_id'' db"
  shows "\<exists>db'. undoes (upgrade_006 D) (downgrade_006 D) db db' \<and> distinct (table_names db')
    \<and> find_table ''gateway_metrics'' db' = find_table ''gateway_metrics'' db"
proof -
  define p where "p = created D peer_groups_006
        [index_on ''ix_peer_groups_name'' [''name''], index_on ''ix_peer_groups_worker_id'' [''worker_id'']]"
  have name: "tb_name p = ''peer_groups''" and ixs: "list_all (\<lambda>x. ix_name x \<noteq> ''ix_gateways_peer_group_id'') (tb_indexes p)"
    by (simp_all add: p_def peer_groups_006_def new_table_def index_on_def)
  have one: "undoes (create_peer_groups_006 D)
      (thenM (thenM (drop_index ''peer_groups'' ''ix_peer_groups_worker_id'')
        (drop_index ''peer_groups'' ''ix_peer_groups_name'')) (drop_table D ''peer_groups'')) db (db @ [p])"
    unfolding p_def by (rule undoes_peer_groups [OF pg dist w])
  have found': "find_table ''gateways'' (db @ [p]) = Some g"
    by (simp add: find_append_table found)
  have dist': "distinct (table_names (db @ [p]))"
    using dist pg(1) name by (auto simp: table_names_def find_table_def find_None_iff)
  have ix': "lacks_index ''ix_gateways_peer_group_id'' (db @ [p])"
    using ix ixs by (simp add: lacks_index_def)
  have "''peer_groups'' \<in> set (table_names (db @ [p]))"
    by (simp add: table_names_def name)
  from undoes_peer_group_columns [OF found' dist' lacks fk ix' this]
  obtain g' where g': "tb_name g' = ''gateways''" and two: "undoes (add_peer_group_columns_006 D)
      (thenM (drop_index ''gateways'' ''ix_gateways_peer_group_id'')
      (thenM (drop_foreign_key ''gateways'' ''fk_gateways_peer_group_id'')
      (thenM (drop_column D ''gateways'' ''macvlan_slot'')
      (thenM (drop_column D ''gateways'' ''lan_ip'') (drop_column D ''gateways'' ''peer_group_id'')))))
      (db @ [p]) (replace_table ''gateways'' g' (db @ [p]))"
    by blast
  have "upgrade_006 D db = thenM (create_peer_groups_006 D) (add_peer_group_columns_006 D) db"
    using one lacks(1) by (intro upgrade_006_fresh [OF pg(1) found, of D p]) (simp_all add: undoes_def lacks_column_def)
  with undoes_then [OF one two]
  have "undoes (upgrade_006 D) (downgrade_006 D) db (replace_table ''gateways'' g' (db @ [p]))"
    by (simp add: undoes_def downgrade_006_def thenM_assoc)
  then show ?thesis
    using dist' g' name
    by (intro exI [of _ "replace_table ''gateways'' g' (db @ [p])"])
      (simp add: names_replace find_replace_other find_append_table split: option.split)
qed

lemma upgrade_chain_004:
  "upgrade_head D (Some ''003'') =
     thenM (upgrade_004 D) (thenM (upgrade_005 D) (thenM (upgrade_006 D) (thenM (upgrade_007 D)
       (thenM (upgrade_008 D) (ret ())))))"
  by (simp add: upgrade_head_def revisions_def revision_defs)

lemma downgrade_chain_004:
  "downgrade_to D (Some ''008_egress_updated_at'') (Some ''003'') =
     thenM (downgrade_008 D) (thenM (downgrade_007 D) (thenM (downgrade_006 D) (thenM (downgrade_005 D)
       (thenM (downgrade_004 D) (ret ())))))"
  by (simp add: downgrade_to_def revisions_def revision_defs)

text \<open>
  C20: downgrading from the head to revision 003 takes back everything the upgrade from 003 to the head
  did, whatever rows the database holds: no table, column, key, index or row differs.
\<close>

theorem downgrade_inverts_upgrade:
  assumes "unextended db"
  shows "\<exists>db'. upgrade_head D (Some ''003'') db = (Inr (), db')
     \<and> downgrade_to D (Some ''008_egress_updated_at'') (Some ''003'') db' = (Inr (), db)"
proof -
  obtain g m where g: "find_table ''gateways'' db = Some g" and m: "find_table ''gateway_metrics'' db = Some m"
    using assms by (auto simp: unextended_def split: option.splits)
  note u = assms [unfolded unextended_def, simplified g m find_table_names, simplified]
  define w where "w = created D worker_enrollments_004 [index_on ''ix_worker_enrollments_token_hash'' [''token_hash'']]"
  have w: "tb_name w = ''worker_enrollments''" "fkey_tables w = []" "lacks_column ''enroll_token_enc'' w"
     "lacks_column ''headscale_auth_key_enc'' w"
     "tb_indexes w = [index_on ''ix_worker_enrollments_token_hash'' [''token_hash'']]"
    by (simp_all add: w_def lacks_column_def column_used_def column_names_def)
      (simp_all add: worker_enrollments_004_def schema_defs fkey_tables_def name_unique_def)
  have s4: "undoes (upgrade_004 D) (downgrade_004 D) db (db @ [w])"
    using u by (simp add: undoes_004 w_def)
  have dist: "distinct (table_names (db @ [w]))"
    using u w(1) by (auto simp: table_names_def find_table_def find_None_iff)
  define w2 where "w2 = plus_column (plus_column w ''enroll_token_enc'' TText) ''headscale_auth_key_enc'' TText"
  have w2: "tb_name w2 = ''worker_enrollments''" "fkey_tables w2 = []" "tb_indexes w2 = tb_indexes w"
    using w(2) by (simp_all add: w2_def w(1) fkey_tables_def)
  have "find_table ''worker_enrollments'' (db @ [w]) = Some w"
    using u w(1) by (simp add: find_append_table)
  from undoes_two_columns [OF this w(3,4) _ dist]
  have s5: "undoes (upgrade_005 D) (downgrade_005 D) (db @ [w]) (db @ [w2])"
    using u w(1) by (simp add: upgrade_005_def downgrade_005_def w2_def replace_appended)
  have dist2: "distinct (table_names (db @ [w2]))"
    using dist w(1) w2(1) by (simp add: table_names_def)
  have wk: "''workers'' \<in> set (table_names (db @ [w2]))"
    using u by (auto simp: find_table_names find_append_table)
  have "\<exists>c. undoes (upgrade_006 D) (downgrade_006 D) (db @ [w2]) c \<and> distinct (table_names c)
      \<and> find_table ''gateway_metrics'' c = find_table ''gateway_metrics'' (db @ [w2])"
    by (rule undoes_006 [where g = g])
      (use u dist2 wk in \<open>simp_all add: find_append_table g w2 w(5) lacks_references_def lacks_index_def index_on_def\<close>)
  then obtain c where s6: "undoes (upgrade_006 D) (downgrade_006 D) (db @ [w2]) c"
    and c: "distinct (table_names c)" "find_table ''gateway_metrics'' c = Some m"
    by (auto simp: find_append_table m)
  define m2 where "m2 = plus_column (plus_column m ''egress_public_ip'' (TString 45)) ''egress_country_code'' (TString 2)"
  have m2: "tb_name m2 = ''gateway_metrics''" "lacks_column ''egress_updated_at'' m2"
    using u find_table_name [OF m] by (simp_all add: m2_def lacks_plus_column)
  have s7: "undoes (upgrade_007 D) (downgrade_007 D) c (replace_table ''gateway_metrics'' m2 c)"
    using undoes_two_columns [OF c(2) _ _ _ c(1)] u by (simp add: upgrade_007_def downgrade_007_def m2_def)
  have s8: "undoes (upgrade_008 D) (downgrade_008 D) (replace_table ''gateway_metrics'' m2 c)
      (replace_table ''gateway_metrics'' (plus_column m2 ''egress_updated_at'' TDateTime)
         (replace_table ''gateway_metrics'' m2 c))"
    using undoes_column [OF find_replace_same [OF c(2) m2(1)] m2(2)] c(1) m2(1)
    by (simp add: upgrade_008_def downgrade_008_def names_replace)
  from s4 s5 s6 s7 s8 show ?thesis
    unfolding upgrade_chain_004 downgrade_chain_004 by (simp add: undoes_def thenM_def)
qed


text \<open>The sample database, moved on to revision 003.\<close>

definition sample_003 :: tables where
  "sample_003 = snd (thenM (upgrade_002 sample_dialect) (upgrade_003 sample_dialect) sample_001)"

lemma sample_unextended: "unextended sample_003"
  by code_simp

theorem downgrade_inverts_upgrade_witness:
  "\<exists>db'. upgrade_head sample_dialect (Some ''003'') sample_003 = (Inr (), db')
     \<and> downgrade_to sample_dialect (Some ''008_egress_updated_at'') (Some ''003'') db' = (Inr (), sample_003)"
  by (rule downgrade_inverts_upgrade [OF sample_unextended])

section \<open>Starting twice\<close>

text \<open>A start leaves every declared table and the three late columns in place; a second one finds them.\<close>

definition started :: "tables \<Rightarrow> bool" where
  "started db \<longleftrightarrow> list_all (\<lambda>t. has_table (tb_name t) db) orm_tables
     \<and> has_column ''registration_requests'' ''display_code'' db
     \<and> has_column ''jobs'' ''stage'' db \<and> has_column ''jobs'' ''stage_updated_at'' db"

lemma forM_nothing: "list_all (\<lambda>x. f x s = (Inr (), s)) xs \<Longrightarrow> forM xs f s = (Inr (), s)"
  by (induction xs) (simp_all add: thenM_def)

lemma init_db_started:
  assumes "started db"
  shows "init_db D db = (Inr (), db)"
proof -
  have "create_all D db = (Inr (), db)"
    unfolding create_all_def
    by (rule forM_nothing) (use assms in \<open>simp add: started_def create_missing_def bindM_def list_all_iff\<close>)
  moreover have "has_table ''registration_requests'' db" "has_table ''jobs'' db"
    using assms by (simp_all add: started_def has_column_def has_table_def find_table_names split: option.splits)
  ultimately show ?thesis
    using assms by (simp add: init_db_def started_def thenM_def bindM_def)
qed

lemma has_table_create: "fst (create_table D t db) = Inr () \<Longrightarrow> has_table n (snd (create_table D t db)) \<longleftrightarrow> n = tb_name t \<or> has_table n db"
  by (auto simp: create_table_def has_table_def table_names_def split: if_splits)

lemma table_names_on_table: "(\<And>t t'. f t = Inr t' \<Longrightarrow> tb_name t' = tb_name t) \<Longrightarrow> table_names (snd (on_table n f db)) = table_names db"
  by (auto simp: on_table_def names_replace find_table_name split: option.split sum.split)

lemma table_names_add: "table_names (snd (add_column D n c db)) = table_names db"
  unfolding add_column_def by (rule table_names_on_table) (auto split: if_splits)

lemma create_all_run:
  "forM ts (create_missing D) db = (Inr (), db') \<Longrightarrow>
     (\<forall>n. has_table n db' \<longleftrightarrow> has_table n db \<or> n \<in> set (map tb_name ts))"
proof (induction ts arbitrary: db)
  case (Cons t ts)
  from Cons.prems obtain db1 where one: "create_missing D t db = (Inr (), db1)"
    and rest: "forM ts (create_missing D) db1 = (Inr (), db')"
    by (auto simp: thenM_returns)
  from one have "has_table n db1 \<longleftrightarrow> n = tb_name t \<or> has_table n db" for n
    using has_table_create [of D t db n]
    by (auto simp: create_missing_def bindM_def split: if_splits)
  with Cons.IH [OF rest] show ?case
    by auto
qed simp

lemma has_column_add:
  assumes "add_column D n c db = (Inr (), db')"
  shows "has_column n (cl_name c) db'" and "has_column m k db \<Longrightarrow> has_column m k db'"
proof -
  from assms obtain t where t: "find_table n db = Some t" and db': "\<exists>rs. db' = replace_table n (t\<lparr>tb_columns := tb_columns t @ [c], tb_rows := rs\<rparr>) db"
    by (auto simp: add_column_def on_table_def split: option.splits sum.splits if_splits)
  then obtain rs where rs: "db' = replace_table n (t\<lparr>tb_columns := tb_columns t @ [c], tb_rows := rs\<rparr>) db" by blast
  have name: "tb_name (t\<lparr>tb_columns := tb_columns t @ [c], tb_rows := rs\<rparr>) = n"
    using find_table_name [OF t] by simp
  show "has_column n (cl_name c) db'"
    by (simp add: rs has_column_def find_replace_same [OF t name] column_names_def)
  show "has_column m k db'" if "has_column m k db"
  proof (cases "m = n")
    case True
    with that t show ?thesis
      by (simp add: rs has_column_def find_replace_same [OF t name] column_names_def)
  next
    case False
    with that show ?thesis
      by (simp add: rs has_column_def find_replace_other [OF _ name])
  qed
qed

text \<open>Adding a column unless it is there.\<close>

lemma ensure_column:
  assumes run: "(if \<not> has_column n c db then add_column D n cl db else (Inr (), db)) = (Inr (), db')"
    and c: "cl_name cl = c"
  shows "has_column n c db'" "has_column m k db \<longrightarrow> has_column m k db'" "has_table m db \<longrightarrow> has_table m db'"
proof -
  have "has_column n c db' \<and> (has_column m k db \<longrightarrow> has_column m k db') \<and> (has_table m db \<longrightarrow> has_table m db')"
  proof (cases "has_column n c db")
    case True
    with run show ?thesis by simp
  next
    case False
    with run have add: "add_column D n cl db = (Inr (), db')" by simp
    with table_names_add [of D n cl db] have "table_names db' = table_names db" by simp
    then show ?thesis
      using has_column_add [OF add] c by (simp add: has_table_def)
  qed
  then show "has_column n c db'" "has_column m k db \<longrightarrow> has_column m k db'" "has_table m db \<longrightarrow> has_table m db'"
    by simp_all
qed

lemma init_db_starts:
  assumes "init_db D db = (Inr (), db')"
  shows "started db'"
proof -
  have names: "cl_name (default_column n a b) = n" "cl_name (null_column n a) = n" for n a b
    by (simp_all add: default_column_def null_column_def)
  have orm: "tb_name orm_registration_requests = ''registration_requests''" "tb_name orm_jobs = ''jobs''"
    by (simp_all add: orm_defs new_table_def)
  from assms obtain db1 where all: "create_all D db = (Inr (), db1)"
    unfolding init_db_def by (auto simp: thenM_returns)
  then have tables: "list_all (\<lambda>t. has_table (tb_name t) db1) orm_tables"
    using create_all_run [of orm_tables D db db1] by (auto simp: create_all_def list_all_iff)
  then have late: "has_table ''registration_requests'' db1" "has_table ''jobs'' db1"
    using orm by (simp_all add: orm_tables_def)
  from assms all late(1) obtain db2 where
    s2: "(if \<not> has_column ''registration_requests'' ''display_code'' db1
          then add_column D ''registration_requests'' (default_column ''display_code'' (TString 6) (DLit (VText ''000000''))) db1
          else (Inr (), db1)) = (Inr (), db2)" and
    rest: "bindM (getM (has_table ''jobs'')) (\<lambda>present.
        whenM present
          (bindM (getM (has_column ''jobs'' ''stage'')) (\<lambda>staged.
           bindM (getM (has_column ''jobs'' ''stage_updated_at'')) (\<lambda>stamped.
             thenM (whenM (\<not> staged) (add_column D ''jobs'' (null_column ''stage'' (TString 32))))
               (whenM (\<not> stamped)
                  (add_column D ''jobs'' (null_column ''stage_updated_at'' TDateTime))))))) db2 = (Inr (), db')"
    unfolding init_db_def by (simp add: thenM_def [of "create_all D"] thenM_returns bindM_def [of "getM _"]) blast
  note e2 = ensure_column [OF s2 names(1)]
  have jobs: "has_table ''jobs'' db2"
    using e2(3) late(2) by blast
  with rest obtain db3 where
    s3: "(if \<not> has_column ''jobs'' ''stage'' db2 then add_column D ''jobs'' (null_column ''stage'' (TString 32)) db2
          else (Inr (), db2)) = (Inr (), db3)" and
    s4: "(if \<not> has_column ''jobs'' ''stage_updated_at'' db2
          then add_column D ''jobs'' (null_column ''stage_updated_at'' TDateTime) db3 else (Inr (), db3)) = (Inr (), db')"
    by (simp add: thenM_returns bindM_def [of "getM _"]) blast
  note e3 = ensure_column [OF s3 names(2)]
  have kept: "has_column m k db3 \<longrightarrow> has_column m k db'" "has_table m db3 \<longrightarrow> has_table m db'" for m k
    using s4 table_names_add [of D "''jobs''" "null_column ''stage_updated_at'' TDateTime" db3]
    by (auto simp: has_table_def split: if_splits dest: has_column_add(2))
  have "has_column ''jobs'' ''stage_updated_at'' db'"
  proof (cases "has_column ''jobs'' ''stage_updated_at'' db2")
    case True
    with e3(2) kept(1) show ?thesis by blast
  next
    case False
    with s4 show ?thesis by (auto dest: has_column_add(1) simp: names)
  qed
  moreover have "has_column ''registration_requests'' ''display_code'' db'" "has_column ''jobs'' ''stage'' db'"
    using e2(1) e3(1,2) kept(1) by blast+
  moreover have "list_all (\<lambda>t. has_table (tb_name t) db') orm_tables"
    using tables e2(3) e3(3) kept(2) unfolding list_all_iff by blast
  ultimately show ?thesis
    by (simp add: started_def)
qed

text \<open>Every start after the first leaves the schema and the rows alone.\<close>

lemma init_db_again: "init_db D db = (Inr (), db') \<Longrightarrow> init_db D db' = (Inr (), db')"
  by (rule init_db_started [OF init_db_starts])

section \<open>The revisions reach the declared tables\<close>

text \<open>Every unique constraint without a name gets one of its own.\<close>

definition names_constraints :: "dialect \<Rightarrow> bool" where
  "names_constraints D \<longleftrightarrow>
     dl_sqlite D
     \<or> (\<forall>t c c'. dl_constraint_name D t [c] \<noteq> ''''
                 \<and> (dl_constraint_name D t [c] = dl_constraint_name D t [c'] \<longrightarrow> c = c'))"

definition named_unique :: "(string \<Rightarrow> string list \<Rightarrow> string) \<Rightarrow> string \<Rightarrow> string \<Rightarrow> uniq" where
  "named_unique f t c = unique_on (Some (f t [c])) [c]"

definition worker_added :: "dbtable \<Rightarrow> string \<Rightarrow> string option \<Rightarrow> uniq list \<Rightarrow> tabindex list \<Rightarrow> dbtable" where
  "worker_added t fk od us ixs = t\<lparr>tb_columns := tb_columns t @ [column ''worker_id'' TInteger],
     tb_fkeys := tb_fkeys t @ [foreign_key (Some fk) ''worker_id'' ''workers'' od],
     tb_uniques := us, tb_indexes := ixs\<rparr>"

definition generic_002 :: "(string \<Rightarrow> string list \<Rightarrow> string) \<Rightarrow> int \<Rightarrow> tables" where
  "generic_002 f n =
     (let D = \<lparr>dl_sqlite = False, dl_constraint_name = f, dl_now = n\<rparr> in
      [worker_added gateways_001 ''fk_gateways_worker_id'' None
         [named_unique f ''gateways'' ''name'',
          unique_on (Some ''uq_gateway_worker_udp_port'') [''worker_id'', ''udp_port'']]
         [index_on ''ix_gateways_name'' [''name''], index_on ''ix_gateways_worker_id'' [''worker_id'']],
       jobs_001,
       peers_001\<lparr>tb_uniques := [named_unique f ''peers'' ''public_key'']\<rparr>,
       worker_added port_allocations_001 ''fk_port_alloc_worker_id'' (Some ''CASCADE'')
         [unique_on (Some ''uq_port_worker_udp'') [''worker_id'', ''udp_port'']] [],
       worker_added ip_allocations_001 ''fk_ip_alloc_worker_id'' (Some ''CASCADE'')
         [unique_on (Some ''uq_ip_worker_address'') [''worker_id'', ''address'']] [],
       gateway_metrics_001\<lparr>tb_indexes := [index_on ''ix_gateway_metrics_gateway_id'' [''gateway_id'']]\<rparr>,
       peer_metrics_001\<lparr>tb_indexes := [index_on ''ix_peer_metrics_peer_id'' [''peer_id'']]\<rparr>,
       workers_after_002 D])"

lemma created_empty: "tb_rows t = [] \<Longrightarrow> (created D t ixs)\<lparr>tb_rows := []\<rparr> = created D t ixs"
  by (cases t) (simp add: created_def)

lemma generic_002_run:
  assumes "names_constraints D" and "D = \<lparr>dl_sqlite = False, dl_constraint_name = f, dl_now = n\<rparr>"
  shows "upgrade_002 D (tables_001 D) = (Inr (), generic_002 f n)"
proof -
  have f: "f t [c] \<noteq> ''''" "f t [c] = f t [c'] \<longleftrightarrow> c = c'" for t c c'
    using assms by (auto simp: names_constraints_def)
  have [simp]: "sound_table (created D' gateways_001 ixs)" "sound_table (created D' port_allocations_001 [])"
    "sound_table (created D' ip_allocations_001 [])" for D' ixs
    by (simp_all add: sound_table_def list_all_iff rows_apart_def)
  have "upgrade_002 D (tables_001 D) =
    (Inr (), [gateways_altered (created D gateways_001 [index_on ''ix_gateways_name'' [''name'']]),
      created D jobs_001 [], created D peers_001 [],
      port_allocations_altered (created D port_allocations_001 []),
      ip_allocations_altered (created D ip_allocations_001 []),
      created D gateway_metrics_001 [index_on ''ix_gateway_metrics_gateway_id'' [''gateway_id'']],
      created D peer_metrics_001 [index_on ''ix_peer_metrics_peer_id'' [''peer_id'']], workers_after_002 D])"
    unfolding tables_001_def
    by (rule upgrade_002_generic_run) (simp_all add: assms(2) created_empty)
  also have "\<dots> = (Inr (), generic_002 f n)"
    using f by (simp add: generic_002_def gateways_altered_def port_allocations_altered_def ip_allocations_altered_def
        with_worker_def worker_added_def created_def without_unique_def unique_to_drop_def named_unique_def
        name_unique_def assms(2) tables_001_defs schema_defs)
  finally show ?thesis .
qed

text \<open>What Alembic and the start of the orchestrator make of an empty database.\<close>

definition deployed :: "dialect \<Rightarrow> (mig_error + unit) \<times> tables" where
  "deployed D = thenM (upgrade_head D None) (init_db D) []"

definition after_002 :: "dialect \<Rightarrow> unit ddl" where
  "after_002 D = thenM (upgrade_head D (Some ''002'')) (init_db D)"

lemma after_002_generic:
  fixes f n
  defines "D \<equiv> \<lparr>dl_sqlite = False, dl_constraint_name = f, dl_now = n\<rparr>"
  shows "fst (after_002 D (generic_002 f n)) = Inr ()"
    and "schema_lacks (snd (after_002 D (generic_002 f n))) orm_tables =
      [DifferentFKey ''gateways'' [''peer_group_id''], DifferentColumn ''workers'' ''status'']"
    and "schema_lacks orm_tables (snd (after_002 D (generic_002 f n))) =
      [DifferentColumn ''workers'' ''status'', DifferentFKey ''gateways'' [''peer_group_id'']]"
  unfolding D_def by code_simp+

lemma deployed_sqlite:
  fixes f n
  defines "D \<equiv> \<lparr>dl_sqlite = True, dl_constraint_name = f, dl_now = n\<rparr>"
  shows "fst (deployed D) = Inr ()"
    and "schema_lacks (snd (deployed D)) orm_tables =
      [DifferentColumn ''workers'' ''status'', DifferentFKey ''gateways'' [''peer_group_id'']]"
    and "schema_lacks orm_tables (snd (deployed D)) =
      [DifferentColumn ''workers'' ''status'', DifferentFKey ''gateways'' [''peer_group_id'']]"
  unfolding D_def by code_simp+

lemma upgrade_chain_002:
  "upgrade_head D None = thenM (upgrade_001 D) (thenM (upgrade_002 D) (upgrade_head D (Some ''002'')))"
  by (simp add: upgrade_head_def revisions_def revision_defs)

lemma deployed_generic:
  assumes "names_constraints D" and "D = \<lparr>dl_sqlite = False, dl_constraint_name = f, dl_now = n\<rparr>"
  shows "deployed D = after_002 D (generic_002 f n)"
proof -
  have "upgrade_head D None [] = upgrade_head D (Some ''002'') (generic_002 f n)"
    by (simp add: upgrade_chain_002 thenM_def upgrade_001_run generic_002_run [OF assms])
  then show ?thesis
    by (simp add: deployed_def after_002_def thenM_def)
qed


lemma sample_names_constraints: "names_constraints sample_dialect"
  by (simp add: names_constraints_def sample_dialect_def)


text \<open>
  Starting a newer orchestrator before its migrations: \<open>create_all\<close> makes the missing tables. Revision
  006 looks for its table first and goes on; revision 004 does not, and stops the upgrade.
\<close>

definition started_at :: "dialect \<Rightarrow> nat \<Rightarrow> tables" where
  "started_at D k = snd (thenM (forM (take k (revisions D)) rv_upgrade) (init_db D) [])"

definition sqlite_dialect :: dialect where
  "sqlite_dialect = \<lparr>dl_sqlite = True, dl_constraint_name = (\<lambda>t cs. ''''), dl_now = 0\<rparr>"

lemma peer_groups_after_start:
  "fst (upgrade_head sqlite_dialect (Some ''005_worker_enrollment_secrets'') (started_at sqlite_dialect 5)) = Inr ()"
  by code_simp

lemma enrollments_after_start:
  "fst (upgrade_head sqlite_dialect (Some ''003'') (started_at sqlite_dialect 3))
     = Inl (TableExists ''worker_enrollments'')"
  by code_simp

end
