(* ===== verification/Spec2Isabelle.thy ===== *)
theory Spec2Isabelle
  imports Alloc Naming WgConfig Egress Headscale AgentClient Incus Config WorkerSvc Threads PeerGroups Metrics AgentApi HostStats SystemLaws MigrationLaws
begin

text \<open>
  A verification development for deepOrc, a control plane that provisions WireGuard/Tailscale gateways as Incus
  instances on worker hosts. This theory imports every other one; what each holds is said here and, in more
  detail, at its top.

  \<^bold>\<open>The program.\<close> The orchestrator (\<open>orchestrator/\<close>) is one server process: a JSON API, a web UI, a scheduler and
  threads that provision and delete gateways. Its state is a database, the module globals of its workers, and the
  Incus, Headscale and host resources it commands. A gateway is created by a request (\<open>create_gateway\<close>: a name, an
  address, a port, a subnet, keys, a pending job), brought up by a provisioning thread (\<open>provision_gateway\<close>), given
  one backhaul peer by the peer service, watched by the metrics collector, and taken down by a deletion thread.
  Inside each gateway runs an agent (\<open>gateway_agent/\<close>), an HTTP server over \<open>wg\<close>, \<open>nft\<close>, \<open>ip\<close> and \<open>tailscale\<close>, which
  the orchestrator calls. Each worker posts a heartbeat (\<open>deploy/worker-heartbeat.py\<close>). Alembic (\<open>alembic/versions\<close>)
  prepares the database.

  \<^bold>\<open>How it is modelled.\<close> An operation is a computation \<open>'a io\<close> over \<open>world\<close>: it returns or raises an exception value
  (\<open>exn\<close>) and leaves the world it reached. \<open>world\<close> holds the database as committed (\<open>stored\<close>) and as the session
  sees it (\<open>db\<close>), the trace of effects, and the module globals. All that is outside the repository (clock,
  processes, HTTP servers, files, random numbers, cryptography, jinja2) is a function of the trace in \<open>env\<close>,
  universally quantified in every theorem; so are the settings. The agent has the same shape with \<open>host_env\<close> and
  \<open>host_world\<close>.

  \<^bold>\<open>Theories and code.\<close>
  \<^item> Foundations: \<open>Prelude\<close> (the monad, contracts \<open>hoare\<close> and \<open>keeps\<close>, tables by key, the locales \<open>first_fit\<close> and
    \<open>pool\<close> of the allocators), \<open>PyStr\<close> and \<open>PyLines\<close> (Python texts), \<open>Exn\<close>, \<open>IpAddr\<close>, \<open>Json\<close>, \<open>Http\<close> (routing of
    FastAPI), \<open>Store\<close> (\<open>orchestrator/models\<close>), \<open>World\<close> (sessions, effects, polling), \<open>Config\<close> (\<open>config.py\<close>).
  \<^item> Data access: \<open>Repos\<close> (\<open>orchestrator/repositories\<close>), \<open>Alloc\<close> (\<open>incus/network.py\<close>, \<open>wg/ipam.py\<close>, \<open>lan/ipam.py\<close>),
    \<open>Naming\<close> (\<open>naming.py\<close>).
  \<^item> Clients: \<open>Headscale\<close> (\<open>headscale/client.py\<close>), \<open>AgentClient\<close> (\<open>services/gateway_agent_client.py\<close>), \<open>Incus\<close>
    (\<open>incus/\<close>), \<open>Egress\<close> (\<open>workers/egress_metrics.py\<close>, \<open>services/ip_geo.py\<close>), \<open>WgConfig\<close> (\<open>wg/config.py\<close>, \<open>wg/routes.py\<close>).
  \<^item> Services: \<open>WorkerSvc\<close>, \<open>GatewaySvc\<close> and \<open>Lifecycle\<close> (the two long operations of the gateway service), \<open>PeerSvc\<close>,
    \<open>PeerGroups\<close> (\<open>orchestrator/services\<close>, \<open>host_setup\<close>), \<open>HostStats\<close> (\<open>services/host_stats.py\<close>, the heartbeat).
  \<^item> Workers: \<open>Jobs\<close> and \<open>Threads\<close> (\<open>workers/provisioning.py\<close>, \<open>workers/deletion.py\<close>; \<open>Threads\<close> as a transition
    system), \<open>Metrics\<close> (\<open>workers/metrics_collector.py\<close>, \<open>workers/headscale_sync.py\<close>).
  \<^item> Servers: \<open>ApiSchemas\<close> and \<open>OrchApi\<close> (\<open>orchestrator/api\<close>), \<open>ApiTypes\<close> (the columns the API writes), \<open>WebViews\<close> and
    \<open>WebRoutes\<close> (\<open>orchestrator/web\<close>), \<open>App\<close> (\<open>main.py\<close>), \<open>SystemLaws\<close> (the running orchestrator).
  \<^item> The agent: \<open>AgentHost\<close>, \<open>AgentRouting\<close>, \<open>AgentTime\<close>, \<open>AgentApi\<close> (\<open>gateway_agent\<close>).
  \<^item> The database schema: \<open>Schema\<close>, \<open>Revisions\<close>, \<open>WorkerMigration\<close>, \<open>MigrationLaws\<close> (\<open>alembic/versions\<close>,
    \<open>models/base.py\<close>).

  \<^bold>\<open>What is proved.\<close>
  \<^item> The whole program: the states reached by requests, scheduler passes and thread ends keep at most one peer per
    gateway, egress addresses only on open pathways, sound keys, and one thread per gateway. The locale
    \<open>discipline\<close> proves once that what the repositories keep is kept by every request, pass and thread; each
    invariant is an interpretation.
  \<^item> Creation and deletion: what a created gateway is, that its address, port and name are fresh (the locales
    \<open>first_fit\<close> and \<open>pool\<close> are interpreted by the allocators), that a deletion leaves nothing, how every job ends,
    and that recovery leaves no unfinished gateway behind.
  \<^item> Access: which requests may change anything, that GET requests of the API change nothing, that redirects of the
    UI stay on the site, that the agent does nothing without its token.
  \<^item> Round trips between the parts: tokens, configuration texts, shell words, the output of \<open>wg\<close>, times, heartbeat
    figures; the client's requests against the agent's routes.
  \<^item> Columns: what the API stores fits the declared types.
  \<^item> Migrations: revision 002 keeps every row on both of its paths, downgrades undo upgrades, and the revisions
    reach the tables the ORM declares.

  \<^bold>\<open>Bounds and fuel.\<close> A polling loop with timeout \<open>T\<close> and pause \<open>p\<close> runs at most \<open>T div p + 2\<close> rounds, which is
  enough because the clock moves at least by the pause (\<open>World\<close>); the wait for an Incus operation has no timeout
  in the code and is followed for \<open>poll_fuel\<close> rounds, an arbitrary number, after which it raises a value no handler
  of the code catches. The JSON parser gets twice the length of its text plus one; the queue of pending
  provisionings gets its length plus one; retries on a locked database are the twelve of the code; a chain of
  revisions gets the number of files. Python integers are \<open>int\<close>, floats are exact rationals.

  \<^bold>\<open>Conventions.\<close> Characters are code points below 256. A dash in the comments of a script is kept as its UTF-8
  bytes. A failed flush rolls the session back, as SQLAlchemy does. The body of a thread runs as one step: the
  database lock serialises the sessions of different threads, and the threads share nothing else but the active
  sets. Timestamps are microseconds since the epoch. What pydantic converts laxly, the pages FastAPI and the
  static mount answer, and the name a backend gives an unnamed constraint are parameters. The operations of
  Alembic and the SQL of the revisions are modelled by their documented effect.

  \<^bold>\<open>Not modelled.\<close> The templates and static files of the UI and their rendering (a page is the context its template
  gets); key generation and ciphers (\<open>wg/keys.py\<close>, \<open>crypto.py\<close>: functions of the environment); the reading of
  settings from the environment; logging; engine and pragma set-up (\<open>models/base.py\<close>); \<open>alembic/env.py\<close> and the
  version table of Alembic; the shell scripts under \<open>deploy\<close>, the Go command under \<open>cmd\<close>, and the tests.
\<close>

end
